(* ===== verification/JsBase.thy ===== *)
theory JsBase
  imports Complex_Main "HOL-Library.Word"
begin

text \<open>
  What every component shares: JavaScript strings (sequences of 16-bit code units), the
  string operations of the standard library that the scripts call (\<open>split\<close>, \<open>join\<close>,
  \<open>substring\<close>, \<open>lastIndexOf\<close>), decimal digits, and errors as values.

  A string literal of the source is written \<open>str ''abc''\<close>; a unit outside ASCII is a
  numeral.  A thrown exception is \<open>Inl\<close> of its constructor, a normal completion \<open>Inr\<close>.
\<close>

named_theorems js_eval \<open>definitions unfolded to evaluate the model on a concrete input\<close>

type_synonym jsunit = "16 word"
type_synonym jsstr = "jsunit list"

datatype js_error = TypeError | ReferenceError | RangeError | URIError | SyntaxError

type_synonym 'a result = "js_error + 'a"

definition str :: "string \<Rightarrow> jsstr" where
  "str s = map of_char s"

lemma str_simps [simp, js_eval]:
  "str [] = []"
  "str (c # s) = of_char c # str s"
  by (simp_all add: str_def)

lemma str_append: "str (s @ t) = str s @ str t"
  by (simp add: str_def)

lemma length_str [simp]: "length (str s) = length s"
  by (simp add: str_def)

subsection \<open>Results\<close>

fun bind_result :: "'a result \<Rightarrow> ('a \<Rightarrow> 'b result) \<Rightarrow> 'b result" where
  "bind_result (Inl e) f = Inl e"
| "bind_result (Inr a) f = f a"

lemma bind_result_Inr_iff:
  "bind_result r f = Inr b \<longleftrightarrow> (\<exists>a. r = Inr a \<and> f a = Inr b)"
  by (cases r) auto

lemma bind_result_Inl_iff:
  "bind_result r f = Inl e \<longleftrightarrow> r = Inl e \<or> (\<exists>a. r = Inr a \<and> f a = Inl e)"
  by (cases r) auto

subsection \<open>Splitting and joining\<close>

text \<open>\<open>s.split(c)\<close> for a separator of one unit, and \<open>parts.join(sep)\<close>.\<close>

fun split_on :: "'a \<Rightarrow> 'a list \<Rightarrow> 'a list list" where
  "split_on c [] = [[]]"
| "split_on c (x # xs) =
     (if x = c then [] # split_on c xs
      else (case split_on c xs of [] \<Rightarrow> [[x]] | p # ps \<Rightarrow> (x # p) # ps))"

fun join_with :: "'a list \<Rightarrow> 'a list list \<Rightarrow> 'a list" where
  "join_with sep [] = []"
| "join_with sep [p] = p"
| "join_with sep (p # q # ps) = p @ sep @ join_with sep (q # ps)"

lemma split_on_not_Nil [simp]: "split_on c xs \<noteq> []"
  by (induction xs) (auto split: list.splits)

lemma split_on_free: "c \<notin> set xs \<Longrightarrow> split_on c xs = [xs]"
  by (induction xs) auto

lemma split_on_append_sep:
  "c \<notin> set xs \<Longrightarrow> split_on c (xs @ c # ys) = xs # split_on c ys"
  by (induction xs) auto

lemma hd_split_on: "hd (split_on c xs) = takeWhile (\<lambda>x. x \<noteq> c) xs"
  by (induction xs) (auto split: list.splits)

lemma split_on_nth_0 [simp]: "split_on c xs ! 0 = takeWhile (\<lambda>x. x \<noteq> c) xs"
  using hd_split_on [of c xs] by (cases "split_on c xs") auto

lemma split_on_parts_free: "p \<in> set (split_on c xs) \<Longrightarrow> c \<notin> set p"
proof (induction xs arbitrary: p)
  case Nil
  then show ?case by simp
next
  case (Cons x xs)
  then show ?case
    by (cases "split_on c xs") (auto split: if_splits)
qed

lemma join_split_on: "join_with [c] (split_on c xs) = xs"
proof (induction xs)
  case Nil
  show ?case by simp
next
  case (Cons x xs)
  show ?case
  proof (cases "split_on c xs")
    case Nil
    then show ?thesis by simp
  next
    case (Cons p ps)
    with Cons.IH show ?thesis by (cases ps) auto
  qed
qed

lemma split_on_join:
  assumes "ps \<noteq> []" and "\<forall>p \<in> set ps. c \<notin> set p"
  shows "split_on c (join_with [c] ps) = ps"
  using assms
proof (induction "[c]" ps rule: join_with.induct)
  case 1
  then show ?case by simp
next
  case (2 p)
  then show ?case by (simp add: split_on_free)
next
  case (3 p q ps)
  then show ?case by (simp add: split_on_append_sep)
qed

lemma split_on_join_space:
  assumes "ps \<noteq> []" and "\<forall>p \<in> set ps. c \<notin> set p" and "c \<notin> set u"
  shows "split_on c (join_with (c # u) ps) = hd ps # map (\<lambda>p. u @ p) (tl ps)"
  using assms
proof (induction "c # u" ps rule: join_with.induct)
  case 1
  then show ?case by simp
next
  case (2 p)
  then show ?case by (simp add: split_on_free)
next
  case (3 p q ps)
  have tail: "split_on c (u @ xs) = (u @ hd (split_on c xs)) # tl (split_on c xs)" for xs
    using 3(4) by (induction u) (auto split: list.splits)
  show ?case
    using 3 by (simp add: split_on_append_sep tail)
qed

lemma join_with_Nil: "join_with sep ps = [] \<Longrightarrow> sep \<noteq> [] \<Longrightarrow> p \<in> set ps \<Longrightarrow> p = []"
  by (induction sep ps rule: join_with.induct) auto

subsection \<open>Substrings\<close>

text \<open>
  \<open>s.substring(a, b)\<close> and \<open>s.substring(a)\<close> for indices that are not negative: clamped to
  the length and swapped when out of order.
\<close>

definition substring :: "'a list \<Rightarrow> nat \<Rightarrow> nat \<Rightarrow> 'a list" where
  "substring s a b =
     (let a' = min a (length s); b' = min b (length s);
          lo = min a' b'; hi = max a' b'
      in take (hi - lo) (drop lo s))"

definition substring_from :: "'a list \<Rightarrow> nat \<Rightarrow> 'a list" where
  "substring_from s a = substring s a (length s)"

lemma substring_0 [simp]: "substring s 0 n = take n s"
  by (simp add: substring_def Let_def min_def)

lemma substring_from_drop [simp]: "substring_from s n = drop n s"
  by (simp add: substring_from_def substring_def Let_def min_def max_def)

text \<open>\<open>s.lastIndexOf(c)\<close> for one unit: \<open>None\<close> is the result \<open>-1\<close>.\<close>

fun last_index_of :: "'a \<Rightarrow> 'a list \<Rightarrow> nat option" where
  "last_index_of c [] = None"
| "last_index_of c (x # xs) =
     (case last_index_of c xs of
        Some i \<Rightarrow> Some (Suc i)
      | None \<Rightarrow> if x = c then Some 0 else None)"

lemma last_index_of_None: "last_index_of c xs = None \<longleftrightarrow> c \<notin> set xs"
  by (induction xs) (auto split: option.splits)

lemma last_index_of_Some:
  "last_index_of c xs = Some i \<Longrightarrow>
     i < length xs \<and> xs ! i = c \<and> c \<notin> set (drop (Suc i) xs)"
  by (induction xs arbitrary: i)
     (auto split: option.splits if_splits simp: last_index_of_None)

subsection \<open>White space\<close>

text \<open>
  \<open>\s\<close> of a pattern and the units that \<open>String.prototype.trim\<close> strips: the language's
  white space and line terminators.
\<close>

definition is_line_terminator :: "jsunit \<Rightarrow> bool" where
  "is_line_terminator c \<longleftrightarrow> c = 10 \<or> c = 13 \<or> c = 0x2028 \<or> c = 0x2029"

definition is_ws :: "jsunit \<Rightarrow> bool" where
  "is_ws c \<longleftrightarrow>
     (9 \<le> c \<and> c \<le> 13) \<or> c = 32 \<or> c = 0xA0 \<or> c = 0x1680 \<or> (0x2000 \<le> c \<and> c \<le> 0x200A) \<or>
     c = 0x2028 \<or> c = 0x2029 \<or> c = 0x202F \<or> c = 0x205F \<or> c = 0x3000 \<or> c = 0xFEFF"

text \<open>The built-in \<open>trim\<close>: strip both ends.\<close>

definition strip_start :: "jsstr \<Rightarrow> jsstr" where
  "strip_start s = dropWhile is_ws s"

definition strip_end :: "jsstr \<Rightarrow> jsstr" where
  "strip_end s = rev (dropWhile is_ws (rev s))"

definition strip :: "jsstr \<Rightarrow> jsstr" where
  "strip s = strip_end (strip_start s)"

lemma strip_id:
  assumes "s \<noteq> []" and "\<not> is_ws (hd s)" and "\<not> is_ws (last s)"
  shows "strip s = s"
proof -
  have "dropWhile is_ws s = s" using assms by (simp add: dropWhile_eq_self_iff)
  moreover have "dropWhile is_ws (rev s) = rev s"
    using assms by (simp add: dropWhile_eq_self_iff hd_rev)
  ultimately show ?thesis by (simp add: strip_def strip_end_def strip_start_def)
qed

lemma strip_no_ws: "\<forall>c \<in> set s. \<not> is_ws c \<Longrightarrow> strip s = s"
  by (cases "s = []") (auto simp: strip_id, simp add: strip_def strip_end_def strip_start_def)

lemma strip_ends:
  assumes "strip s \<noteq> []"
  shows "\<not> is_ws (hd (strip s)) \<and> \<not> is_ws (last (strip s))"
proof
  let ?t = "strip_start s"
  have l: "dropWhile is_ws (rev ?t) \<noteq> []"
    using assms by (simp add: strip_def strip_end_def)
  then show "\<not> is_ws (last (strip s))"
    using hd_dropWhile [OF l] by (simp add: strip_def strip_end_def last_rev)
  obtain u where u: "rev ?t = u @ dropWhile is_ws (rev ?t)"
    by (metis takeWhile_dropWhile_id)
  then have "?t = strip s @ rev u"
    by (metis rev_append rev_rev_ident strip_def strip_end_def)
  moreover from this assms have "?t \<noteq> []" by auto
  then have "\<not> is_ws (hd ?t)"
    unfolding strip_start_def by (rule hd_dropWhile)
  ultimately show "\<not> is_ws (hd (strip s))"
    using assms by (metis hd_append2)
qed

subsection \<open>Decimal digits\<close>

definition digit :: "nat \<Rightarrow> jsunit" where
  "digit d = of_nat (48 + d)"

definition is_digit :: "jsunit \<Rightarrow> bool" where
  "is_digit c \<longleftrightarrow> 48 \<le> c \<and> c \<le> 57"

definition digit_val :: "jsunit \<Rightarrow> nat" where
  "digit_val c = unat c - 48"

lemma unat_digit: "d < 10 \<Longrightarrow> unat (digit d) = 48 + d"
  by (simp add: digit_def unat_of_nat del: of_nat_add)

lemma is_digit_digit [simp]: "d < 10 \<Longrightarrow> is_digit (digit d)"
  by (simp add: is_digit_def word_le_nat_alt unat_digit)

lemma digit_val_digit [simp]: "d < 10 \<Longrightarrow> digit_val (digit d) = d"
  by (simp add: digit_val_def unat_digit)

lemma digit_digit_val: "is_digit c \<Longrightarrow> digit (digit_val c) = c"
  by (simp add: is_digit_def digit_val_def digit_def word_le_nat_alt)

lemma digit_val_less: "is_digit c \<Longrightarrow> digit_val c < 10"
  by (auto simp: is_digit_def digit_val_def word_le_nat_alt)

text \<open>The decimal representation of a natural number, and \<open>f\<close> digits with leading zeros.\<close>

fun dec :: "nat \<Rightarrow> jsstr" where
  "dec n = (if n < 10 then [digit n] else dec (n div 10) @ [digit (n mod 10)])"

declare dec.simps [simp del]

fun pad_dec :: "nat \<Rightarrow> nat \<Rightarrow> jsstr" where
  "pad_dec 0 n = []"
| "pad_dec (Suc f) n = pad_dec f (n div 10) @ [digit (n mod 10)]"

definition dec_val :: "jsstr \<Rightarrow> nat" where
  "dec_val ds = foldl (\<lambda>a c. 10 * a + digit_val c) 0 ds"

lemma dec_val_Nil [simp]: "dec_val [] = 0"
  by (simp add: dec_val_def)

lemma dec_val_snoc [simp]: "dec_val (ds @ [c]) = 10 * dec_val ds + digit_val c"
  by (simp add: dec_val_def)

lemma dec_val_append: "dec_val (ds @ es) = dec_val ds * 10 ^ length es + dec_val es"
proof (induction es rule: rev_induct)
  case Nil
  show ?case by simp
next
  case (snoc e es)
  then show ?case
    by (simp add: append_assoc [symmetric] algebra_simps del: append_assoc)
qed

lemma dec_less: "n < 10 \<Longrightarrow> dec n = [digit n]"
  by (simp add: dec.simps)

lemma dec_step: "10 \<le> n \<Longrightarrow> dec n = dec (n div 10) @ [digit (n mod 10)]"
  by (subst dec.simps) simp

lemma dec_not_Nil [simp]: "dec n \<noteq> []"
  by (subst dec.simps) simp

lemma dec_val_dec [simp]: "dec_val (dec n) = n"
proof (induction n rule: dec.induct)
  case (1 n)
  then show ?case
    by (cases "n < 10") (simp_all add: dec_less dec_step dec_val_def)
qed

lemma dec_digits: "c \<in> set (dec n) \<Longrightarrow> is_digit c"
proof (induction n rule: dec.induct)
  case (1 n)
  then show ?case
    by (cases "n < 10") (auto simp: dec_less dec_step)
qed

lemma pad_dec_digits: "c \<in> set (pad_dec f n) \<Longrightarrow> is_digit c"
  by (induction f arbitrary: n) auto

lemma length_pad_dec [simp]: "length (pad_dec f n) = f"
  by (induction f arbitrary: n) auto

lemma dec_val_pad_dec: "dec_val (pad_dec f n) = n mod 10 ^ f"
proof (induction f arbitrary: n)
  case 0
  show ?case by simp
next
  case (Suc f)
  then show ?case by (simp add: mod_mult2_eq)
qed

lemma length_dec_le: "length (dec n) \<le> k \<longleftrightarrow> 0 < k \<and> n < 10 ^ k"
proof (induction n arbitrary: k rule: dec.induct)
  case (1 n)
  show ?case
  proof (cases "n < 10")
    case True
    have "(10::nat) \<le> 10 ^ k" if "0 < k"
      using that by (cases k) auto
    with True show ?thesis by (auto simp: dec_less Suc_le_eq)
  next
    case False
    show ?thesis
    proof (cases k)
      case 0
      then show ?thesis by simp
    next
      case (Suc j)
      have "n div 10 < 10 ^ j \<longleftrightarrow> n < 10 ^ k"
        by (simp add: Suc div_less_iff_less_mult mult.commute)
      moreover have "0 < j" if "n < 10 ^ k"
        using False that Suc by (cases j) auto
      ultimately show ?thesis
        using 1 [of j] False Suc by (auto simp: dec_step)
    qed
  qed
qed

lemma dec_pad_dec: "10 ^ f \<le> n \<Longrightarrow> dec n = dec (n div 10 ^ f) @ pad_dec f n"
proof (induction f arbitrary: n)
  case 0
  then show ?case by simp
next
  case (Suc f)
  have "(10::nat) \<le> 10 ^ Suc f" by simp
  then have "10 \<le> n" using Suc.prems by (rule order_trans)
  moreover have "10 ^ f \<le> n div 10"
    using Suc.prems by (simp add: less_eq_div_iff_mult_less_eq mult.commute)
  ultimately show ?case
    using Suc.IH [of "n div 10"] by (simp add: dec_step div_mult2_eq)
qed

lemma pad_dec_2: "pad_dec 2 n = [digit (n div 10 mod 10), digit (n mod 10)]"
  by (simp add: numeral_2_eq_2)

lemma pad_dec_0 [simp]: "pad_dec f 0 = replicate f (digit 0)"
  by (induction f) (simp_all add: replicate_append_same)

lemma pad_dec_small:
  "n < 10 ^ f \<Longrightarrow> 0 < f \<Longrightarrow>
     pad_dec f n = replicate (f - length (dec n)) (digit 0) @ dec n"
proof (induction f arbitrary: n)
  case 0
  then show ?case by simp
next
  case (Suc f)
  show ?case
  proof (cases "n < 10")
    case True
    then show ?thesis by (simp add: dec_less)
  next
    case False
    with Suc.prems have "0 < f" by (cases f) auto
    moreover have "n div 10 < 10 ^ f"
      using Suc.prems by (simp add: div_less_iff_less_mult mult.commute)
    ultimately show ?thesis
      using Suc.IH [of "n div 10"] False by (simp add: dec_step)
  qed
qed

end
