(* ===== verification/JsRegex.thy ===== *)
theory JsRegex
  imports JsBase
begin

text \<open>
  Regular expressions as the language defines them: a backtracking matcher over positions
  of the subject string, the search of \<open>test\<close>, and \<open>replace\<close> with the global flag.
  \<open>ends\<close> lists the positions at which a match of a pattern that starts at \<open>i\<close> can end, in
  the order in which the matcher tries them, so its head is the match and the rest is what
  backtracking would find.  Capture groups are kept in the syntax; no script reads them.
\<close>

datatype class_item = Range jsunit jsunit | Digit | Space

datatype regex =
    Eps
  | Chr jsunit
  | Dot
  | Class bool "class_item list"   \<comment> \<open>the flag is set for \<open>[^...]\<close>\<close>
  | Bol
  | Eol
  | Seq regex regex
  | Alt regex regex
  | Star regex
  | Plus regex
  | Times nat regex
  | Group regex

text \<open>Patterns are read left to right: \<open>seqs [a, b, c]\<close> is \<open>abc\<close>.\<close>

fun seqs :: "regex list \<Rightarrow> regex" where
  "seqs [] = Eps"
| "seqs [r] = r"
| "seqs (r # rs) = Seq r (seqs rs)"

fun in_item :: "jsunit \<Rightarrow> class_item \<Rightarrow> bool" where
  "in_item c (Range lo hi) = (lo \<le> c \<and> c \<le> hi)"
| "in_item c Digit = is_digit c"
| "in_item c Space = is_ws c"

text \<open>
  The flag \<open>i\<close>: two units match when their upper-case forms are equal, where a unit outside
  ASCII is never identified with one inside.  The patterns of the scripts that carry the
  flag hold ASCII letters and CJK ideographs, which have no case, so the case variants that
  matter are those of the ASCII letters.
\<close>

definition case_variants :: "bool \<Rightarrow> jsunit \<Rightarrow> jsunit list" where
  "case_variants ic c =
     (if ic \<and> 97 \<le> c \<and> c \<le> 122 then [c, c - 32]
      else if ic \<and> 65 \<le> c \<and> c \<le> 90 then [c, c + 32]
      else [c])"

definition in_class :: "bool \<Rightarrow> bool \<Rightarrow> class_item list \<Rightarrow> jsunit \<Rightarrow> bool" where
  "in_class ic neg items c \<longleftrightarrow>
     (\<exists>d \<in> set (case_variants ic c). \<exists>it \<in> set items. in_item d it) \<noteq> neg"

text \<open>
  The greedy loop of a quantifier.  An iteration that matches the empty string is refused,
  so every iteration consumes a unit and the number of units left is enough fuel.
\<close>

fun iter :: "(nat \<Rightarrow> nat list) \<Rightarrow> nat \<Rightarrow> nat \<Rightarrow> nat list" where
  "iter f 0 i = [i]"
| "iter f (Suc n) i = concat (map (\<lambda>j. if j \<le> i then [] else iter f n j) (f i)) @ [i]"

fun times :: "(nat \<Rightarrow> nat list) \<Rightarrow> nat \<Rightarrow> nat \<Rightarrow> nat list" where
  "times f 0 i = [i]"
| "times f (Suc n) i = concat (map (times f n) (f i))"

primrec ends :: "bool \<Rightarrow> jsstr \<Rightarrow> regex \<Rightarrow> nat \<Rightarrow> nat list" where
  "ends ic s Eps i = [i]"
| "ends ic s (Chr c) i =
     (if i < length s \<and> c \<in> set (case_variants ic (s ! i)) then [Suc i] else [])"
| "ends ic s Dot i = (if i < length s \<and> \<not> is_line_terminator (s ! i) then [Suc i] else [])"
| "ends ic s (Class neg items) i =
     (if i < length s \<and> in_class ic neg items (s ! i) then [Suc i] else [])"
| "ends ic s Bol i = (if i = 0 then [i] else [])"
| "ends ic s Eol i = (if i = length s then [i] else [])"
| "ends ic s (Seq r1 r2) i = concat (map (ends ic s r2) (ends ic s r1 i))"
| "ends ic s (Alt r1 r2) i = ends ic s r1 i @ ends ic s r2 i"
| "ends ic s (Star r) i = iter (ends ic s r) (length s - i) i"
| "ends ic s (Plus r) i =
     concat (map (\<lambda>j. iter (ends ic s r) (length s - j) j) (ends ic s r i))"
| "ends ic s (Times n r) i = times (ends ic s r) n i"
| "ends ic s (Group r) i = ends ic s r i"

subsection \<open>The positions a match can reach\<close>

lemma iter_bounds:
  assumes f: "\<And>i j. i \<le> n \<Longrightarrow> j \<in> set (f i) \<Longrightarrow> i \<le> j \<and> j \<le> n"
  shows "i \<le> n \<Longrightarrow> j \<in> set (iter f k i) \<Longrightarrow> i \<le> j \<and> j \<le> n"
proof (induction k arbitrary: i)
  case 0
  then show ?case by simp
next
  case (Suc k)
  from Suc.prems(2) consider "j = i"
    | m where "m \<in> set (f i)" "i < m" "j \<in> set (iter f k m)"
    by (auto split: if_splits)
  then show ?case
  proof cases
    case 1
    then show ?thesis using Suc.prems(1) by simp
  next
    case 2
    with f [OF Suc.prems(1)] have "m \<le> n" by blast
    then have "m \<le> j \<and> j \<le> n" using 2(3) by (rule Suc.IH)
    then show ?thesis using 2(2) by simp
  qed
qed

lemma times_bounds:
  assumes f: "\<And>i j. i \<le> n \<Longrightarrow> j \<in> set (f i) \<Longrightarrow> i \<le> j \<and> j \<le> n"
  shows "i \<le> n \<Longrightarrow> j \<in> set (times f k i) \<Longrightarrow> i \<le> j \<and> j \<le> n"
proof (induction k arbitrary: i)
  case 0
  then show ?case by simp
next
  case (Suc k)
  from Suc.prems(2) obtain m where m: "m \<in> set (f i)" "j \<in> set (times f k m)" by auto
  have im: "i \<le> m \<and> m \<le> n" using Suc.prems(1) m(1) by (rule f)
  then have "m \<le> j \<and> j \<le> n" using Suc.IH m(2) by blast
  with im show ?case by simp
qed

lemma ends_bounds:
  "i \<le> length s \<Longrightarrow> j \<in> set (ends ic s r i) \<Longrightarrow> i \<le> j \<and> j \<le> length s"
proof (induction r arbitrary: i j)
  case (Seq r1 r2)
  from Seq.prems(2) obtain m where m: "m \<in> set (ends ic s r1 i)" "j \<in> set (ends ic s r2 m)"
    by auto
  have im: "i \<le> m \<and> m \<le> length s" using Seq.prems(1) m(1) by (rule Seq.IH(1))
  then have "m \<le> j \<and> j \<le> length s" using Seq.IH(2) m(2) by blast
  with im show ?case by simp
next
  case (Star r)
  from Star.prems(2) have "j \<in> set (iter (ends ic s r) (length s - i) i)" by simp
  with Star.IH Star.prems(1) show ?case by (rule iter_bounds)
next
  case (Plus r)
  from Plus.prems(2) obtain m where m: "m \<in> set (ends ic s r i)"
    "j \<in> set (iter (ends ic s r) (length s - m) m)" by auto
  have im: "i \<le> m \<and> m \<le> length s" using Plus.prems(1) m(1) by (rule Plus.IH)
  have "m \<le> j \<and> j \<le> length s"
    using Plus.IH conjunct2 [OF im] m(2) by (rule iter_bounds)
  with im show ?case by simp
next
  case (Times n r)
  from Times.prems(2) have "j \<in> set (times (ends ic s r) n i)" by simp
  with Times.IH Times.prems(1) show ?case by (rule times_bounds)
next
  case (Alt r1 r2)
  from Alt.prems(2) consider "j \<in> set (ends ic s r1 i)" | "j \<in> set (ends ic s r2 i)" by auto
  then show ?case by cases (rule Alt.IH [OF Alt.prems(1)], assumption)+
next
  case (Group r)
  from Group.prems(2) have "j \<in> set (ends ic s r i)" by simp
  with Group.prems(1) show ?case by (rule Group.IH)
qed (simp_all split: if_splits)

subsection \<open>Searching and replacing\<close>

text \<open>\<open>exec\<close>: the first position at or after \<open>i\<close> where the pattern matches.\<close>

function search :: "bool \<Rightarrow> jsstr \<Rightarrow> regex \<Rightarrow> nat \<Rightarrow> (nat \<times> nat) option" where
  "search ic s r i =
     (if length s < i then None
      else (case ends ic s r i of
              j # _ \<Rightarrow> Some (i, j)
            | [] \<Rightarrow> search ic s r (Suc i)))"
  by pat_completeness auto
termination
  by (relation "measure (\<lambda>(ic, s, r, i). Suc (length s) - i)") auto

declare search.simps [simp del]

definition re_test :: "bool \<Rightarrow> regex \<Rightarrow> jsstr \<Rightarrow> bool" where
  "re_test ic r s \<longleftrightarrow> search ic s r 0 \<noteq> None"

lemma search_Some:
  "search ic s r i = Some (a, b) \<Longrightarrow>
     i \<le> a \<and> a \<le> b \<and> b \<le> length s \<and> b \<in> set (ends ic s r a)"
proof (induction ic s r i rule: search.induct)
  case (1 ic s r i)
  show ?case
  proof (cases "length s < i")
    case True
    then show ?thesis using 1 by (simp add: search.simps [of ic s r i])
  next
    case False
    show ?thesis
    proof (cases "ends ic s r i")
      case Nil
      with False 1 show ?thesis by (auto simp: search.simps [of ic s r i])
    next
      case (Cons j js)
      with False 1 show ?thesis
        using ends_bounds [of i s j ic r] by (auto simp: search.simps [of ic s r i])
    qed
  qed
qed

text \<open>
  \<open>replace\<close> with the flag \<open>g\<close>: all matches, each search starting where the last match
  ended, or one unit later after an empty match.
\<close>

function matches :: "bool \<Rightarrow> jsstr \<Rightarrow> regex \<Rightarrow> nat \<Rightarrow> (nat \<times> nat) list" where
  "matches ic s r i =
     (case search ic s r i of
        None \<Rightarrow> []
      | Some (a, b) \<Rightarrow> (a, b) # matches ic s r (if a = b then Suc b else b))"
  by pat_completeness auto
termination
  by (relation "measure (\<lambda>(ic, s, r, i). Suc (length s) - i)")
     (auto dest!: search_Some)

declare matches.simps [simp del]

fun splice :: "jsstr \<Rightarrow> nat \<Rightarrow> (nat \<times> nat) list \<Rightarrow> jsstr \<Rightarrow> jsstr" where
  "splice s p [] rep = drop p s"
| "splice s p ((a, b) # ms) rep =
     (if p \<le> a then take (a - p) (drop p s) @ rep @ splice s b ms rep
      else splice s p ms rep)"

definition replace_all :: "bool \<Rightarrow> regex \<Rightarrow> jsstr \<Rightarrow> jsstr \<Rightarrow> jsstr" where
  "replace_all ic r rep s = splice s 0 (matches ic s r 0) rep"

subsection \<open>What the matcher decides\<close>

text \<open>
  The declarative meaning of a pattern: \<open>mtch ic s r i j\<close> when some choice of alternatives
  and iterations takes the pattern from \<open>i\<close> to \<open>j\<close>.  The backtracking matcher finds exactly
  these ends, so \<open>test\<close> is true exactly when the pattern has a match somewhere.
\<close>

inductive mtch :: "bool \<Rightarrow> jsstr \<Rightarrow> regex \<Rightarrow> nat \<Rightarrow> nat \<Rightarrow> bool" for ic s where
  m_eps: "mtch ic s Eps i i"
| m_chr: "i < length s \<Longrightarrow> c \<in> set (case_variants ic (s ! i)) \<Longrightarrow> mtch ic s (Chr c) i (Suc i)"
| m_dot: "i < length s \<Longrightarrow> \<not> is_line_terminator (s ! i) \<Longrightarrow> mtch ic s Dot i (Suc i)"
| m_class: "i < length s \<Longrightarrow> in_class ic neg items (s ! i) \<Longrightarrow>
     mtch ic s (Class neg items) i (Suc i)"
| m_bol: "mtch ic s Bol 0 0"
| m_eol: "mtch ic s Eol (length s) (length s)"
| m_seq: "mtch ic s r1 i m \<Longrightarrow> mtch ic s r2 m j \<Longrightarrow> mtch ic s (Seq r1 r2) i j"
| m_altl: "mtch ic s r1 i j \<Longrightarrow> mtch ic s (Alt r1 r2) i j"
| m_altr: "mtch ic s r2 i j \<Longrightarrow> mtch ic s (Alt r1 r2) i j"
| m_star0: "mtch ic s (Star r) i i"
| m_star: "mtch ic s r i m \<Longrightarrow> mtch ic s (Star r) m j \<Longrightarrow> mtch ic s (Star r) i j"
| m_plus: "mtch ic s r i m \<Longrightarrow> mtch ic s (Star r) m j \<Longrightarrow> mtch ic s (Plus r) i j"
| m_times0: "mtch ic s (Times 0 r) i i"
| m_times: "mtch ic s r i m \<Longrightarrow> mtch ic s (Times n r) m j \<Longrightarrow> mtch ic s (Times (Suc n) r) i j"
| m_group: "mtch ic s r i j \<Longrightarrow> mtch ic s (Group r) i j"

inductive_cases mtch_StarE: "mtch ic s (Star r) i j"
inductive_simps mtch_simps:
  "mtch ic s Eps i j" "mtch ic s (Chr c) i j" "mtch ic s Dot i j"
  "mtch ic s (Class neg items) i j" "mtch ic s Bol i j" "mtch ic s Eol i j"
  "mtch ic s (Seq r1 r2) i j" "mtch ic s (Alt r1 r2) i j" "mtch ic s (Group r) i j"
  "mtch ic s (Plus r) i j" "mtch ic s (Times 0 r) i j" "mtch ic s (Times (Suc n) r) i j"

lemma iter_mtch:
  assumes "\<And>i j. i \<le> length s \<Longrightarrow> j \<in> set (f i) \<Longrightarrow> mtch ic s r i j"
    and "\<And>i j. i \<le> length s \<Longrightarrow> j \<in> set (f i) \<Longrightarrow> i \<le> j \<and> j \<le> length s"
  shows "i \<le> length s \<Longrightarrow> j \<in> set (iter f k i) \<Longrightarrow> mtch ic s (Star r) i j"
proof (induction k arbitrary: i)
  case 0
  then show ?case by (simp add: m_star0)
next
  case (Suc k)
  from Suc.prems(2) consider "j = i"
    | m where "m \<in> set (f i)" "i < m" "j \<in> set (iter f k m)"
    by (auto split: if_splits)
  then show ?case
  proof cases
    case 1
    then show ?thesis by (simp add: m_star0)
  next
    case 2
    with assms(2) [OF Suc.prems(1)] have "m \<le> length s" by blast
    then have "mtch ic s (Star r) m j" using 2(3) by (rule Suc.IH)
    with assms(1) [OF Suc.prems(1) 2(1)] show ?thesis by (rule m_star)
  qed
qed

lemma times_mtch:
  assumes "\<And>i j. i \<le> length s \<Longrightarrow> j \<in> set (f i) \<Longrightarrow> mtch ic s r i j"
    and "\<And>i j. i \<le> length s \<Longrightarrow> j \<in> set (f i) \<Longrightarrow> i \<le> j \<and> j \<le> length s"
  shows "i \<le> length s \<Longrightarrow> j \<in> set (times f k i) \<Longrightarrow> mtch ic s (Times k r) i j"
proof (induction k arbitrary: i)
  case 0
  then show ?case by (simp add: m_times0)
next
  case (Suc k)
  from Suc.prems(2) obtain m where m: "m \<in> set (f i)" "j \<in> set (times f k m)" by auto
  have "m \<le> length s" using assms(2) [OF Suc.prems(1) m(1)] by simp
  then have "mtch ic s (Times k r) m j" using m(2) by (rule Suc.IH)
  with assms(1) [OF Suc.prems(1) m(1)] show ?case by (rule m_times)
qed

lemma ends_sound: "i \<le> length s \<Longrightarrow> j \<in> set (ends ic s r i) \<Longrightarrow> mtch ic s r i j"
proof (induction r arbitrary: i j)
  case (Seq r1 r2)
  from Seq.prems(2) obtain m where m: "m \<in> set (ends ic s r1 i)" "j \<in> set (ends ic s r2 m)"
    by auto
  have "m \<le> length s" using ends_bounds [OF Seq.prems(1) m(1)] by simp
  then show ?case using Seq.IH Seq.prems(1) m by (blast intro: m_seq)
next
  case (Star r)
  from Star.prems(2) have "j \<in> set (iter (ends ic s r) (length s - i) i)" by simp
  with Star.IH ends_bounds Star.prems(1) show ?case by (rule iter_mtch)
next
  case (Plus r)
  from Plus.prems(2) obtain m where m: "m \<in> set (ends ic s r i)"
    "j \<in> set (iter (ends ic s r) (length s - m) m)" by auto
  have "m \<le> length s" using ends_bounds [OF Plus.prems(1) m(1)] by simp
  from Plus.IH ends_bounds this m(2) have "mtch ic s (Star r) m j" by (rule iter_mtch)
  with Plus.IH [OF Plus.prems(1) m(1)] show ?case by (rule m_plus)
next
  case (Times n r)
  from Times.prems(2) have "j \<in> set (times (ends ic s r) n i)" by simp
  with Times.IH ends_bounds Times.prems(1) show ?case by (rule times_mtch)
next
  case (Alt r1 r2)
  then show ?case by (auto intro: m_altl m_altr)
next
  case (Group r)
  then show ?case by (auto intro: m_group)
qed (auto intro: mtch.intros split: if_splits)

text \<open>More fuel never loses an end, and the fuel of \<open>Star\<close> is enough.\<close>

lemma iter_self: "i \<in> set (iter f k i)"
  by (cases k) auto

lemma iter_mono: "j \<in> set (iter f k i) \<Longrightarrow> k \<le> k' \<Longrightarrow> j \<in> set (iter f k' i)"
proof (induction k arbitrary: i k')
  case 0
  then show ?case by (simp add: iter_self)
next
  case (Suc k)
  then obtain n where n: "k' = Suc n" "k \<le> n" by (cases k') auto
  from Suc.prems(1) consider "j = i"
    | m where "m \<in> set (f i)" "i < m" "j \<in> set (iter f k m)"
    by (auto split: if_splits)
  then show ?case
  proof cases
    case 1
    then show ?thesis by (simp add: iter_self)
  next
    case 2
    then have "j \<in> set (iter f n m)" using Suc.IH n(2) by blast
    with 2 n(1) show ?thesis by auto
  qed
qed

lemma star_ends_step:
  assumes i: "i \<le> length s" and m: "m \<in> set (ends ic s r i)"
    and j: "j \<in> set (ends ic s (Star r) m)"
  shows "j \<in> set (ends ic s (Star r) i)"
proof (cases "m = i")
  case True
  with j show ?thesis by simp
next
  case False
  then have im: "i < m" "m \<le> length s" using ends_bounds [OF i m] by auto
  then obtain n where n: "length s - i = Suc n" "length s - m \<le> n"
    by (cases "length s - i") auto
  have "j \<in> set (iter (ends ic s r) n m)"
    using j n(2) by (auto intro: iter_mono)
  with im m show ?thesis by (auto simp: n(1))
qed

lemma ends_complete: "mtch ic s r i j \<Longrightarrow> i \<le> length s \<Longrightarrow> j \<in> set (ends ic s r i)"
proof (induction rule: mtch.induct)
  case (m_seq r1 i m r2 j)
  have mj: "m \<in> set (ends ic s r1 i)" using m_seq.IH(1) m_seq.prems .
  then have "m \<le> length s" using ends_bounds [OF m_seq.prems] by blast
  then have "j \<in> set (ends ic s r2 m)" by (rule m_seq.IH(2))
  with mj show ?case by auto
next
  case (m_star r i m j)
  have m: "m \<in> set (ends ic s r i)" using m_star.IH(1) m_star.prems .
  then have "m \<le> length s" using ends_bounds [OF m_star.prems] by blast
  then have "j \<in> set (ends ic s (Star r) m)" by (rule m_star.IH(2))
  with m_star.prems m show ?case by (rule star_ends_step)
next
  case (m_plus r i m j)
  have m: "m \<in> set (ends ic s r i)" using m_plus.IH(1) m_plus.prems .
  then have "m \<le> length s" using ends_bounds [OF m_plus.prems] by blast
  then have "j \<in> set (ends ic s (Star r) m)" by (rule m_plus.IH(2))
  with m show ?case by auto
next
  case (m_times r i m n j)
  have m: "m \<in> set (ends ic s r i)" using m_times.IH(1) m_times.prems .
  then have "m \<le> length s" using ends_bounds [OF m_times.prems] by blast
  then have "j \<in> set (ends ic s (Times n r) m)" by (rule m_times.IH(2))
  with m show ?case by auto
qed (simp_all add: iter_self)

lemma ends_iff_mtch: "i \<le> length s \<Longrightarrow> j \<in> set (ends ic s r i) \<longleftrightarrow> mtch ic s r i j"
  by (blast intro: ends_sound ends_complete)

lemma search_None:
  "search ic s r i = None \<longleftrightarrow> (\<forall>k. i \<le> k \<and> k \<le> length s \<longrightarrow> ends ic s r k = [])"
proof (induction ic s r i rule: search.induct)
  case (1 ic s r i)
  show ?case
  proof (cases "length s < i")
    case True
    then show ?thesis by (auto simp: search.simps [of ic s r i])
  next
    case False
    show ?thesis
    proof (cases "ends ic s r i")
      case Nil
      have "(\<forall>k. i \<le> k \<and> k \<le> length s \<longrightarrow> ends ic s r k = []) \<longleftrightarrow>
            (\<forall>k. Suc i \<le> k \<and> k \<le> length s \<longrightarrow> ends ic s r k = [])"
        using Nil by (metis Suc_leD le_antisym not_less_eq_eq)
      then show ?thesis
        using 1 [OF False Nil] False Nil by (simp add: search.simps [of ic s r i])
    next
      case (Cons j js)
      then show ?thesis using False by (auto simp: search.simps [of ic s r i] not_less)
    qed
  qed
qed

text \<open>Skipping positions where the pattern has no match.\<close>

lemma search_skip:
  "i \<le> k \<Longrightarrow> k \<le> length s \<Longrightarrow> \<forall>m. i \<le> m \<and> m < k \<longrightarrow> ends ic s r m = [] \<Longrightarrow>
     search ic s r i = search ic s r k"
proof (induction "k - i" arbitrary: i)
  case 0
  then show ?case by simp
next
  case (Suc d)
  then have "ends ic s r i = []" "\<not> length s < i" by auto
  then have "search ic s r i = search ic s r (Suc i)"
    by (simp add: search.simps [of ic s r i])
  with Suc show ?case by simp
qed

lemma search_here:
  "i \<le> length s \<Longrightarrow> ends ic s r i = j # js \<Longrightarrow> search ic s r i = Some (i, j)"
  by (simp add: search.simps [of ic s r i])

lemma search_first:
  "search ic s r i = Some (a, b) \<Longrightarrow> i \<le> m \<Longrightarrow> m < a \<Longrightarrow> ends ic s r m = []"
proof (induction ic s r i rule: search.induct)
  case (1 ic s r i)
  show ?case
  proof (cases "length s < i")
    case True
    then show ?thesis using 1 by (simp add: search.simps [of ic s r i])
  next
    case False
    show ?thesis
    proof (cases "ends ic s r i")
      case Nil
      with False 1 show ?thesis
        by (cases "m = i") (auto simp: search.simps [of ic s r i])
    next
      case (Cons j js)
      with False 1 show ?thesis by (auto simp: search.simps [of ic s r i])
    qed
  qed
qed

lemma re_test_iff: "re_test ic r s \<longleftrightarrow> (\<exists>i j. i \<le> length s \<and> mtch ic s r i j)"
proof -
  have "re_test ic r s \<longleftrightarrow> (\<exists>i \<le> length s. ends ic s r i \<noteq> [])"
    by (auto simp: re_test_def search_None)
  also have "\<dots> \<longleftrightarrow> (\<exists>i j. i \<le> length s \<and> j \<in> set (ends ic s r i))"
    by (metis list.set_intros(1) list.exhaust empty_iff list.set(1))
  also have "\<dots> \<longleftrightarrow> (\<exists>i j. i \<le> length s \<and> mtch ic s r i j)"
    using ends_iff_mtch by blast
  finally show ?thesis .
qed

subsection \<open>Runs of one class\<close>

text \<open>The number of units from \<open>i\<close> on that satisfy \<open>p\<close>.\<close>

definition run :: "(jsunit \<Rightarrow> bool) \<Rightarrow> jsstr \<Rightarrow> nat \<Rightarrow> nat" where
  "run p s i = length (takeWhile p (drop i s))"

lemma run_le: "i \<le> length s \<Longrightarrow> i + run p s i \<le> length s"
  using length_takeWhile_le [of p "drop i s"] by (simp add: run_def)

lemma run_step: "i < length s \<Longrightarrow> run p s i = (if p (s ! i) then Suc (run p s (Suc i)) else 0)"
  by (simp add: run_def Cons_nth_drop_Suc [symmetric])

lemma run_end [simp]: "length s \<le> i \<Longrightarrow> run p s i = 0"
  by (simp add: run_def)

lemma length_takeWhile_full: "length (takeWhile p xs) = length xs \<longleftrightarrow> (\<forall>x \<in> set xs. p x)"
  by (induction xs) auto

lemma run_full:
  "i \<le> length s \<Longrightarrow> i + run p s i = length s \<longleftrightarrow> (\<forall>c \<in> set (drop i s). p c)"
  unfolding run_def length_takeWhile_full [symmetric] by auto

text \<open>A greedy star over one class tries the whole run first, then gives units back.\<close>

lemma ends_star_class:
  assumes f: "\<And>i. f i = (if i < length s \<and> p (s ! i) then [Suc i] else [])"
  shows "i \<le> length s \<Longrightarrow> iter f (length s - i) i = rev [i..<Suc (i + run p s i)]"
proof (induction "length s - i" arbitrary: i)
  case 0
  then show ?case by simp
next
  case (Suc d)
  then have i: "i < length s" and d: "length s - Suc i = d" by auto
  have "iter f (length s - i) i = concat (map (\<lambda>j. if j \<le> i then [] else iter f d j) (f i)) @ [i]"
    using Suc.hyps(2) [symmetric] by simp
  also have "\<dots> = rev [i..<Suc (i + run p s i)]"
  proof (cases "p (s ! i)")
    case True
    have "iter f d (Suc i) = rev [Suc i..<Suc (Suc i + run p s (Suc i))]"
      using Suc.hyps(1) [of "Suc i"] d i by simp
    then show ?thesis
      using True i by (simp add: f run_step upt_conv_Cons del: upt_Suc)
  next
    case False
    then show ?thesis using i by (simp add: f run_step)
  qed
  finally show ?case .
qed

text \<open>Deleting the units of one class is a filter.\<close>

lemma splice_class:
  "splice s i (matches ic s (Class neg items) i) [] =
     filter (\<lambda>c. \<not> in_class ic neg items c) (drop i s)"
proof (induction "length s - i" arbitrary: i rule: less_induct)
  case less
  let ?r = "Class neg items" and ?q = "in_class ic neg items"
  show ?case
  proof (cases "search ic s ?r i")
    case None
    have "\<not> ?q c" if h: "c \<in> set (drop i s)" for c
    proof -
      obtain k where "k < length (drop i s)" "c = drop i s ! k"
        using h unfolding in_set_conv_nth by metis
      then have "k < length s - i" "c = s ! (i + k)" by auto
      moreover from this have "ends ic s ?r (i + k) = []"
        using None by (simp only: search_None) simp
      ultimately show ?thesis by (simp split: if_splits)
    qed
    then show ?thesis using None by (simp add: matches.simps [of ic s ?r i] filter_True)
  next
    case (Some ab)
    obtain a b where ab: "ab = (a, b)" by fastforce
    then have m: "i \<le> a" "b \<in> set (ends ic s ?r a)" "a \<le> b" "b \<le> length s"
      using search_Some [of ic s ?r i a b] Some by auto
    then have b: "b = Suc a" "a < length s" "?q (s ! a)" by (auto split: if_splits)
    have "\<not> ?q c" if h: "c \<in> set (take (a - i) (drop i s))" for c
    proof -
      obtain k where "k < length (take (a - i) (drop i s))" "c = take (a - i) (drop i s) ! k"
        using h unfolding in_set_conv_nth by metis
      then have k: "k < a - i" "c = s ! (i + k)" using b(2) m(1) by auto
      then have "ends ic s ?r (i + k) = []"
        using search_first [of ic s ?r i a b "i + k"] Some ab by auto
      with k b(2) show ?thesis by (simp split: if_splits)
    qed
    then have keep: "filter (\<lambda>c. \<not> ?q c) (take (a - i) (drop i s)) = take (a - i) (drop i s)"
      by (simp add: filter_True)
    have d: "drop i s = take (a - i) (drop i s) @ s ! a # drop (Suc a) s"
      using m(1) b(2) by (metis Cons_nth_drop_Suc append_take_drop_id drop_drop le_add_diff_inverse2)
    have "splice s i (matches ic s ?r i) [] =
            take (a - i) (drop i s) @ splice s b (matches ic s ?r b) []"
      using Some ab m(1) b(1) by (simp add: matches.simps [of ic s ?r i])
    also have "\<dots> = take (a - i) (drop i s) @ filter (\<lambda>c. \<not> ?q c) (drop b s)"
      using less [of b] m b by simp
    also have "\<dots> = filter (\<lambda>c. \<not> ?q c) (drop i s)"
      by (subst d) (simp add: keep b)
    finally show ?thesis .
  qed
qed

lemma replace_class:
  "replace_all ic (Class neg items) [] s = filter (\<lambda>c. \<not> in_class ic neg items c) s"
  using splice_class [of s 0] by (simp add: replace_all_def)

subsection \<open>Repetitions of one class\<close>

text \<open>All the units in a range of positions.\<close>

definition units :: "(jsunit \<Rightarrow> bool) \<Rightarrow> jsstr \<Rightarrow> nat \<Rightarrow> nat \<Rightarrow> bool" where
  "units p s i j \<longleftrightarrow> list_all (\<lambda>k. p (s ! k)) [i..<j]"

lemma units_empty [simp]: "j \<le> i \<Longrightarrow> units p s i j"
  by (simp add: units_def)

lemma units_step: "i < j \<Longrightarrow> units p s i j \<longleftrightarrow> p (s ! i) \<and> units p s (Suc i) j"
  by (simp add: units_def upt_conv_Cons)

lemma units_drop: "units p s i (length s) \<longleftrightarrow> list_all p (drop i s)"
proof (induction "length s - i" arbitrary: i)
  case (Suc d)
  then have "i < length s" "d = length s - Suc i" by auto
  then show ?case using Suc.hyps(1) [of "Suc i"] by (simp add: units_step Cons_nth_drop_Suc [symmetric])
qed simp

lemma mtch_star_class:
  "mtch ic s (Star (Class neg items)) i j \<longleftrightarrow>
     i = j \<or> i < j \<and> j \<le> length s \<and> units (in_class ic neg items) s i j"
  (is "?L i \<longleftrightarrow> ?R i j")
proof
  have "r = Star (Class neg items) \<Longrightarrow> ?R i j" if "mtch ic s r i j" for r i
    using that
  proof (induction rule: mtch.induct)
    case (m_star r i m j)
    then have m: "m = Suc i" "i < length s" "in_class ic neg items (s ! i)"
      by (auto simp: mtch_simps)
    from m_star have "?R m j" by blast
    then show ?case using m units_step [of i j] by auto
  qed simp_all
  then show "?L i \<Longrightarrow> ?R i j" by blast
  show "?R i j \<Longrightarrow> ?L i"
  proof (induction "j - i" arbitrary: i)
    case 0
    then show ?case by (auto intro: mtch.intros)
  next
    case (Suc d)
    then have i: "i < j" "in_class ic neg items (s ! i)" "units (in_class ic neg items) s (Suc i) j"
      "j \<le> length s"
      using units_step [of i j] by auto
    then have "mtch ic s (Class neg items) i (Suc i)" by (auto intro: mtch.intros)
    moreover have "?L (Suc i)" using Suc.hyps(2) i by (intro Suc.hyps(1)) auto
    ultimately show ?case by (rule m_star)
  qed
qed

lemma mtch_times_class:
  "mtch ic s (Times n (Class neg items)) i j \<longleftrightarrow>
     j = i + n \<and> (n = 0 \<or> j \<le> length s) \<and> units (in_class ic neg items) s i j"
proof (induction n arbitrary: i)
  case 0
  then show ?case by (auto simp: mtch_simps)
next
  case (Suc n)
  then show ?case using units_step [of i j] by (auto simp: mtch_simps)
qed

end
