(* ===== verification/Trim.thy ===== *)
theory Trim
  imports JsRegex
begin

text \<open>
  \<open>scripts/comm/base.js\<close>, lines 1 to 3: the three methods that the script installs on
  \<open>String.prototype\<close>.  Each is a global replacement of a pattern by the empty string.  The
  lemmas show that the patterns compute the stripping of white space that the built-in
  methods promise, so the override is behaviour-preserving.
\<close>

definition trim_pattern :: regex where
  "trim_pattern =
     Alt (Group (Seq Bol (Star (Class False [Space])))) (Group (Seq (Star (Class False [Space])) Eol))"

definition trim_left_pattern :: regex where
  "trim_left_pattern = Group (Seq Bol (Star (Class False [Space])))"

definition trim_right_pattern :: regex where
  "trim_right_pattern = Group (Seq (Star (Class False [Space])) Eol)"

definition String_trim :: "jsstr \<Rightarrow> jsstr" where
  "String_trim s = replace_all False trim_pattern [] s"

definition String_trimLeft :: "jsstr \<Rightarrow> jsstr" where
  "String_trimLeft s = replace_all False trim_left_pattern [] s"

definition String_trimRight :: "jsstr \<Rightarrow> jsstr" where
  "String_trimRight s = replace_all False trim_right_pattern [] s"

subsection \<open>Where the patterns match\<close>

lemma in_class_space [simp]: "in_class False False [Space] c = is_ws c"
  by (simp add: in_class_def case_variants_def)

lemma ends_spaces:
  "i \<le> length s \<Longrightarrow> ends False s (Star (Class False [Space])) i = rev [i..<Suc (i + run is_ws s i)]"
  by (simp only: ends.simps) (rule ends_star_class, simp_all)

text \<open>The first position from which only white space follows.\<close>

definition tail_start :: "jsstr \<Rightarrow> nat" where
  "tail_start s = length (strip_end s)"

lemma strip_end_take: "strip_end s = take (tail_start s) s"
proof -
  have "s = strip_end s @ rev (takeWhile is_ws (rev s))"
    unfolding strip_end_def by (metis rev_append rev_rev_ident takeWhile_dropWhile_id)
  then show ?thesis unfolding tail_start_def by (metis append_eq_conv_conj)
qed

lemma tail_start_le: "tail_start s \<le> length s"
  unfolding tail_start_def strip_end_def using length_dropWhile_le [of is_ws "rev s"] by simp

lemma run_to_end:
  assumes "i \<le> length s"
  shows "i + run is_ws s i = length s \<longleftrightarrow> tail_start s \<le> i"
proof -
  have s: "s = strip_end s @ rev (takeWhile is_ws (rev s))"
    unfolding strip_end_def by (metis rev_append rev_rev_ident takeWhile_dropWhile_id)
  have "i + run is_ws s i = length s \<longleftrightarrow> (\<forall>c \<in> set (drop i s). is_ws c)"
    using assms by (rule run_full)
  also have "\<dots> \<longleftrightarrow> tail_start s \<le> i"
  proof
    assume ws: "\<forall>c \<in> set (drop i s). is_ws c"
    show "tail_start s \<le> i"
    proof (rule ccontr)
      assume "\<not> tail_start s \<le> i"
      then have i: "i < length (strip_end s)" by (simp add: tail_start_def)
      then have ne: "strip_end s \<noteq> []" by auto
      then have "\<not> is_ws (last (strip_end s))"
        unfolding strip_end_def by (metis hd_dropWhile last_rev rev_is_Nil_conv)
      moreover have "last (strip_end s) \<in> set (drop i (strip_end s))"
        using i by (metis drop_eq_Nil last_drop last_in_set not_less)
      moreover have "set (drop i (strip_end s)) \<subseteq> set (drop i s)"
        by (subst (2) s) auto
      ultimately show False using ws by blast
    qed
  next
    assume "tail_start s \<le> i"
    then have "drop i s = drop (i - tail_start s) (rev (takeWhile is_ws (rev s)))"
      by (subst s) (simp add: tail_start_def)
    then have "set (drop i s) \<subseteq> set (takeWhile is_ws (rev s))"
      by (metis set_drop_subset set_rev)
    then show "\<forall>c \<in> set (drop i s). is_ws c" by (auto dest: set_takeWhileD)
  qed
  finally show ?thesis .
qed

lemma ends_spaces_eol:
  assumes i: "i \<le> length s"
  shows "ends False s (Seq (Star (Class False [Space])) Eol) i =
           (if tail_start s \<le> i then [length s] else [])"
proof -
  have eol: "ends False s Eol = (\<lambda>j. if j = length s then [j] else [])"
    by (rule ext) simp
  have e: "ends False s (Seq (Star (Class False [Space])) Eol) i =
      concat (map (\<lambda>j. if j = length s then [j] else []) (rev [i..<Suc (i + run is_ws s i)]))"
    by (simp only: ends.simps(7) ends_spaces [OF i] eol)
  have none: "concat (map (\<lambda>j. if j = n then [j] else []) xs) = []" if "n \<notin> set xs"
    for n :: nat and xs using that by (induction xs) auto
  show ?thesis
  proof (cases "tail_start s \<le> i")
    case True
    then have r: "i + run is_ws s i = length s" using run_to_end [OF i] by simp
    show ?thesis unfolding e r using True i by (simp add: none)
  next
    case False
    then have "i + run is_ws s i < length s"
      using run_to_end [OF i] run_le [OF i, of is_ws] by linarith
    then show ?thesis unfolding e using False by (simp add: none del: upt_Suc)
  qed
qed

lemma ends_bol_spaces:
  "ends False s (Seq Bol (Star (Class False [Space]))) i =
     (if i = 0 then rev [0..<Suc (run is_ws s 0)] else [])"
  using ends_spaces [of 0 s] by simp

lemma run_0: "run is_ws s 0 = length s - length (strip_start s)"
  unfolding run_def strip_start_def drop_0
  by (metis add_diff_cancel_right' length_append takeWhile_dropWhile_id)

lemma drop_run: "drop (run is_ws s 0) s = strip_start s"
  unfolding run_def strip_start_def drop_0 by (simp add: dropWhile_eq_drop)

subsection \<open>The searches\<close>

lemma search_trim_tail:
  assumes "i \<le> length s" and i: "0 < i \<or> r = trim_right_pattern"
    and r: "r = trim_pattern \<or> r = trim_right_pattern"
  shows "search False s r i = Some (max i (tail_start s), length s)"
proof -
  let ?k = "max i (tail_start s)"
  have k: "i \<le> ?k" "?k \<le> length s" using assms(1) tail_start_le by auto
  have e: "ends False s r m = (if tail_start s \<le> m then [length s] else [])"
    if "i \<le> m" "m \<le> length s" for m
    using that i r ends_bol_spaces [of s m] ends_spaces_eol [of m s]
    by (auto simp: trim_pattern_def trim_right_pattern_def simp del: ends.simps(7))
  then have "\<forall>m. i \<le> m \<and> m < ?k \<longrightarrow> ends False s r m = []"
    using k by (auto simp: max_def split: if_splits)
  then have "search False s r i = search False s r ?k"
    by (rule search_skip [OF k])
  also have "\<dots> = Some (?k, length s)"
    using e [OF k] k by (intro search_here) auto
  finally show ?thesis .
qed

lemma search_trim_head:
  assumes "r = trim_pattern \<or> r = trim_left_pattern"
  shows "search False s r 0 = Some (0, run is_ws s 0)"
proof -
  obtain js where "ends False s (Seq Bol (Star (Class False [Space]))) 0 = run is_ws s 0 # js"
    using ends_bol_spaces [of s 0] by simp
  then have "\<exists>js. ends False s r 0 = run is_ws s 0 # js"
    using assms by (auto simp: trim_pattern_def trim_left_pattern_def simp del: ends.simps(7))
  then show ?thesis by (auto intro: search_here)
qed

lemma search_trim_left_rest:
  assumes "0 < i"
  shows "search False s trim_left_pattern i = None"
  using assms ends_bol_spaces [of s]
  by (auto simp: search_None trim_left_pattern_def simp del: ends.simps(7))

lemma search_beyond: "length s < i \<Longrightarrow> search ic s r i = None"
  by (simp add: search.simps)

text \<open>From a position before the end, a trailing run is matched once, then the empty
  string at the end.\<close>

lemma splice_tail:
  assumes "p \<le> i" and "i \<le> length s" and "0 < i \<or> r = trim_right_pattern"
    and r: "r = trim_pattern \<or> r = trim_right_pattern"
  shows "splice s p (matches False s r i) [] =
           take (max i (tail_start s) - p) (drop p s)"
proof -
  let ?k = "max i (tail_start s)" and ?n = "length s"
  have s1: "search False s r i = Some (?k, ?n)"
    using assms by (intro search_trim_tail) auto
  have k: "p \<le> ?k" using assms(1) by simp
  have end_empty: "matches False s r (Suc ?n) = []"
    by (simp add: matches.simps search_beyond)
  show ?thesis
  proof (cases "?k = ?n")
    case True
    then have "matches False s r i = [(?k, ?n)]"
      using s1 end_empty by (simp add: matches.simps [of False s r i])
    then show ?thesis using k by simp
  next
    case False
    have n: "0 < ?n" using False tail_start_le [of s] assms(2) by auto
    have "search False s r ?n = Some (?n, ?n)"
      using search_trim_tail [of ?n s r] n r tail_start_le [of s] by (simp add: max_absorb1)
    then have "matches False s r ?n = [(?n, ?n)]"
      using end_empty by (simp add: matches.simps [of False s r ?n])
    then have "matches False s r i = [(?k, ?n), (?n, ?n)]"
      using s1 False by (simp add: matches.simps [of False s r i])
    then show ?thesis using k by simp
  qed
qed

lemma trimLeft_strips: "String_trimLeft s = strip_start s"
proof -
  have "matches False s trim_left_pattern 0 = [(0, run is_ws s 0)]"
    using search_trim_head [of trim_left_pattern s]
    by (simp add: matches.simps [of False s trim_left_pattern 0]
        matches.simps [of False s trim_left_pattern "Suc 0"]
        matches.simps [of False s trim_left_pattern "run is_ws s 0"] search_trim_left_rest)
  then show ?thesis by (simp add: String_trimLeft_def replace_all_def drop_run)
qed

lemma trimRight_strips: "String_trimRight s = strip_end s"
  using splice_tail [of 0 0 s trim_right_pattern]
  by (simp add: String_trimRight_def replace_all_def strip_end_take)

lemma strip_end_append:
  "strip_end (u @ v) = (if strip_end v = [] then strip_end u else u @ strip_end v)"
proof -
  have "dropWhile p (xs @ ys) = (if dropWhile p xs = [] then dropWhile p ys else dropWhile p xs @ ys)"
    for p :: "jsunit \<Rightarrow> bool" and xs ys by (induction xs) auto
  then show ?thesis by (simp add: strip_end_def)
qed

lemma strip_end_strip_start:
  assumes "strip_start s \<noteq> []"
  defines "p \<equiv> run is_ws s 0"
  shows "p < tail_start s" and "strip s = take (tail_start s - p) (drop p s)"
proof -
  let ?v = "strip_start s"
  have v: "drop p s = ?v" unfolding p_def by (rule drop_run)
  have p: "p \<le> length s" unfolding p_def using run_le [of 0 s is_ws] by simp
  have "\<not> is_ws (hd ?v)" using assms(1) unfolding strip_start_def by (rule hd_dropWhile)
  then have ne: "strip_end ?v \<noteq> []"
    using assms(1) by (auto simp: strip_end_def dropWhile_eq_Nil_conv dest: bspec [OF _ hd_in_set])
  have "strip_end s = strip_end (take p s @ ?v)" by (simp add: v [symmetric])
  also have "\<dots> = take p s @ strip_end ?v" using ne by (simp add: strip_end_append)
  finally have t: "tail_start s = p + length (strip_end ?v)"
    unfolding tail_start_def using p by simp
  then show "p < tail_start s" using ne by simp
  show "strip s = take (tail_start s - p) (drop p s)"
    using strip_end_take [of ?v] by (simp add: strip_def t v tail_start_def [of ?v])
qed

lemma trim_strips: "String_trim s = strip s"
proof (cases "s = []")
  case True
  have "matches False [] trim_pattern 0 = [(0, 0)]"
    using search_trim_head [of trim_pattern "[]"]
    by (simp add: matches.simps [of False "[]" trim_pattern 0]
        matches.simps [of False "[]" trim_pattern "Suc 0"] search_beyond)
  with True show ?thesis
    by (simp add: String_trim_def replace_all_def strip_def strip_end_def strip_start_def)
next
  case False
  let ?p = "run is_ws s 0"
  let ?i = "if 0 = ?p then Suc ?p else ?p"
  have p: "?p \<le> length s" using run_le [of 0 s is_ws] by simp
  have i: "?p \<le> ?i" "0 < ?i" "?i \<le> length s" using p False by (auto simp: Suc_le_eq)
  have "matches False s trim_pattern 0 = (0, ?p) # matches False s trim_pattern ?i"
    using search_trim_head [of trim_pattern s] by (simp add: matches.simps [of False s _ 0])
  then have "String_trim s = splice s ?p (matches False s trim_pattern ?i) []"
    by (simp add: String_trim_def replace_all_def)
  also have "\<dots> = take (max ?i (tail_start s) - ?p) (drop ?p s)"
    using i by (intro splice_tail) auto
  also have "\<dots> = strip s"
  proof (cases "strip_start s = []")
    case True
    then show ?thesis by (simp add: drop_run strip_def strip_end_def)
  next
    case False
    then have "?i \<le> tail_start s" using strip_end_strip_start(1) [of s] by auto
    then show ?thesis
      using strip_end_strip_start(2) [OF False] by (simp only: max_absorb2)
  qed
  finally show ?thesis .
qed

subsection \<open>What the three methods promise\<close>

lemma strip_start_parts: "\<exists>a. s = a @ strip_start s \<and> list_all is_ws a"
  unfolding strip_start_def list_all_iff
  by (rule exI [of _ "takeWhile is_ws s"]) (auto dest: set_takeWhileD)

lemma strip_end_parts: "\<exists>b. s = strip_end s @ b \<and> list_all is_ws b"
proof -
  obtain a where "rev s = a @ strip_start (rev s)" "list_all is_ws a"
    using strip_start_parts by blast
  then have "s = strip_end s @ rev a" "list_all is_ws (rev a)"
    by (metis rev_append rev_rev_ident strip_end_def strip_start_def) (simp add: \<open>list_all is_ws a\<close>)
  then show ?thesis by blast
qed

lemma strip_parts:
  "\<exists>a b. s = a @ strip s @ b \<and> list_all is_ws a \<and> list_all is_ws b"
proof -
  obtain a where a: "s = a @ strip_start s" "list_all is_ws a" using strip_start_parts by blast
  obtain b where "strip_start s = strip_end (strip_start s) @ b" "list_all is_ws b"
    using strip_end_parts by blast
  with a show ?thesis unfolding strip_def by (metis append.assoc)
qed

text \<open>
  C11: The replacement that \<open>String.prototype.trim\<close> makes is the trimming of the string: it
  removes white space at the two ends and nothing else, leaves no white space at either end,
  and agrees with the built-in method that it overrides.
\<close>

theorem trim_correct:
  "String_trim s = strip s \<and>
   (\<exists>a b. s = a @ String_trim s @ b \<and> list_all is_ws a \<and> list_all is_ws b) \<and>
   (String_trim s = [] \<or> \<not> is_ws (hd (String_trim s)) \<and> \<not> is_ws (last (String_trim s)))"
  using strip_parts [of s] strip_ends [of s] by (auto simp: trim_strips)

text \<open>
  C36: \<open>trimLeft\<close> removes exactly the longest white-space prefix and \<open>trimRight\<close> exactly the
  longest white-space suffix, and the two commute: each order of them is \<open>trim\<close>.
\<close>

theorem trim_sides:
  "String_trimLeft s = dropWhile is_ws s \<and>
   String_trimRight s = rev (dropWhile is_ws (rev s)) \<and>
   String_trimRight (String_trimLeft s) = String_trim s \<and>
   String_trimLeft (String_trimRight s) = String_trim s"
proof -
  have "strip_start (strip_end s) = strip_end (strip_start s)"
  proof (cases "strip_start s = []")
    case True
    then have "\<forall>c \<in> set s. is_ws c" by (simp add: strip_start_def dropWhile_eq_Nil_conv)
    then have "strip_end s = []" by (simp add: strip_end_def)
    then show ?thesis by (simp only: True) (simp add: strip_start_def strip_end_def)
  next
    case False
    let ?a = "takeWhile is_ws s"
    have d: "strip_start (?a @ t) = strip_start t" for t
      unfolding strip_start_def by (rule dropWhile_append2) (auto dest: set_takeWhileD)
    have hd: "\<not> is_ws (hd (strip_start s))"
      using False unfolding strip_start_def by (rule hd_dropWhile)
    then have ne: "strip_end (strip_start s) \<noteq> []"
      using False by (auto simp: strip_end_def dropWhile_eq_Nil_conv dest: bspec [OF _ hd_in_set])
    then have e: "strip_end s = ?a @ strip_end (strip_start s)"
      using strip_end_append [of ?a "strip_start s"] by (simp add: strip_start_def)
    have "\<not> is_ws (hd (strip_end (strip_start s)))"
      using strip_ends [of s] ne by (simp add: strip_def)
    then show ?thesis
      unfolding e d by (simp add: strip_start_def dropWhile_eq_self_iff)
  qed
  then show ?thesis
    by (simp add: trimLeft_strips trimRight_strips trim_strips strip_def)
       (simp add: strip_start_def strip_end_def)
qed

end
