(* ===== verification/JsNumber.thy ===== *)
theory JsNumber
  imports JsBase "HOL-Library.Log_Nat"
begin

text \<open>
  The Number type of JavaScript (IEEE 754 binary64).  A finite value is the rational it
  denotes; negative zero, the infinities and NaN are constructors of their own.  Every
  arithmetic operation computes the exact rational result and rounds it once, to nearest
  with ties to even (\<open>fl\<close>).  \<open>Number.prototype.toFixed\<close>, \<open>ToString\<close> on numbers and the
  decimal prefix that \<open>parseFloat\<close> reads follow the algorithms of the language
  specification.
\<close>

datatype jsnum = NaN | PInf | NInf | NegZero | Fin rat

subsection \<open>Rounding to binary64\<close>

definition round_half_even :: "rat \<Rightarrow> int" where
  "round_half_even r =
     (let f = \<lfloor>r\<rfloor>; d = r - of_int f
      in if d < 1/2 then f else if 1/2 < d then f + 1
         else if even f then f else f + 1)"

text \<open>The exponent of the leading binary digit of a positive rational.\<close>

definition ilog2 :: "rat \<Rightarrow> int" where
  "ilog2 r =
     (let (p, q) = quotient_of r; k = bitlen p - bitlen q
      in if 2 powi k \<le> r then k else k - 1)"

text \<open>The exponent of one unit in the last place: 53 significant bits, subnormals below.\<close>

definition ulp_exp :: "rat \<Rightarrow> int" where
  "ulp_exp r = max (- 1074) (ilog2 r - 52)"

definition fl_mag :: "rat \<Rightarrow> rat" where
  "fl_mag r = of_int (round_half_even (r / 2 powi (ulp_exp r))) * 2 powi (ulp_exp r)"

definition fl :: "rat \<Rightarrow> jsnum" where
  "fl r =
     (if r = 0 then Fin 0
      else let v = fl_mag \<bar>r\<bar>
           in if 2 ^ 1024 \<le> v then (if r < 0 then NInf else PInf)
              else if v = 0 then (if r < 0 then NegZero else Fin 0)
              else Fin (if r < 0 then - v else v))"

lemma floor_numeral_divide_rat [simp, js_eval]:
  "\<lfloor>numeral a / numeral b :: rat\<rfloor> = numeral a div numeral b"
  using floor_divide_of_int_eq [of "numeral a" "numeral b", where ?'a = rat] by simp

lemma floor_minus_numeral_divide_rat [simp, js_eval]:
  "\<lfloor>- (numeral a / numeral b) :: rat\<rfloor> = - numeral a div numeral b"
  using floor_divide_of_int_eq [of "- numeral a" "numeral b", where ?'a = rat] by simp

lemma round_half_even_of_int [simp]: "round_half_even (of_int n) = n"
  by (simp add: round_half_even_def)

lemma round_half_even_close: "\<bar>of_int (round_half_even r) - r\<bar> \<le> 1/2"
  unfolding round_half_even_def Let_def
  using of_int_floor_le [of r] floor_less_iff [of r "\<lfloor>r\<rfloor> + 1"]
  by (auto simp: abs_le_iff algebra_simps)

lemma bitlen_bounds_int:
  assumes "0 < p"
  shows "(2::rat) powi (bitlen p - 1) \<le> of_int p" and "of_int p < (2::rat) powi (bitlen p)"
proof -
  have b: "2 ^ nat (bitlen p - 1) \<le> p" "p < 2 ^ nat (bitlen p)"
    using bitlen_bounds [of p] assms by auto
  have pos: "1 \<le> bitlen p"
    using assms by (simp add: bitlen_def floorlog_def)
  have "(2::rat) powi (bitlen p - 1) = 2 ^ nat (bitlen p - 1)"
    using pos by (simp add: power_int_def)
  also have "\<dots> = of_int (2 ^ nat (bitlen p - 1))" by simp
  finally show "(2::rat) powi (bitlen p - 1) \<le> of_int p"
    using b(1) by (metis of_int_le_iff)
  have "(2::rat) powi (bitlen p) = of_int (2 ^ nat (bitlen p))"
    using pos by (simp add: power_int_def)
  then show "of_int p < (2::rat) powi (bitlen p)"
    using b(2) by (metis of_int_less_iff)
qed

lemma ilog2_bounds:
  assumes "0 < r"
  shows "2 powi (ilog2 r) \<le> r" and "r < 2 powi (ilog2 r + 1)"
proof -
  obtain p q where pq: "quotient_of r = (p, q)" by fastforce
  have q: "0 < q" using pq by (rule quotient_of_denom_pos)
  have r: "r = of_int p / of_int q" using pq by (rule quotient_of_div)
  have p: "0 < p" using assms r q by (simp add: zero_less_divide_iff)
  let ?k = "bitlen p - bitlen q"
  have "2 powi (?k - 1) = 2 powi (bitlen p - 1) / (2::rat) powi (bitlen q)"
    by (simp add: power_int_diff [symmetric] algebra_simps)
  also have "\<dots> \<le> of_int p / of_int q"
    using bitlen_bounds_int [OF p] bitlen_bounds_int [OF q] p q
    by (intro frac_le) auto
  finally have lo: "2 powi (?k - 1) \<le> r" by (simp add: r)
  have "r < 2 powi (bitlen p) / (2::rat) powi (bitlen q - 1)"
    unfolding r using bitlen_bounds_int [OF p] bitlen_bounds_int [OF q] p
    by (intro frac_less) auto
  also have "\<dots> = 2 powi (?k + 1)"
    by (simp add: power_int_diff [symmetric] algebra_simps)
  finally have hi: "r < 2 powi (?k + 1)" .
  show "2 powi (ilog2 r) \<le> r" "r < 2 powi (ilog2 r + 1)"
    using lo hi by (auto simp: ilog2_def pq Let_def)
qed

text \<open>A magnitude with at most 53 significant bits is its own rounding.\<close>

lemma fl_mag_exact:
  assumes "r / 2 powi (ulp_exp r) = of_int m"
  shows "fl_mag r = r"
proof -
  have "fl_mag r = of_int m * 2 powi (ulp_exp r)"
    unfolding fl_mag_def assms by simp
  also have "\<dots> = r" using assms by (simp add: field_simps)
  finally show ?thesis .
qed

lemma fl_mag_int:
  assumes "0 < n" and "n \<le> 2 ^ 53"
  shows "fl_mag (of_int n) = of_int n"
proof -
  let ?r = "of_int n :: rat" and ?e = "ulp_exp (of_int n)"
  have r: "0 < ?r" using assms by simp
  have r53: "?r \<le> 2 ^ 53"
    using assms(2) of_int_le_iff [of n "2 ^ 53", where ?'a = rat] by simp
  have l: "ilog2 ?r \<le> 53"
  proof (rule ccontr)
    assume "\<not> ilog2 ?r \<le> 53"
    then have "(2::rat) powi 54 \<le> 2 powi (ilog2 ?r)"
      by (intro power_int_increasing) auto
    with ilog2_bounds(1) [OF r] r53 show False by simp
  qed
  show ?thesis
  proof (cases "?e \<le> 0")
    case True
    then have "?r / 2 powi ?e = of_int (n * 2 ^ nat (- ?e))"
      by (simp add: power_int_def field_simps)
    then show ?thesis by (rule fl_mag_exact)
  next
    case False
    then have e: "?e = 1" and "ilog2 ?r = 53" using l by (auto simp: ulp_exp_def)
    then have "(2::rat) ^ 53 \<le> ?r" using ilog2_bounds(1) [OF r] by simp
    then have "n = 2 ^ 53"
      using assms(2) of_int_le_iff [of "2 ^ 53" n, where ?'a = rat] by simp
    then have "?r / 2 powi ?e = of_int (2 ^ 52)" unfolding e by simp
    then show ?thesis by (rule fl_mag_exact)
  qed
qed

lemma fl_int: "\<bar>n\<bar> \<le> 2 ^ 53 \<Longrightarrow> fl (of_int n) = Fin (of_int n)"
proof -
  assume n: "\<bar>n\<bar> \<le> 2 ^ 53"
  show ?thesis
  proof (cases "n = 0")
    case True
    then show ?thesis by (simp add: fl_def)
  next
    case False
    define x where "x = (of_int n :: rat)"
    have x: "x \<noteq> 0" using False by (simp add: x_def)
    have m: "fl_mag \<bar>x\<bar> = \<bar>x\<bar>"
      using fl_mag_int [of "\<bar>n\<bar>"] n False by (simp add: x_def)
    have "\<bar>x\<bar> \<le> 2 ^ 53"
      using n of_int_le_iff [of "\<bar>n\<bar>" "2 ^ 53", where ?'a = rat] by (simp add: x_def)
    moreover have "(2::rat) ^ 53 < 2 ^ 1024" by simp
    ultimately have "\<not> 2 ^ 1024 \<le> \<bar>x\<bar>" by linarith
    then have "fl x = Fin x"
      using x by (simp only: fl_def m Let_def) auto
    then show ?thesis by (simp add: x_def)
  qed
qed

subsection \<open>Arithmetic and comparison\<close>

text \<open>The mathematical value of a finite number; the specials are handled apart.\<close>

fun num_val :: "jsnum \<Rightarrow> rat" where
  "num_val (Fin r) = r"
| "num_val _ = 0"

fun is_finite :: "jsnum \<Rightarrow> bool" where
  "is_finite (Fin _) = True"
| "is_finite NegZero = True"
| "is_finite _ = False"

fun is_negative :: "jsnum \<Rightarrow> bool" where
  "is_negative (Fin r) = (r < 0)"
| "is_negative NegZero = True"
| "is_negative NInf = True"
| "is_negative _ = False"

fun num_add :: "jsnum \<Rightarrow> jsnum \<Rightarrow> jsnum" where
  "num_add NaN _ = NaN"
| "num_add _ NaN = NaN"
| "num_add PInf NInf = NaN"
| "num_add NInf PInf = NaN"
| "num_add PInf _ = PInf"
| "num_add _ PInf = PInf"
| "num_add NInf _ = NInf"
| "num_add _ NInf = NInf"
| "num_add NegZero NegZero = NegZero"
| "num_add x y = fl (num_val x + num_val y)"

definition num_mul :: "jsnum \<Rightarrow> jsnum \<Rightarrow> jsnum" where
  "num_mul x y =
     (if x = NaN \<or> y = NaN then NaN
      else let neg = (is_negative x \<noteq> is_negative y)
           in if is_finite x \<and> is_finite y then
                (if num_val x * num_val y = 0 then (if neg then NegZero else Fin 0)
                 else fl (num_val x * num_val y))
              else if (is_finite x \<and> num_val x = 0) \<or> (is_finite y \<and> num_val y = 0) then NaN
              else if neg then NInf else PInf)"

text \<open>\<open>x < y\<close> and \<open>x <= y\<close>; every comparison with NaN is false.\<close>

fun num_less :: "jsnum \<Rightarrow> jsnum \<Rightarrow> bool" where
  "num_less NaN _ = False"
| "num_less _ NaN = False"
| "num_less PInf _ = False"
| "num_less NInf y = (y \<noteq> NInf)"
| "num_less _ PInf = True"
| "num_less _ NInf = False"
| "num_less x y = (num_val x < num_val y)"

definition num_le :: "jsnum \<Rightarrow> jsnum \<Rightarrow> bool" where
  "num_le x y = (x \<noteq> NaN \<and> y \<noteq> NaN \<and> \<not> num_less y x)"

definition num_truthy :: "jsnum \<Rightarrow> bool" where
  "num_truthy x \<longleftrightarrow> x \<noteq> NaN \<and> x \<noteq> NegZero \<and> x \<noteq> Fin 0"

text \<open>\<open>ToIntegerOrInfinity\<close>: truncation towards zero; NaN and both zeros give \<open>0\<close>.\<close>

definition trunc_rat :: "rat \<Rightarrow> int" where
  "trunc_rat r = (if r < 0 then - \<lfloor>- r\<rfloor> else \<lfloor>r\<rfloor>)"

lemma trunc_rat_of_int [simp]: "trunc_rat (of_int n) = n"
  by (simp add: trunc_rat_def floor_minus)

lemma num_add_int:
  "\<bar>m + n\<bar> \<le> 2 ^ 53 \<Longrightarrow> num_add (Fin (of_int m)) (Fin (of_int n)) = Fin (of_int (m + n))"
  by (simp add: fl_int [of "m + n", simplified])

lemma num_mul_int:
  "\<bar>m * n\<bar> \<le> 2 ^ 53 \<Longrightarrow> m * n \<noteq> 0 \<Longrightarrow>
     num_mul (Fin (of_int m)) (Fin (of_int n)) = Fin (of_int (m * n))"
  by (simp add: num_mul_def fl_int [of "m * n", simplified])

text \<open>The operators of the language on numbers.\<close>

instantiation jsnum :: "{ord, plus, times}"
begin

definition less_jsnum :: "jsnum \<Rightarrow> jsnum \<Rightarrow> bool" where
  "less_jsnum x y = num_less x y"

definition less_eq_jsnum :: "jsnum \<Rightarrow> jsnum \<Rightarrow> bool" where
  "less_eq_jsnum x y = num_le x y"

definition plus_jsnum :: "jsnum \<Rightarrow> jsnum \<Rightarrow> jsnum" where
  "plus_jsnum x y = num_add x y"

definition times_jsnum :: "jsnum \<Rightarrow> jsnum \<Rightarrow> jsnum" where
  "times_jsnum x y = num_mul x y"

instance
  by standard

end

lemmas jsnum_operators [simp, js_eval] =
  less_jsnum_def less_eq_jsnum_def plus_jsnum_def times_jsnum_def

end
