(* ===== verification/JsFormat.thy ===== *)
theory JsFormat
  imports JsNumber
begin

text \<open>
  Numbers as text, after the language specification: \<open>ToString\<close> applied to a number
  (shortest digits that round back), \<open>Number.prototype.toFixed\<close>, and the prefix of a
  string that \<open>parseFloat\<close> reads.
\<close>

subsection \<open>ToString applied to a number\<close>

text \<open>The decimal exponent: \<open>10\<^sup>n\<^sup>-\<^sup>1 \<le> r < 10\<^sup>n\<close>.  A positive binary64 value is at least
  \<open>2\<^sup>-\<^sup>1\<^sup>0\<^sup>7\<^sup>4\<close>, so at most 324 multiplications by ten are needed.\<close>

fun neg_exp :: "nat \<Rightarrow> rat \<Rightarrow> nat" where
  "neg_exp 0 r = 0"
| "neg_exp (Suc f) r = (if 1 \<le> r * 10 then 0 else Suc (neg_exp f (r * 10)))"

definition dec_exp :: "rat \<Rightarrow> int" where
  "dec_exp r = (if 1 \<le> r then int (length (dec (nat \<lfloor>r\<rfloor>))) else - int (neg_exp 324 r))"

text \<open>The \<open>k\<close>-digit significand that rounds to \<open>r\<close>, the nearer one when there are two.\<close>

definition signif :: "rat \<Rightarrow> int \<Rightarrow> nat \<Rightarrow> int option" where
  "signif r n k =
     (let sc = 10 powi (n - int k); lo = \<lfloor>r / sc\<rfloor>;
          fits = (\<lambda>c. fl (of_int c * sc) = Fin r)
      in if fits lo then
           (if fits (lo + 1) \<and> 1/2 < r / sc - of_int lo then Some (lo + 1) else Some lo)
         else if fits (lo + 1) then Some (lo + 1) else None)"

definition shortest :: "rat \<Rightarrow> jsstr \<times> int" where
  "shortest r =
     (let n = dec_exp r; k = (case List.find (\<lambda>k. signif r n k \<noteq> None) [1..<18] of
                                Some k \<Rightarrow> k | None \<Rightarrow> 17);
          s = (case signif r n k of Some s \<Rightarrow> s | None \<Rightarrow> \<lfloor>r / 10 powi (n - int k)\<rfloor>)
      in if s = 10 ^ k then ([digit 1], n + 1) else (dec (nat s), n))"

definition num_to_string_mag :: "rat \<Rightarrow> jsstr" where
  "num_to_string_mag r =
     (let (ds, n) = shortest r; k = int (length ds)
      in if k \<le> n \<and> n \<le> 21 then ds @ replicate (nat (n - k)) (digit 0)
         else if 0 < n \<and> n \<le> 21 then take (nat n) ds @ str ''.'' @ drop (nat n) ds
         else if - 6 < n \<and> n \<le> 0 then str ''0.'' @ replicate (nat (- n)) (digit 0) @ ds
         else (let e = n - 1;
                   ex = str ''e'' @ (if e < 0 then str ''-'' else str ''+'') @ dec (nat \<bar>e\<bar>)
               in if k = 1 then ds @ ex
                  else take 1 ds @ str ''.'' @ drop 1 ds @ ex))"

fun num_to_string :: "jsnum \<Rightarrow> jsstr" where
  "num_to_string NaN = str ''NaN''"
| "num_to_string PInf = str ''Infinity''"
| "num_to_string NInf = str ''-Infinity''"
| "num_to_string NegZero = str ''0''"
| "num_to_string (Fin r) =
     (if r = 0 then str ''0''
      else if r < 0 then str ''-'' @ num_to_string_mag (- r)
      else num_to_string_mag r)"

subsection \<open>toFixed\<close>

text \<open>The integer \<open>n\<close> for which \<open>n / 10\<^sup>f\<close> is closest to \<open>r\<close>, the larger one of two.\<close>

definition fixed_int :: "rat \<Rightarrow> nat \<Rightarrow> nat" where
  "fixed_int r f = nat \<lfloor>r * 10 ^ f + 1/2\<rfloor>"

definition to_fixed_mag :: "rat \<Rightarrow> nat \<Rightarrow> jsstr" where
  "to_fixed_mag r f =
     (let m = dec (fixed_int r f)
      in if f = 0 then m
         else let m' = (if length m \<le> f then replicate (f + 1 - length m) (digit 0) @ m else m)
              in take (length m' - f) m' @ str ''.'' @ drop (length m' - f) m')"

fun fraction_digits :: "jsnum \<Rightarrow> int option" where
  "fraction_digits (Fin r) = Some (trunc_rat r)"
| "fraction_digits NaN = Some 0"
| "fraction_digits NegZero = Some 0"
| "fraction_digits _ = None"

definition toFixed :: "jsnum \<Rightarrow> jsnum \<Rightarrow> jsstr result" where
  "toFixed x digits =
     (case fraction_digits digits of
        None \<Rightarrow> Inl RangeError
      | Some f \<Rightarrow>
          if f < 0 \<or> 100 < f then Inl RangeError
          else if \<not> is_finite x then Inr (num_to_string x)
          else let v = num_val x; sg = (if v < 0 then str ''-'' else []); a = \<bar>v\<bar>
               in if 10 ^ 21 \<le> a then Inr (sg @ num_to_string (Fin a))
                  else Inr (sg @ to_fixed_mag a (nat f)))"

lemma to_fixed_mag_eq:
  assumes "0 < f"
  shows "to_fixed_mag r f =
           dec (fixed_int r f div 10 ^ f) @ str ''.'' @ pad_dec f (fixed_int r f)"
proof -
  let ?n = "fixed_int r f" and ?m = "dec (fixed_int r f)"
  let ?m' = "if length ?m \<le> f then replicate (f + 1 - length ?m) (digit 0) @ ?m else ?m"
  have "?m' = dec (?n div 10 ^ f) @ pad_dec f ?n"
  proof (cases "length ?m \<le> f")
    case True
    then have small: "?n < 10 ^ f" by (simp add: length_dec_le)
    then have "pad_dec f ?n = replicate (f - length ?m) (digit 0) @ ?m"
      using assms by (rule pad_dec_small)
    then show ?thesis
      using True small by (simp add: dec_less Suc_diff_le)
  next
    case False
    then have "10 ^ f \<le> ?n" using assms by (simp add: length_dec_le not_less)
    then show ?thesis using False by (simp add: dec_pad_dec)
  qed
  then have eq: "?m' = dec (?n div 10 ^ f) @ pad_dec f ?n" .
  have "to_fixed_mag r f = take (length ?m' - f) ?m' @ str ''.'' @ drop (length ?m' - f) ?m'"
    using assms by (simp add: to_fixed_mag_def Let_def)
  also have "\<dots> = dec (?n div 10 ^ f) @ str ''.'' @ pad_dec f ?n"
    unfolding eq by simp
  finally show ?thesis .
qed

text \<open>\<open>fixed_int\<close> is a nearest multiple: no other integer is closer.\<close>

lemma fixed_int_nearest:
  assumes "0 \<le> r"
  shows "\<bar>of_nat (fixed_int r f) / 10 ^ f - r\<bar> \<le> \<bar>of_int n / 10 ^ f - r\<bar>"
proof -
  let ?x = "r * 10 ^ f" and ?N = "\<lfloor>r * 10 ^ f + 1/2\<rfloor>"
  have p: "(0::rat) < 10 ^ f" by simp
  have N: "of_nat (fixed_int r f) = (of_int ?N :: rat)"
    using assms by (simp add: fixed_int_def)
  have "of_int ?N \<le> ?x + 1/2" "?x + 1/2 < of_int ?N + 1" by linarith+
  then have "\<bar>of_int ?N - ?x\<bar> \<le> \<bar>of_int n - ?x\<bar>"
  proof (cases "n = ?N")
    case False
    then have "of_int n \<le> (of_int ?N - 1 :: rat) \<or> of_int ?N + 1 \<le> (of_int n :: rat)"
      using of_int_le_iff [of n "?N - 1", where ?'a = rat]
        of_int_le_iff [of "?N + 1" n, where ?'a = rat] by auto
    then show ?thesis
      using \<open>of_int ?N \<le> ?x + 1/2\<close> \<open>?x + 1/2 < of_int ?N + 1\<close> by linarith
  qed simp
  then have "\<bar>of_int ?N - ?x\<bar> / 10 ^ f \<le> \<bar>of_int n - ?x\<bar> / 10 ^ f"
    by (simp add: divide_right_mono)
  moreover have "\<bar>of_int k - ?x\<bar> / 10 ^ f = \<bar>of_int k / 10 ^ f - r\<bar>" for k
  proof -
    have "of_int k / 10 ^ f - r = (of_int k - ?x) / 10 ^ f" by (simp add: field_simps)
    then show ?thesis by simp
  qed
  ultimately show ?thesis by (simp add: N)
qed

subsection \<open>Reading a decimal\<close>

text \<open>
  The longest prefix that is a decimal literal, with its value and the rest of the string:
  what \<open>parseFloat\<close> reads after leading white space, and \<open>ToNumber\<close> of a string requires
  to reach the end.
\<close>

definition read_sign :: "jsstr \<Rightarrow> bool \<times> jsstr" where
  "read_sign t =
     (case t of [] \<Rightarrow> (False, [])
      | c # r \<Rightarrow> if c = 45 then (True, r) else if c = 43 then (False, r) else (False, t))"

definition read_exponent :: "jsstr \<Rightarrow> int \<times> jsstr" where
  "read_exponent t =
     (case t of [] \<Rightarrow> (0, [])
      | c # r \<Rightarrow>
          (let (neg, u) = read_sign r; ds = takeWhile is_digit u
           in if (c = 101 \<or> c = 69) \<and> ds \<noteq> []
              then (if neg then - int (dec_val ds) else int (dec_val ds), dropWhile is_digit u)
              else (0, t)))"

definition signed_value :: "bool \<Rightarrow> rat \<Rightarrow> jsnum" where
  "signed_value neg v =
     (if v = 0 then (if neg then NegZero else Fin 0) else fl (if neg then - v else v))"

definition read_decimal :: "jsstr \<Rightarrow> (jsnum \<times> jsstr) option" where
  "read_decimal t =
     (let (neg, u) = read_sign t
      in if take 8 u = str ''Infinity'' then Some (if neg then NInf else PInf, drop 8 u)
         else
           let i = takeWhile is_digit u; u1 = dropWhile is_digit u;
               (f, u2) = (case u1 of [] \<Rightarrow> ([], [])
                          | c # r \<Rightarrow>
                              if c = 46 \<and> (i \<noteq> [] \<or> takeWhile is_digit r \<noteq> [])
                              then (takeWhile is_digit r, dropWhile is_digit r) else ([], u1))
           in if i = [] \<and> f = [] then None
              else let (e, u3) = read_exponent u2
                   in Some (signed_value neg
                              (of_nat (dec_val (i @ f)) * 10 powi (e - int (length f))), u3))"

definition parseFloat :: "jsstr \<Rightarrow> jsnum" where
  "parseFloat s = (case read_decimal (strip_start s) of Some (v, _) \<Rightarrow> v | None \<Rightarrow> NaN)"

text \<open>What \<open>toFixed\<close> prints is read back to the rounded decimal.\<close>

lemma read_decimal_fixed:
  fixes neg :: bool
  defines "sg \<equiv> (if neg then str ''-'' else [])"
  assumes i: "i \<noteq> []" "\<forall>c \<in> set i. is_digit c" and f: "\<forall>c \<in> set f. is_digit c"
  shows "read_decimal (sg @ i @ str ''.'' @ f) =
           Some (signed_value neg (of_nat (dec_val (i @ f)) / 10 ^ length f), [])"
proof -
  let ?t = "i @ str ''.'' @ f"
  obtain c r where c: "i = c # r" using i(1) by (cases i) auto
  have d: "is_digit c" using i(2) c by simp
  then have "c \<noteq> 45" "c \<noteq> 43" "c \<noteq> 73" by (auto simp: is_digit_def)
  then have s: "read_sign (sg @ ?t) = (neg, ?t)" and inf: "take 8 ?t \<noteq> str ''Infinity''"
    by (auto simp: read_sign_def c sg_def)
  have dot: "\<not> is_digit 46" by (simp add: is_digit_def)
  have tw: "takeWhile is_digit ?t = i" "dropWhile is_digit ?t = str ''.'' @ f"
    using i(2) dot by (auto simp: takeWhile_append2 dropWhile_append2)
  have twf: "takeWhile is_digit f = f" "dropWhile is_digit f = []"
    using f by (auto simp: takeWhile_eq_all_conv dropWhile_eq_Nil_conv)
  show ?thesis
    unfolding read_decimal_def s Let_def prod.case tw
    using inf i(1) by (simp add: twf read_exponent_def power_int_minus divide_inverse)
qed

end
