(* ===== verification/JsValue.thy ===== *)
theory JsValue
  imports JsFormat
begin

text \<open>
  The values that the scripts take and return: the primitives, and arrays and plain objects
  with their own data properties.  The conversions \<open>ToBoolean\<close>, \<open>ToNumber\<close> and \<open>ToString\<close>
  on primitives follow the language specification.
\<close>

datatype prim = Undefined | Null | Bool bool | Num jsnum | Str jsstr

datatype jsval =
    Prim prim
  | Arr "jsval list"
  | Obj "(jsstr \<times> jsval) list"

fun prim_truthy :: "prim \<Rightarrow> bool" where
  "prim_truthy Undefined = False"
| "prim_truthy Null = False"
| "prim_truthy (Bool b) = b"
| "prim_truthy (Num x) = num_truthy x"
| "prim_truthy (Str s) = (s \<noteq> [])"

fun truthy :: "jsval \<Rightarrow> bool" where
  "truthy (Prim p) = prim_truthy p"
| "truthy _ = True"

text \<open>\<open>ToNumber\<close> of a string: white space around a decimal literal, or an integer literal
  with a radix prefix; the empty string is zero and anything else NaN.\<close>

definition hex_val :: "jsunit \<Rightarrow> nat option" where
  "hex_val c =
     (if is_digit c then Some (digit_val c)
      else if 65 \<le> c \<and> c \<le> 70 then Some (unat c - 55)
      else if 97 \<le> c \<and> c \<le> 102 then Some (unat c - 87)
      else None)"

fun radix_val :: "nat \<Rightarrow> nat \<Rightarrow> jsstr \<Rightarrow> nat option" where
  "radix_val b a [] = Some a"
| "radix_val b a (c # cs) =
     (case hex_val c of
        Some d \<Rightarrow> if d < b then radix_val b (b * a + d) cs else None
      | None \<Rightarrow> None)"

definition radix_prefix :: "jsstr \<Rightarrow> nat option" where
  "radix_prefix t =
     (if take 2 t \<in> {str ''0x'', str ''0X''} then Some 16
      else if take 2 t \<in> {str ''0o'', str ''0O''} then Some 8
      else if take 2 t \<in> {str ''0b'', str ''0B''} then Some 2
      else None)"

definition string_to_number :: "jsstr \<Rightarrow> jsnum" where
  "string_to_number s =
     (let t = strip s
      in if t = [] then Fin 0
         else case radix_prefix t of
                Some b \<Rightarrow>
                  (if length t \<le> 2 then NaN
                   else case radix_val b 0 (drop 2 t) of
                          Some n \<Rightarrow> fl (of_nat n) | None \<Rightarrow> NaN)
              | None \<Rightarrow>
                  (case read_decimal t of Some (v, []) \<Rightarrow> v | _ \<Rightarrow> NaN))"

fun to_number :: "prim \<Rightarrow> jsnum" where
  "to_number Undefined = NaN"
| "to_number Null = Fin 0"
| "to_number (Bool b) = Fin (if b then 1 else 0)"
| "to_number (Num x) = x"
| "to_number (Str s) = string_to_number s"

fun to_string :: "prim \<Rightarrow> jsstr" where
  "to_string Undefined = str ''undefined''"
| "to_string Null = str ''null''"
| "to_string (Bool b) = (if b then str ''true'' else str ''false'')"
| "to_string (Num x) = num_to_string x"
| "to_string (Str s) = s"

subsection \<open>Properties\<close>

text \<open>
  \<open>v[key]\<close> for a value that is neither undefined nor null: the own data properties of an
  object, and the indices and the length of an array and of a string.  Inherited properties
  are not part of the model.
\<close>

definition array_index :: "jsstr \<Rightarrow> nat option" where
  "array_index key =
     (if key \<noteq> [] \<and> list_all is_digit key \<and> dec (dec_val key) = key then Some (dec_val key) else None)"

fun get_prop :: "jsval \<Rightarrow> jsstr \<Rightarrow> jsval" where
  "get_prop (Obj ps) key = (case map_of ps key of Some v \<Rightarrow> v | None \<Rightarrow> Prim Undefined)"
| "get_prop (Arr xs) key =
     (if key = str ''length'' then Prim (Num (Fin (of_nat (length xs))))
      else case array_index key of
             Some i \<Rightarrow> if i < length xs then xs ! i else Prim Undefined
           | None \<Rightarrow> Prim Undefined)"
| "get_prop (Prim (Str s)) key =
     (if key = str ''length'' then Prim (Num (Fin (of_nat (length s))))
      else case array_index key of
             Some i \<Rightarrow> if i < length s then Prim (Str [s ! i]) else Prim Undefined
           | None \<Rightarrow> Prim Undefined)"
| "get_prop (Prim _) key = Prim Undefined"

lemma array_index_dec [simp]: "array_index (dec i) = Some i"
  by (auto simp: array_index_def list_all_iff dest: dec_digits)

lemma dec_not_length: "dec i \<noteq> str ''length''"
proof
  assume "dec i = str ''length''"
  then have "hd (str ''length'') \<in> set (dec i)" by simp
  then have "is_digit (hd (str ''length''))" by (rule dec_digits)
  then show False by (simp add: is_digit_def)
qed

lemma get_prop_array:
  "get_prop (Arr xs) (str ''length'') = Prim (Num (Fin (of_nat (length xs))))"
  "i < length xs \<Longrightarrow> get_prop (Arr xs) (dec i) = xs ! i"
  by (simp, use dec_not_length [of i] in \<open>simp del: str_simps\<close>)

text \<open>\<open>ToString\<close> and \<open>ToNumber\<close> of any value; a plain object is \<open>[object Object]\<close>.\<close>

fun value_to_string :: "jsval \<Rightarrow> jsstr" where
  "value_to_string (Prim p) = to_string p"
| "value_to_string (Arr xs) =
     join_with (str '','')
       (map (\<lambda>x. if x = Prim Undefined \<or> x = Prim Null then [] else value_to_string x) xs)"
| "value_to_string (Obj ps) = str ''[object Object]''"

definition value_to_number :: "jsval \<Rightarrow> jsnum" where
  "value_to_number v =
     (case v of Prim p \<Rightarrow> to_number p | _ \<Rightarrow> string_to_number (value_to_string v))"

end
