(* ===== verification/Page.thy ===== *)
theory Page
  imports JsValue
begin

text \<open>
  \<open>scripts/comm/base.js\<close>, lines 6 to 43 and 98 to 102: navigation by a synthesised click on a
  new anchor, and the lookup of a message.  The document is the state: the anchors that the
  script has put into the body, in order, and the anchors whose activation (following the
  link) has run.  What the browser provides is a record of capabilities: whether elements have
  the method \<open>click\<close>, which of the calls of the fallback throw, and whether an event that is
  not a mouse event activates a link.
\<close>

record anchor =
  href :: jsstr
  target :: jsstr

record document =
  body :: "anchor list option"
  activated :: "anchor list"

record agent =
  has_click :: bool
  createEvent_ok :: bool
  initEvent_ok :: bool
  dispatchEvent_ok :: bool
  event_activates :: bool

text \<open>\<open>document.createElement("a")\<close> followed by \<open>document.body.appendChild(el)\<close>: the new
  element is the last anchor of the body; a document without a body throws.\<close>

definition append_anchor :: "document \<Rightarrow> document result" where
  "append_anchor doc =
     (case body doc of
        None \<Rightarrow> Inl TypeError
      | Some els \<Rightarrow> Inr (doc\<lparr>body := Some (els @ [\<lparr>href = [], target = []\<rparr>])\<rparr>))"

text \<open>An assignment to a property of the anchor that was appended last.\<close>

definition update_anchor :: "(anchor \<Rightarrow> anchor) \<Rightarrow> document \<Rightarrow> document" where
  "update_anchor f doc =
     doc\<lparr>body := map_option (\<lambda>els. els[length els - 1 := f (last els)]) (body doc)\<rparr>"

definition activate :: "document \<Rightarrow> document" where
  "activate doc =
     doc\<lparr>activated := activated doc @ (case body doc of Some els \<Rightarrow> [last els] | None \<Rightarrow> [])\<rparr>"

text \<open>The click, or the fallback, whose exceptions are swallowed.\<close>

definition follow :: "agent \<Rightarrow> document \<Rightarrow> document" where
  "follow ag doc =
     (if has_click ag then activate doc
      else if createEvent_ok ag \<and> initEvent_ok ag \<and> dispatchEvent_ok ag then
        (if event_activates ag then activate doc else doc)
      else doc)"

definition goUrl :: "agent \<Rightarrow> prim \<Rightarrow> document \<Rightarrow> document result" where
  "goUrl ag url doc =
     bind_result (append_anchor doc) (\<lambda>doc1.
       let doc2 = update_anchor (\<lambda>el. el\<lparr>href := to_string url\<rparr>) doc1
       in Inr (follow ag doc2))"

definition openWindow :: "agent \<Rightarrow> prim \<Rightarrow> document \<Rightarrow> document result" where
  "openWindow ag url doc =
     bind_result (append_anchor doc) (\<lambda>doc1.
       let doc2 = update_anchor (\<lambda>el. el\<lparr>href := to_string url\<rparr>) doc1;
           doc3 = update_anchor (\<lambda>el. el\<lparr>target := str ''_blank''\<rparr>) doc2
       in Inr (follow ag doc3))"

text \<open>The messages are the own properties of an object of the page.\<close>

definition i18n_load :: "(jsstr \<times> jsval) list \<Rightarrow> jsstr \<Rightarrow> jsval" where
  "i18n_load msg key = get_prop (Obj msg) key"

subsection \<open>Sequences of calls\<close>

text \<open>A page calls the two functions in any order; a call that throws leaves the document.\<close>

datatype nav_call = GoUrl prim | OpenWindow prim

fun run_call :: "agent \<Rightarrow> nav_call \<Rightarrow> document \<Rightarrow> document" where
  "run_call ag (GoUrl url) doc = (case goUrl ag url doc of Inr d \<Rightarrow> d | Inl _ \<Rightarrow> doc)"
| "run_call ag (OpenWindow url) doc = (case openWindow ag url doc of Inr d \<Rightarrow> d | Inl _ \<Rightarrow> doc)"

fun call_anchor :: "nav_call \<Rightarrow> anchor" where
  "call_anchor (GoUrl url) = \<lparr>href = to_string url, target = []\<rparr>"
| "call_anchor (OpenWindow url) = \<lparr>href = to_string url, target = str ''_blank''\<rparr>"

definition follows :: "agent \<Rightarrow> bool" where
  "follows ag \<longleftrightarrow>
     has_click ag \<or>
     (createEvent_ok ag \<and> initEvent_ok ag \<and> dispatchEvent_ok ag \<and> event_activates ag)"

lemma run_call_effect:
  assumes "body doc = Some els"
  shows "run_call ag c doc =
           doc\<lparr>body := Some (els @ [call_anchor c]),
               activated := activated doc @ (if follows ag then [call_anchor c] else [])\<rparr>"
  using assms
  by (cases c)
     (simp_all add: goUrl_def openWindow_def append_anchor_def update_anchor_def follow_def
       activate_def follows_def Let_def)

text \<open>
  C38: On a document with a body, any sequence of calls of \<open>goUrl\<close> and \<open>openWindow\<close> adds one
  anchor per call in the order of the calls, each with its own address and with the target
  \<open>_blank\<close> exactly for \<open>openWindow\<close>; no anchor is ever removed, and the links followed are
  exactly those of the calls when the browser can click, and none when it cannot.
\<close>

theorem navigation_trace:
  assumes "body doc = Some els"
  shows "fold (run_call ag) calls doc =
           doc\<lparr>body := Some (els @ map call_anchor calls),
               activated := activated doc @ (if follows ag then map call_anchor calls else [])\<rparr>"
  using assms
proof (induction calls arbitrary: doc els)
  case (Cons c calls)
  then show ?case by (simp add: run_call_effect)
qed simp

theorem navigation_trace_witness:
  "activated (fold (run_call \<lparr>has_click = False, createEvent_ok = True, initEvent_ok = True,
      dispatchEvent_ok = True, event_activates = True\<rparr>)
     [GoUrl (Str (str ''/a'')), OpenWindow (Str (str ''/b''))] \<lparr>body = Some [], activated = []\<rparr>) =
   [\<lparr>href = str ''/a'', target = []\<rparr>, \<lparr>href = str ''/b'', target = str ''_blank''\<rparr>]"
  by (subst navigation_trace [where els = "[]"]) (simp_all add: follows_def)

text \<open>
  The two functions throw exactly when the document has no body yet (a call from a script
  in the head), and the exception is a TypeError: a browser without click and without events
  never makes them throw.
\<close>

theorem navigation_throws:
  "(goUrl ag url doc = Inl e \<longleftrightarrow> body doc = None \<and> e = TypeError) \<and>
   (openWindow ag url doc = Inl e \<longleftrightarrow> body doc = None \<and> e = TypeError)"
  by (cases "body doc") (auto simp: goUrl_def openWindow_def append_anchor_def Let_def)

text \<open>
  Loading a message gives the first value stored for the key, and undefined for a key
  that was never stored; storing another key does not change it.
\<close>

theorem i18n_load_stored:
  "i18n_load ((key, v) # msg) key = v \<and>
   (key \<noteq> key' \<longrightarrow> i18n_load ((key', w) # msg) key = i18n_load msg key) \<and>
   i18n_load [] key = Prim Undefined"
  by (simp add: i18n_load_def)

end
