(* ===== verification/Formatter.thy ===== *)
theory Formatter
  imports JsValue JsRegex
begin

text \<open>
  \<open>scripts/comm/base.js\<close>, lines 104 to 117: \<open>jadeUtils.formatter\<close>.  \<open>formatNumber\<close> prints a
  number with a fixed number of decimals and a comma between groups of three digits;
  \<open>unformatNumber\<close> is meant to read such a text back.  The abstract specification of the
  grouping loop is \<open>commas\<close>, which works on the digits from the right without reversing.
\<close>

subsection \<open>The functions\<close>

text \<open>The loop over the reversed integer part: \<open>t += l[i] + (... ? "," : "")\<close>.\<close>

function group_loop :: "jsstr \<Rightarrow> nat \<Rightarrow> jsstr \<Rightarrow> jsstr" where
  "group_loop l i t =
     (if i < length l
      then group_loop l (i + 1)
             (t @ [l ! i] @ (if (i + 1) mod 3 = 0 \<and> i + 1 \<noteq> length l then str '','' else []))
      else t)"
  by pat_completeness auto
termination
  by (relation "measure (\<lambda>(l, i, t). length l - i)") auto

declare group_loop.simps [simp del]

text \<open>\<open>scale > 0 && scale <= 20 ? scale : 2\<close>; \<open>toFixed\<close> converts its argument to a number.\<close>

definition effective_scale :: "prim \<Rightarrow> jsnum" where
  "effective_scale scale =
     (let n = to_number scale
      in if Fin 0 < n \<and> n \<le> Fin 20 then n else Fin 2)"

definition formatNumber :: "prim \<Rightarrow> prim \<Rightarrow> jsstr result" where
  "formatNumber num scale =
     (case num of
        Num x \<Rightarrow>
          (case toFixed x (effective_scale scale) of
             Inl e \<Rightarrow> Inl e
           | Inr s \<Rightarrow>
               (let parts = split_on 46 s;
                    l = rev (parts ! 0);
                    r = (if 1 < length parts then parts ! 1 else str ''undefined'');
                    t = group_loop l 0 []
                in Inr (rev t @ str ''.'' @ r)))
      | _ \<Rightarrow> Inl TypeError)"

text \<open>\<open>[^\d\.-]\<close> with the flag \<open>g\<close>.\<close>

definition unformat_pattern :: regex where
  "unformat_pattern = Class True [Digit, Range 46 46, Range 45 45]"

text \<open>
  The body of \<open>unformatNumber\<close> reads the identifier \<open>s\<close>, which is neither its parameter nor
  declared in the script: it is looked up among the globals of the page (\<open>None\<close> when there
  is no such variable).
\<close>

definition unformatNumber :: "prim option \<Rightarrow> prim \<Rightarrow> jsnum result" where
  "unformatNumber global_s number =
     (case global_s of
        None \<Rightarrow> Inl ReferenceError
      | Some (Str s) \<Rightarrow> Inr (parseFloat (replace_all False unformat_pattern [] s))
      | Some _ \<Rightarrow> Inl TypeError)"

subsection \<open>The grouping loop\<close>

fun commas :: "jsstr \<Rightarrow> jsstr" where
  "commas ds =
     (if length ds \<le> 3 then ds
      else commas (take (length ds - 3) ds) @ str '','' @ drop (length ds - 3) ds)"

declare commas.simps [simp del]

fun separated :: "nat \<Rightarrow> jsstr \<Rightarrow> jsstr" where
  "separated i [] = []"
| "separated i (c # cs) =
     c # (if (i + 1) mod 3 = 0 \<and> cs \<noteq> [] then str '','' else []) @ separated (i + 1) cs"

lemma group_loop_separated:
  "i \<le> length l \<Longrightarrow> group_loop l i t = t @ separated i (drop i l)"
proof (induction l i t rule: group_loop.induct)
  case (1 l i t)
  show ?case
  proof (cases "i < length l")
    case True
    then have d: "drop i l = l ! i # drop (Suc i) l" by (simp add: Cons_nth_drop_Suc)
    have ne: "drop (Suc i) l \<noteq> [] \<longleftrightarrow> Suc i \<noteq> length l" using True by auto
    show ?thesis
      using 1 True by (subst group_loop.simps) (simp add: d ne)
  next
    case False
    then show ?thesis using 1 by (subst group_loop.simps) simp
  qed
qed

lemma separated_shift: "separated (i + 3) ds = separated i ds"
proof (induction ds arbitrary: i)
  case (Cons d ds)
  have "(i + 3 + 1) mod 3 = (i + 1) mod 3" by presburger
  then show ?case using Cons [of "Suc i"] by simp
qed simp

lemma separated_short: "length ds \<le> 3 \<Longrightarrow> separated 0 ds = ds"
  by (cases ds; cases "tl ds"; cases "tl (tl ds)") auto

lemma separated_long:
  assumes "length xs = 3" and "ys \<noteq> []"
  shows "separated 0 (xs @ ys) = xs @ str '','' @ separated 0 ys"
proof -
  obtain a b c where xs: "xs = [a, b, c]"
    using assms(1) by (auto simp: numeral_3_eq_3 length_Suc_conv)
  have "separated (Suc (Suc (Suc 0))) ys = separated 0 ys"
    using separated_shift [of 0 ys] by (simp only: numeral_3_eq_3 add_Suc_right add_0_right)
  then show ?thesis using assms(2) by (simp add: xs)
qed

lemma rev_separated: "rev (separated 0 (rev ds)) = commas ds"
proof (induction ds rule: commas.induct)
  case (1 ds)
  show ?case
  proof (cases "length ds \<le> 3")
    case True
    then show ?thesis by (simp add: separated_short commas.simps [of ds])
  next
    case False
    let ?n = "length ds - 3"
    have "rev ds = rev (drop ?n ds) @ rev (take ?n ds)"
      by (metis append_take_drop_id rev_append)
    then have "separated 0 (rev ds) = rev (drop ?n ds) @ str '','' @ separated 0 (rev (take ?n ds))"
      using False separated_long [of "rev (drop ?n ds)" "rev (take ?n ds)"]
      by (cases "ds = []") simp_all
    then show ?thesis using 1 [OF False] False by (simp add: commas.simps [of ds])
  qed
qed

text \<open>The loop between the two reversals is \<open>commas\<close>, whatever the text.\<close>

lemma group_loop_commas: "rev (group_loop (rev ds) 0 []) = commas ds"
  by (simp add: group_loop_separated rev_separated)

lemma commas_remove: "44 \<notin> set ds \<Longrightarrow> filter (\<lambda>c. c \<noteq> 44) (commas ds) = ds"
proof (induction ds rule: commas.induct)
  case (1 ds)
  have f: "filter (\<lambda>c. c \<noteq> 44) xs = xs" if "set xs \<subseteq> set ds" for xs
    using that "1.prems" by (auto simp: filter_id_conv)
  show ?case
  proof (cases "length ds \<le> 3")
    case True
    then show ?thesis by (simp add: commas.simps [of ds] f)
  next
    case False
    let ?n = "length ds - 3"
    have "44 \<notin> set (take ?n ds)" using "1.prems" by (meson in_set_takeD)
    with 1 False show ?thesis
      by (simp add: commas.simps [of ds] f [OF set_drop_subset])
  qed
qed

subsection \<open>What the two functions compute\<close>

text \<open>The sign that \<open>toFixed\<close> writes.\<close>

definition sign_text :: "rat \<Rightarrow> jsstr" where
  "sign_text r = (if r < 0 then str ''-'' else [])"

lemma digits_no_dot: "46 \<notin> set (dec n)" "46 \<notin> set (pad_dec k n)"
  by (auto dest: dec_digits pad_dec_digits simp: is_digit_def)

lemma digits_no_comma: "44 \<notin> set (dec n)" "44 \<notin> set (pad_dec k n)"
  by (auto dest: dec_digits pad_dec_digits simp: is_digit_def)

lemma toFixed_fin:
  assumes "\<bar>r\<bar> < 10 ^ 21" and "0 < k" and "k \<le> 100"
  shows "toFixed (Fin r) (Fin (of_nat k)) =
           Inr (sign_text r @ dec (fixed_int \<bar>r\<bar> k div 10 ^ k) @ str ''.'' @
                pad_dec k (fixed_int \<bar>r\<bar> k))"
proof -
  have "trunc_rat (of_nat k) = int k"
    using trunc_rat_of_int [of "int k"] by simp
  then show ?thesis
    using assms by (simp add: toFixed_def Let_def sign_text_def to_fixed_mag_eq not_le)
qed

lemma effective_scale_le: "effective_scale scale = Fin (of_nat k) \<Longrightarrow> k \<le> 20"
proof -
  assume e: "effective_scale scale = Fin (of_nat k)"
  have "(of_nat k :: rat) \<le> 20"
    using e by (auto simp: effective_scale_def Let_def num_le_def not_less split: if_splits)
  then have "(of_nat k :: rat) \<le> of_nat 20" by simp
  then show ?thesis by (simp only: of_nat_le_iff)
qed

lemma formatNumber_fin:
  assumes "\<bar>r\<bar> < 10 ^ 21" and "effective_scale scale = Fin (of_nat k)" and "0 < k"
  shows "formatNumber (Num (Fin r)) scale =
           Inr (commas (sign_text r @ dec (fixed_int \<bar>r\<bar> k div 10 ^ k)) @ str ''.'' @
                pad_dec k (fixed_int \<bar>r\<bar> k))"
proof -
  let ?N = "fixed_int \<bar>r\<bar> k" and ?i = "sign_text r @ dec (fixed_int \<bar>r\<bar> k div 10 ^ k)"
  have t: "toFixed (Fin r) (Fin (of_nat k)) = Inr (?i @ 46 # pad_dec k ?N)"
    using toFixed_fin [of r k] assms effective_scale_le [OF assms(2)] by simp
  have "46 \<notin> set ?i" using digits_no_dot by (auto simp: sign_text_def)
  then have "split_on 46 (?i @ 46 # pad_dec k ?N) = [?i, pad_dec k ?N]"
    by (simp only: split_on_append_sep split_on_free [OF digits_no_dot(2)] not_False_eq_True)
  then show ?thesis
    using assms t by (simp add: formatNumber_def Let_def group_loop_commas del: split_on_nth_0)
qed

lemma formatNumber_fin_commas:
  assumes "\<bar>r\<bar> < 10 ^ 21" and "effective_scale scale = Fin (of_nat k)" and "0 < k"
    and "formatNumber (Num (Fin r)) scale = Inr out"
  shows "filter (\<lambda>c. c \<noteq> 44) out =
           sign_text r @ dec (fixed_int \<bar>r\<bar> k div 10 ^ k) @ str ''.'' @ pad_dec k (fixed_int \<bar>r\<bar> k)"
proof -
  let ?N = "fixed_int \<bar>r\<bar> k" and ?i = "sign_text r @ dec (fixed_int \<bar>r\<bar> k div 10 ^ k)"
  have out: "out = commas ?i @ str ''.'' @ pad_dec k ?N"
    using assms(4) formatNumber_fin [OF assms(1-3)] by simp
  have "44 \<notin> set ?i" using digits_no_comma by (auto simp: sign_text_def)
  then have "filter (\<lambda>c. c \<noteq> 44) (commas ?i) = ?i" by (rule commas_remove)
  moreover have "filter (\<lambda>c. c \<noteq> 44) (pad_dec k ?N) = pad_dec k ?N"
    using digits_no_comma(2) by (auto simp: filter_id_conv)
  ultimately show ?thesis by (simp add: out)
qed

text \<open>
  C9: for every finite number below \<open>10\<^sup>2\<^sup>1\<close> in magnitude and every integral number of
  decimals that passes the check, \<open>formatNumber\<close> returns the integer part of the number
  rounded to that many decimals, grouped by commas from the right with the sign counted as
  part of it, a point, and exactly that many decimals.
\<close>

theorem formatNumber_spec:
  assumes "\<bar>r\<bar> < 10 ^ 21" and "effective_scale scale = Fin (of_nat k)" and "0 < k"
  shows "formatNumber (Num (Fin r)) scale =
           Inr (commas (sign_text r @ dec (fixed_int \<bar>r\<bar> k div 10 ^ k)) @ str ''.'' @
                pad_dec k (fixed_int \<bar>r\<bar> k))"
  using assms by (rule formatNumber_fin)

theorem formatNumber_spec_witness:
  "formatNumber (Num (Fin (-2469135/2))) (Num (Fin 2)) = Inr (str ''-1,234,567.50'')"
proof -
  have e: "effective_scale (Num (Fin 2)) = Fin (of_nat 2)"
    by (simp add: effective_scale_def num_le_def)
  have N: "fixed_int (2469135/2) 2 = 123456750"
    by (simp add: fixed_int_def)
  have d: "dec 1234567 = str ''1234567''" "pad_dec 2 123456750 = str ''50''"
    by (simp_all add: dec.simps digit_def pad_dec_2)
  have c: "commas (str ''-1234567'') = str ''-1,234,567''"
    by (simp add: commas.simps)
  show ?thesis
    using formatNumber_spec [of "-2469135/2" "Num (Fin 2)" 2, OF _ e] c
    by (simp add: N d sign_text_def)
qed

text \<open>
  The grouping loses nothing: deleting the commas from the formatted text gives back
  what \<open>toFixed\<close> printed.
\<close>

theorem formatNumber_commas_only:
  assumes "\<bar>r\<bar> < 10 ^ 21" and "effective_scale scale = Fin (of_nat k)" and "0 < k"
    and "formatNumber (Num (Fin r)) scale = Inr out"
  shows "toFixed (Fin r) (Fin (of_nat k)) = Inr (filter (\<lambda>c. c \<noteq> 44) out)"
  using formatNumber_fin_commas [OF assms] toFixed_fin [OF assms(1,3)]
    effective_scale_le [OF assms(2)] by simp

theorem formatNumber_commas_only_witness:
  "toFixed (Fin 1000) (Fin (of_nat 1)) = Inr (filter (\<lambda>c. c \<noteq> 44) (str ''1,000.0''))"
proof (rule formatNumber_commas_only)
  have N: "fixed_int 1000 1 = 10000" by (simp add: fixed_int_def floor_eq_iff)
  show e: "effective_scale (Num (Fin 1)) = Fin (of_nat 1)"
    by (simp add: effective_scale_def num_le_def)
  have d: "dec 1000 = str ''1000''" "pad_dec 1 10000 = str ''0''"
    by (simp_all add: dec.simps digit_def)
  show "formatNumber (Num (Fin 1000)) (Num (Fin 1)) = Inr (str ''1,000.0'')"
    using formatNumber_fin [of 1000, OF _ e] d N
    by (simp add: sign_text_def commas.simps)
qed simp_all
text \<open>
  C37: when the magnitude of a negative number has a whole number of groups of three
  integer digits, the sign is separated from the first group by a comma.
\<close>

theorem formatNumber_negative_comma:
  assumes "- (10 ^ 21) < r" and "r < 0"
    and "effective_scale scale = Fin (of_nat k)" and "0 < k"
    and "length (dec (fixed_int (- r) k div 10 ^ k)) = 3 * g"
  shows "\<exists>rest. formatNumber (Num (Fin r)) scale = Inr (str ''-,'' @ rest)"
proof -
  let ?ds = "dec (fixed_int (- r) k div 10 ^ k)"
  have "\<exists>rest. commas (str ''-'' @ ds) = str ''-,'' @ rest"
    if "length ds = 3 * Suc g" for ds :: jsstr and g
    using that
  proof (induction g arbitrary: ds)
    case 0
    then show ?case by (simp add: commas.simps [of "45 # ds"] commas.simps [of "[45]"])
  next
    case (Suc g)
    let ?ds' = "take (length ds - 3) ds"
    have "length ?ds' = 3 * Suc g" using Suc.prems by simp
    then obtain rest where "commas (str ''-'' @ ?ds') = str ''-,'' @ rest"
      using Suc.IH by blast
    moreover have "Suc (length ds) - 3 = Suc (length ds - 3)" "3 < length ds"
      using Suc.prems by auto
    ultimately show ?case by (simp add: commas.simps [of "45 # ds"])
  qed
  moreover have "g \<noteq> 0" using assms(5) by (metis dec_not_Nil length_0_conv mult_0_right)
  ultimately obtain rest where "commas (str ''-'' @ ?ds) = str ''-,'' @ rest"
    using assms(5) by (cases g) auto
  then show ?thesis
    using formatNumber_fin [of r scale k] assms by (simp add: sign_text_def)
qed

theorem formatNumber_negative_comma_witness:
  "\<exists>rest. formatNumber (Num (Fin (-123))) (Num (Fin 2)) = Inr (str ''-,'' @ rest)"
proof (rule formatNumber_negative_comma [where k = 2 and g = 1])
  have "fixed_int (- (-123)) 2 = 12300" by (simp add: fixed_int_def)
  then show "length (dec (fixed_int (- (-123)) 2 div 10 ^ 2)) = 3 * 1"
    by (simp add: dec.simps)
qed (simp_all add: effective_scale_def num_le_def)

lemma effective_scale_range:
  obtains q where "effective_scale scale = Fin q" and "0 < q" and "q \<le> 20"
proof -
  let ?n = "to_number scale"
  show ?thesis
  proof (cases "num_less (Fin 0) ?n \<and> num_le ?n (Fin 20)")
    case True
    then show ?thesis
      by (cases ?n) (auto simp: effective_scale_def num_le_def not_less intro: that)
  next
    case False
    then show ?thesis by (intro that [of 2]) (auto simp: effective_scale_def Let_def)
  qed
qed

lemma trunc_rat_range: "0 < q \<Longrightarrow> q \<le> 20 \<Longrightarrow> 0 \<le> trunc_rat q \<and> trunc_rat q \<le> 20"
  by (simp add: trunc_rat_def floor_le_iff)

lemma toFixed_total: "\<exists>t. toFixed x (effective_scale scale) = Inr t"
proof -
  obtain q where q: "effective_scale scale = Fin q" "0 < q" "q \<le> 20"
    by (rule effective_scale_range)
  then show ?thesis
    using trunc_rat_range [OF q(2,3)] by (auto simp: toFixed_def Let_def)
qed

text \<open>
  \<open>formatNumber\<close> throws exactly when its first argument is not a number, and then the
  exception is a \<open>TypeError\<close>; no scale whatever makes it throw.
\<close>

theorem formatNumber_throws:
  "formatNumber num scale = Inl e \<longleftrightarrow> (\<forall>x. num \<noteq> Num x) \<and> e = TypeError"
proof (cases "\<exists>x. num = Num x")
  case True
  then obtain x where "num = Num x" by blast
  moreover obtain t where "toFixed x (effective_scale scale) = Inr t"
    using toFixed_total by blast
  ultimately show ?thesis by (simp add: formatNumber_def Let_def)
next
  case False
  then show ?thesis by (cases num) (auto simp: formatNumber_def)
qed

text \<open>
  A scale that is not a number above 0 and at most 20 (missing, null, negative, too
  large, not numeric) formats with two decimals.
\<close>

theorem formatNumber_default_scale:
  assumes "\<not> (Fin 0 < to_number scale \<and> to_number scale \<le> Fin 20)"
  shows "formatNumber num scale = formatNumber num (Num (Fin 2))"
proof -
  have "effective_scale scale = Fin 2"
    unfolding effective_scale_def Let_def by (rule if_not_P [OF assms])
  moreover have "effective_scale (Num (Fin 2)) = Fin 2"
    by (simp add: effective_scale_def)
  ultimately show ?thesis by (cases num) (simp_all add: formatNumber_def)
qed

theorem formatNumber_default_scale_witness:
  "formatNumber (Num (Fin 7)) Undefined = formatNumber (Num (Fin 7)) (Num (Fin 2))"
  by (rule formatNumber_default_scale) simp

text \<open>
  A scale strictly between 0 and 1 passes the check but asks \<open>toFixed\<close> for no
  decimals, so the text ends in \<open>.undefined\<close>.
\<close>

theorem formatNumber_fractional_scale:
  assumes "\<bar>r\<bar> < 10 ^ 21" and "effective_scale scale = Fin q" and "q < 1"
  shows "formatNumber (Num (Fin r)) scale =
           Inr (commas (sign_text r @ dec (fixed_int \<bar>r\<bar> 0)) @ str ''.undefined'')"
proof -
  have "0 < q" using assms(2) by (metis effective_scale_range jsnum.inject)
  then have "trunc_rat q = 0" using assms(3) by (simp add: trunc_rat_def floor_eq_iff)
  then have t: "toFixed (Fin r) (Fin q) = Inr (sign_text r @ dec (fixed_int \<bar>r\<bar> 0))"
    using assms(1) by (simp add: toFixed_def Let_def not_le sign_text_def to_fixed_mag_def)
  have "46 \<notin> set (sign_text r @ dec (fixed_int \<bar>r\<bar> 0))"
    using digits_no_dot by (auto simp: sign_text_def)
  then have "split_on 46 (sign_text r @ dec (fixed_int \<bar>r\<bar> 0)) =
      [sign_text r @ dec (fixed_int \<bar>r\<bar> 0)]" by (rule split_on_free)
  then show ?thesis
    using t assms(2)
    by (simp add: formatNumber_def Let_def group_loop_commas del: split_on_nth_0)
qed

theorem formatNumber_fractional_scale_witness:
  "formatNumber (Num (Fin 12)) (Num (Fin (1/2))) = Inr (str ''12.undefined'')"
proof -
  have e: "effective_scale (Num (Fin (1/2))) = Fin (1/2)"
    by (simp add: effective_scale_def num_le_def)
  have "fixed_int 12 0 = 12" by (simp add: fixed_int_def floor_eq_iff)
  then show ?thesis
    using formatNumber_fractional_scale [of 12, OF _ e]
    by (simp add: sign_text_def dec.simps digit_def commas.simps)
qed

text \<open>
  NaN and the infinities have no decimal point in their text, so \<open>formatNumber\<close>
  groups the letters and appends \<open>undefined\<close>, with any scale.
\<close>

theorem formatNumber_not_finite:
  "formatNumber (Num NaN) scale = Inr (str ''NaN.undefined'') \<and>
   formatNumber (Num PInf) scale = Inr (str ''In,fin,ity.undefined'') \<and>
   formatNumber (Num NInf) scale = Inr (str ''-In,fin,ity.undefined'')"
proof -
  obtain q where q: "effective_scale scale = Fin q" "0 < q" "q \<le> 20"
    by (rule effective_scale_range)
  then have "toFixed x (effective_scale scale) = Inr (num_to_string x)" if "\<not> is_finite x" for x
    using trunc_rat_range [OF q(2,3)] that by (simp add: toFixed_def)
  then show ?thesis
    by (simp add: formatNumber_def Let_def group_loop_commas [unfolded rev.simps] group_loop.simps)
qed

text \<open>
  \<open>unformatNumber\<close> never looks at its argument: what it returns depends on the global
  \<open>s\<close> alone, and on a page that declares no \<open>s\<close> every call throws a \<open>ReferenceError\<close>.
\<close>

theorem unformatNumber_ignores_argument:
  "unformatNumber g n = unformatNumber g m \<and> unformatNumber None n = Inl ReferenceError"
  by (cases g) (simp_all add: unformatNumber_def)

text \<open>
  C18: with the formatted text in the variable that \<open>unformatNumber\<close> reads, the text of any
  number below \<open>10\<^sup>2\<^sup>1\<close> in magnitude is read back as the double nearest to the number
  rounded to the given decimals, commas and sign included.
\<close>

theorem format_unformat:
  assumes "\<bar>r\<bar> < 10 ^ 21" and "effective_scale scale = Fin (of_nat k)" and "0 < k"
    and "formatNumber (Num (Fin r)) scale = Inr out"
  shows "unformatNumber (Some (Str out)) n =
           Inr (signed_value (r < 0) (of_nat (fixed_int \<bar>r\<bar> k) / 10 ^ k))"
proof -
  let ?N = "fixed_int \<bar>r\<bar> k" and ?i = "dec (fixed_int \<bar>r\<bar> k div 10 ^ k)"
  have keep: "in_class False True [Digit, Range 46 46, Range 45 45] c \<longleftrightarrow>
      \<not> (is_digit c \<or> c = 46 \<or> c = 45)" for c
    by (auto simp: in_class_def case_variants_def)
  have "filter (\<lambda>c. is_digit c \<or> c = 46 \<or> c = 45) ds = ds"
    if "\<And>c. c \<in> set ds \<Longrightarrow> is_digit c" for ds
    using that by (simp add: filter_id_conv)
  note digits_kept = this [OF dec_digits] this [OF pad_dec_digits]
  have sub: "filter p (filter (\<lambda>c. c \<noteq> 44) out) = filter p out" if "\<not> p 44" for p
    by (induction out) (use that in auto)
  have "replace_all False unformat_pattern [] out =
          filter (\<lambda>c. is_digit c \<or> c = 46 \<or> c = 45) (filter (\<lambda>c. c \<noteq> 44) out)"
    by (simp only: unformat_pattern_def replace_class keep not_not)
       (rule sub [symmetric], simp add: is_digit_def)
  also have "\<dots> = sign_text r @ ?i @ str ''.'' @ pad_dec k ?N"
    unfolding formatNumber_fin_commas [OF assms]
    by (simp add: digits_kept sign_text_def)
  finally have t: "replace_all False unformat_pattern [] out =
      (if r < 0 then str ''-'' else []) @ ?i @ str ''.'' @ pad_dec k ?N"
    by (simp add: sign_text_def)
  have ws: "\<not> is_ws c" if "is_digit c \<or> c = 45" for c
    using that by (auto simp: is_digit_def is_ws_def word_le_nat_alt)
  have "strip_start ((if r < 0 then str ''-'' else []) @ ?i @ u) =
      (if r < 0 then str ''-'' else []) @ ?i @ u" for u
  proof (cases ?i)
    case (Cons c cs)
    then have "is_digit c" using dec_digits [of c "?N div 10 ^ k"] by simp
    then show ?thesis using ws [of c] ws [of 45] Cons by (simp add: strip_start_def)
  qed simp
  moreover have "dec_val (?i @ pad_dec k ?N) = ?N"
    by (simp only: dec_val_append dec_val_pad_dec dec_val_dec length_pad_dec div_mult_mod_eq)
  ultimately show ?thesis
    using read_decimal_fixed [of ?i "pad_dec k ?N" "r < 0"] dec_digits pad_dec_digits
    by (simp add: unformatNumber_def parseFloat_def t del: str_simps)
qed

theorem format_unformat_witness:
  "unformatNumber (Some (Str (str ''-12,345.7''))) Undefined = Inr (fl (-123457/10))"
proof -
  have e: "effective_scale (Num (Fin 1)) = Fin (of_nat 1)"
    by (simp add: effective_scale_def num_le_def)
  have N: "fixed_int (12345678/1000) 1 = 123457" by (simp add: fixed_int_def)
  have d: "dec 12345 = str ''12345''" "pad_dec 1 123457 = str ''7''"
    by (simp_all add: dec.simps digit_def)
  have "formatNumber (Num (Fin (-12345678/1000))) (Num (Fin 1)) = Inr (str ''-12,345.7'')"
    using formatNumber_fin [of "-12345678/1000", OF _ e] N d
    by (simp add: sign_text_def commas.simps)
  with e show ?thesis
    using format_unformat [of "-12345678/1000" "Num (Fin 1)" 1 "str ''-12,345.7''" Undefined] N
    by (simp add: signed_value_def)
qed

end
