(* ===== verification/UriCodec.thy ===== *)
theory UriCodec
  imports JsValue
begin

text \<open>
  \<open>encodeURIComponent\<close> and \<open>decodeURIComponent\<close>, which the cookie operator applies to the
  values it writes and reads, after the algorithms \<open>Encode\<close> and \<open>Decode\<close> of the language
  specification: UTF-16 to code points, UTF-8 octets, percent escapes.  A string with an
  unpaired surrogate, a malformed escape and octets that are not UTF-8 throw \<open>URIError\<close>.
\<close>

subsection \<open>UTF-16\<close>

definition is_high :: "jsunit \<Rightarrow> bool" where
  "is_high c \<longleftrightarrow> 0xD800 \<le> unat c \<and> unat c \<le> 0xDBFF"

definition is_low :: "jsunit \<Rightarrow> bool" where
  "is_low c \<longleftrightarrow> 0xDC00 \<le> unat c \<and> unat c \<le> 0xDFFF"

fun code_points :: "jsstr \<Rightarrow> nat list option" where
  "code_points [] = Some []"
| "code_points (c # cs) =
     (if is_low c then None
      else if is_high c then
        (case cs of
           [] \<Rightarrow> None
         | d # ds \<Rightarrow>
             if is_low d
             then map_option (Cons ((unat c - 0xD800) * 0x400 + (unat d - 0xDC00) + 0x10000))
                    (code_points ds)
             else None)
      else map_option (Cons (unat c)) (code_points cs))"

definition utf16 :: "nat \<Rightarrow> jsstr" where
  "utf16 cp =
     (if cp < 0x10000 then [of_nat cp]
      else [of_nat (0xD800 + (cp - 0x10000) div 0x400), of_nat (0xDC00 + (cp - 0x10000) mod 0x400)])"

text \<open>The code points that have a UTF-8 encoding.\<close>

definition is_scalar :: "nat \<Rightarrow> bool" where
  "is_scalar cp \<longleftrightarrow> cp < 0xD800 \<or> (0xE000 \<le> cp \<and> cp \<le> 0x10FFFF)"

subsection \<open>UTF-8\<close>

definition utf8 :: "nat \<Rightarrow> nat list" where
  "utf8 cp =
     (if cp < 0x80 then [cp]
      else if cp < 0x800 then [0xC0 + cp div 0x40, 0x80 + cp mod 0x40]
      else if cp < 0x10000 then
        [0xE0 + cp div 0x1000, 0x80 + cp div 0x40 mod 0x40, 0x80 + cp mod 0x40]
      else
        [0xF0 + cp div 0x40000, 0x80 + cp div 0x1000 mod 0x40, 0x80 + cp div 0x40 mod 0x40,
         0x80 + cp mod 0x40])"

subsection \<open>Encode\<close>

definition hex_digit :: "nat \<Rightarrow> jsunit" where
  "hex_digit d = (if d < 10 then of_nat (48 + d) else of_nat (55 + d))"

definition pct :: "nat \<Rightarrow> jsstr" where
  "pct b = [37, hex_digit (b div 16), hex_digit (b mod 16)]"

text \<open>ASCII letters, digits and the marks that are left alone.\<close>

definition uri_unescaped :: "jsunit \<Rightarrow> bool" where
  "uri_unescaped c \<longleftrightarrow>
     (65 \<le> c \<and> c \<le> 90) \<or> (97 \<le> c \<and> c \<le> 122) \<or> is_digit c \<or> c \<in> set (str ''-_.!~*'' @ [39, 40, 41])"

definition encode_cp :: "nat \<Rightarrow> jsstr" where
  "encode_cp cp =
     (if cp < 0x80 \<and> uri_unescaped (of_nat cp) then [of_nat cp]
      else concat (map pct (utf8 cp)))"

definition encodeURIComponent :: "jsstr \<Rightarrow> jsstr result" where
  "encodeURIComponent s =
     (case code_points s of
        None \<Rightarrow> Inl URIError
      | Some cps \<Rightarrow> Inr (concat (map encode_cp cps)))"

subsection \<open>Decode\<close>

text \<open>Two hexadecimal digits; a continuation octet; the number of continuation octets and
  the payload of a leading octet.\<close>

fun octet :: "jsstr \<Rightarrow> (nat \<times> jsstr) option" where
  "octet (c # d # r) =
     (case (hex_val c, hex_val d) of
        (Some x, Some y) \<Rightarrow> Some (16 * x + y, r)
      | _ \<Rightarrow> None)"
| "octet _ = None"

fun continuation :: "nat \<Rightarrow> nat \<Rightarrow> jsstr \<Rightarrow> (nat \<times> jsstr) option" where
  "continuation 0 a s = Some (a, s)"
| "continuation (Suc n) a [] = None"
| "continuation (Suc n) a (c # s) =
     (if c \<noteq> 37 then None
      else (case octet s of
              None \<Rightarrow> None
            | Some (b, r) \<Rightarrow>
                if 0x80 \<le> b \<and> b < 0xC0 then continuation n (a * 0x40 + (b - 0x80)) r
                else None))"

definition leading :: "nat \<Rightarrow> (nat \<times> nat) option" where
  "leading b =
     (if 0xC0 \<le> b \<and> b < 0xE0 then Some (1, b - 0xC0)
      else if 0xE0 \<le> b \<and> b < 0xF0 then Some (2, b - 0xE0)
      else if 0xF0 \<le> b \<and> b < 0xF8 then Some (3, b - 0xF0)
      else None)"

text \<open>Overlong forms, surrogates and values above \<open>0x10FFFF\<close> are not UTF-8.\<close>

definition utf8_valid :: "nat \<Rightarrow> nat \<Rightarrow> bool" where
  "utf8_valid n cp \<longleftrightarrow> is_scalar cp \<and> length (utf8 cp) = Suc n"

definition escape :: "jsstr \<Rightarrow> (nat \<times> jsstr) option" where
  "escape s =
     (case octet s of
        None \<Rightarrow> None
      | Some (b, r) \<Rightarrow>
          if b < 0x80 then Some (b, r)
          else (case leading b of
                  None \<Rightarrow> None
                | Some (n, p) \<Rightarrow>
                    (case continuation n p r of
                       None \<Rightarrow> None
                     | Some (cp, r') \<Rightarrow> if utf8_valid n cp then Some (cp, r') else None)))"

lemma octet_shorter: "octet s = Some (b, r) \<Longrightarrow> length r < length s"
  by (induction s rule: octet.induct) (auto split: option.splits)

lemma continuation_shorter: "continuation n a s = Some (cp, r) \<Longrightarrow> length r \<le> length s"
  by (induction n a s rule: continuation.induct)
     (fastforce split: if_splits option.splits dest!: octet_shorter)+

lemma escape_shorter: "escape s = Some (cp, r) \<Longrightarrow> length r < length s"
  unfolding escape_def
  by (auto split: if_splits option.splits prod.splits
      dest!: octet_shorter continuation_shorter)

function decodeURIComponent :: "jsstr \<Rightarrow> jsstr result" where
  "decodeURIComponent [] = Inr []"
| "decodeURIComponent (c # s) =
     (if c \<noteq> 37 then bind_result (decodeURIComponent s) (\<lambda>t. Inr (c # t))
      else (case escape s of
              None \<Rightarrow> Inl URIError
            | Some (cp, r) \<Rightarrow> bind_result (decodeURIComponent r) (\<lambda>t. Inr (utf16 cp @ t))))"
  by pat_completeness auto
termination
  by (relation "measure length") (auto dest: escape_shorter)

subsection \<open>The round trip\<close>

lemma hex_val_hex_digit: "d < 16 \<Longrightarrow> hex_val (hex_digit d) = Some d"
proof -
  assume "d < 16"
  moreover have "\<forall>d \<in> set [0..<16]. hex_val (hex_digit d) = Some d"
    by (simp add: upt_rec hex_val_def hex_digit_def is_digit_def digit_val_def)
  ultimately show ?thesis by simp
qed

lemma octet_pct: "b < 256 \<Longrightarrow> octet (hex_digit (b div 16) # hex_digit (b mod 16) # r) = Some (b, r)"
proof -
  assume b: "b < 256"
  then have "b div 16 < 16" by simp
  then show ?thesis by (simp add: hex_val_hex_digit)
qed

lemma continuation_pct:
  "b < 0x40 \<Longrightarrow>
     continuation (Suc n) a (pct (0x80 + b) @ r) = continuation n (a * 0x40 + b) r"
  using octet_pct [of "0x80 + b"] by (simp add: pct_def del: octet.simps)

lemma utf8_lead:
  assumes "0x80 \<le> cp" and "cp \<le> 0x10FFFF"
  obtains n p bs where "utf8 cp = ((if n = 1 then 0xC0 else if n = 2 then 0xE0 else 0xF0) + p) #
      map (\<lambda>b. 0x80 + b) bs"
    and "length bs = n" and "n \<in> {1, 2, 3}" and "\<forall>b \<in> set bs. b < 0x40"
    and "p < (if n = 1 then 0x20 else if n = 2 then 0x10 else 0x8)"
    and "foldl (\<lambda>a b. a * 0x40 + b) p bs = cp"
proof -
  consider "cp < 0x800" | "0x800 \<le> cp" "cp < 0x10000" | "0x10000 \<le> cp" by linarith
  then show ?thesis
  proof cases
    case 1
    then show ?thesis
      by (intro that [of 1 "cp div 0x40" "[cp mod 0x40]"])
         (use assms in \<open>auto simp: utf8_def div_less_iff_less_mult\<close>)
  next
    case 2
    have "cp div 0x1000 = cp div 0x40 div 0x40" by (simp add: div_mult2_eq [symmetric])
    with 2 show ?thesis
      by (intro that [of 2 "cp div 0x1000" "[cp div 0x40 mod 0x40, cp mod 0x40]"])
         (auto simp: utf8_def div_less_iff_less_mult)
  next
    case 3
    have "cp div 0x1000 = cp div 0x40 div 0x40" "cp div 0x40000 = cp div 0x40 div 0x40 div 0x40"
      by (simp_all add: div_mult2_eq [symmetric])
    with 3 assms(2) show ?thesis
      by (intro that [of 3 "cp div 0x40000"
            "[cp div 0x1000 mod 0x40, cp div 0x40 mod 0x40, cp mod 0x40]"])
         (auto simp: utf8_def div_less_iff_less_mult)
  qed
qed

lemma continuation_map:
  "\<forall>b \<in> set bs. b < 0x40 \<Longrightarrow>
     continuation (length bs) a (concat (map pct (map (\<lambda>b. 0x80 + b) bs)) @ r) =
       Some (foldl (\<lambda>a b. a * 0x40 + b) a bs, r)"
proof (induction bs arbitrary: a)
  case (Cons b bs)
  then show ?case
    using continuation_pct [of b "length bs" a]
    by (simp del: continuation.simps)
qed simp

lemma escape_utf8:
  assumes "is_scalar cp"
  shows "\<exists>s. concat (map pct (utf8 cp)) = 37 # s \<and> (\<forall>r. escape (s @ r) = Some (cp, r))"
proof (cases "cp < 0x80")
  case True
  then have "escape (hex_digit (cp div 16) # hex_digit (cp mod 16) # r) = Some (cp, r)" for r
    using octet_pct [of cp] by (simp add: escape_def del: octet.simps)
  then show ?thesis using True by (simp add: utf8_def pct_def)
next
  case False
  with assms have cp: "0x80 \<le> cp" "cp \<le> 0x10FFFF" by (auto simp: is_scalar_def)
  obtain n p bs where u: "utf8 cp = ((if n = 1 then 0xC0 else if n = 2 then 0xE0 else 0xF0) + p) #
      map (\<lambda>b. 0x80 + b) bs"
    and n: "length bs = n" "n \<in> {1, 2, 3}" and bs: "\<forall>b \<in> set bs. b < 0x40"
    and p: "p < (if n = 1 then 0x20 else if n = 2 then 0x10 else 0x8)"
    and f: "foldl (\<lambda>a b. a * 0x40 + b) p bs = cp"
    using cp by (rule utf8_lead)
  define b0 where "b0 = (if n = 1 then 0xC0 else if n = 2 then 0xE0 else 0xF0) + p"
  have b0: "b0 < 256" "\<not> b0 < 0x80" and lead: "leading b0 = Some (n, p)"
    using n(2) p by (auto simp: b0_def leading_def)
  have valid: "utf8_valid n cp"
    using assms n(1) u by (simp add: utf8_valid_def)
  let ?s = "hex_digit (b0 div 16) # hex_digit (b0 mod 16) # concat (map pct (map (\<lambda>b. 0x80 + b) bs))"
  have "escape (?s @ r) = Some (cp, r)" for r
    using octet_pct [OF b0(1)] b0(2) lead continuation_map [OF bs, of p r] valid
    by (simp add: escape_def n(1) f del: octet.simps)
  moreover have "concat (map pct (utf8 cp)) = 37 # ?s"
    unfolding u b0_def [symmetric] by (simp add: pct_def)
  ultimately show ?thesis by blast
qed

lemma utf16_ascii: "cp < 0x80 \<Longrightarrow> utf16 cp = [of_nat cp]"
  by (simp add: utf16_def)

lemma decode_encode_cp:
  assumes "is_scalar cp"
  shows "decodeURIComponent (encode_cp cp @ r) =
           bind_result (decodeURIComponent r) (\<lambda>t. Inr (utf16 cp @ t))"
proof (cases "cp < 0x80 \<and> uri_unescaped (of_nat cp)")
  case True
  then have "(of_nat cp :: jsunit) \<noteq> 37"
    by (auto simp: uri_unescaped_def is_digit_def)
  with True show ?thesis by (simp add: encode_cp_def utf16_ascii)
next
  case False
  obtain s where s: "concat (map pct (utf8 cp)) = 37 # s" "\<And>r. escape (s @ r) = Some (cp, r)"
    using escape_utf8 [OF assms] by blast
  have e: "encode_cp cp = 37 # s" using False s(1) by (auto simp: encode_cp_def)
  show ?thesis by (simp add: e s(2))
qed

lemma decode_encode_cps:
  "\<forall>cp \<in> set cps. is_scalar cp \<Longrightarrow>
     decodeURIComponent (concat (map encode_cp cps)) = Inr (concat (map utf16 cps))"
  by (induction cps) (simp_all add: decode_encode_cp)

lemma unat_unit_less: "unat (c :: jsunit) < 65536"
  using unsigned_less [of c] by simp

lemma utf16_single: "utf16 (unat c) = [c]"
  using unat_unit_less [of c] by (simp add: utf16_def)

lemma utf16_pair:
  assumes "is_high c" and "is_low d"
  shows "utf16 ((unat c - 0xD800) * 0x400 + (unat d - 0xDC00) + 0x10000) = [c, d]"
proof -
  have c: "0xD800 + (unat c - 0xD800) = unat c" and d: "0xDC00 + (unat d - 0xDC00) = unat d"
    and l: "unat d - 0xDC00 < 0x400"
    using assms by (auto simp: is_high_def is_low_def)
  have "utf16 ((unat c - 0xD800) * 0x400 + (unat d - 0xDC00) + 0x10000) =
      [of_nat (0xD800 + (unat c - 0xD800)), of_nat (0xDC00 + (unat d - 0xDC00))]"
    using l by (simp add: utf16_def del: of_nat_add)
  then show ?thesis unfolding c d by simp
qed

lemma code_points_utf16:
  "code_points s = Some cps \<Longrightarrow> concat (map utf16 cps) = s \<and> (\<forall>cp \<in> set cps. is_scalar cp)"
proof (induction s arbitrary: cps rule: code_points.induct)
  case 1
  then show ?case by simp
next
  case (2 c cs)
  have low: "\<not> is_low c" using "2.prems" by (auto split: if_splits)
  show ?case
  proof (cases "is_high c")
    case True
    then obtain d ds where cs: "cs = d # ds" and d: "is_low d"
      using "2.prems" low by (auto split: list.splits if_splits)
    then obtain cps' where c': "code_points ds = Some cps'"
      "cps = ((unat c - 0xD800) * 0x400 + (unat d - 0xDC00) + 0x10000) # cps'"
      using "2.prems" low True by auto
    have "is_scalar ((unat c - 0xD800) * 0x400 + (unat d - 0xDC00) + 0x10000)"
      using True d by (auto simp: is_scalar_def is_high_def is_low_def)
    then show ?thesis
      using "2.IH"(1) [OF low True cs d c'(1)] c' utf16_pair [OF True d] cs by simp
  next
    case False
    then obtain cps' where c': "code_points cs = Some cps'" "cps = unat c # cps'"
      using "2.prems" low by auto
    have "is_scalar (unat c)"
      using low False unat_unit_less [of c]
      by (auto simp: is_scalar_def is_high_def is_low_def)
    then show ?thesis
      using "2.IH"(2) [OF low False c'(1)] c' by (simp add: utf16_single)
  qed
qed

lemma decode_encode:
  "encodeURIComponent s = Inr t \<Longrightarrow> decodeURIComponent t = Inr s"
  by (auto simp: encodeURIComponent_def decode_encode_cps split: option.splits
      dest!: code_points_utf16)

text \<open>Encoding fails exactly on an unpaired surrogate.\<close>

fun well_formed :: "jsstr \<Rightarrow> bool" where
  "well_formed [] = True"
| "well_formed [c] = (\<not> is_high c \<and> \<not> is_low c)"
| "well_formed (c # d # ds) =
     (if is_high c then is_low d \<and> well_formed ds else \<not> is_low c \<and> well_formed (d # ds))"

lemma high_not_low: "is_high c \<Longrightarrow> \<not> is_low c"
  by (auto simp: is_high_def is_low_def)

lemma code_points_defined: "(\<exists>cps. code_points s = Some cps) \<longleftrightarrow> well_formed s"
  by (induction s rule: well_formed.induct) (auto dest: high_not_low)

lemma encode_defined: "(\<exists>t. encodeURIComponent s = Inr t) \<longleftrightarrow> well_formed s"
  by (auto simp: encodeURIComponent_def code_points_defined [symmetric] split: option.splits)

text \<open>The alphabet of encoded text: nothing in it separates cookies or their parts.\<close>

lemma hex_digit_unescaped: "d < 16 \<Longrightarrow> uri_unescaped (hex_digit d)"
proof -
  assume "d < 16"
  moreover have "\<forall>d \<in> set [0..<16]. uri_unescaped (hex_digit d)"
    by (simp add: upt_rec hex_digit_def uri_unescaped_def is_digit_def)
  ultimately show ?thesis by simp
qed

lemma utf8_byte: "is_scalar cp \<Longrightarrow> b \<in> set (utf8 cp) \<Longrightarrow> b < 256"
  by (auto simp: utf8_def is_scalar_def div_less_iff_less_mult split: if_splits)

lemma encode_cp_alphabet:
  assumes "is_scalar cp" and "c \<in> set (encode_cp cp)"
  shows "c = 37 \<or> uri_unescaped c"
proof -
  have "c = 37 \<or> uri_unescaped c" if "b \<in> set (utf8 cp)" "c \<in> set (pct b)" for b
    using utf8_byte [OF assms(1) that(1)] that(2)
    by (auto simp: pct_def intro: hex_digit_unescaped)
  then show ?thesis using assms(2) by (auto simp: encode_cp_def split: if_splits)
qed

lemma encode_alphabet:
  assumes "encodeURIComponent s = Inr t" and "c \<in> set t"
  shows "c = 37 \<or> uri_unescaped c"
proof -
  obtain cps where cps: "code_points s = Some cps" and t: "t = concat (map encode_cp cps)"
    using assms(1) by (auto simp: encodeURIComponent_def split: option.splits)
  then obtain cp where cp: "cp \<in> set cps" "c \<in> set (encode_cp cp)" using assms(2) by auto
  then have "is_scalar cp" using code_points_utf16 [OF cps] by blast
  then show ?thesis using cp(2) by (rule encode_cp_alphabet)
qed

lemma encode_safe:
  assumes "encodeURIComponent s = Inr t" and "c \<in> set t"
  shows "c \<noteq> 59 \<and> c \<noteq> 61 \<and> c \<noteq> 44 \<and> \<not> is_ws c"
  using encode_alphabet [OF assms]
  by (auto simp: uri_unescaped_def is_digit_def is_ws_def word_le_nat_alt)

end
