(* ===== verification/JsDate.thy ===== *)
theory JsDate
  imports JsValue
begin

text \<open>
  The part of \<open>Date\<close> that the cookie operator uses: a time value is a number of milliseconds
  since 1 January 1970 UTC, an integer of magnitude at most \<open>8.64 * 10\<^sup>1\<^sup>5\<close> or NaN.
  \<open>setTime\<close> clips its argument, \<open>toUTCString\<close> prints the fields of the proleptic Gregorian
  calendar.
\<close>

definition time_clip :: "jsnum \<Rightarrow> jsnum" where
  "time_clip x =
     (if is_finite x \<and> \<bar>num_val x\<bar> \<le> 8640000000000000
      then Fin (of_int (trunc_rat (num_val x))) else NaN)"

definition ms_per_day :: int where "ms_per_day = 86400000"

subsection \<open>The calendar\<close>

text \<open>The day number of 1 January of a year.\<close>

definition day_from_year :: "int \<Rightarrow> int" where
  "day_from_year y =
     365 * (y - 1970) + (y - 1969) div 4 - (y - 1901) div 100 + (y - 1601) div 400"

definition leap_year :: "int \<Rightarrow> bool" where
  "leap_year y \<longleftrightarrow> y mod 4 = 0 \<and> (y mod 100 \<noteq> 0 \<or> y mod 400 = 0)"

definition days_in_year :: "int \<Rightarrow> int" where
  "days_in_year y = (if leap_year y then 366 else 365)"

text \<open>The largest year whose first day is not after the given day: an estimate by the mean
  length of a year, which is off by at most one.\<close>

definition year_from_day :: "int \<Rightarrow> int" where
  "year_from_day d =
     (let y = 1970 + (400 * d) div 146097
      in if d < day_from_year y then y - 1
         else if day_from_year (y + 1) \<le> d then y + 1 else y)"

definition month_lengths :: "int \<Rightarrow> int list" where
  "month_lengths y = [31, if leap_year y then 29 else 28, 31, 30, 31, 30, 31, 31, 30, 31, 30, 31]"

fun month_and_day :: "nat \<Rightarrow> int \<Rightarrow> int list \<Rightarrow> nat \<times> int" where
  "month_and_day m d [] = (m, d)"
| "month_and_day m d (l # ls) = (if d < l then (m, d + 1) else month_and_day (Suc m) (d - l) ls)"

definition month_names :: "jsstr list" where
  "month_names = [str ''Jan'', str ''Feb'', str ''Mar'', str ''Apr'', str ''May'', str ''Jun'',
                  str ''Jul'', str ''Aug'', str ''Sep'', str ''Oct'', str ''Nov'', str ''Dec'']"

definition day_names :: "jsstr list" where
  "day_names = [str ''Sun'', str ''Mon'', str ''Tue'', str ''Wed'', str ''Thu'', str ''Fri'', str ''Sat'']"

definition pad_year :: "int \<Rightarrow> jsstr" where
  "pad_year y =
     (let ds = dec (nat \<bar>y\<bar>)
      in (if y < 0 then str ''-'' else []) @ replicate (4 - length ds) (digit 0) @ ds)"

definition utc_string :: "int \<Rightarrow> jsstr" where
  "utc_string t =
     (let day = t div ms_per_day; ms = t mod ms_per_day;
          y = year_from_day day;
          (m, d) = month_and_day 0 (day - day_from_year y) (month_lengths y);
          hh = ms div 3600000; mm = ms div 60000 mod 60; ss = ms div 1000 mod 60
      in day_names ! nat ((day + 4) mod 7) @ str '', '' @ pad_dec 2 (nat d) @ str '' '' @
         month_names ! m @ str '' '' @ pad_year y @ str '' '' @
         pad_dec 2 (nat hh) @ str '':'' @ pad_dec 2 (nat mm) @ str '':'' @ pad_dec 2 (nat ss) @
         str '' GMT'')"

definition toUTCString :: "jsnum \<Rightarrow> jsstr" where
  "toUTCString tv =
     (case tv of Fin r \<Rightarrow> utc_string \<lfloor>r\<rfloor> | NegZero \<Rightarrow> utc_string 0 | _ \<Rightarrow> str ''Invalid Date'')"

lemma div_step:
  fixes z k :: int
  assumes "0 < k"
  shows "(z + 1) div k = z div k + (if k dvd z + 1 then 1 else 0)"
proof -
  have z: "z = k * (z div k) + z mod k" by simp
  have r: "0 \<le> z mod k" "z mod k < k" using assms by simp_all
  show ?thesis
  proof (cases "z mod k + 1 = k")
    case True
    then have "z + 1 = k * (z div k) + k" using z by linarith
    then have e: "z + 1 = k * (z div k + 1)" by (simp add: algebra_simps)
    then have "k dvd z + 1" by (metis dvd_triv_left)
    moreover have "(z + 1) div k = z div k + 1" unfolding e using assms by simp
    ultimately show ?thesis by simp
  next
    case False
    then have lt: "z mod k + 1 < k" using r by linarith
    have e: "z + 1 = k * (z div k) + (z mod k + 1)" using z by linarith
    have "(z + 1) div k = z div k"
      using r lt by (intro int_div_pos_eq [OF e]) auto
    moreover have "(z + 1) mod k = z mod k + 1"
      using r lt by (intro int_mod_pos_eq [OF e]) auto
    then have "\<not> k dvd z + 1" using r by (auto simp: dvd_eq_mod_eq_0)
    ultimately show ?thesis by simp
  qed
qed

lemma day_from_year_step: "day_from_year (y + 1) = day_from_year y + days_in_year y"
proof -
  have "4 dvd y - 1968 \<longleftrightarrow> 4 dvd y"
    by (rule dvd_diff_left_iff) simp
  then have a: "(y + 1 - 1969) div 4 = (y - 1969) div 4 + (if 4 dvd y then 1 else 0)"
    using div_step [of 4 "y - 1969"] by (simp add: algebra_simps)
  have "100 dvd y - 1900 \<longleftrightarrow> 100 dvd y"
    by (rule dvd_diff_left_iff) simp
  then have b: "(y + 1 - 1901) div 100 = (y - 1901) div 100 + (if 100 dvd y then 1 else 0)"
    using div_step [of 100 "y - 1901"] by (simp add: algebra_simps)
  have "400 dvd y - 1600 \<longleftrightarrow> 400 dvd y"
    by (rule dvd_diff_left_iff) simp
  then have c: "(y + 1 - 1601) div 400 = (y - 1601) div 400 + (if 400 dvd y then 1 else 0)"
    using div_step [of 400 "y - 1601"] by (simp add: algebra_simps)
  have d: "400 dvd y \<longrightarrow> 100 dvd y" "100 dvd y \<longrightarrow> 4 dvd y"
    using dvd_trans [of 100 400 y] dvd_trans [of 4 100 y] by simp_all
  define A B C where "A = (y - 1969) div 4" and "B = (y - 1901) div 100"
    and "C = (y - 1601) div 400"
  have l: "leap_year y \<longleftrightarrow> 4 dvd y \<and> (\<not> 100 dvd y \<or> 400 dvd y)"
    by (simp add: leap_year_def dvd_eq_mod_eq_0)
  show ?thesis
    unfolding day_from_year_def days_in_year_def a b c l A_def [symmetric] B_def [symmetric]
      C_def [symmetric]
    by (cases "4 dvd y"; cases "100 dvd y"; cases "400 dvd y") (use d in simp_all)
qed

text \<open>The year found contains the day.\<close>

lemma year_from_day_bounds:
  "day_from_year (year_from_day d) \<le> d \<and> d < day_from_year (year_from_day d + 1)"
proof -
  define q where "q = (400 * d) div 146097"
  have qb: "146097 * q \<le> 400 * d" "400 * d < 146097 * q + 146097"
    unfolding q_def by linarith+
  have dl: "k * (x div k) \<le> x" if "0 < k" for x k :: int
    using that pos_mod_sign [of k x] mult_div_mod_eq [of k x] by linarith
  have du: "x < k * (x div k) + k" if "0 < k" for x k :: int
    using that pos_mod_bound [of k x] mult_div_mod_eq [of k x] by linarith
  note dv4 = dl [of 4, OF zero_less_numeral] du [of 4, OF zero_less_numeral]
  note dv100 = dl [of 100, OF zero_less_numeral] du [of 100, OF zero_less_numeral]
  note dv400 = dl [of 400, OF zero_less_numeral] du [of 400, OF zero_less_numeral]
  let ?y = "1970 + q"
  have lo: "day_from_year (?y - 1) \<le> d"
  proof -
    define a b c where "a = (?y - 1 - 1969) div 4" and "b = (?y - 1 - 1901) div 100"
      and "c = (?y - 1 - 1601) div 400"
    have "4 * a \<le> q" "q + 68 < 100 * b + 100" "400 * c \<le> q + 368"
      using dv4(1) [of "?y - 1 - 1969"] dv100(2) [of "?y - 1 - 1901"] dv400(1) [of "?y - 1 - 1601"]
      unfolding a_def b_def c_def by simp_all
    with qb have "365 * (q - 1) + a - b + c \<le> d" by (smt (verit))
    then show ?thesis by (simp add: day_from_year_def a_def b_def c_def)
  qed
  have hi: "d < day_from_year (?y + 2)"
  proof -
    define a b c where "a = (?y + 2 - 1969) div 4" and "b = (?y + 2 - 1901) div 100"
      and "c = (?y + 2 - 1601) div 400"
    have "q + 3 < 4 * a + 4" "100 * b \<le> q + 71" "q + 371 < 400 * c + 400"
      using dv4(2) [of "?y + 2 - 1969"] dv100(1) [of "?y + 2 - 1901"] dv400(2) [of "?y + 2 - 1601"]
      unfolding a_def b_def c_def by simp_all
    with qb have "d < 365 * (q + 2) + a - b + c" by (smt (verit))
    then show ?thesis by (simp add: day_from_year_def a_def b_def c_def)
  qed
  show ?thesis
    using lo hi by (auto simp: year_from_day_def Let_def q_def add.commute)
qed

end
