(* ===== verification/Cookie.thy ===== *)
theory Cookie
  imports UriCodec JsDate
begin

text \<open>
  \<open>scripts/comm/base.js\<close>, lines 44 to 97: \<open>jadeUtils.cookieOperator\<close>.  One function writes
  a cookie (when it gets a value), deletes it (when the value is null) and reads it (when
  the value is undefined).  The browser is outside the script: the getter of
  \<open>document.cookie\<close> is an argument, the assignment to it a result, and the clock an
  argument.  The options are an object of the caller, and a deletion writes to it.
\<close>

subsection \<open>The options object and the results\<close>

text \<open>\<open>expires\<close> holds a primitive or a \<open>Date\<close>, the other properties primitives; a property
  that the caller did not set is \<open>Undefined\<close>.\<close>

datatype expiry = Plain prim | Date jsnum

record cookie_options =
  expires :: expiry
  path :: prim
  domain :: prim
  secure :: prim

definition no_options :: cookie_options where
  "no_options = \<lparr>expires = Plain Undefined, path = Undefined, domain = Undefined, secure = Undefined\<rparr>"

text \<open>What a call does: the string it assigns to \<open>document.cookie\<close>, if any, the options
  object after the call, and what it returns or throws.\<close>

record cookie_call =
  assigned :: "jsstr option"
  options_after :: "cookie_options option"
  returned :: "prim result"

subsection \<open>Writing\<close>

text \<open>\<open>date.getTime() + options.expires * 24 * 60 * 60 * 1000\<close>, clipped by \<open>setTime\<close>.\<close>

definition expiry_time :: "jsnum \<Rightarrow> jsnum \<Rightarrow> jsnum" where
  "expiry_time now days =
     time_clip
       (now + (days * Fin 24 * Fin 60 * Fin 60 * Fin 1000))"

text \<open>A number is days from now, an object with \<open>toUTCString\<close> is a date; zero, NaN and other
  primitives give no attribute.\<close>

definition expires_attribute :: "jsnum \<Rightarrow> expiry \<Rightarrow> jsstr" where
  "expires_attribute now e =
     (case e of
        Plain (Num d) \<Rightarrow>
          if num_truthy d then str '';expires='' @ toUTCString (expiry_time now d) else []
      | Plain _ \<Rightarrow> []
      | Date tv \<Rightarrow> str '';expires='' @ toUTCString tv)"

definition attribute :: "string \<Rightarrow> prim \<Rightarrow> jsstr" where
  "attribute key v = (if prim_truthy v then str key @ to_string v else [])"

definition cookie_attributes :: "jsnum \<Rightarrow> cookie_options \<Rightarrow> jsstr" where
  "cookie_attributes now opts =
     expires_attribute now (expires opts) @ attribute '';path='' (path opts) @
     attribute '';domain='' (domain opts) @
     (if prim_truthy (secure opts) then str '';secure'' else [])"

definition write_cookie ::
  "jsnum \<Rightarrow> jsstr \<Rightarrow> prim \<Rightarrow> cookie_options option \<Rightarrow> cookie_call" where
  "write_cookie now name v options =
     (let opts = (case options of None \<Rightarrow> no_options | Some opts \<Rightarrow> opts);
          v' = (if v = Null then Str [] else v);
          opts' = (if v = Null then opts\<lparr>expires := Plain (Num (Fin (- 1)))\<rparr> else opts);
          after = map_option (\<lambda>_. opts') options
      in case encodeURIComponent (to_string v') of
           Inl e \<Rightarrow> \<lparr>assigned = None, options_after = after, returned = Inl e\<rparr>
         | Inr enc \<Rightarrow>
             \<lparr>assigned = Some (name @ str ''='' @ enc @ cookie_attributes now opts'),
              options_after = after, returned = Inr Undefined\<rparr>)"

subsection \<open>Reading\<close>

text \<open>\<open>jQuery.trim\<close> calls the built-in \<open>trim\<close>.\<close>

definition jQuery_trim :: "jsstr \<Rightarrow> jsstr" where
  "jQuery_trim s = strip s"

text \<open>The loop over the cookies, which stops at the first one that starts with the name and
  an equals sign.\<close>

fun find_cookie :: "(jsstr \<Rightarrow> jsstr result) \<Rightarrow> jsstr \<Rightarrow> jsstr list \<Rightarrow> prim result" where
  "find_cookie decode name [] = Inr Null"
| "find_cookie decode name (c # cs) =
     (let cookie = jQuery_trim c
      in if substring cookie 0 (length name + 1) = name @ str ''=''
         then bind_result (decode (substring_from cookie (length name + 1))) (\<lambda>v. Inr (Str v))
         else find_cookie decode name cs)"

definition read_cookie :: "jsstr \<Rightarrow> jsstr \<Rightarrow> prim result" where
  "read_cookie document_cookie name =
     (if document_cookie \<noteq> []
      then find_cookie decodeURIComponent name (split_on 59 document_cookie)
      else Inr Null)"

definition cookieOperator ::
  "jsnum \<Rightarrow> jsstr \<Rightarrow> jsstr \<Rightarrow> prim \<Rightarrow> cookie_options option \<Rightarrow> cookie_call" where
  "cookieOperator now document_cookie name v options =
     (if v \<noteq> Undefined then write_cookie now name v options
      else \<lparr>assigned = None, options_after = options,
            returned = read_cookie document_cookie name\<rparr>)"

subsection \<open>The interface to the codec\<close>

text \<open>
  Reading needs two promises of the pair of functions that encode and decode a value: what
  was encoded is decoded to itself, and the encoded text holds neither the separator of
  cookies nor white space.
\<close>

locale cookie_codec =
  fixes encode decode :: "jsstr \<Rightarrow> jsstr result"
  assumes decode_encoded: "encode v = Inr t \<Longrightarrow> decode t = Inr v"
    and encoded_separator: "encode v = Inr t \<Longrightarrow> 59 \<notin> set t"
    and encoded_space: "encode v = Inr t \<Longrightarrow> c \<in> set t \<Longrightarrow> \<not> is_ws c"
begin

text \<open>The first cookie of the name wins, and its value is decoded.\<close>

lemma find_skip:
  "\<forall>c \<in> set cs. take (Suc (length name)) (strip c) \<noteq> name @ str ''='' \<Longrightarrow>
     find_cookie decode name (cs @ ds) = find_cookie decode name ds"
  by (induction cs) (auto simp: Let_def jQuery_trim_def)

lemma find_encoded:
  assumes "\<forall>c \<in> set cs. take (Suc (length name)) (strip c) \<noteq> name @ str ''=''"
    and "encode v = Inr t" and "strip c = name @ str ''='' @ t"
  shows "find_cookie decode name (cs @ c # ds) = Inr (Str v)"
  using assms by (simp add: find_skip jQuery_trim_def decode_encoded)

end

interpretation uri: cookie_codec encodeURIComponent decodeURIComponent
proof
  fix v t c
  assume e: "encodeURIComponent v = Inr t"
  show "decodeURIComponent t = Inr v" using e by (rule decode_encode)
  show "59 \<notin> set t" using encode_safe [OF e] by blast
  show "\<not> is_ws c" if "c \<in> set t" using encode_safe [OF e that] by blast
qed

subsection \<open>What a call writes\<close>

lemma attributes_start: "cookie_attributes now opts = [] \<or> (\<exists>r. cookie_attributes now opts = 59 # r)"
  by (auto simp: cookie_attributes_def expires_attribute_def attribute_def
      split: expiry.splits prim.splits)

text \<open>The browser keeps the text before the first semicolon as the cookie.\<close>

definition cookie_pair :: "jsstr \<Rightarrow> jsstr" where
  "cookie_pair w = takeWhile (\<lambda>c. c \<noteq> 59) w"

lemma cookie_pair_written:
  assumes "encodeURIComponent v = Inr t" and "59 \<notin> set name"
  shows "cookie_pair (name @ str ''='' @ t @ cookie_attributes now opts) = name @ str ''='' @ t"
proof -
  have t: "59 \<notin> set t" using assms(1) by (rule uri.encoded_separator)
  have "takeWhile (\<lambda>c. c \<noteq> 59) (u @ cookie_attributes now opts) = u"
    if "59 \<notin> set u" for u
  proof -
    have "takeWhile (\<lambda>c. c \<noteq> 59) (u @ r) = u @ takeWhile (\<lambda>c. c \<noteq> 59) r" for r
      using that by (intro takeWhile_append2) auto
    then show ?thesis using attributes_start [of now opts] by auto
  qed
  from this [of "name @ str ''='' @ t"] show ?thesis
    using t assms(2) by (simp add: cookie_pair_def)
qed

lemma strip_pair:
  assumes "encodeURIComponent v = Inr t" and "name = [] \<or> \<not> is_ws (hd name)"
  shows "strip (name @ str ''='' @ t) = name @ str ''='' @ t"
proof (rule strip_id)
  have eq: "\<not> is_ws 61" by (simp add: is_ws_def word_le_nat_alt)
  show "\<not> is_ws (hd (name @ str ''='' @ t))"
    using assms(2) eq by (cases name) auto
  show "\<not> is_ws (last (name @ str ''='' @ t))"
    using eq uri.encoded_space [OF assms(1), of "last t"] by (cases "t = []") auto
qed simp

lemma strip_space: "strip (32 # c) = strip c"
  by (simp add: strip_def strip_start_def is_ws_def)

text \<open>What the loop sees of the list of cookies that the browser joins by semicolon and space.\<close>

lemma find_in_document:
  assumes "ps \<noteq> []" and "\<forall>p \<in> set ps. 59 \<notin> set p"
  shows "find_cookie d name (split_on 59 (join_with (str ''; '') ps)) = find_cookie d name ps"
proof -
  have "find_cookie d name (map (\<lambda>p. 32 # p) qs) = find_cookie d name qs" for qs
    by (induction qs) (simp_all add: jQuery_trim_def strip_space Let_def)
  then have "find_cookie d name (hd ps # map (\<lambda>p. 32 # p) (tl ps)) = find_cookie d name (hd ps # tl ps)"
    by (simp only: find_cookie.simps)
  then show ?thesis
    using split_on_join_space [OF assms, of "str '' ''"] assms(1) by simp
qed

text \<open>
  C8: a value that \<open>cookieOperator\<close> wrote is the value that it reads back, whatever the
  other cookies of the document are, provided that none before it carries the same name and
  that the name itself is free of semicolons and leading white space.
\<close>

theorem cookie_round_trip:
  assumes "assigned (cookieOperator now doc0 name (Str v) opts0) = Some w"
    and "59 \<notin> set name" and "name = [] \<or> \<not> is_ws (hd name)"
    and "doc = join_with (str ''; '') (before @ cookie_pair w # later)"
    and "\<forall>c \<in> set (before @ later). 59 \<notin> set c"
    and "\<forall>c \<in> set before. take (Suc (length name)) (strip c) \<noteq> name @ str ''=''"
  shows "returned (cookieOperator now' doc name Undefined opts) = Inr (Str v)"
proof -
  obtain t where t: "encodeURIComponent v = Inr t"
    and w: "\<exists>n o'. w = name @ str ''='' @ t @ cookie_attributes n o'"
    using assms(1)
    by (auto simp: cookieOperator_def write_cookie_def Let_def split: sum.splits)
  have p: "cookie_pair w = name @ str ''='' @ t"
    using w cookie_pair_written [OF t assms(2)] by auto
  have "59 \<notin> set t" using t by (rule uri.encoded_separator)
  then have free: "\<forall>c \<in> set (before @ cookie_pair w # later). 59 \<notin> set c"
    using assms(2,5) by (auto simp: p)
  have "find_cookie decodeURIComponent name (before @ cookie_pair w # later) = Inr (Str v)"
    using assms(6) t strip_pair [OF t assms(3)] by (intro uri.find_encoded) (auto simp: p)
  then have "find_cookie decodeURIComponent name (split_on 59 doc) = Inr (Str v)"
    unfolding assms(4) using free by (subst find_in_document) auto
  moreover have "doc \<noteq> []"
    unfolding assms(4) p by (cases before; cases later; cases "tl before") auto
  ultimately show ?thesis
    by (simp add: cookieOperator_def read_cookie_def)
qed

theorem cookie_round_trip_witness:
  "returned (cookieOperator (Fin 0)
      (str ''a=1; lang=zh%3B%E4%B8%AD; b=2'') (str ''lang'') Undefined None) =
   Inr (Str (str ''zh;'' @ [0x4E2D]))"
proof -
  have "encodeURIComponent (str ''zh;'' @ [0x4E2D]) = Inr (str ''zh%3B%E4%B8%AD'')"
    by (simp add: encodeURIComponent_def is_high_def is_low_def encode_cp_def uri_unescaped_def
        is_digit_def utf8_def pct_def hex_digit_def)
  then have "assigned (cookieOperator (Fin 0) [] (str ''lang'') (Str (str ''zh;'' @ [0x4E2D])) None) =
      Some (str ''lang=zh%3B%E4%B8%AD'')"
    by (simp add: cookieOperator_def write_cookie_def no_options_def cookie_attributes_def
        expires_attribute_def attribute_def)
  then show ?thesis
    by (rule cookie_round_trip [where before = "[str ''a=1'']" and later = "[str ''b=2'']"])
       (simp_all add: is_ws_def cookie_pair_def strip_def strip_start_def strip_end_def)
qed

text \<open>
  C27: reading fails to find the cookie (and returns null) exactly when no cookie of the
  document starts with the name and an equals sign; nothing is written by a read, and the
  options are left alone.
\<close>

theorem cookie_read_null:
  assumes "doc = join_with (str ''; '') cs" and "\<forall>c \<in> set cs. 59 \<notin> set c"
  shows "cookieOperator now doc name Undefined opts =
           \<lparr>assigned = None, options_after = opts, returned = Inr Null\<rparr> \<longleftrightarrow>
         (\<forall>c \<in> set cs. take (Suc (length name)) (strip c) \<noteq> name @ str ''='')"
proof -
  have find: "find_cookie decodeURIComponent name ps = Inr Null \<longleftrightarrow>
      (\<forall>c \<in> set ps. take (Suc (length name)) (strip c) \<noteq> name @ str ''='')" for ps
    by (induction ps) (auto simp: Let_def jQuery_trim_def bind_result_Inr_iff)
  have strip_Nil: "strip [] = []" by (simp add: strip_def strip_start_def strip_end_def)
  have "read_cookie doc name = Inr Null \<longleftrightarrow>
      (\<forall>c \<in> set cs. take (Suc (length name)) (strip c) \<noteq> name @ str ''='')"
  proof (cases "doc = []")
    case True
    then have "\<forall>c \<in> set cs. c = []"
      using assms(1) join_with_Nil [of "str ''; ''" cs] by auto
    then show ?thesis using True strip_Nil by (auto simp: read_cookie_def)
  next
    case False
    then have "cs \<noteq> []" using assms(1) by auto
    then show ?thesis
      using False find_in_document [OF _ assms(2)] find
      by (simp add: read_cookie_def assms(1) del: str_simps)
  qed
  then show ?thesis by (simp add: cookieOperator_def)
qed

theorem cookie_read_null_witness:
  "cookieOperator NaN (str ''lang=zh; langs=1'') (str ''lan'') Undefined None =
     \<lparr>assigned = None, options_after = None, returned = Inr Null\<rparr>"
  using cookie_read_null [of "str ''lang=zh; langs=1''" "[str ''lang=zh'', str ''langs=1'']"
      NaN "str ''lan''" None]
  by (simp add: is_ws_def strip_def strip_start_def strip_end_def)

text \<open>
  C28: writing throws exactly when the text of the value has an unpaired surrogate; then the
  exception is a \<open>URIError\<close> and no cookie is assigned.
\<close>

theorem cookie_write_throws:
  assumes "v \<noteq> Undefined"
  shows "let call = cookieOperator now doc name v opts in
         (returned call = Inl e \<longleftrightarrow> e = URIError \<and> v \<noteq> Null \<and> \<not> well_formed (to_string v)) \<and>
         (assigned call = None \<longleftrightarrow> (\<exists>e. returned call = Inl e))"
proof -
  have enc: "encodeURIComponent s = Inl e \<longleftrightarrow> e = URIError \<and> \<not> well_formed s" for s e
    using encode_defined [of s]
    by (auto simp: encodeURIComponent_def split: option.splits)
  have wf: "encodeURIComponent s = Inr t \<Longrightarrow> well_formed s" for s t
    using encode_defined [of s] by blast
  show ?thesis
    using assms(1)
    by (auto simp: cookieOperator_def write_cookie_def Let_def enc dest: wf
        split: sum.splits if_splits)
qed

theorem cookie_write_throws_witness:
  "returned (cookieOperator NaN [] (str ''k'') (Str [0xD800]) None) = Inl URIError"
  using cookie_write_throws [of "Str [0xD800]" NaN "[]" "str ''k''" None URIError]
  by (simp add: is_high_def Let_def)

subsection \<open>Expiry\<close>

lemma expiry_whole_days:
  assumes "d \<noteq> 0" and "\<bar>d\<bar> \<le> 10 ^ 8" and "\<bar>t + d * ms_per_day\<bar> \<le> 8640000000000000"
  shows "expiry_time (Fin (of_int t)) (Fin (of_int d)) = Fin (of_int (t + d * ms_per_day))"
proof -
  have m: "num_mul (num_mul (num_mul (num_mul (Fin (of_int d)) (Fin 24)) (Fin 60)) (Fin 60)) (Fin 1000) =
      Fin (of_int (d * ms_per_day))"
    using num_mul_int [of d 24] num_mul_int [of "d * 24" 60] num_mul_int [of "d * 24 * 60" 60]
      num_mul_int [of "d * 24 * 60 * 60" 1000] assms(1,2)
    by (simp add: ms_per_day_def mult.assoc)
  have "num_add (Fin (of_int t)) (Fin (of_int (d * ms_per_day))) = Fin (of_int (t + d * ms_per_day))"
    using assms(3) by (intro num_add_int) simp
  moreover have "\<bar>of_int (t + d * ms_per_day) :: rat\<bar> \<le> 8640000000000000"
    using assms(3) of_int_le_iff [of "\<bar>t + d * ms_per_day\<bar>" 8640000000000000, where ?'a = rat]
    by simp
  ultimately show ?thesis
    unfolding expiry_time_def jsnum_operators m time_clip_def by (simp del: of_int_add)
qed

lemma expires_whole_days:
  assumes "d \<noteq> 0" and "\<bar>d\<bar> \<le> 10 ^ 8" and "\<bar>t + d * ms_per_day\<bar> \<le> 8640000000000000"
  shows "expires_attribute (Fin (of_int t)) (Plain (Num (Fin (of_int d)))) =
           str '';expires='' @ utc_string (t + d * ms_per_day)"
  using assms(1)
  by (simp add: expires_attribute_def num_truthy_def expiry_whole_days [OF assms] toUTCString_def
      del: of_int_add)

text \<open>
  C29: a whole number of days, positive or negative, gives the cookie the UTC text of exactly
  that many days after the clock, for every clock and number of days whose sum is a date:
  no rounding happens on the way.
\<close>

theorem cookie_expiry_exact:
  assumes "expires opts = Plain (Num (Fin (of_int d)))" and "d \<noteq> 0" and "\<bar>d\<bar> \<le> 10 ^ 8"
    and "\<bar>t + d * ms_per_day\<bar> \<le> 8640000000000000"
    and "encodeURIComponent v = Inr enc"
  shows "\<exists>rest. assigned (cookieOperator (Fin (of_int t)) doc name (Str v) (Some opts)) =
           Some (name @ str ''='' @ enc @ str '';expires='' @ utc_string (t + d * ms_per_day) @ rest)"
  using assms(1,5) expires_whole_days [OF assms(2-4)]
  by (simp add: cookieOperator_def write_cookie_def cookie_attributes_def)

theorem cookie_expiry_exact_witness:
  "\<exists>rest. assigned (cookieOperator (Fin 0) [] (str ''k'') (Str (str ''v''))
      (Some (no_options\<lparr>expires := Plain (Num (Fin 7))\<rparr>))) =
    Some (str ''k=v;expires=Thu, 08 Jan 1970 00:00:00 GMT'' @ rest)"
proof -
  have e: "encodeURIComponent (str ''v'') = Inr (str ''v'')"
    by (simp add: encodeURIComponent_def is_high_def is_low_def encode_cp_def uri_unescaped_def)
  have u: "utc_string (7 * ms_per_day) = str ''Thu, 08 Jan 1970 00:00:00 GMT''"
  proof -
    have y: "year_from_day 7 = 1970" and d: "day_from_year 1970 = 0"
      by (simp_all add: year_from_day_def day_from_year_def)
    have p: "pad_year 1970 = str ''1970''"
      by (simp add: pad_year_def dec_step dec_less digit_def)
    show ?thesis
      by (simp add: utc_string_def ms_per_day_def y d p month_lengths_def day_names_def
          month_names_def pad_dec_2 digit_def Let_def)
  qed
  show ?thesis
    using cookie_expiry_exact [of "no_options\<lparr>expires := Plain (Num (Fin 7))\<rparr>" 7 0 "str ''v''"
        "str ''v''" "[]" "str ''k''"] e u
    by (simp add: ms_per_day_def)
qed

text \<open>
  C30: deleting a cookie assigns it the empty value with an expiry one day before the clock,
  and leaves that expiry behind in the options object of the caller, whose other properties
  are kept.
\<close>

theorem cookie_delete:
  assumes "\<bar>t - ms_per_day\<bar> \<le> 8640000000000000"
  shows "let call = cookieOperator (Fin (of_int t)) doc name Null opts in
         (\<exists>rest. assigned call =
            Some (name @ str ''=;expires='' @ utc_string (t - ms_per_day) @ rest)) \<and>
         returned call = Inr Undefined \<and>
         options_after call = map_option (\<lambda>opts. opts\<lparr>expires := Plain (Num (Fin (- 1)))\<rparr>) opts"
proof -
  have "encodeURIComponent [] = Inr []" by (simp add: encodeURIComponent_def)
  then show ?thesis
    using expires_whole_days [of "- 1" t] assms(1)
    by (cases opts)
       (auto simp: cookieOperator_def write_cookie_def cookie_attributes_def Let_def)
qed

theorem cookie_delete_witness:
  "options_after (cookieOperator (Fin (of_int 86400000)) [] (str ''k'') Null (Some no_options)) =
     Some (no_options\<lparr>expires := Plain (Num (Fin (- 1)))\<rparr>)"
  using cookie_delete [of 86400000 "[]" "str ''k''" "Some no_options"]
  by (simp add: ms_per_day_def Let_def)

text \<open>
  An options object that was used to delete a cookie makes every cookie written with it
  afterwards expire one day before the clock, whatever expiry the caller had put in it.
\<close>

theorem cookie_options_poisoned:
  assumes "options_after (cookieOperator now1 doc1 name1 Null (Some opts)) = Some opts'"
    and "\<bar>t - ms_per_day\<bar> \<le> 8640000000000000" and "encodeURIComponent v = Inr enc"
  shows "\<exists>rest. assigned (cookieOperator (Fin (of_int t)) doc2 name2 (Str v) (Some opts')) =
           Some (name2 @ str ''='' @ enc @ str '';expires='' @ utc_string (t - ms_per_day) @ rest)"
proof -
  have "expires opts' = Plain (Num (Fin (- 1)))"
    using assms(1)
    by (auto simp: cookieOperator_def write_cookie_def encodeURIComponent_def Let_def)
  then show ?thesis
    using assms(2,3) expires_whole_days [of "- 1" t]
    by (simp add: cookieOperator_def write_cookie_def cookie_attributes_def)
qed

theorem cookie_options_poisoned_witness:
  "\<exists>rest. assigned (cookieOperator (Fin (of_int 86400000)) [] (str ''b'') (Str (str ''v''))
      (Some (no_options\<lparr>expires := Plain (Num (Fin (- 1)))\<rparr>))) =
    Some (str ''b=v;expires='' @ utc_string 0 @ rest)"
proof -
  have "encodeURIComponent (str ''v'') = Inr (str ''v'')"
    by (simp add: encodeURIComponent_def is_high_def is_low_def encode_cp_def uri_unescaped_def)
  moreover have "options_after (cookieOperator (Fin 0) [] (str ''a'') Null
      (Some (no_options\<lparr>expires := Plain (Num (Fin 30))\<rparr>))) =
      Some (no_options\<lparr>expires := Plain (Num (Fin (- 1)))\<rparr>)"
    by (simp add: cookieOperator_def write_cookie_def encodeURIComponent_def Let_def)
  ultimately show ?thesis
    using cookie_options_poisoned [of "Fin 0" "[]" "str ''a''"
        "no_options\<lparr>expires := Plain (Num (Fin 30))\<rparr>"
        "no_options\<lparr>expires := Plain (Num (Fin (- 1)))\<rparr>" 86400000 "str ''v''" "str ''v''" "[]" "str ''b''"]
    by (simp add: ms_per_day_def)
qed

end
