(* ===== verification/TreeNode.thy ===== *)
theory TreeNode
  imports JsValue
begin

text \<open>
  \<open>scripts/comm/base.js\<close>, lines 119 to 130: \<open>countLeafNode\<close>, which adds the number of leaves
  of a tree of objects to an accumulator.  A node is any value; its subtrees are in the
  property whose name the caller gives.  The call stack of the engine is finite: \<open>stack\<close> is
  the number of frames that are left, and a call without a frame throws \<open>RangeError\<close>.  A
  loop that never ends (an array-like object whose length is infinite) has the result
  \<open>None\<close>.  The abstract specification is \<open>leaves\<close>.
\<close>

text \<open>The number of iterations of \<open>for (i = 0; i < len; i++)\<close>.\<close>

fun iterations :: "jsnum \<Rightarrow> nat option" where
  "iterations (Fin r) = Some (nat \<lceil>r\<rceil>)"
| "iterations PInf = None"
| "iterations _ = Some 0"

text \<open>The loop threads the counter through the calls and stops at the first exception.\<close>

fun each_child ::
  "(jsval \<Rightarrow> jsnum \<Rightarrow> jsnum result option) \<Rightarrow> jsval \<Rightarrow> nat list \<Rightarrow> jsnum \<Rightarrow> jsnum result option" where
  "each_child call subs [] count = Some (Inr count)"
| "each_child call subs (i # is) count =
     (case call (get_prop subs (dec i)) count of
        Some (Inr count') \<Rightarrow> each_child call subs is count'
      | r \<Rightarrow> r)"

primrec countLeafNode :: "nat \<Rightarrow> jsval \<Rightarrow> jsstr \<Rightarrow> jsnum \<Rightarrow> jsnum result option" where
  "countLeafNode 0 node subsName count = Some (Inl RangeError)"
| "countLeafNode (Suc stack) node subsName count =
     (let subs = get_prop node subsName; len = value_to_number (get_prop subs (str ''length''))
      in if truthy node \<and> truthy subs \<and> Fin 0 < len
         then (case iterations len of
                 None \<Rightarrow> None
               | Some n \<Rightarrow>
                   each_child (\<lambda>child. countLeafNode stack child subsName) subs [0..<n] count)
         else Some (Inr (count + Fin 1)))"

subsection \<open>Trees\<close>

text \<open>The children of a node whose property holds an array.\<close>

definition children :: "jsstr \<Rightarrow> jsval \<Rightarrow> jsval list" where
  "children subsName node = (case get_prop node subsName of Arr xs \<Rightarrow> xs | _ \<Rightarrow> [])"

lemma map_of_size: "map_of ps k = Some v \<Longrightarrow> size v < size (Obj ps)"
proof -
  assume "map_of ps k = Some v"
  then have "(k, v) \<in> set ps" by (rule map_of_SomeD)
  then have "size_prod (\<lambda>_. 0) size (k, v) \<le> size_list (size_prod (\<lambda>_. 0) size) ps"
    by (rule size_list_estimation') simp
  then show ?thesis by simp
qed

lemma nth_size: "x \<in> set xs \<Longrightarrow> size x < size (Arr xs)"
  using size_list_estimation' [of x xs "size x" size] by simp

lemma index_size: "i < length xs \<Longrightarrow> size (xs ! i) < size (Arr xs)"
  by (rule nth_size) simp

lemma get_prop_size: "get_prop v k = Arr xs \<Longrightarrow> size (Arr xs) < size v"
proof (cases "(v, k)" rule: get_prop.cases)
  case (1 ps key)
  moreover assume "get_prop v k = Arr xs"
  ultimately show ?thesis by (auto split: option.splits dest: map_of_size)
next
  case (2 ys key)
  moreover assume "get_prop v k = Arr xs"
  ultimately obtain i where "i < length ys" "ys ! i = Arr xs" "v = Arr ys"
    by (auto split: if_splits option.splits)
  then show ?thesis using index_size [of i ys] by metis
qed (auto split: option.splits if_splits)

lemma children_size: "x \<in> set (children subsName v) \<Longrightarrow> size x < size v"
proof -
  assume x: "x \<in> set (children subsName v)"
  then obtain xs where "get_prop v subsName = Arr xs" "x \<in> set xs"
    by (cases "get_prop v subsName") (auto simp: children_def)
  then show ?thesis using get_prop_size nth_size less_trans by metis
qed

text \<open>
  A value is tree shaped when every node's property is an array or has no entries; the
  recursion is on the size of the value.
\<close>

definition branches :: "jsstr \<Rightarrow> jsval \<Rightarrow> bool" where
  "branches subsName node \<longleftrightarrow>
     truthy node \<and> truthy (get_prop node subsName) \<and>
     Fin 0 < value_to_number (get_prop (get_prop node subsName) (str ''length''))"

function tree_shaped :: "jsstr \<Rightarrow> jsval \<Rightarrow> bool" where
  "tree_shaped subsName v \<longleftrightarrow>
     (branches subsName v \<longrightarrow> children subsName v \<noteq> []) \<and>
     list_all (tree_shaped subsName) (children subsName v)"
  by pat_completeness auto
termination
  by (relation "measure (\<lambda>(k, v). size v)") (auto dest: children_size)

function leaves :: "jsstr \<Rightarrow> jsval \<Rightarrow> nat" where
  "leaves subsName v =
     (if children subsName v = [] then 1
      else sum_list (map (leaves subsName) (children subsName v)))"
  by pat_completeness auto
termination
  by (relation "measure (\<lambda>(k, v). size v)") (auto dest: children_size)

function height :: "jsstr \<Rightarrow> jsval \<Rightarrow> nat" where
  "height subsName v =
     (if children subsName v = [] then 0
      else Suc (foldr max (map (height subsName) (children subsName v)) 0))"
  by pat_completeness auto
termination
  by (relation "measure (\<lambda>(k, v). size v)") (auto dest: children_size)

declare tree_shaped.simps [simp del] leaves.simps [simp del] height.simps [simp del]

lemma foldr_max_less: "xs \<noteq> [] \<Longrightarrow> foldr max xs 0 < n \<longleftrightarrow> (\<forall>x \<in> set xs. x < (n :: nat))"
  by (induction xs rule: list_nonempty_induct) auto

lemma height_less_Suc:
  "height subsName v < Suc n \<longleftrightarrow> (\<forall>x \<in> set (children subsName v). height subsName x < n)"
  by (subst height.simps) (simp add: foldr_max_less)

lemma tree_shaped_child:
  "tree_shaped subsName v \<Longrightarrow> x \<in> set (children subsName v) \<Longrightarrow> tree_shaped subsName x"
  by (subst (asm) tree_shaped.simps) (simp add: list_all_iff)

lemma leaves_children:
  "children subsName v \<noteq> [] \<Longrightarrow>
     leaves subsName v = sum_list (map (leaves subsName) (children subsName v))"
  by (subst leaves.simps) simp

lemma leaves_leaf: "children subsName v = [] \<Longrightarrow> leaves subsName v = 1"
  by (subst leaves.simps) simp

subsection \<open>The function on trees\<close>

text \<open>The loop over an array, as a recursion over its elements.\<close>

fun thread :: "(jsval \<Rightarrow> jsnum \<Rightarrow> jsnum result option) \<Rightarrow> jsval list \<Rightarrow> jsnum \<Rightarrow> jsnum result option"
where
  "thread call [] count = Some (Inr count)"
| "thread call (x # xs) count =
     (case call x count of Some (Inr count') \<Rightarrow> thread call xs count' | r \<Rightarrow> r)"

lemma each_child_thread:
  "\<forall>i \<in> set is. i < length xs \<Longrightarrow>
     each_child call (Arr xs) is count = thread call (map (\<lambda>i. xs ! i) is) count"
  by (induction "is" arbitrary: count)
     (auto simp: get_prop_array dec_not_length simp del: str_simps split: option.splits sum.splits)

lemma each_child_array:
  "each_child call (Arr xs) [0..<length xs] count = thread call xs count"
  using each_child_thread [of "[0..<length xs]" xs call count] by (simp add: map_nth)

lemma children_node:
  assumes "children subsName v \<noteq> []"
  shows "get_prop v subsName = Arr (children subsName v)" "truthy v"
proof -
  show a: "get_prop v subsName = Arr (children subsName v)"
    using assms by (cases "get_prop v subsName") (auto simp: children_def)
  show "truthy v"
    using a by (cases "(v, subsName)" rule: get_prop.cases)
      (auto split: if_splits option.splits)
qed

lemma countLeafNode_inner:
  "children subsName v \<noteq> [] \<Longrightarrow>
     countLeafNode (Suc stack) v subsName count =
       thread (\<lambda>child. countLeafNode stack child subsName) (children subsName v) count"
  by (simp add: children_node get_prop_array value_to_number_def each_child_array
      del: str_simps)

lemma countLeafNode_leaf:
  "\<not> branches subsName v \<Longrightarrow>
     countLeafNode (Suc stack) v subsName count = Some (Inr (num_add count (Fin 1)))"
  by (auto simp: branches_def Let_def)

declare countLeafNode.simps(2) [simp del]

lemma no_children: "children subsName v = [] \<Longrightarrow> tree_shaped subsName v \<Longrightarrow> \<not> branches subsName v"
  by (subst (asm) tree_shaped.simps) simp

lemma num_add_one: "Suc c \<le> 2 ^ 53 \<Longrightarrow> num_add (Fin (of_nat c)) (Fin 1) = Fin (of_nat (Suc c))"
proof -
  assume "Suc c \<le> 2 ^ 53"
  then have "\<bar>int c + 1\<bar> \<le> 2 ^ 53" by simp
  then show ?thesis using num_add_int [of "int c" 1] by (simp add: add.commute)
qed

text \<open>The loop over subtrees whose calls all return.\<close>

lemma thread_count:
  assumes "\<And>x c. x \<in> set xs \<Longrightarrow> c + g x \<le> n \<Longrightarrow>
             call x (Fin (of_nat c)) = Some (Inr (Fin (of_nat (c + g x))))"
  shows "c + sum_list (map g xs) \<le> n \<Longrightarrow>
           thread call xs (Fin (of_nat c)) = Some (Inr (Fin (of_nat (c + sum_list (map g xs)))))"
  using assms
proof (induction xs arbitrary: c)
  case (Cons x xs)
  have "call x (Fin (of_nat c)) = Some (Inr (Fin (of_nat (c + g x))))"
    using Cons.prems by simp
  moreover have "thread call xs (Fin (of_nat (c + g x))) =
      Some (Inr (Fin (of_nat (c + g x + sum_list (map g xs)))))"
    by (rule Cons.IH) (use Cons.prems in auto)
  ultimately show ?case by (simp add: add.assoc)
qed simp

text \<open>The loop over subtrees where a call can throw.\<close>

lemma thread_throws:
  assumes "\<And>x c. x \<in> set xs \<Longrightarrow>
             call x c = Some (Inl e) \<or> (\<not> bad x \<and> (\<exists>c'. call x c = Some (Inr c')))"
  shows "thread call xs c = Some (Inl e) \<or>
           ((\<forall>x \<in> set xs. \<not> bad x) \<and> (\<exists>c'. thread call xs c = Some (Inr c')))"
  using assms
proof (induction xs arbitrary: c)
  case (Cons x xs)
  from Cons.prems(1) [of x c] consider "call x c = Some (Inl e)"
    | c' where "\<not> bad x" "call x c = Some (Inr c')" by auto
  then show ?case
  proof cases
    case 2
    then show ?thesis using Cons.IH [of c'] Cons.prems by auto
  qed simp
qed simp

lemma thread_returns:
  assumes "\<And>x c. x \<in> set xs \<Longrightarrow> \<exists>c'. call x c = Some (Inr c')"
  shows "\<exists>c'. thread call xs c = Some (Inr c')"
  using assms
proof (induction xs arbitrary: c)
  case (Cons x xs)
  then obtain c' where "call x c = Some (Inr c')" by (meson list.set_intros(1))
  moreover have "\<exists>c''. thread call xs c' = Some (Inr c'')"
    by (rule Cons.IH) (use Cons.prems in auto)
  ultimately show ?case by simp
qed simp

lemma countLeafNode_returns:
  "tree_shaped k v \<Longrightarrow> height k v < stack \<Longrightarrow>
     \<exists>c'. countLeafNode stack v k c = Some (Inr c')"
proof (induction stack arbitrary: v c)
  case (Suc stack)
  show ?case
  proof (cases "children k v = []")
    case True
    then have "\<not> branches k v" using Suc.prems(1) by (rule no_children)
    from countLeafNode_leaf [OF this] show ?thesis by blast
  next
    case False
    have "\<exists>c'. countLeafNode stack x k d = Some (Inr c')" if "x \<in> set (children k v)" for x d
      by (rule Suc.IH [OF tree_shaped_child [OF Suc.prems(1) that]])
        (use that Suc.prems(2) in \<open>simp add: height_less_Suc\<close>)
    then show ?thesis
      unfolding countLeafNode_inner [OF False] by (rule thread_returns)
  qed
qed simp

text \<open>
  C10: On a tree, with a stack deeper than the tree and a total that a double holds exactly,
  countLeafNode returns the accumulator plus the number of leaves: it terminates, it counts
  every leaf once and it threads the accumulator through all the recursive calls.
\<close>

theorem countLeafNode_counts:
  assumes "tree_shaped subsName v" "height subsName v < stack"
    and "c + leaves subsName v \<le> 2 ^ 53"
  shows "countLeafNode stack v subsName (Fin (of_nat c)) =
           Some (Inr (Fin (of_nat (c + leaves subsName v))))"
  using assms
proof (induction stack arbitrary: v c)
  case (Suc stack)
  show ?case
  proof (cases "children subsName v = []")
    case True
    then have "\<not> branches subsName v" using Suc.prems(1) by (rule no_children)
    from countLeafNode_leaf [OF this] show ?thesis
      using Suc.prems(3) num_add_one [of c] by (simp only: leaves_leaf [OF True]) simp
  next
    case False
    have "countLeafNode stack x subsName (Fin (of_nat d)) =
        Some (Inr (Fin (of_nat (d + leaves subsName x))))"
      if "x \<in> set (children subsName v)" "d + leaves subsName x \<le> 2 ^ 53" for x d
      by (rule Suc.IH [OF tree_shaped_child [OF Suc.prems(1) that(1)]])
        (use that Suc.prems(2) in \<open>simp_all add: height_less_Suc\<close>)
    then show ?thesis
      unfolding countLeafNode_inner [OF False] leaves_children [OF False]
      using Suc.prems(3) leaves_children [OF False] by (intro thread_count) auto
  qed
qed simp

text \<open>A tree with the leaves 1 and 2 under the root and an inner node with one leaf.\<close>

definition sample_tree :: jsval where
  "sample_tree =
     (let leaf = Obj []; node = \<lambda>xs. Obj [(str ''subs'', Arr xs)]
      in node [leaf, node [leaf, node []], leaf])"

lemma sample_tree_facts:
  "tree_shaped (str ''subs'') sample_tree" "leaves (str ''subs'') sample_tree = 4"
  "height (str ''subs'') sample_tree = 2"
  by (simp_all add: sample_tree_def leaves.simps height.simps tree_shaped.simps
      children_def branches_def value_to_number_def Let_def)

theorem countLeafNode_counts_witness:
  "countLeafNode 3 sample_tree (str ''subs'') (Fin (of_nat 10)) = Some (Inr (Fin (of_nat (10 + 4))))"
  using countLeafNode_counts [of "str ''subs''" sample_tree 3 10]
  by (simp add: sample_tree_facts del: str_simps)

text \<open>
  C34: On a tree that is at least as deep as the call stack, countLeafNode throws RangeError
  whatever the accumulator, and never returns a partial count.
\<close>

theorem countLeafNode_overflows:
  assumes "tree_shaped subsName v" "stack \<le> height subsName v"
  shows "countLeafNode stack v subsName count = Some (Inl RangeError)"
  using assms
proof (induction stack arbitrary: v count)
  case (Suc stack)
  let ?call = "\<lambda>x. countLeafNode stack x subsName"
  have deep: "\<exists>x \<in> set (children subsName v). stack \<le> height subsName x"
    using Suc.prems(2) height_less_Suc [of subsName v stack] by (auto simp: not_less)
  then have inner: "children subsName v \<noteq> []" by auto
  have "?call x c = Some (Inl RangeError) \<or>
      (\<not> stack \<le> height subsName x \<and> (\<exists>c'. ?call x c = Some (Inr c')))"
    if "x \<in> set (children subsName v)" for x c
    using that tree_shaped_child [OF Suc.prems(1) that] Suc.IH [of x c]
      countLeafNode_returns [of subsName x stack c] not_le by metis
  then have "thread ?call (children subsName v) count = Some (Inl RangeError)"
    using thread_throws [of "children subsName v" ?call RangeError
        "\<lambda>x. stack \<le> height subsName x" count] deep by blast
  then show ?case unfolding countLeafNode_inner [OF inner] .
qed simp

theorem countLeafNode_overflows_witness:
  "countLeafNode 2 sample_tree (str ''subs'') (Fin 0) = Some (Inl RangeError)"
  using countLeafNode_overflows [of "str ''subs''" sample_tree 2 "Fin 0"]
  by (simp add: sample_tree_facts del: str_simps)

text \<open>
  C35: A one-unit string is its own first child under the property 0: countLeafNode
  calls itself on it without end and throws RangeError for every size of the stack.
\<close>

theorem countLeafNode_string:
  "countLeafNode stack (Prim (Str [c])) (str ''0'') count = Some (Inl RangeError)"
proof (induction stack)
  case (Suc stack)
  then show ?case
    by (simp add: countLeafNode.simps(2) array_index_def dec_val_def is_digit_def digit_val_def value_to_number_def
        dec.simps [of 0] digit_def)
qed simp

end
