(* ===== verification/Valid.thy ===== *)
theory Valid
  imports JsValue JsRegex
begin

text \<open>
  \<open>scripts/comm/valid.js\<close>: the validators of a name and of a mobile number, the check of
  the name of an image file, and the handler of the change of a file input.  The validators
  are regular expressions; the theorems give the exact set of strings that each accepts.
\<close>

subsection \<open>Names and mobile numbers\<close>

text \<open>\<open>RegExp.prototype.test\<close> converts its argument to a string.\<close>

definition name_pattern :: regex where
  "name_pattern =
     seqs [Bol, Class False [Range 0x4e00 0x9fa5, Range 97 122],
           Plus (Class False [Range 0x4e00 0x9fa5, Range 97 122, Range 48 57, Range 32 32]), Eol]"

definition checkName :: "jsval \<Rightarrow> bool" where
  "checkName username = re_test True name_pattern (value_to_string username)"

definition mobile_pattern :: regex where
  "mobile_pattern =
     seqs [Bol, Chr 49,
           Class False [Range 51 51, Range 124 124, Range 52 52, Range 124 124, Range 53 53,
             Range 124 124, Range 56 56],
           Class False [Range 48 57], Times 8 (Class False [Digit]), Eol]"

definition testMobile :: "jsval \<Rightarrow> bool" where
  "testMobile phoneno = re_test False mobile_pattern (value_to_string phoneno)"

text \<open>An ASCII letter in either case or an ideograph of the range of the pattern.\<close>

definition name_letter :: "jsunit \<Rightarrow> bool" where
  "name_letter c \<longleftrightarrow>
     (0x4e00 \<le> c \<and> c \<le> 0x9fa5) \<or> (97 \<le> c \<and> c \<le> 122) \<or> (65 \<le> c \<and> c \<le> 90)"

lemma upper_shift: "65 \<le> c \<Longrightarrow> c \<le> 90 \<Longrightarrow> 97 \<le> c + 32 \<and> c + 32 \<le> (122 :: jsunit)"
  by (simp add: word_le_nat_alt unat_word_ariths)

lemma in_name_first:
  "in_class True False [Range 0x4e00 0x9fa5, Range 97 122] c \<longleftrightarrow> name_letter c"
  by (auto simp: in_class_def case_variants_def name_letter_def upper_shift)

lemma in_name_rest:
  "in_class True False [Range 0x4e00 0x9fa5, Range 97 122, Range 48 57, Range 32 32] =
     (\<lambda>c. name_letter c \<or> is_digit c \<or> c = 32)"
  by (rule ext) (auto simp: in_class_def case_variants_def name_letter_def upper_shift is_digit_def)

text \<open>
  C12: \<open>checkName\<close> accepts exactly the values whose text has at least two units, starts with
  an ASCII letter or an ideograph between U+4E00 and U+9FA5, and goes on with those, ASCII
  digits and blanks; upper-case letters are accepted because of the flag.
\<close>

theorem checkName_iff:
  "checkName v \<longleftrightarrow>
     (\<exists>c cs. value_to_string v = c # cs \<and> cs \<noteq> [] \<and> name_letter c \<and>
             list_all (\<lambda>d. name_letter d \<or> is_digit d \<or> d = 32) cs)"
proof -
  let ?s = "value_to_string v" and ?p = "\<lambda>d. name_letter d \<or> is_digit d \<or> d = 32"
  have "checkName v \<longleftrightarrow> 2 \<le> length ?s \<and> name_letter (?s ! 0) \<and> units ?p ?s 1 (length ?s)"
    using units_step [of 1 "length ?s" ?p ?s]
    by (auto simp: checkName_def re_test_iff name_pattern_def mtch_simps mtch_star_class
        in_name_first in_name_rest numeral_2_eq_2)
  also have "\<dots> \<longleftrightarrow> (\<exists>c cs. ?s = c # cs \<and> cs \<noteq> [] \<and> name_letter c \<and> list_all ?p cs)"
    unfolding units_drop by (cases ?s) (auto simp: Suc_le_eq numeral_2_eq_2)
  finally show ?thesis .
qed

text \<open>
  C13: \<open>testMobile\<close> accepts exactly the eleven-unit texts that start with the digit 1, have a
  3, 4, 5, 8 or a vertical bar in the second place, and go on with nine ASCII digits.
\<close>

theorem testMobile_iff:
  "testMobile v \<longleftrightarrow>
     (\<exists>c ds. value_to_string v = 49 # c # ds \<and> c \<in> set (str ''3458|'') \<and>
             length ds = 9 \<and> list_all is_digit ds)"
proof -
  let ?s = "value_to_string v"
  have second: "in_class False False [Range 51 51, Range 124 124, Range 52 52, Range 124 124,
      Range 53 53, Range 124 124, Range 56 56] c \<longleftrightarrow> c \<in> set (str ''3458|'')" for c
    by (auto simp: in_class_def case_variants_def)
  have third: "in_class False False [Range 48 57] c \<longleftrightarrow> is_digit c" for c
    by (auto simp: in_class_def case_variants_def is_digit_def)
  have fourth: "in_class False False [Digit] = is_digit"
    by (rule ext) (auto simp: in_class_def case_variants_def)
  have "testMobile v \<longleftrightarrow>
      length ?s = 11 \<and> ?s ! 0 = 49 \<and> ?s ! 1 \<in> set (str ''3458|'') \<and> units is_digit ?s 2 (length ?s)"
    using units_step [of 2 "length ?s" is_digit ?s]
    by (auto simp: testMobile_def re_test_iff mobile_pattern_def mtch_simps mtch_times_class
        second third fourth case_variants_def numeral_2_eq_2 simp del: str_simps)
  also have "\<dots> \<longleftrightarrow> (\<exists>c ds. ?s = 49 # c # ds \<and> c \<in> set (str ''3458|'') \<and>
             length ds = 9 \<and> list_all is_digit ds)"
    unfolding units_drop by (cases ?s; cases "tl ?s") (auto simp del: str_simps)
  finally show ?thesis .
qed

subsection \<open>The name of an image file\<close>

definition postfix_pattern :: regex where
  "postfix_pattern =
     Alt (seqs [Dot, Chr 106, Chr 112, Chr 103])
       (Alt (seqs [Dot, Chr 103, Chr 105, Chr 102])
         (Alt (seqs [Dot, Chr 112, Chr 110, Chr 103])
           (seqs [Dot, Chr 98, Chr 109, Chr 112])))"

text \<open>Only a string has the method \<open>match\<close>; its result is an array, or null without a match.\<close>

definition checkFileNamePostfix :: "jsval \<Rightarrow> bool result" where
  "checkFileNamePostfix postfix =
     (case postfix of
        Prim (Str s) \<Rightarrow> if \<not> re_test True postfix_pattern s then Inr False else Inr True
      | _ \<Rightarrow> Inl TypeError)"

definition ascii_lower :: "jsunit \<Rightarrow> jsunit" where
  "ascii_lower c = (if 65 \<le> c \<and> c \<le> 90 then c + 32 else c)"

lemma case_variants_lower:
  "97 \<le> a \<Longrightarrow> a \<le> 122 \<Longrightarrow> a \<in> set (case_variants True d) \<longleftrightarrow> ascii_lower d = a"
  by (auto simp: case_variants_def ascii_lower_def word_le_nat_alt unat_word_ariths unat_sub_if')

text \<open>A word of three units after any unit that is not a line terminator.\<close>

definition word_at :: "jsstr \<Rightarrow> jsstr \<Rightarrow> nat \<Rightarrow> bool" where
  "word_at w s i \<longleftrightarrow>
     i + 3 < length s \<and> \<not> is_line_terminator (s ! i) \<and>
     map ascii_lower [s ! (i + 1), s ! (i + 2), s ! (i + 3)] = w"

lemma mtch_word:
  assumes "97 \<le> a" "a \<le> 122" "97 \<le> b" "b \<le> 122" "97 \<le> d" "d \<le> 122"
  shows "(\<exists>j. mtch True s (seqs [Dot, Chr a, Chr b, Chr d]) i j) \<longleftrightarrow> word_at [a, b, d] s i"
  by (auto simp: mtch_simps word_at_def case_variants_lower assms numeral_2_eq_2 numeral_3_eq_3)

lemma word_at_split:
  "(\<exists>i. word_at w s i) \<longleftrightarrow>
     (\<exists>a c e b. s = a @ c # e @ b \<and> length e = 3 \<and> \<not> is_line_terminator c \<and> map ascii_lower e = w)"
proof
  assume "\<exists>i. word_at w s i"
  then obtain i where i: "word_at w s i" ..
  then have "s = take i s @ s ! i # [s ! (i + 1), s ! (i + 2), s ! (i + 3)] @ drop (i + 4) s"
    using id_take_nth_drop [of i s]
    by (simp add: word_at_def Cons_nth_drop_Suc numeral_2_eq_2 numeral_3_eq_3 numeral_eq_Suc)
  then show "\<exists>a c e b. s = a @ c # e @ b \<and> length e = 3 \<and> \<not> is_line_terminator c \<and> map ascii_lower e = w"
    using i unfolding word_at_def by (metis length_map list.size(3,4) numeral_3_eq_3 One_nat_def add_Suc_right add_0_right)
next
  assume "\<exists>a c e b. s = a @ c # e @ b \<and> length e = 3 \<and> \<not> is_line_terminator c \<and> map ascii_lower e = w"
  then obtain a c e b where s: "s = a @ c # e @ b" and e: "length e = 3" "map ascii_lower e = w"
    and c: "\<not> is_line_terminator c" by blast
  then obtain x y z where "e = [x, y, z]" by (auto simp: numeral_3_eq_3 length_Suc_conv)
  then have "word_at w s (length a)"
    using s e c by (simp add: word_at_def nth_append)
  then show "\<exists>i. word_at w s i" ..
qed

lemma string_cases:
  obtains s where "v = Prim (Str s)" | "\<And>s. v \<noteq> Prim (Str s)"
  by blast

text \<open>
  C31: The check of the name of an image file accepts a string exactly when it contains, at
  any place, one of the words jpg, gif, png and bmp in any mixture of cases, after any unit
  that is not a line terminator: the dot of the pattern is not a literal dot and the pattern
  is not anchored.  Everything else is refused, and what is not a string throws TypeError.
\<close>

theorem checkFileNamePostfix_iff:
  "checkFileNamePostfix v =
     (case v of
        Prim (Str s) \<Rightarrow>
          Inr (\<exists>a c e b. s = a @ c # e @ b \<and> length e = 3 \<and> \<not> is_line_terminator c \<and>
                 map ascii_lower e \<in> set (map str [''jpg'', ''gif'', ''png'', ''bmp'']))
      | _ \<Rightarrow> Inl TypeError)"
proof -
  let ?ws = "map str [''jpg'', ''gif'', ''png'', ''bmp'']"
  have alts: "(\<exists>j. mtch True s postfix_pattern i j) \<longleftrightarrow> (\<exists>w \<in> set ?ws. word_at w s i)" for s i
    unfolding postfix_pattern_def mtch_simps(8) ex_disj_distrib
    by (simp add: mtch_word del: seqs.simps)
  let ?Q = "\<lambda>s. \<exists>a c e b. s = a @ c # e @ b \<and> length e = 3 \<and> \<not> is_line_terminator c \<and>
    map ascii_lower e \<in> set ?ws"
  have "re_test True postfix_pattern s \<longleftrightarrow> (\<exists>w \<in> set ?ws. \<exists>i. word_at w s i)" for s
  proof -
    have "word_at w s i \<Longrightarrow> i \<le> length s" for w i by (simp add: word_at_def)
    then show ?thesis unfolding re_test_iff using alts [of s] by blast
  qed
  then have "re_test True postfix_pattern s \<longleftrightarrow> ?Q s" for s
    unfolding word_at_split by blast
  then have "checkFileNamePostfix (Prim (Str s)) = Inr (?Q s)" for s
    by (simp only: checkFileNamePostfix_def jsval.simps prim.simps) (cases "?Q s"; simp only: if_True if_False not_True_eq_False not_False_eq_True)
  then show ?thesis
    by (cases v rule: string_cases)
       (simp only: jsval.simps prim.simps,
        simp add: checkFileNamePostfix_def split: jsval.splits prim.splits)
qed

subsection \<open>The handler of the file input\<close>

text \<open>
  The handler reads the element's \<open>value\<close> and \<open>files\<close> and calls the browser: \<open>alert\<close> and
  \<open>console.log\<close>, whose effects are listed in order, and outside the standard the selection
  and the ActiveX file system object of Internet Explorer, which are arguments, as is the
  case table of \<open>toLowerCase\<close>.  \<open>checkFileExt\<close> is a global that no script declares:
  \<open>None\<close> is the state of the repository.
\<close>

record file_input =
  input_value :: jsstr
  input_files :: jsval

record browser =
  checkFileExt :: "(jsstr \<Rightarrow> jsval result) option"
  toLowerCase :: "jsstr \<Rightarrow> jsstr"
  has_console :: bool
  selection_text :: "jsstr result"
  get_file_size :: "jsstr \<Rightarrow> jsval result"

datatype effect = Alert jsstr | Log jsval | Select

definition imgMaxSize :: int where "imgMaxSize = 500 * 1024"

definition not_image_text :: jsstr where
  "not_image_text =
     [0x60A8, 0x4E0A, 0x4F20, 0x7684, 0x6587, 0x4EF6, 0x4E0D, 0x662F, 0x56FE, 0x7247, 0x2C, 0x8BF7, 0x91CD, 0x65B0, 0x4E0A, 0x4F20, 0xFF01]"

definition too_big_text :: jsstr where
  "too_big_text =
     [0x56FE, 0x7247, 0x5927, 0x4E8E, 0x35, 0x30, 0x30, 0x4B, 0xFF0C, 0x8BF7, 0x538B, 0x7F29, 0x540E, 0x4E0A, 0x4F20]"

definition lower_security_text :: jsstr where
  "lower_security_text =
     [0x5982, 0x679C, 0x4F60, 0x7528, 0x7684, 0x662F, 0x69, 0x65, 0x20, 0x8BF7, 0x5C06, 0x5B89, 0x5168, 0x7EA7, 0x522B, 0x8C03, 0x4F4E, 0xFF01]"

definition oversize :: "jsval \<Rightarrow> bool" where
  "oversize bytes \<longleftrightarrow> Fin (of_int imgMaxSize) < value_to_number bytes"

definition get_member :: "jsval \<Rightarrow> jsstr \<Rightarrow> jsval result" where
  "get_member v key = (if v = Prim Undefined \<or> v = Prim Null then Inl TypeError else Inr (get_prop v key))"

text \<open>The names that \<open>for (var i in v)\<close> visits: the own data properties.  A browser's \<open>File\<close> also
  inherits enumerable members, which are not part of the model.\<close>

fun keys_of :: "jsval \<Rightarrow> jsstr list" where
  "keys_of (Obj ps) = remdups (map fst ps)"
| "keys_of (Arr xs) = map dec [0..<length xs]"
| "keys_of (Prim (Str s)) = map dec [0..<length s]"
| "keys_of (Prim _) = []"

fun any_oversize :: "jsval \<Rightarrow> jsstr list \<Rightarrow> bool result" where
  "any_oversize v [] = Inr False"
| "any_oversize v (k # ks) =
     bind_result (get_member (get_prop v k) (str ''size''))
       (\<lambda>bytes. if oversize bytes then Inr True else any_oversize v ks)"

definition check_file :: "browser \<Rightarrow> jsval \<Rightarrow> effect list \<times> bool result" where
  "check_file env file =
     (let bytes = get_prop file (str ''size'')
      in if \<not> has_console env then ([], Inl ReferenceError)
         else if oversize bytes then ([Log bytes, Alert too_big_text], Inr False)
         else case any_oversize file (keys_of file) of
                Inl e \<Rightarrow> ([Log bytes], Inl e)
              | Inr True \<Rightarrow> ([Log bytes, Alert too_big_text], Inr False)
              | Inr False \<Rightarrow> ([Log bytes], Inr True))"

text \<open>The branch of Internet Explorer: the selection is read outside the \<open>try\<close> block.  The source
  asks the file system object for the size twice, and both answers are taken to be the same.\<close>

definition check_selected :: "browser \<Rightarrow> effect list \<times> bool result" where
  "check_selected env =
     (case selection_text env of
        Inl e \<Rightarrow> ([Select], Inl e)
      | Inr url \<Rightarrow>
          (case get_file_size env url of
             Inl e \<Rightarrow> ([Select, Alert lower_security_text], Inr True)
           | Inr bytes \<Rightarrow>
               if \<not> has_console env then ([Select, Alert lower_security_text], Inr True)
               else if truthy bytes then ([Select, Log bytes, Alert too_big_text], Inr False)
               else ([Select, Log bytes], Inr True)))"

definition file_extension :: "browser \<Rightarrow> file_input \<Rightarrow> jsstr" where
  "file_extension env fileInput =
     (let filePath = input_value fileInput
      in toLowerCase env
           (substring_from filePath (case last_index_of 46 filePath of Some i \<Rightarrow> i | None \<Rightarrow> 0)))"

definition onUploadImgChange :: "browser \<Rightarrow> file_input \<Rightarrow> effect list \<times> bool result" where
  "onUploadImgChange env fileInput =
     (case checkFileExt env of
        None \<Rightarrow> ([], Inl ReferenceError)
      | Some check \<Rightarrow>
          (case check (file_extension env fileInput) of
             Inl e \<Rightarrow> ([], Inl e)
           | Inr ok \<Rightarrow>
               if \<not> truthy ok then ([Alert not_image_text], Inr False)
               else let files = input_files fileInput; file = get_prop files (str ''0'')
                    in if truthy files \<and> truthy file then check_file env file
                       else check_selected env))"

text \<open>
  The handler throws ReferenceError for every file, before any message and any check of
  the size, as long as no script declares \<open>checkFileExt\<close>; and it returns nothing but the
  answer of that function when the function refuses the extension.
\<close>

theorem onUploadImgChange_needs_checkFileExt:
  "onUploadImgChange (env\<lparr>checkFileExt := None\<rparr>) fileInput = ([], Inl ReferenceError) \<and>
   onUploadImgChange (env\<lparr>checkFileExt := Some (\<lambda>_. Inr (Prim (Bool False)))\<rparr>) fileInput =
     ([Alert not_image_text], Inr False)"
  by (simp add: onUploadImgChange_def)

lemma any_oversize_plain:
  "\<forall>k \<in> set ks. \<exists>p. get_prop v k = Prim p \<and> p \<noteq> Undefined \<and> p \<noteq> Null \<Longrightarrow>
     any_oversize v ks = Inr False"
proof (induction ks)
  case (Cons k ks)
  then obtain p where p: "get_prop v k = Prim p" "p \<noteq> Undefined" "p \<noteq> Null" by auto
  have "array_index (str ''size'') = None" by (simp add: array_index_def is_digit_def)
  then have "get_prop (Prim p) (str ''size'') = Prim Undefined"
    by (cases p) (simp_all split: option.splits)
  then have "\<not> oversize (get_prop (Prim p) (str ''size''))"
    by (simp add: oversize_def value_to_number_def)
  then show ?case using Cons p by (simp add: get_member_def del: str_simps)
qed simp

text \<open>
  C32: Once the extension is accepted, a file whose members are plain values is accepted
  exactly when its size is at most 512000 bytes; the files after the first one of the input
  are not looked at.
\<close>

theorem onUploadImgChange_size:
  assumes "checkFileExt env = Some check" and "check (file_extension env fileInput) = Inr ok"
    and "truthy ok" and "has_console env"
    and "input_files fileInput = Arr (Obj ps # others)"
    and "map_of ps (str ''size'') = Some (Prim (Num (Fin n)))"
    and "\<forall>v \<in> snd ` set ps. \<exists>p. v = Prim p \<and> p \<noteq> Undefined \<and> p \<noteq> Null"
  shows "onUploadImgChange env fileInput =
           (if n \<le> 512000 then ([Log (Prim (Num (Fin n)))], Inr True)
            else ([Log (Prim (Num (Fin n))), Alert too_big_text], Inr False))"
proof -
  have "dec 0 = str ''0''" by (simp add: dec.simps [of 0] digit_def)
  then have first: "get_prop (Arr (Obj ps # others)) (str ''0'') = Obj ps"
    using get_prop_array(2) [of 0 "Obj ps # others"] by (simp del: str_simps)
  have size: "get_prop (Obj ps) (str ''size'') = Prim (Num (Fin n))"
    using assms(6) by (simp del: str_simps)
  have "\<exists>p. get_prop (Obj ps) k = Prim p \<and> p \<noteq> Undefined \<and> p \<noteq> Null" if k: "k \<in> fst ` set ps" for k
  proof -
    obtain v where v: "map_of ps k = Some v"
      using k by (cases "map_of ps k") (auto simp: map_of_eq_None_iff)
    have "v \<in> snd ` set ps" by (rule image_eqI [OF _ map_of_SomeD [OF v]]) simp
    then show ?thesis using assms(7) v by auto
  qed
  then have "any_oversize (Obj ps) (keys_of (Obj ps)) = Inr False"
    by (intro any_oversize_plain) simp
  moreover have "oversize (Prim (Num (Fin n))) \<longleftrightarrow> \<not> n \<le> 512000"
    by (simp add: oversize_def imgMaxSize_def value_to_number_def not_le)
  ultimately show ?thesis
    using assms(1-5) first size
    by (simp add: onUploadImgChange_def check_file_def Let_def del: str_simps get_prop.simps keys_of.simps)
qed

theorem onUploadImgChange_size_witness:
  "snd (onUploadImgChange
     \<lparr>checkFileExt = Some (\<lambda>ext. Inr (Prim (Bool (ext = str ''.png'')))), toLowerCase = map ascii_lower,
      has_console = True, selection_text = Inl TypeError, get_file_size = (\<lambda>_. Inl TypeError)\<rparr>
     \<lparr>input_value = str ''a.b.PNG'',
      input_files = Arr [Obj [(str ''name'', Prim (Str (str ''a.b.PNG''))),
        (str ''size'', Prim (Num (Fin 512001)))]]\<rparr>) = Inr False"
  by (subst onUploadImgChange_size
      [where ps = "[(str ''name'', Prim (Str (str ''a.b.PNG''))), (str ''size'', Prim (Num (Fin 512001)))]"
        and others = "[]" and n = 512001 and ok = "Prim (Bool True)"
        and check = "\<lambda>ext. Inr (Prim (Bool (ext = str ''.png'')))"])
     (simp_all add: file_extension_def ascii_lower_def)

text \<open>
  C33: In the branch of Internet Explorer the size is not compared with the limit: every file
  with a positive size is refused as too large, an empty file is accepted, and so is any file
  when the file system object cannot be used.
\<close>

theorem onUploadImgChange_activex:
  assumes "checkFileExt env = Some check" and "check (file_extension env fileInput) = Inr ok"
    and "truthy ok" and "has_console env" and "input_files fileInput = Prim Undefined"
    and "selection_text env = Inr url"
  shows "snd (onUploadImgChange env fileInput) =
           Inr (\<not> (\<exists>bytes. get_file_size env url = Inr bytes \<and> truthy bytes))"
  using assms
  by (auto simp: onUploadImgChange_def check_selected_def Let_def split: sum.splits)

theorem onUploadImgChange_activex_witness:
  "snd (onUploadImgChange
     \<lparr>checkFileExt = Some (\<lambda>ext. Inr (Prim (Bool True))), toLowerCase = map ascii_lower,
      has_console = True, selection_text = Inr (str ''a.png''),
      get_file_size = (\<lambda>_. Inr (Prim (Num (Fin 1))))\<rparr>
     \<lparr>input_value = str ''a.png'', input_files = Prim Undefined\<rparr>) = Inr False"
  by (subst onUploadImgChange_activex
      [where check = "\<lambda>ext. Inr (Prim (Bool True))" and ok = "Prim (Bool True)" and url = "str ''a.png''"])
     (simp_all add: num_truthy_def)

end
