(* ===== verification/FileUpload.thy ===== *)
theory FileUpload
  imports JsValue "HOL-Library.AList"
begin

text \<open>
  \<open>scripts/3rd/AjaxFileUploader/ajaxfileupload.js\<close>: the jQuery plugin that uploads a file
  through a hidden form whose target is a hidden frame.  The state is the page: the counter
  \<open>jQuery.active\<close>, the elements with an id, the forms and frames that the plugin has created
  (a removed one stays in the list with its flag cleared, so that references to it stay
  valid), the closures of the calls, the timers that remove what a finished call leaves, the
  indicator that listens to the global events, and the trace of what happened.

  What lies outside the script is a parameter: \<open>jQuery.handleError\<close> (\<open>None\<close> when the loaded
  jQuery has no such function), \<open>eval\<close>, \<open>jQuery.globalEval\<close> and \<open>evalScripts\<close>, the way the
  browser clones the files of an input, and the callbacks of the caller.  A callback is a
  function of its arguments that answers with what it does, in order, and whether it throws;
  one of the things it can do is to start another upload, which runs inside the callback.
\<close>

subsection \<open>Events and callbacks\<close>

datatype ajax_event = AjaxStart | AjaxSend nat | AjaxSuccess nat | AjaxComplete nat | AjaxStop

datatype user_event =
    Called jsstr "jsval list"         \<comment> \<open>a function of the caller and its arguments\<close>
  | Submitted "nat option" jsstr      \<comment> \<open>the form and the name of its target frame\<close>
  | Uncaught js_error                 \<comment> \<open>an exception that reached the browser\<close>

datatype event = Ajax ajax_event | User user_event

subsection \<open>The argument of a call\<close>

text \<open>A property that was not given is \<open>Undefined\<close> or \<open>None\<close>.\<close>

datatype options =
    Options (url: prim) (secureuri: prim) (fileElementId: prim) (dataType: prim)
      (timeout: prim) (global: prim) (data: "(jsstr \<times> prim) list option")
      (success: "(jsval list \<Rightarrow> command list \<times> unit result) option")
      (error: "(jsval list \<Rightarrow> command list \<times> unit result) option")
      (complete: "(jsval list \<Rightarrow> command list \<times> unit result) option")
and command = Emit user_event | Start options

type_synonym action = "command list \<times> unit result"
type_synonym callback = "jsval list \<Rightarrow> action"

text \<open>\<open>jQuery.extend({}, jQuery.ajaxSettings, s)\<close>: an undefined property does not override.\<close>

definition or_default :: "prim \<Rightarrow> prim \<Rightarrow> prim" where
  "or_default d v = (if v = Undefined then d else v)"

definition or_else :: "'a option \<Rightarrow> 'a option \<Rightarrow> 'a option" where
  "or_else d v = (case v of None \<Rightarrow> d | Some x \<Rightarrow> Some x)"

definition extend_options :: "options \<Rightarrow> options \<Rightarrow> options" where
  "extend_options d s =
     Options (or_default (url d) (url s)) (or_default (secureuri d) (secureuri s))
       (or_default (fileElementId d) (fileElementId s)) (or_default (dataType d) (dataType s))
       (or_default (timeout d) (timeout s)) (or_default (global d) (global s))
       (or_else (data d) (data s)) (or_else (success d) (success s))
       (or_else (error d) (error s)) (or_else (complete d) (complete s))"

subsection \<open>The page\<close>

record element =
  elem_id :: jsstr
  files :: "jsstr list"

record form =
  form_id :: jsstr
  hidden :: "jsstr list"
  moved :: "element list"
  attrs :: "(jsstr \<times> jsstr) list"
  styles :: "(jsstr \<times> jsstr) list"
  form_live :: bool

record frame =
  frame_id :: jsstr
  frame_html :: jsstr
  handlers :: "nat list"
  frame_live :: bool

record response =
  responseText :: jsval
  responseXML :: jsval

text \<open>The closure of one call: \<open>s\<close>, \<open>frameId\<close>, the variable \<open>form\<close>, \<open>xml\<close> (\<open>None\<close> is null),
  \<open>requestDone\<close>, and whether the timeout is still pending.\<close>

record request =
  opts :: options
  frame_name :: jsstr
  form_var :: "nat option"
  xml :: "response option"
  requestDone :: bool
  timer :: bool

text \<open>The element \<open>#loading\<close>: whether it is shown, and its handlers for two global events.\<close>

record indicator =
  shown :: bool
  start_handlers :: nat
  complete_handlers :: nat

record page =
  active :: int
  elements :: "element list"
  forms :: "form list"
  frames :: "frame list"
  requests :: "request list"
  removals :: "(nat option \<times> nat option) list"
  indicator :: "indicator option"
  clock :: nat
  trace :: "event list"

record env =
  ajaxSettings :: options
  handleError :: "(options \<Rightarrow> jsval \<Rightarrow> prim \<Rightarrow> js_error option \<Rightarrow> action) option"
  eval :: "jsstr \<Rightarrow> jsval result"
  globalEval :: "jsval \<Rightarrow> unit result"
  evalScripts :: "(jsval \<Rightarrow> unit result) option"
  has_ActiveXObject :: bool
  clone_files :: "jsstr list \<Rightarrow> jsstr list"

text \<open>What a callback finds in the frame: no window and no document, the branch of
  \<open>contentDocument\<close>, a document that must not be read, or a document.\<close>

datatype frame_view = No_window | Content_document | Blocked | Loaded jsval jsval

definition find_index :: "('a \<Rightarrow> bool) \<Rightarrow> 'a list \<Rightarrow> nat option" where
  "find_index P xs = List.find (\<lambda>k. P (xs ! k)) [0..<length xs]"

definition frame_by_id :: "page \<Rightarrow> jsstr \<Rightarrow> nat option" where
  "frame_by_id w name = find_index (\<lambda>f. frame_live f \<and> frame_id f = name) (frames w)"

definition form_by_id :: "page \<Rightarrow> jsstr \<Rightarrow> nat option" where
  "form_by_id w name = find_index (\<lambda>f. form_live f \<and> form_id f = name) (forms w)"

definition emit :: "user_event list \<Rightarrow> page \<Rightarrow> page" where
  "emit evs w = w\<lparr>trace := trace w @ map User evs\<rparr>"

text \<open>\<open>jQuery.event.trigger\<close> of a global event, with the reaction of the indicator.\<close>

fun react :: "ajax_event \<Rightarrow> indicator \<Rightarrow> indicator" where
  "react AjaxStart i = (if 0 < start_handlers i then i\<lparr>shown := True\<rparr> else i)"
| "react (AjaxComplete n) i = (if 0 < complete_handlers i then i\<lparr>shown := False\<rparr> else i)"
| "react _ i = i"

definition trigger :: "ajax_event \<Rightarrow> page \<Rightarrow> page" where
  "trigger e w = w\<lparr>indicator := map_option (react e) (indicator w), trace := trace w @ [Ajax e]\<rparr>"

subsection \<open>The form and the frame\<close>

definition frame_name_of :: "nat \<Rightarrow> jsstr" where
  "frame_name_of i = str ''jUploadFrame'' @ dec i"

definition form_name_of :: "nat \<Rightarrow> jsstr" where
  "form_name_of i = str ''jUploadForm'' @ dec i"

definition file_name_of :: "nat \<Rightarrow> jsstr" where
  "file_name_of i = str ''jUploadFile'' @ dec i"

definition iframe_html :: "bool \<Rightarrow> jsstr \<Rightarrow> prim \<Rightarrow> jsstr" where
  "iframe_html activex frameId uri =
     str ''<iframe id=\"'' @ frameId @ str ''\" name=\"'' @ frameId @
     str ''\" style=\"position:absolute; top:-9999px; left:-9999px\"'' @
     (if activex then
        (case uri of
           Bool _ \<Rightarrow> str '' src=\"javascript:false\"''
         | Str u \<Rightarrow> str '' src=\"'' @ u @ str ''\"''
         | _ \<Rightarrow> [])
      else []) @
     str '' />''"

definition createUploadIframe :: "env \<Rightarrow> nat \<Rightarrow> prim \<Rightarrow> page \<Rightarrow> page" where
  "createUploadIframe ev i uri w =
     (let frameId = frame_name_of i
      in w\<lparr>frames := frames w @
             [\<lparr>frame_id = frameId, frame_html = iframe_html (has_ActiveXObject ev) frameId uri,
               handlers = [], frame_live = True\<rparr>]\<rparr>)"

definition hidden_html :: "jsstr \<times> prim \<Rightarrow> jsstr" where
  "hidden_html = (\<lambda>(i, v).
     str ''<input type=\"hidden\" name=\"'' @ i @ str ''\" value=\"'' @ to_string v @ str ''\" />'')"

definition set_attr :: "jsstr \<Rightarrow> prim \<Rightarrow> (jsstr \<times> jsstr) list \<Rightarrow> (jsstr \<times> jsstr) list" where
  "set_attr k v as =
     (if v = Undefined then as
      else if v = Null then filter (\<lambda>a. fst a \<noteq> k) as
      else AList.update k (to_string v) as)"

definition new_form :: "nat \<Rightarrow> (jsstr \<times> prim) list option \<Rightarrow> element list \<Rightarrow> form" where
  "new_form i d es =
     \<lparr>form_id = form_name_of i,
      hidden = (case d of None \<Rightarrow> [] | Some ps \<Rightarrow> map hidden_html ps),
      moved = es,
      attrs = [(str ''action'', []), (str ''method'', str ''POST''), (str ''name'', form_name_of i),
               (str ''id'', form_name_of i), (str ''enctype'', str ''multipart/form-data'')],
      styles = [(str ''position'', str ''absolute''), (str ''top'', str ''-1200px''),
                (str ''left'', str ''-1200px'')],
      form_live = True\<rparr>"

text \<open>
  The element leaves a clone, which keeps its id, in its place and moves into the form under
  a new id; a selector that matches nothing moves nothing.
\<close>

definition createUploadForm ::
  "env \<Rightarrow> nat \<Rightarrow> prim \<Rightarrow> (jsstr \<times> prim) list option \<Rightarrow> page \<Rightarrow> page" where
  "createUploadForm ev i elementId d w =
     (case find_index (\<lambda>e. elem_id e = to_string elementId) (elements w) of
        None \<Rightarrow> w\<lparr>forms := forms w @ [new_form i d []]\<rparr>
      | Some k \<Rightarrow>
          (let old = elements w ! k;
               new = old\<lparr>files := clone_files ev (files old)\<rparr>
           in w\<lparr>elements := (elements w)[k := new],
                forms := forms w @ [new_form i d [old\<lparr>elem_id := file_name_of i\<rparr>]]\<rparr>))"

subsection \<open>Starting an upload\<close>

definition is_global :: "options \<Rightarrow> bool" where
  "is_global s = prim_truthy (global s)"

definition begin_request :: "options \<Rightarrow> nat \<Rightarrow> page \<Rightarrow> page" where
  "begin_request s n w =
     (if is_global s then
        (let w1 = w\<lparr>active := active w + 1\<rparr>;
             w2 = (if active w = 0 then trigger AjaxStart w1 else w1)
         in trigger (AjaxSend n) w2)
      else w)"

definition on_form :: "nat option \<Rightarrow> (form \<Rightarrow> form) \<Rightarrow> page \<Rightarrow> page" where
  "on_form k f w =
     (case k of None \<Rightarrow> w | Some j \<Rightarrow> w\<lparr>forms := (forms w)[j := f (forms w ! j)]\<rparr>)"

definition on_frame :: "nat option \<Rightarrow> (frame \<Rightarrow> frame) \<Rightarrow> page \<Rightarrow> page" where
  "on_frame k f w =
     (case k of None \<Rightarrow> w | Some j \<Rightarrow> w\<lparr>frames := (frames w)[j := f (frames w ! j)]\<rparr>)"

text \<open>
  The attributes and the submission of the form that has the id now.  The test of
  \<open>form.encoding\<close> reads a property of a jQuery object, which has none.
\<close>

definition submit_form :: "options \<Rightarrow> jsstr \<Rightarrow> nat option \<Rightarrow> page \<Rightarrow> page" where
  "submit_form s frameId k w =
     emit [Submitted k frameId]
       (on_form k (\<lambda>f. f\<lparr>attrs :=
          set_attr (str ''enctype'') (Str (str ''multipart/form-data''))
            (set_attr (str ''target'') (Str frameId)
              (set_attr (str ''method'') (Str (str ''POST''))
                (set_attr (str ''action'') (url s) (attrs f))))\<rparr>) w)"

definition ajaxFileUpload :: "env \<Rightarrow> options \<Rightarrow> nat \<Rightarrow> page \<Rightarrow> page" where
  "ajaxFileUpload ev s0 now w0 =
     (let s = extend_options (ajaxSettings ev) s0;
          w1 = createUploadForm ev now (fileElementId s) (data s) w0;
          w2 = createUploadIframe ev now (secureuri s) w1;
          n = length (requests w2);
          w3 = begin_request s n w2;
          form = form_by_id w3 (form_name_of now);
          r = \<lparr>opts = s, frame_name = frame_name_of now, form_var = form,
               xml = Some \<lparr>responseText = Prim Undefined, responseXML = Prim Undefined\<rparr>,
               requestDone = False, timer = Fin 0 < to_number (timeout s)\<rparr>;
          w4 = submit_form s (frame_name_of now) form (w3\<lparr>requests := requests w3 @ [r]\<rparr>)
      in on_frame (frame_by_id w4 (frame_name_of now)) (\<lambda>f. f\<lparr>handlers := handlers f @ [n]\<rparr>) w4)"

subsection \<open>The callback of a request\<close>

text \<open>What a callback does: it causes events and starts uploads.  The clock stands still while a
  script runs, so all uploads that one callback starts read the same millisecond.\<close>

fun run_command :: "env \<Rightarrow> command \<Rightarrow> page \<Rightarrow> page" where
  "run_command ev (Emit u) w = emit [u] w"
| "run_command ev (Start s) w = ajaxFileUpload ev s (clock w) w"

definition run_action :: "env \<Rightarrow> action \<Rightarrow> page \<Rightarrow> page \<times> unit result" where
  "run_action ev a w = (fold (run_command ev) (fst a) w, snd a)"

fun response_value :: "response option \<Rightarrow> jsval" where
  "response_value None = Prim Null"
| "response_value (Some x) =
     Obj [(str ''responseText'', responseText x), (str ''responseXML'', responseXML x)]"

text \<open>\<open>jQuery.handleError(s, xml, status, e)\<close>; an exception that is not given is \<open>None\<close>.\<close>

definition handle_error ::
  "env \<Rightarrow> options \<Rightarrow> response option \<Rightarrow> prim \<Rightarrow> js_error option \<Rightarrow> page \<Rightarrow> page \<times> unit result" where
  "handle_error ev s x status e w =
     (case handleError ev of
        None \<Rightarrow> (w, Inl TypeError)
      | Some h \<Rightarrow> run_action ev (h s (response_value x) status e) w)"

definition set_request :: "nat \<Rightarrow> (request \<Rightarrow> request) \<Rightarrow> page \<Rightarrow> page" where
  "set_request n f w = w\<lparr>requests := (requests w)[n := f (requests w ! n)]\<rparr>"

text \<open>The first \<open>try\<close> block: reading the frame into \<open>xml\<close>.\<close>

definition capture :: "frame_view \<Rightarrow> nat option \<Rightarrow> response option \<Rightarrow> response option result" where
  "capture view io x =
     (case io of
        None \<Rightarrow> Inl TypeError
      | Some _ \<Rightarrow>
          (case view of
             No_window \<Rightarrow> Inr x
           | Content_document \<Rightarrow> Inl TypeError
           | Blocked \<Rightarrow> Inl TypeError
           | Loaded txt doc \<Rightarrow>
               (case x of
                  None \<Rightarrow> Inl TypeError
                | Some _ \<Rightarrow> Inr (Some \<lparr>responseText = txt, responseXML = doc\<rparr>))))"

definition uploadHttpData :: "env \<Rightarrow> response \<Rightarrow> prim \<Rightarrow> jsval result" where
  "uploadHttpData ev r type =
     (let d0 = (if type = Str (str ''xml'') \<or> \<not> prim_truthy type then responseXML r
                else responseText r)
      in bind_result (if type = Str (str ''script'') then globalEval ev d0 else Inr ()) (\<lambda>_.
         bind_result
           (if type = Str (str ''json'') then eval ev (str ''data = '' @ value_to_string d0)
            else Inr d0) (\<lambda>d.
         bind_result
           (if type = Str (str ''html'')
            then (case evalScripts ev of None \<Rightarrow> Inl TypeError | Some f \<Rightarrow> f d) else Inr ()) (\<lambda>_.
         Inr d))))"

text \<open>The successful part of the second \<open>try\<close> block.\<close>

definition deliver :: "env \<Rightarrow> nat \<Rightarrow> page \<Rightarrow> page \<times> unit result" where
  "deliver ev n w =
     (let s = opts (requests w ! n)
      in case xml (requests w ! n) of
           None \<Rightarrow> (w, Inl TypeError)
         | Some x \<Rightarrow>
             (case uploadHttpData ev x (dataType s) of
                Inl e \<Rightarrow> (w, Inl e)
              | Inr d \<Rightarrow>
                  (case (case success s of
                           None \<Rightarrow> (w, Inr ())
                         | Some f \<Rightarrow> run_action ev (f [d, Prim (Str (str ''success''))]) w) of
                     (w1, Inl e) \<Rightarrow> (w1, Inl e)
                   | (w1, Inr _) \<Rightarrow>
                       (if is_global s then trigger (AjaxSuccess n) w1 else w1, Inr ()))))"

text \<open>The whole second \<open>try\<close> block with its handler: the status, or an exception that leaves
  the callback.\<close>

definition process_response :: "env \<Rightarrow> nat \<Rightarrow> bool \<Rightarrow> page \<Rightarrow> page \<times> jsstr result" where
  "process_response ev n timed_out w =
     (let s = opts (requests w ! n);
          status = (if timed_out then str ''error'' else str ''success'')
      in case (if timed_out then handle_error ev s (xml (requests w ! n)) (Str status) None w
               else deliver ev n w) of
           (w1, Inr _) \<Rightarrow> (w1, Inr status)
         | (w1, Inl e) \<Rightarrow>
             (case handle_error ev s (xml (requests w1 ! n)) (Str (str ''error'')) (Some e) w1 of
                (w2, Inl e') \<Rightarrow> (w2, Inl e')
              | (w2, Inr _) \<Rightarrow> (w2, Inr (str ''error''))))"

definition end_request :: "options \<Rightarrow> nat \<Rightarrow> page \<Rightarrow> page" where
  "end_request s n w =
     (if is_global s then
        (let w1 = trigger (AjaxComplete n) w;
             w2 = w1\<lparr>active := active w1 - 1\<rparr>
         in if active w2 = 0 then trigger AjaxStop w2 else w2)
      else w)"

definition finish :: "env \<Rightarrow> nat \<Rightarrow> nat option \<Rightarrow> jsstr \<Rightarrow> page \<Rightarrow> page \<times> unit result" where
  "finish ev n io status w =
     (let s = opts (requests w ! n);
          w1 = end_request s n w
      in case (case complete s of
                 None \<Rightarrow> (w1, Inr ())
               | Some f \<Rightarrow>
                   run_action ev (f [response_value (xml (requests w1 ! n)), Prim (Str status)]) w1) of
           (w2, Inl e) \<Rightarrow> (w2, Inl e)
         | (w2, Inr _) \<Rightarrow>
             (let w3 = on_frame io (\<lambda>f. f\<lparr>handlers := []\<rparr>) w2;
                  w4 = w3\<lparr>removals := removals w3 @ [(io, form_var (requests w3 ! n))]\<rparr>
              in (set_request n (\<lambda>r. r\<lparr>xml := None\<rparr>) w4, Inr ())))"

definition complete_request ::
  "env \<Rightarrow> nat \<Rightarrow> nat option \<Rightarrow> bool \<Rightarrow> page \<Rightarrow> page \<times> unit result" where
  "complete_request ev n io timed_out w =
     (case process_response ev n timed_out (set_request n (\<lambda>r. r\<lparr>requestDone := True\<rparr>) w) of
        (w1, Inl e) \<Rightarrow> (w1, Inl e)
      | (w1, Inr status) \<Rightarrow> finish ev n io status w1)"

definition uploadCallback ::
  "env \<Rightarrow> nat \<Rightarrow> bool \<Rightarrow> frame_view \<Rightarrow> page \<Rightarrow> page \<times> unit result" where
  "uploadCallback ev n timed_out view w =
     (let r = requests w ! n;
          io = frame_by_id w (frame_name r)
      in case (case capture view io (xml r) of
                 Inr x \<Rightarrow> (set_request n (\<lambda>r. r\<lparr>xml := x\<rparr>) w, Inr ())
               | Inl e \<Rightarrow> handle_error ev (opts r) (xml r) Null (Some e) w) of
           (w1, Inl e) \<Rightarrow> (w1, Inl e)
         | (w1, Inr _) \<Rightarrow>
             if xml (requests w1 ! n) \<noteq> None \<or> timed_out
             then complete_request ev n io timed_out w1
             else (w1, Inr ()))"

subsection \<open>What the browser calls\<close>

text \<open>A \<open>load\<close> event runs the handlers that the frame had at its start; an exception ends the
  dispatch and reaches the browser.\<close>

fun run_handlers :: "env \<Rightarrow> frame_view \<Rightarrow> nat list \<Rightarrow> page \<Rightarrow> page" where
  "run_handlers ev view [] w = w"
| "run_handlers ev view (n # ns) w =
     (case uploadCallback ev n False view w of
        (w1, Inr _) \<Rightarrow> run_handlers ev view ns w1
      | (w1, Inl e) \<Rightarrow> emit [Uncaught e] w1)"

definition on_load :: "env \<Rightarrow> nat \<Rightarrow> frame_view \<Rightarrow> page \<Rightarrow> page" where
  "on_load ev k view w = run_handlers ev view (handlers (frames w ! k)) w"

definition on_timeout :: "env \<Rightarrow> nat \<Rightarrow> frame_view \<Rightarrow> page \<Rightarrow> page" where
  "on_timeout ev n view w =
     (let w1 = set_request n (\<lambda>r. r\<lparr>timer := False\<rparr>) w
      in if \<not> requestDone (requests w1 ! n)
         then (case uploadCallback ev n True view w1 of
                 (w2, Inr _) \<Rightarrow> w2 | (w2, Inl e) \<Rightarrow> emit [Uncaught e] w2)
         else w1)"

definition on_removal :: "nat \<Rightarrow> page \<Rightarrow> page" where
  "on_removal k w =
     (case removals w ! k of
        (io, form) \<Rightarrow>
          on_form form (\<lambda>f. f\<lparr>form_live := False\<rparr>)
            (on_frame io (\<lambda>f. f\<lparr>frame_live := False, handlers := []\<rparr>)
              (w\<lparr>removals := take k (removals w) @ drop (Suc k) (removals w)\<rparr>)))"

text \<open>
  The steps of a page: the clock goes on, a call of the plugin, a \<open>load\<close> event of a frame in
  the document, a timeout and a removal that are due.  Script code runs to completion, so the
  order of the steps is all the interleaving there is.
\<close>

datatype step =
  Tick nat | Upload options | Load nat frame_view | Timeout nat frame_view | Removal nat

fun enabled :: "step \<Rightarrow> page \<Rightarrow> bool" where
  "enabled (Tick d) w = True"
| "enabled (Upload s) w = True"
| "enabled (Load k view) w = (k < length (frames w) \<and> frame_live (frames w ! k))"
| "enabled (Timeout n view) w = (n < length (requests w) \<and> timer (requests w ! n))"
| "enabled (Removal k) w = (k < length (removals w))"

fun run_step :: "env \<Rightarrow> step \<Rightarrow> page \<Rightarrow> page" where
  "run_step ev (Tick d) w = w\<lparr>clock := clock w + d\<rparr>"
| "run_step ev (Upload s) w = ajaxFileUpload ev s (clock w) w"
| "run_step ev (Load k view) w = on_load ev k view w"
| "run_step ev (Timeout n view) w = on_timeout ev n view w"
| "run_step ev (Removal k) w = on_removal k w"

text \<open>The page before the first upload.\<close>

definition fresh :: "page \<Rightarrow> bool" where
  "fresh w \<longleftrightarrow>
     active w = 0 \<and> forms w = [] \<and> frames w = [] \<and> requests w = [] \<and> removals w = [] \<and> trace w = []"

inductive page_step :: "env \<Rightarrow> (options \<Rightarrow> bool) \<Rightarrow> page \<Rightarrow> page \<Rightarrow> bool" for ev ok where
  page_step: "enabled st w \<Longrightarrow>
     (\<And>s. st = Upload s \<Longrightarrow> ok (extend_options (ajaxSettings ev) s)) \<Longrightarrow>
     page_step ev ok w (run_step ev st w)"

inductive_cases page_stepE: "page_step ev ok w w'"

definition reachable :: "env \<Rightarrow> (options \<Rightarrow> bool) \<Rightarrow> page \<Rightarrow> bool" where
  "reachable ev ok w \<longleftrightarrow> (\<exists>w0. fresh w0 \<and> (page_step ev ok)\<^sup>*\<^sup>* w0 w)"

end
