(* ===== verification/UploadProtocol.thy ===== *)
theory UploadProtocol
  imports FileUpload
begin

text \<open>
  The protocol of the global events: an abstract machine whose state is the counter
  \<open>jQuery.active\<close>, the log of the global events and, for every request, whether it is global
  and whether its \<open>xml\<close> is still there.  The invariants of the counter are proved on the
  machine, and every step of the page is a sequence of steps of the machine, so they hold of
  the plugin, whatever the callbacks, the responses and the order of the events are.
\<close>

subsection \<open>Invariants of a transition system\<close>

locale invariant_system =
  fixes init :: "'s \<Rightarrow> bool" and trans :: "'s \<Rightarrow> 's \<Rightarrow> bool" and inv :: "'s \<Rightarrow> bool"
  assumes init_inv: "init s \<Longrightarrow> inv s"
    and trans_inv: "inv s \<Longrightarrow> trans s t \<Longrightarrow> inv t"
begin

lemma run_inv: "trans\<^sup>*\<^sup>* s t \<Longrightarrow> inv s \<Longrightarrow> inv t"
  by (induction rule: rtranclp_induct) (auto intro: trans_inv)

lemma reach_inv: "init s \<Longrightarrow> trans\<^sup>*\<^sup>* s t \<Longrightarrow> inv t"
  by (blast intro: run_inv init_inv)

end

subsection \<open>The abstract machine\<close>

record proto =
  count :: int
  log :: "ajax_event list"
  live :: "(bool \<times> bool) list"   \<comment> \<open>global, and not yet finished\<close>

definition p_init :: "proto \<Rightarrow> bool" where
  "p_init p \<longleftrightarrow> p = \<lparr>count = 0, log = [], live = []\<rparr>"

definition p_begin :: "bool \<Rightarrow> proto \<Rightarrow> proto" where
  "p_begin g p =
     (if g then
        p\<lparr>count := count p + 1,
          log := log p @ (if count p = 0 then [AjaxStart] else []) @ [AjaxSend (length (live p))],
          live := live p @ [(True, True)]\<rparr>
      else p\<lparr>live := live p @ [(False, True)]\<rparr>)"

definition p_finish :: "nat \<Rightarrow> bool \<Rightarrow> bool \<Rightarrow> proto \<Rightarrow> proto" where
  "p_finish n g l p =
     (if g then
        p\<lparr>count := count p - 1,
          log := log p @ [AjaxComplete n] @ (if count p = 1 then [AjaxStop] else []),
          live := (live p)[n := (g, l)]\<rparr>
      else p\<lparr>live := (live p)[n := (g, l)]\<rparr>)"

text \<open>With \<open>quiet\<close> no \<open>complete\<close> callback throws, so a request that finishes is over.\<close>

inductive pstep :: "bool \<Rightarrow> proto \<Rightarrow> proto \<Rightarrow> bool" for quiet where
  begin_step: "pstep quiet p (p_begin g p)"
| success_step: "n < length (live p) \<Longrightarrow> live p ! n = (True, True) \<Longrightarrow>
     pstep quiet p (p\<lparr>log := log p @ [AjaxSuccess n]\<rparr>)"
| finish_step: "n < length (live p) \<Longrightarrow> live p ! n = (g, True) \<Longrightarrow> (quiet \<Longrightarrow> \<not> l) \<Longrightarrow>
     pstep quiet p (p_finish n g l p)"

inductive_cases pstepE: "pstep quiet p p'"

subsection \<open>The counter\<close>

fun is_send :: "ajax_event \<Rightarrow> bool" where
  "is_send (AjaxSend _) = True"
| "is_send _ = False"

fun is_complete :: "ajax_event \<Rightarrow> bool" where
  "is_complete (AjaxComplete _) = True"
| "is_complete _ = False"

definition balance :: "ajax_event list \<Rightarrow> int" where
  "balance l = int (length (filter is_send l)) - int (length (filter is_complete l))"

lemma balance_simps [simp]:
  "balance [] = 0"
  "balance (l @ m) = balance l + balance m"
  "balance [AjaxStart] = 0" "balance [AjaxStop] = 0" "balance [AjaxSuccess n] = 0"
  "balance [AjaxSend n] = 1" "balance [AjaxComplete n] = - 1"
  "balance (AjaxStart # l) = balance l"
  "balance (AjaxComplete n # l) = balance l - 1"
  by (simp_all add: balance_def)

interpretation counted: invariant_system p_init "pstep q" "\<lambda>p. count p = balance (log p)"
proof
  show "count s = balance (log s)" if "p_init s" for s
    using that by (simp add: p_init_def)
  show "count t = balance (log t)" if "count s = balance (log s)" "pstep q s t" for s t
    using that(2,1) by (cases rule: pstep.cases) (auto simp: p_begin_def p_finish_def)
qed

text \<open>How many global requests are not finished.\<close>

definition open_requests :: "(bool \<times> bool) list \<Rightarrow> nat" where
  "open_requests ls = length (filter (\<lambda>x. x = (True, True)) ls)"

lemma open_requests_simps [simp]:
  "open_requests [] = 0"
  "open_requests (x # ls) = (if x = (True, True) then 1 else 0) + open_requests ls"
  "open_requests (ls @ [x]) = open_requests ls + (if x = (True, True) then 1 else 0)"
  by (simp_all add: open_requests_def)

lemma open_requests_update:
  "n < length ls \<Longrightarrow>
     int (open_requests (ls[n := x])) =
     int (open_requests ls) - (if ls ! n = (True, True) then 1 else 0) + (if x = (True, True) then 1 else 0)"
proof (induction ls arbitrary: n)
  case (Cons y ls)
  then show ?case by (cases n) simp_all
qed simp

lemma open_requests_pos: "n < length ls \<Longrightarrow> ls ! n = (True, True) \<Longrightarrow> 0 < open_requests ls"
  by (auto simp: open_requests_def filter_empty_conv in_set_conv_nth)

text \<open>
  The phases of the log: every event lies between a start and the next stop, and starts and
  stops alternate.  The result says whether the last phase is still open.
\<close>

fun phases :: "bool \<Rightarrow> ajax_event list \<Rightarrow> bool option" where
  "phases busy [] = Some busy"
| "phases busy (AjaxStart # l) = (if busy then None else phases True l)"
| "phases busy (AjaxStop # l) = (if busy then phases False l else None)"
| "phases busy (e # l) = (if busy then phases busy l else None)"

lemma phases_append: "phases b (l @ m) = (case phases b l of Some b' \<Rightarrow> phases b' m | None \<Rightarrow> None)"
  by (induction b l rule: phases.induct) auto

text \<open>Each request completes exactly when it is no longer live.\<close>

definition completions :: "nat \<Rightarrow> ajax_event list \<Rightarrow> nat" where
  "completions n l = count_list l (AjaxComplete n)"

definition quiet_inv :: "proto \<Rightarrow> bool" where
  "quiet_inv p \<longleftrightarrow>
     count p = int (open_requests (live p)) \<and>
     phases False (log p) = Some (0 < count p) \<and>
     (\<forall>n. completions n (log p) = (if n < length (live p) \<and> live p ! n = (True, False) then 1 else 0))"

lemma quiet_inv_begin: "quiet_inv p \<Longrightarrow> quiet_inv (p_begin g p)"
  by (auto simp: quiet_inv_def p_begin_def phases_append completions_def nth_append)

lemma quiet_inv_success:
  "quiet_inv p \<Longrightarrow> n < length (live p) \<Longrightarrow> live p ! n = (True, True) \<Longrightarrow>
     quiet_inv (p\<lparr>log := log p @ [AjaxSuccess n]\<rparr>)"
  using open_requests_pos [of n "live p"]
  by (auto simp: quiet_inv_def phases_append completions_def)

lemma quiet_inv_finish:
  assumes "quiet_inv p" "n < length (live p)" "live p ! n = (g, True)"
  shows "quiet_inv (p_finish n g False p)"
proof -
  have o: "g \<Longrightarrow> 0 < open_requests (live p)" using assms(2,3) by (auto dest: open_requests_pos)
  show ?thesis
    using assms o
    by (auto simp: quiet_inv_def p_finish_def phases_append completions_def open_requests_update
        nth_list_update)
qed

interpretation quiet_run: invariant_system p_init "pstep True" quiet_inv
proof
  show "quiet_inv s" if "p_init s" for s
    using that by (simp add: p_init_def quiet_inv_def completions_def)
  show "quiet_inv t" if "quiet_inv s" "pstep True s t" for s t
    using that(2,1)
    by (cases rule: pstep.cases) (auto intro: quiet_inv_begin quiet_inv_success quiet_inv_finish)
qed

subsection \<open>The page as the machine\<close>

fun ajax_of :: "event list \<Rightarrow> ajax_event list" where
  "ajax_of [] = []"
| "ajax_of (Ajax e # es) = e # ajax_of es"
| "ajax_of (User u # es) = ajax_of es"

lemma ajax_of_append [simp]: "ajax_of (es @ fs) = ajax_of es @ ajax_of fs"
  by (induction es rule: ajax_of.induct) auto

lemma ajax_of_user [simp]: "ajax_of (map User us) = []"
  by (induction us) auto

definition alive :: "request \<Rightarrow> bool \<times> bool" where
  "alive r = (is_global (opts r), xml r \<noteq> None)"

definition proto_of :: "page \<Rightarrow> proto" where
  "proto_of w = \<lparr>count = active w, log = ajax_of (trace w), live = map alive (requests w)\<rparr>"

lemma proto_of_emit [simp]: "proto_of (emit us w) = proto_of w"
  by (simp add: proto_of_def emit_def)

lemma proto_of_trigger [simp]: "proto_of (trigger e w) = proto_of w\<lparr>log := log (proto_of w) @ [e]\<rparr>"
  by (simp add: proto_of_def trigger_def)

lemma proto_of_on [simp]:
  "proto_of (on_form k f w) = proto_of w"
  "proto_of (on_frame k g w) = proto_of w"
  by (simp_all add: proto_of_def on_form_def on_frame_def split: option.splits)

lemma proto_of_fields [simp]:
  "proto_of (w\<lparr>forms := a\<rparr>) = proto_of w"
  "proto_of (w\<lparr>frames := b\<rparr>) = proto_of w"
  "proto_of (w\<lparr>removals := c\<rparr>) = proto_of w"
  "proto_of (w\<lparr>elements := d\<rparr>) = proto_of w"
  "proto_of (w\<lparr>active := k\<rparr>) = proto_of w\<lparr>count := k\<rparr>"
  "count (proto_of w) = active w"
  "live (proto_of w) = map alive (requests w)"
  by (simp_all add: proto_of_def)

lemma proto_of_set_request:
  "n < length (requests w) \<Longrightarrow>
     proto_of (set_request n f w) = proto_of w\<lparr>live := (live (proto_of w))[n := alive (f (requests w ! n))]\<rparr>"
  by (simp add: proto_of_def set_request_def map_update)

lemma proto_of_set_request_same:
  "n < length (requests w) \<Longrightarrow> alive (f (requests w ! n)) = alive (requests w ! n) \<Longrightarrow>
     proto_of (set_request n f w) = proto_of w"
  by (simp add: proto_of_def set_request_def map_update list_update_same_conv)

text \<open>Starting uploads one after the other.\<close>

definition begin_flags :: "env \<Rightarrow> command list \<Rightarrow> bool list" where
  "begin_flags ev cs =
     concat (map (\<lambda>c. case c of
                        Start s \<Rightarrow> [is_global (extend_options (ajaxSettings ev) s)]
                      | Emit u \<Rightarrow> []) cs)"

lemma p_begin_live:
  "n < length (live p) \<Longrightarrow>
     p_begin g (p\<lparr>live := (live p)[n := x]\<rparr>) = (p_begin g p)\<lparr>live := (live (p_begin g p))[n := x]\<rparr> \<and>
     n < length (live (p_begin g p))"
  by (simp add: p_begin_def list_update_append)

lemma p_begins_live:
  "n < length (live p) \<Longrightarrow>
     fold p_begin gs (p\<lparr>live := (live p)[n := x]\<rparr>) =
       (fold p_begin gs p)\<lparr>live := (live (fold p_begin gs p))[n := x]\<rparr>"
proof (induction gs arbitrary: p)
  case (Cons g gs)
  then show ?case using p_begin_live [OF Cons.prems, of g x] by simp
qed simp

lemma p_begins_run: "(pstep q)\<^sup>*\<^sup>* p (fold p_begin gs p)"
proof (induction gs arbitrary: p)
  case (Cons g gs)
  have "pstep q p (p_begin g p)" by (rule begin_step)
  then show ?case using Cons.IH [of "p_begin g p"] by (simp add: converse_rtranclp_into_rtranclp)
qed simp

text \<open>The list of requests through the operations that leave it alone.\<close>

lemma requests_simps [simp]:
  "requests (emit us w) = requests w" "requests (trigger e w) = requests w"
  "requests (on_form k f w) = requests w" "requests (on_frame k g w) = requests w"
  "requests (begin_request s n w) = requests w" "requests (end_request s n w) = requests w"
  "requests (submit_form s fr k w) = requests w"
  "requests (createUploadForm ev i el d w) = requests w"
  "requests (createUploadIframe ev i u w) = requests w"
  "requests (set_request n h w) = (requests w)[n := h (requests w ! n)]"
  by (simp_all add: emit_def trigger_def on_form_def on_frame_def begin_request_def end_request_def
      submit_form_def createUploadForm_def createUploadIframe_def set_request_def Let_def
      split: option.splits)

lemma clock_simps [simp]:
  "clock (emit us w) = clock w" "clock (trigger e w) = clock w"
  "clock (on_form k f w) = clock w" "clock (on_frame k g w) = clock w"
  "clock (begin_request s n w) = clock w" "clock (end_request s n w) = clock w"
  "clock (submit_form s fr k w) = clock w" "clock (set_request n h w) = clock w"
  "clock (createUploadForm ev i el d w) = clock w"
  "clock (createUploadIframe ev i u w) = clock w"
  by (simp_all add: emit_def trigger_def on_form_def on_frame_def begin_request_def end_request_def
      submit_form_def createUploadForm_def createUploadIframe_def set_request_def Let_def
      split: option.splits)

lemma upload_clock [simp]: "clock (ajaxFileUpload ev s now w) = clock w"
  by (simp add: ajaxFileUpload_def Let_def)

lemma begin_request_proto:
  "proto_of ((begin_request s (length (requests w)) w)\<lparr>requests := requests w @ [r]\<rparr>) =
     p_begin (is_global s) (proto_of w)"
  if "alive r = (is_global s, True)"
  using that by (auto simp: begin_request_def p_begin_def proto_of_def trigger_def)

lemma end_request_proto:
  "proto_of (end_request s n w) =
     (if is_global s
      then proto_of w\<lparr>count := active w - 1,
             log := log (proto_of w) @ [AjaxComplete n] @ (if active w = 1 then [AjaxStop] else [])\<rparr>
      else proto_of w)"
  by (simp add: end_request_def Let_def proto_of_def trigger_def)

lemma upload_proto:
  "proto_of (ajaxFileUpload ev s now w) =
     p_begin (is_global (extend_options (ajaxSettings ev) s)) (proto_of w)"
proof -
  let ?s = "extend_options (ajaxSettings ev) s"
  let ?w = "createUploadIframe ev now (secureuri ?s) (createUploadForm ev now (fileElementId ?s) (data ?s) w)"
  have "proto_of ?w = proto_of w"
    by (simp add: createUploadIframe_def createUploadForm_def Let_def split: option.splits)
  moreover have sub: "proto_of (submit_form t fr k v) = proto_of v" for t fr k v
    by (simp add: submit_form_def)
  ultimately show ?thesis
    using begin_request_proto [of _ ?s ?w]
    by (auto simp: ajaxFileUpload_def Let_def sub alive_def)
qed

lemma upload_requests: "\<exists>r. requests (ajaxFileUpload ev s now w) = requests w @ [r]"
  by (simp add: ajaxFileUpload_def Let_def)

lemma upload_requests_alive:
  "map alive (requests (ajaxFileUpload ev s now w)) =
     map alive (requests w) @ [(is_global (extend_options (ajaxSettings ev) s), True)]"
  using arg_cong [OF upload_proto [of ev s now w], of live] by (simp add: p_begin_def split: if_splits)

lemma commands_proto:
  "proto_of (fold (run_command ev) cs w) = fold p_begin (begin_flags ev cs) (proto_of w)"
proof (induction cs arbitrary: w)
  case (Cons c cs)
  then show ?case by (cases c) (simp_all add: begin_flags_def upload_proto)
qed (simp add: begin_flags_def)

lemma commands_requests: "\<exists>rs. requests (fold (run_command ev) cs w) = requests w @ rs"
proof (induction cs arbitrary: w)
  case (Cons c cs)
  obtain rs where "requests (run_command ev c w) = requests w @ rs"
    using upload_requests by (cases c) fastforce+
  then show ?case using Cons.IH [of "run_command ev c w"] by auto
qed simp

lemma run_action_requests: "run_action ev a w = (w', r) \<Longrightarrow> \<exists>rs. requests w' = requests w @ rs"
  using commands_requests by (auto simp: run_action_def)

subsection \<open>Looking things up\<close>

lemma find_index_None: "find_index P xs = None \<longleftrightarrow> \<not> list_ex P xs"
  by (auto simp: find_index_def find_None_iff list_ex_length)

lemma find_index_skip: "\<not> list_ex P xs \<Longrightarrow> P y \<Longrightarrow> find_index P (xs @ y # ys) = Some (length xs)"
  unfolding find_index_def find_Some_iff
  by (intro exI [of _ "length xs"]) (auto simp: nth_append list_ex_length)

lemma find_index_found: "find_index P xs = Some k \<Longrightarrow> k < length xs \<and> P (xs ! k)"
  by (auto simp: find_index_def find_Some_iff)

subsection \<open>Well-formed pages\<close>

text \<open>
  Every reference that the plugin follows is in range: a handler belongs to a request, the
  variable \<open>form\<close> of a closure and a pending removal name forms and frames that were created.
  A request that is not done still has its \<open>xml\<close>, and its options satisfy \<open>ok\<close>.
\<close>

definition in_range :: "nat option \<Rightarrow> nat \<Rightarrow> bool" where
  "in_range k n = (case k of None \<Rightarrow> True | Some j \<Rightarrow> j < n)"

definition request_ok :: "(options \<Rightarrow> bool) \<Rightarrow> nat \<Rightarrow> request \<Rightarrow> bool" where
  "request_ok ok fm r \<longleftrightarrow> (requestDone r \<or> xml r \<noteq> None) \<and> ok (opts r) \<and> in_range (form_var r) fm"

definition wf :: "(options \<Rightarrow> bool) \<Rightarrow> page \<Rightarrow> bool" where
  "wf ok w \<longleftrightarrow>
     list_all (request_ok ok (length (forms w))) (requests w) \<and>
     list_all (\<lambda>f. list_all (\<lambda>n. n < length (requests w)) (handlers f)) (frames w) \<and>
     list_all (\<lambda>(io, form). in_range io (length (frames w)) \<and> in_range form (length (forms w)))
       (removals w)"

lemma list_all_update: "list_all P xs \<Longrightarrow> P x \<Longrightarrow> list_all P (xs[n := x])"
  by (auto simp: list_all_iff dest!: set_update_subset_insert [THEN subsetD])

lemma list_all_nth: "list_all P xs \<Longrightarrow> n < length xs \<Longrightarrow> P (xs ! n)"
  by (simp add: list_all_length)

lemma in_range_mono: "in_range k n \<Longrightarrow> n \<le> m \<Longrightarrow> in_range k m"
  by (auto simp: in_range_def split: option.splits)

lemma wf_request: "wf ok w \<Longrightarrow> n < length (requests w) \<Longrightarrow> request_ok ok (length (forms w)) (requests w ! n)"
  by (simp add: wf_def list_all_nth)

lemma wf_same:
  "wf ok w \<Longrightarrow> requests w' = requests w \<Longrightarrow> frames w' = frames w \<Longrightarrow> removals w' = removals w \<Longrightarrow>
     length (forms w') = length (forms w) \<Longrightarrow> wf ok w'"
  by (simp add: wf_def)

lemma wf_set_request:
  "wf ok w \<Longrightarrow> request_ok ok (length (forms w)) (f (requests w ! n)) \<Longrightarrow> wf ok (set_request n f w)"
  by (simp add: wf_def set_request_def list_all_update)

lemma wf_on_frame_clear:
  "wf ok w \<Longrightarrow> (\<And>f. handlers (g f) = []) \<Longrightarrow> wf ok (on_frame k g w)"
  by (auto simp: wf_def on_frame_def list_all_update split: option.splits)

lemma frames_simps [simp]:
  "frames (emit us w) = frames w" "frames (trigger e w) = frames w"
  "frames (on_form k f w) = frames w" "frames (set_request n h w) = frames w"
  "frames (begin_request s n w) = frames w" "frames (end_request s n w) = frames w"
  "frames (submit_form s fr k w) = frames w"
  "frames (createUploadForm ev i el d w) = frames w"
  by (simp_all add: emit_def trigger_def on_form_def set_request_def begin_request_def
      end_request_def submit_form_def createUploadForm_def Let_def split: option.splits)

lemma removals_simps [simp]:
  "removals (emit us w) = removals w" "removals (trigger e w) = removals w"
  "removals (on_form k f w) = removals w" "removals (set_request n h w) = removals w"
  "removals (on_frame k g w) = removals w"
  "removals (begin_request s n w) = removals w" "removals (end_request s n w) = removals w"
  "removals (submit_form s fr k w) = removals w"
  "removals (createUploadForm ev i el d w) = removals w"
  "removals (createUploadIframe ev i u w) = removals w"
  by (simp_all add: emit_def trigger_def on_form_def on_frame_def set_request_def begin_request_def
      end_request_def submit_form_def createUploadForm_def createUploadIframe_def Let_def
      split: option.splits)

lemma length_forms_simps [simp]:
  "length (forms (emit us w)) = length (forms w)" "length (forms (trigger e w)) = length (forms w)"
  "length (forms (on_form k f w)) = length (forms w)" "length (forms (set_request n h w)) = length (forms w)"
  "length (forms (on_frame k g w)) = length (forms w)"
  "length (forms (begin_request s n w)) = length (forms w)"
  "length (forms (end_request s n w)) = length (forms w)"
  "length (forms (submit_form s fr k w)) = length (forms w)"
  "length (forms (createUploadForm ev i el d w)) = Suc (length (forms w))"
  "length (forms (createUploadIframe ev i u w)) = length (forms w)"
  by (simp_all add: emit_def trigger_def on_form_def on_frame_def set_request_def begin_request_def
      end_request_def submit_form_def createUploadForm_def createUploadIframe_def Let_def
      split: option.splits)

lemma length_frames_on_frame [simp]: "length (frames (on_frame k g w)) = length (frames w)"
  by (simp add: on_frame_def split: option.splits)

lemma form_by_id_range: "in_range (form_by_id w nm) (length (forms w))"
  by (auto simp: in_range_def form_by_id_def dest: find_index_found split: option.splits)

lemma frame_by_id_range: "in_range (frame_by_id w nm) (length (frames w))"
  by (auto simp: in_range_def frame_by_id_def dest: find_index_found split: option.splits)

text \<open>Growing lists keep references in range.\<close>

lemma wf_grow:
  assumes "wf ok w" "requests w' = requests w" "removals w' = removals w" "frames w' = frames w @ fs"
    and "list_all (\<lambda>f. handlers f = []) fs" "length (forms w) \<le> length (forms w')"
  shows "wf ok w'"
proof -
  have "request_ok ok (length (forms w)) r \<Longrightarrow> request_ok ok (length (forms w')) r" for r
    using assms(6) by (auto simp: request_ok_def intro: in_range_mono)
  moreover have "in_range k (length (frames w)) \<Longrightarrow> in_range k (length (frames w'))"
    "in_range k (length (forms w)) \<Longrightarrow> in_range k (length (forms w'))" for k
    using assms(4,6) by (auto intro: in_range_mono)
  ultimately show ?thesis
    using assms(1-5) by (auto simp: wf_def list_all_iff)
qed

lemma upload_wf:
  assumes "wf ok w" "ok (extend_options (ajaxSettings ev) s)"
  shows "wf ok (ajaxFileUpload ev s now w)"
proof -
  let ?s = "extend_options (ajaxSettings ev) s"
  let ?w1 = "createUploadForm ev now (fileElementId ?s) (data ?s) w"
  let ?w2 = "createUploadIframe ev now (secureuri ?s) ?w1"
  let ?w3 = "begin_request ?s (length (requests ?w2)) ?w2"
  let ?j = "form_by_id ?w3 (form_name_of now)"
  let ?r = "\<lparr>opts = ?s, frame_name = frame_name_of now, form_var = ?j,
      xml = Some \<lparr>responseText = Prim Undefined, responseXML = Prim Undefined\<rparr>,
      requestDone = False, timer = Fin 0 < to_number (timeout ?s)\<rparr>"
  let ?w4 = "submit_form ?s (frame_name_of now) ?j (?w3\<lparr>requests := requests ?w3 @ [?r]\<rparr>)"
  let ?k = "frame_by_id ?w4 (frame_name_of now)"
  have w3: "wf ok ?w3"
    by (rule wf_grow [OF assms(1), where fs = "[\<lparr>frame_id = frame_name_of now,
        frame_html = iframe_html (has_ActiveXObject ev) (frame_name_of now) (secureuri ?s),
        handlers = [], frame_live = True\<rparr>]"])
       (simp_all add: createUploadIframe_def Let_def)
  have "request_ok ok (length (forms ?w3)) ?r"
    using assms(2) form_by_id_range [of ?w3] by (simp add: request_ok_def)
  moreover have "list_all (\<lambda>f. list_all (\<lambda>m. m < Suc (length (requests ?w3))) (handlers f)) (frames ?w3)"
    using w3 by (auto simp: wf_def list_all_iff intro: less_SucI)
  ultimately have w4: "wf ok ?w4"
    using w3 by (simp add: wf_def)
  have f: "\<And>k. k < length (frames ?w4) \<Longrightarrow>
      list_all (\<lambda>m. m < length (requests ?w4)) (handlers (frames ?w4 ! k))"
    using w4 by (simp add: wf_def list_all_length)
  have "wf ok (on_frame ?k (\<lambda>f. f\<lparr>handlers := handlers f @ [length (requests ?w2)]\<rparr>) ?w4)"
  proof (cases ?k)
    case (Some k)
    then have "k < length (frames ?w4)" using frame_by_id_range [of ?w4] by (metis in_range_def option.simps(5))
    then show ?thesis
      using w4 f [of k] Some by (simp add: wf_def on_frame_def list_all_update del: frames_simps)
  qed (use w4 in \<open>simp add: on_frame_def\<close>)
  then show ?thesis by (simp only: ajaxFileUpload_def Let_def)
qed

subsection \<open>Every step of the page is steps of the machine\<close>

definition quiet :: "options \<Rightarrow> bool" where
  "quiet s \<longleftrightarrow> (case complete s of None \<Rightarrow> True | Some f \<Rightarrow> (\<forall>args. snd (f args) = Inr ()))"

text \<open>The options of the uploads that callbacks start are those the page allows.\<close>

definition commands_ok :: "env \<Rightarrow> (options \<Rightarrow> bool) \<Rightarrow> command list \<Rightarrow> bool" where
  "commands_ok ev ok cs \<longleftrightarrow>
     list_all (\<lambda>c. case c of Start s \<Rightarrow> ok (extend_options (ajaxSettings ev) s) | Emit u \<Rightarrow> True) cs"

definition closed :: "env \<Rightarrow> (options \<Rightarrow> bool) \<Rightarrow> bool" where
  "closed ev ok \<longleftrightarrow>
     (\<forall>s f args. ok s \<and> (success s = Some f \<or> complete s = Some f) \<longrightarrow> commands_ok ev ok (fst (f args))) \<and>
     (\<forall>s h x st e. ok s \<and> handleError ev = Some h \<longrightarrow> commands_ok ev ok (fst (h s x st e)))"

lemma closed_True: "closed ev (\<lambda>_. True)"
  by (auto simp: closed_def commands_ok_def list_all_iff split: command.splits)

text \<open>Code that runs the machine and, apart from starting uploads, leaves the requests alone.\<close>

definition runs :: "(options \<Rightarrow> bool) \<Rightarrow> bool \<Rightarrow> page \<Rightarrow> page \<Rightarrow> bool" where
  "runs ok q w w' \<longleftrightarrow>
     wf ok w' \<and> (\<exists>rs. requests w' = requests w @ rs) \<and> length (frames w) \<le> length (frames w') \<and>
     (pstep q)\<^sup>*\<^sup>* (proto_of w) (proto_of w')"

lemma runs_refl: "wf ok w \<Longrightarrow> runs ok q w w"
  by (simp add: runs_def)

lemma runs_trans: "runs ok q u v \<Longrightarrow> runs ok q v w \<Longrightarrow> runs ok q u w"
  by (fastforce simp: runs_def)

lemma runs_nth:
  "runs ok q w w' \<Longrightarrow> n < length (requests w) \<Longrightarrow>
     requests w' ! n = requests w ! n \<and> n < length (requests w')"
  by (auto simp: runs_def nth_append)

lemma commands_wf: "commands_ok ev ok cs \<Longrightarrow> wf ok w \<Longrightarrow> wf ok (fold (run_command ev) cs w)"
proof (induction cs arbitrary: w)
  case (Cons c cs)
  have "wf ok (run_command ev c w)"
  proof (cases c)
    case (Emit u)
    then show ?thesis using wf_same [OF Cons.prems(2), of "emit [u] w"] by simp
  next
    case (Start s)
    then show ?thesis using Cons.prems by (simp add: commands_ok_def upload_wf)
  qed
  then show ?case using Cons by (simp add: commands_ok_def)
qed simp

lemma upload_frames: "length (frames (ajaxFileUpload ev s now w)) = Suc (length (frames w))"
  by (simp add: ajaxFileUpload_def Let_def createUploadIframe_def)

lemma commands_frames: "length (frames w) \<le> length (frames (fold (run_command ev) cs w))"
proof (induction cs arbitrary: w)
  case (Cons c cs)
  have "length (frames w) \<le> length (frames (run_command ev c w))"
    by (cases c) (simp_all add: upload_frames)
  then show ?case using Cons.IH [of "run_command ev c w"] by simp
qed simp

lemma run_action_runs:
  "run_action ev a w = (w', r) \<Longrightarrow> commands_ok ev ok (fst a) \<Longrightarrow> wf ok w \<Longrightarrow> runs ok q w w'"
  using commands_requests p_begins_run commands_frames
  by (auto simp: run_action_def runs_def commands_wf commands_proto)

lemma handle_error_runs:
  "handle_error ev s x st e w = (w', r) \<Longrightarrow> closed ev ok \<Longrightarrow> ok s \<Longrightarrow> wf ok w \<Longrightarrow> runs ok q w w'"
  by (auto simp: handle_error_def closed_def runs_refl intro: run_action_runs split: option.splits)

lemma success_runs:
  assumes "wf ok w" "n < length (requests w)" "is_global (opts (requests w ! n))"
    and "xml (requests w ! n) \<noteq> None"
  shows "runs ok q w (trigger (AjaxSuccess n) w)"
proof -
  have "pstep q (proto_of w) (proto_of w\<lparr>log := log (proto_of w) @ [AjaxSuccess n]\<rparr>)"
    by (rule success_step) (use assms in \<open>simp_all add: alive_def\<close>)
  then show ?thesis
    using wf_same [OF assms(1), of "trigger (AjaxSuccess n) w"] by (simp add: runs_def)
qed

lemma deliver_runs:
  assumes "deliver ev n w = (w', r)" "n < length (requests w)" "wf ok w" "closed ev ok"
  shows "runs ok q w w'"
proof -
  let ?s = "opts (requests w ! n)"
  define called where "called d =
    (case success ?s of None \<Rightarrow> (w, Inr ()) | Some f \<Rightarrow> run_action ev (f [d, Prim (Str (str ''success''))]) w)" for d
  have "ok ?s" using wf_request [OF assms(3,2)] by (simp add: request_ok_def)
  then have one: "called d = (w1, r1) \<Longrightarrow> runs ok q w w1" for d w1 r1
    using assms(3,4)
    by (auto simp: called_def closed_def runs_refl intro: run_action_runs split: option.splits)
  have two: "runs ok q w (trigger (AjaxSuccess n) w1)"
    if "called d = (w1, r1)" "is_global ?s" "xml (requests w ! n) \<noteq> None" for d w1 r1
  proof (rule runs_trans [OF one [OF that(1)]])
    have "wf ok w1" "requests w1 ! n = requests w ! n \<and> n < length (requests w1)"
      using one [OF that(1)] runs_nth assms(2) by (auto simp: runs_def)
    then show "runs ok q w1 (trigger (AjaxSuccess n) w1)"
      using that(2,3) by (intro success_runs) simp_all
  qed
  show ?thesis
    using assms(1,3) one two unfolding deliver_def Let_def called_def [symmetric]
    by (auto simp: runs_refl split: option.splits sum.splits prod.splits if_splits)
qed

lemma process_response_runs:
  assumes "process_response ev n t w = (w', r)" "n < length (requests w)" "wf ok w" "closed ev ok"
  shows "runs ok q w w'"
proof -
  let ?s = "opts (requests w ! n)" and ?st = "if t then str ''error'' else str ''success''"
  have s: "ok ?s" using wf_request [OF assms(3,2)] by (simp add: request_ok_def)
  obtain w1 r1 where first:
    "(if t then handle_error ev ?s (xml (requests w ! n)) (Str ?st) None w else deliver ev n w) = (w1, r1)"
    by fastforce
  then have one: "runs ok q w w1"
    using deliver_runs [OF _ assms(2-4)] handle_error_runs [OF _ assms(4) s assms(3)]
    by (cases t) simp_all
  obtain w2 r2 where second:
    "handle_error ev ?s (xml (requests w1 ! n)) (Str (str ''error'')) (Some (projl r1)) w1 = (w2, r2)"
    by fastforce
  then have "runs ok q w1 w2"
    using one by (intro handle_error_runs [OF _ assms(4) s]) (auto simp: runs_def)
  then have "runs ok q w w2" by (rule runs_trans [OF one])
  moreover have "w' = w1 \<or> w' = w2"
    using assms(1) first second
    by (cases r1; cases r2) (auto simp: process_response_def Let_def simp del: str_simps)
  ultimately show ?thesis using one by auto
qed

text \<open>Code that may also finish requests.\<close>

definition follows :: "(options \<Rightarrow> bool) \<Rightarrow> bool \<Rightarrow> page \<Rightarrow> page \<Rightarrow> bool" where
  "follows ok q w w' \<longleftrightarrow>
     wf ok w' \<and> length (requests w) \<le> length (requests w') \<and> (pstep q)\<^sup>*\<^sup>* (proto_of w) (proto_of w')"

lemma follows_refl: "wf ok w \<Longrightarrow> follows ok q w w"
  by (simp add: follows_def)

lemma follows_trans: "follows ok q u v \<Longrightarrow> follows ok q v w \<Longrightarrow> follows ok q u w"
  by (auto simp: follows_def)

lemma runs_follows: "runs ok q w w' \<Longrightarrow> follows ok q w w'"
  by (auto simp: runs_def follows_def)

lemma follows_emit: "follows ok q w w' \<Longrightarrow> follows ok q w (emit us w')"
  by (auto simp: follows_def intro: wf_same)

lemma in_range_frames: "in_range k (length (frames w)) \<Longrightarrow> runs ok q w w' \<Longrightarrow> in_range k (length (frames w'))"
  by (auto simp: runs_def intro: in_range_mono)

text \<open>The end of a request: the protocol ends it before the \<open>complete\<close> callback runs, so the
  uploads that the callback starts come after.\<close>

lemma finish_follows:
  assumes "finish ev n io st w = (w', r)" "wf ok w" "n < length (requests w)"
    and "requestDone (requests w ! n)" "xml (requests w ! n) \<noteq> None"
    and "closed ev ok" "q \<Longrightarrow> quiet (opts (requests w ! n))" "in_range io (length (frames w))"
  shows "follows ok q w w'"
proof -
  let ?s = "opts (requests w ! n)" and ?p = "proto_of w"
  let ?g = "is_global ?s" and ?w1 = "end_request ?s n w"
  obtain w2 r2 where called: "(case complete ?s of
      None \<Rightarrow> (?w1, Inr ())
    | Some f \<Rightarrow> run_action ev (f [response_value (xml (requests ?w1 ! n)), Prim (Str st)]) ?w1) = (w2, r2)"
    by fastforce
  have live: "n < length (live ?p)" "live ?p ! n = (?g, True)"
    using assms(3,5) by (simp_all add: alive_def)
  have same: "(live ?p)[n := (?g, True)] = live ?p" using live by (metis list_update_id)
  have w1: "wf ok ?w1" using assms(2) by (rule wf_same) simp_all
  have ok: "ok ?s" using wf_request [OF assms(2,3)] by (simp add: request_ok_def)
  then have run: "runs ok q ?w1 w2"
    using called w1 assms(6)
    by (auto simp: closed_def runs_refl intro: run_action_runs split: option.splits)
  obtain gs where gs: "proto_of w2 = fold p_begin gs (proto_of ?w1)"
    using called by (auto simp: run_action_def commands_proto split: option.splits intro: that [of "[]"])
  have p1: "proto_of ?w1 = p_finish n ?g True ?p"
    using same by (auto simp: end_request_proto p_finish_def)
  have req: "requests w2 ! n = requests w ! n" "n < length (requests w2)"
    using runs_nth [OF run] assms(3) by simp_all
  show ?thesis
  proof (cases r2)
    case (Inl e)
    then have "w' = w2" using assms(1) called by (simp add: finish_def Let_def)
    moreover have "\<not> q" using called Inl assms(7) by (auto simp: quiet_def run_action_def split: option.splits)
    then have "(pstep q)\<^sup>*\<^sup>* ?p (proto_of ?w1)"
      unfolding p1 using live by (intro r_into_rtranclp finish_step) auto
    ultimately show ?thesis using run by (auto simp: follows_def runs_def)
  next
    case (Inr u)
    let ?w3 = "on_frame io (\<lambda>f. f\<lparr>handlers := []\<rparr>) w2"
    let ?w4 = "?w3\<lparr>removals := removals ?w3 @ [(io, form_var (requests ?w3 ! n))]\<rparr>"
    have w': "w' = set_request n (\<lambda>r. r\<lparr>xml := None\<rparr>) ?w4"
      using assms(1) called Inr by (simp add: finish_def Let_def)
    have "proto_of w' = (proto_of w2)\<lparr>live := (live (proto_of w2))[n := (?g, False)]\<rparr>"
      using req by (simp add: w' proto_of_set_request alive_def del: requests_simps(10))
    also have "\<dots> = fold p_begin gs ((proto_of ?w1)\<lparr>live := (live (proto_of ?w1))[n := (?g, False)]\<rparr>)"
      unfolding gs using live assms(3) by (intro p_begins_live [symmetric]) simp
    also have "(proto_of ?w1)\<lparr>live := (live (proto_of ?w1))[n := (?g, False)]\<rparr> = p_finish n ?g False ?p"
      unfolding p1 by (simp add: p_finish_def)
    finally have p: "proto_of w' = fold p_begin gs (p_finish n ?g False ?p)" .
    have "pstep q ?p (p_finish n ?g False ?p)" using live by (intro finish_step) auto
    then have steps: "(pstep q)\<^sup>*\<^sup>* ?p (proto_of w')"
      unfolding p using p_begins_run by (meson converse_rtranclp_into_rtranclp)
    have w2: "wf ok w2" using run by (simp add: runs_def)
    then have "wf ok ?w3" by (rule wf_on_frame_clear) simp
    moreover have "in_range io (length (frames w2))" "in_range (form_var (requests w2 ! n)) (length (forms w2))"
      using in_range_frames [OF _ run] assms(8) wf_request [OF w2 req(2)]
      by (simp_all add: request_ok_def)
    ultimately have "wf ok ?w4" by (simp add: wf_def)
    then have "wf ok w'"
      unfolding w' using wf_request [OF w2 req(2)] assms(4)
      by (intro wf_set_request) (simp_all add: request_ok_def req(1))
    then show ?thesis
      using steps run by (auto simp: follows_def runs_def w')
  qed
qed

lemma complete_request_follows:
  assumes "complete_request ev n io t w = (w', r)" "wf ok w" "n < length (requests w)"
    and "xml (requests w ! n) \<noteq> None" "closed ev ok" "q \<Longrightarrow> quiet (opts (requests w ! n))"
    and "in_range io (length (frames w))"
  shows "follows ok q w w'"
proof -
  let ?v = "set_request n (\<lambda>r. r\<lparr>requestDone := True\<rparr>) w"
  have v: "requestDone (requests ?v ! n)" "opts (requests ?v ! n) = opts (requests w ! n)"
    "xml (requests ?v ! n) = xml (requests w ! n)" "n < length (requests ?v)"
    using assms(3) by simp_all
  have "proto_of ?v = proto_of w"
    using assms(3) by (simp add: proto_of_set_request_same alive_def)
  moreover have vwf: "wf ok ?v"
    using wf_request [OF assms(2,3)] by (intro wf_set_request [OF assms(2)]) (simp add: request_ok_def)
  ultimately have zero: "follows ok q w ?v" by (simp add: follows_def)
  obtain w1 r1 where p: "process_response ev n t ?v = (w1, r1)" by fastforce
  have one: "runs ok q ?v w1" by (rule process_response_runs [OF p v(4) vwf assms(5)])
  show ?thesis
  proof (cases r1)
    case (Inl e)
    then have "w' = w1" using assms(1) p by (simp add: complete_request_def)
    then show ?thesis using follows_trans [OF zero] runs_follows [OF one] by simp
  next
    case (Inr st)
    then have f: "finish ev n io st w1 = (w', r)" using assms(1) p by (simp add: complete_request_def)
    have "in_range io (length (frames w1))"
      using assms(7) by (intro in_range_frames [OF _ one]) simp
    then have "follows ok q w1 w'"
      using runs_nth [OF one v(4)] v assms(4-6) one
      by (intro finish_follows [OF f]) (auto simp: runs_def)
    then show ?thesis using follows_trans [OF zero] follows_trans [OF runs_follows [OF one]] by blast
  qed
qed

lemma capture_alive: "capture view io x = Inr y \<Longrightarrow> y = None \<longleftrightarrow> x = None"
  by (auto simp: capture_def split: option.splits frame_view.splits)

lemma uploadCallback_follows:
  assumes "uploadCallback ev n t view w = (w', r)" "wf ok w" "n < length (requests w)"
    and "t \<Longrightarrow> \<not> requestDone (requests w ! n)" "closed ev ok" "\<And>s. q \<Longrightarrow> ok s \<Longrightarrow> quiet s"
  shows "follows ok q w w'"
proof -
  let ?r = "requests w ! n" and ?io = "frame_by_id w (frame_name (requests w ! n))"
  note rok = wf_request [OF assms(2,3)]
  obtain w1 r1 where first:
    "(case capture view ?io (xml ?r) of
        Inr x \<Rightarrow> (set_request n (\<lambda>r. r\<lparr>xml := x\<rparr>) w, Inr ())
      | Inl e \<Rightarrow> handle_error ev (opts ?r) (xml ?r) Null (Some e) w) = (w1, r1)"
    by fastforce
  have one: "follows ok q w w1 \<and> n < length (requests w1) \<and> length (frames w) \<le> length (frames w1) \<and>
      opts (requests w1 ! n) = opts ?r \<and> (xml (requests w1 ! n) = None \<longleftrightarrow> xml ?r = None)"
  proof (cases "capture view ?io (xml ?r)")
    case (Inl e)
    then have "runs ok q w w1"
      using first rok assms(2,5) by (intro handle_error_runs) (auto simp: request_ok_def)
    note run = this
    show ?thesis using runs_nth [OF run assms(3)] runs_follows [OF run] run by (simp add: runs_def)
  next
    case (Inr x)
    then have w1: "w1 = set_request n (\<lambda>r. r\<lparr>xml := x\<rparr>) w" using first by simp
    have x: "x = None \<longleftrightarrow> xml ?r = None" using Inr by (rule capture_alive)
    have "wf ok w1"
      unfolding w1 using rok x by (intro wf_set_request [OF assms(2)]) (auto simp: request_ok_def)
    then show ?thesis
      using x assms(3) by (simp add: w1 follows_def proto_of_set_request_same alive_def)
  qed
  show ?thesis
  proof (cases "r1 = Inr () \<and> (xml ?r \<noteq> None \<or> t)")
    case True
    then have c: "complete_request ev n ?io t w1 = (w', r)"
      using assms(1) first one by (auto simp: uploadCallback_def Let_def)
    have "xml (requests w1 ! n) \<noteq> None"
      using True assms(4) rok one by (auto simp: request_ok_def)
    moreover have "q \<Longrightarrow> quiet (opts (requests w1 ! n))"
      using assms(6) rok one by (simp add: request_ok_def)
    moreover have "in_range ?io (length (frames w1))"
      using in_range_mono [OF frame_by_id_range] one by blast
    ultimately have "follows ok q w1 w'"
      using one assms(5) by (intro complete_request_follows [OF c]) (auto simp: follows_def)
    then show ?thesis using one follows_trans by blast
  next
    case False
    then have "w' = w1"
      using assms(1) first one by (cases r1) (auto simp: uploadCallback_def Let_def)
    then show ?thesis using one by simp
  qed
qed

lemma run_handlers_follows:
  assumes "closed ev ok" "\<And>s. q \<Longrightarrow> ok s \<Longrightarrow> quiet s"
  shows "wf ok w \<Longrightarrow> list_all (\<lambda>n. n < length (requests w)) ns \<Longrightarrow>
    follows ok q w (run_handlers ev view ns w)"
proof (induction ns arbitrary: w)
  case Nil
  then show ?case by (simp add: follows_refl)
next
  case (Cons n ns)
  obtain w1 r1 where c: "uploadCallback ev n False view w = (w1, r1)" by fastforce
  have one: "follows ok q w w1"
    using uploadCallback_follows [OF c Cons.prems(1) _ _ assms] Cons.prems(2) by auto
  have "list_all (\<lambda>n. n < length (requests w1)) ns"
    using Cons.prems(2) one by (auto simp: follows_def list_all_iff)
  then have "follows ok q w1 (run_handlers ev view ns w1)"
    using one by (intro Cons.IH) (auto simp: follows_def)
  then show ?case using c one follows_trans follows_emit [OF one] by (cases r1) auto
qed

lemma on_timeout_follows:
  assumes "wf ok w" "n < length (requests w)" "closed ev ok" "\<And>s. q \<Longrightarrow> ok s \<Longrightarrow> quiet s"
  shows "follows ok q w (on_timeout ev n view w)"
proof -
  let ?w = "set_request n (\<lambda>r. r\<lparr>timer := False\<rparr>) w"
  have n: "n < length (requests ?w)" using assms(2) by simp
  have "wf ok ?w"
    using wf_request [OF assms(1,2)] by (intro wf_set_request [OF assms(1)]) (simp add: request_ok_def)
  then have zero: "follows ok q w ?w" "wf ok ?w"
    using assms(2) by (simp_all add: follows_def proto_of_set_request_same alive_def)
  obtain w1 r1 where c: "uploadCallback ev n True view ?w = (w1, r1)" by fastforce
  have "follows ok q ?w w1" if "\<not> requestDone (requests ?w ! n)"
    using uploadCallback_follows [OF c zero(2) n _ assms(3,4)] that by blast
  then have "follows ok q w w1" if "\<not> requestDone (requests ?w ! n)"
    using that follows_trans [OF zero(1)] by blast
  then show ?thesis
    using zero(1) c follows_emit by (auto simp: on_timeout_def Let_def split: sum.splits)
qed

lemma on_removal_follows:
  assumes "wf ok w"
  shows "follows ok q w (on_removal k w)"
proof -
  obtain io form where r: "removals w ! k = (io, form)" by fastforce
  let ?v = "w\<lparr>removals := take k (removals w) @ drop (Suc k) (removals w)\<rparr>"
  have "set (removals ?v) \<subseteq> set (removals w)"
    using set_take_subset [of k "removals w"] set_drop_subset [of "Suc k" "removals w"] by auto
  then have "wf ok ?v" using assms by (auto simp: wf_def list_all_iff)
  then have "wf ok (on_frame io (\<lambda>f. f\<lparr>frame_live := False, handlers := []\<rparr>) ?v)"
    by (rule wf_on_frame_clear) simp
  then have "wf ok (on_removal k w)"
    by (auto simp: on_removal_def r intro: wf_same)
  then show ?thesis by (simp add: follows_def) (simp add: on_removal_def r)
qed

lemma step_follows:
  assumes "wf ok w" "enabled st w" "closed ev ok" "\<And>s. q \<Longrightarrow> ok s \<Longrightarrow> quiet s"
    and "\<And>s. st = Upload s \<Longrightarrow> ok (extend_options (ajaxSettings ev) s)"
  shows "follows ok q w (run_step ev st w)"
proof (cases st)
  case (Tick d)
  have "wf ok (w\<lparr>clock := clock w + d\<rparr>)" using assms(1) by (rule wf_same) simp_all
  then show ?thesis by (simp add: Tick follows_def proto_of_def)
next
  case (Upload s)
  then have "run_action ev ([Start s], Inr ()) w = (run_step ev st w, Inr ())"
    by (simp add: run_action_def)
  then have "runs ok q w (run_step ev st w)"
    using assms(1,5) Upload by (elim run_action_runs) (simp_all add: commands_ok_def)
  then show ?thesis by (rule runs_follows)
next
  case (Load k view)
  then have "list_all (\<lambda>n. n < length (requests w)) (handlers (frames w ! k))"
    using assms(1,2) by (auto simp: wf_def list_all_length)
  then show ?thesis
    using run_handlers_follows [OF assms(3,4,1)] Load by (simp add: on_load_def)
next
  case (Timeout n view)
  then show ?thesis using on_timeout_follows [OF assms(1) _ assms(3,4)] assms(2) by simp
next
  case (Removal k)
  then show ?thesis using on_removal_follows [OF assms(1)] by simp
qed

lemma page_run_follows:
  assumes "(page_step ev ok)\<^sup>*\<^sup>* w w'" "wf ok w" "closed ev ok" "\<And>s. q \<Longrightarrow> ok s \<Longrightarrow> quiet s"
  shows "follows ok q w w'"
  using assms(1)
proof induction
  case base
  then show ?case using assms(2) by (rule follows_refl)
next
  case (step u v)
  from step.hyps(2) obtain st where "v = run_step ev st u" "enabled st u"
    "\<And>s. st = Upload s \<Longrightarrow> ok (extend_options (ajaxSettings ev) s)"
    by (rule page_stepE) blast
  moreover have "wf ok u" using step.IH by (simp add: follows_def)
  ultimately have "follows ok q u v"
    using step_follows [of ok u st ev q] assms(3,4) by blast
  then show ?case by (rule follows_trans [OF step.IH])
qed

lemma fresh_proto: "fresh w \<Longrightarrow> p_init (proto_of w) \<and> wf ok w"
  by (simp add: fresh_def p_init_def proto_of_def wf_def)

lemma reachable_proto:
  assumes "reachable ev ok w" "closed ev ok" "\<And>s. q \<Longrightarrow> ok s \<Longrightarrow> quiet s"
  shows "(\<exists>p. p_init p \<and> (pstep q)\<^sup>*\<^sup>* p (proto_of w)) \<and> wf ok w"
proof -
  obtain w0 where "fresh w0" "(page_step ev ok)\<^sup>*\<^sup>* w0 w"
    using assms(1) by (auto simp: reachable_def)
  then show ?thesis
    using page_run_follows [of ev ok w0 w q] assms(2,3) fresh_proto unfolding follows_def by metis
qed

text \<open>Allowing more options allows more pages, so what holds of all pages needs no condition on
  the options.\<close>

lemma reachable_any: "reachable ev ok w \<Longrightarrow> reachable ev (\<lambda>_. True) w"
proof -
  have "page_step ev ok u v \<Longrightarrow> page_step ev (\<lambda>_. True) u v" for u v
    by (erule page_stepE) (auto intro: page_step)
  then have "(page_step ev ok)\<^sup>*\<^sup>* u v \<Longrightarrow> (page_step ev (\<lambda>_. True))\<^sup>*\<^sup>* u v" for u v
    using mono_rtranclp [of "page_step ev ok" "page_step ev (\<lambda>_. True)"] by blast
  then show "reachable ev ok w \<Longrightarrow> reachable ev (\<lambda>_. True) w"
    by (auto simp: reachable_def)
qed

text \<open>No \<open>complete\<close> callback throws, also none of an upload that a callback starts.\<close>

definition calm :: "env \<Rightarrow> (options \<Rightarrow> bool) \<Rightarrow> bool" where
  "calm ev ok \<longleftrightarrow> closed ev ok \<and> (\<forall>s. ok s \<longrightarrow> quiet s)"

subsection \<open>A page to try the theorems on\<close>

definition plain_options :: options where
  "plain_options =
     Options (Str (str ''up'')) (Bool False) (Str (str ''f'')) (Str (str ''json'')) Undefined (Bool True)
       None None None None"

definition plain_env :: env where
  "plain_env =
     \<lparr>ajaxSettings = plain_options, handleError = None, eval = (\<lambda>_. Inr (Obj [])),
      globalEval = (\<lambda>_. Inr ()), evalScripts = None, has_ActiveXObject = False,
      clone_files = (\<lambda>fs. fs)\<rparr>"

definition plain_page :: page where
  "plain_page =
     \<lparr>active = 0, elements = [\<lparr>elem_id = str ''f'', files = [str ''a.jpg'']\<rparr>], forms = [],
      frames = [], requests = [], removals = [],
      indicator = Some \<lparr>shown = False, start_handlers = 1, complete_handlers = 1\<rparr>, clock = 7,
      trace = []\<rparr>"

definition sample_page :: page where
  "sample_page = run_step plain_env (Upload plain_options) plain_page"

lemma plain_extended:
  "extend_options (ajaxSettings plain_env) plain_options = plain_options" "is_global plain_options"
  by (simp_all add: plain_env_def plain_options_def extend_options_def or_else_def or_default_def
      is_global_def)

lemma sample_reachable: "ok plain_options \<Longrightarrow> reachable plain_env ok sample_page"
proof -
  assume "ok plain_options"
  then have "page_step plain_env ok plain_page sample_page"
    unfolding sample_page_def by (intro page_step) (auto simp: plain_extended)
  moreover have "fresh plain_page" by (simp add: fresh_def plain_page_def)
  ultimately show ?thesis unfolding reachable_def by blast
qed

lemma sample_calm: "calm plain_env (\<lambda>s. s = plain_options)"
  by (simp add: calm_def closed_def quiet_def plain_options_def plain_env_def)

lemma sample_trace:
  "ajax_of (trace sample_page) = [AjaxStart, AjaxSend 0]" "active sample_page = 1"
  "map alive (requests sample_page) = [(True, True)]"
proof -
  have "proto_of sample_page = p_begin True (proto_of plain_page)"
    by (simp add: sample_page_def upload_proto plain_extended)
  moreover have "proto_of plain_page = \<lparr>count = 0, log = [], live = []\<rparr>"
    by (simp add: proto_of_def plain_page_def)
  ultimately have p: "proto_of sample_page = \<lparr>count = 1, log = [AjaxStart, AjaxSend 0], live = [(True, True)]\<rparr>"
    by (simp add: p_begin_def)
  then show "ajax_of (trace sample_page) = [AjaxStart, AjaxSend 0]" "active sample_page = 1"
    "map alive (requests sample_page) = [(True, True)]"
    by (simp_all add: proto_of_def)
qed

subsection \<open>What holds of the page\<close>

text \<open>
  C1: The plugin implements the protocol machine: on every reachable page, whatever the
  callbacks did (starting further uploads included) and whatever the responses and the order
  of the events were, the counter, the global events and the state of
  the requests are those of a run of the machine from its initial state.
\<close>

theorem page_refines_protocol:
  assumes "reachable ev ok w"
  shows "\<exists>p. p_init p \<and> (pstep False)\<^sup>*\<^sup>* p (proto_of w)"
  using reachable_proto [OF reachable_any [OF assms] closed_True, of False] by simp

theorem page_refines_protocol_witness:
  "\<exists>p. p_init p \<and> (pstep False)\<^sup>*\<^sup>* p (proto_of sample_page)"
  by (rule page_refines_protocol [of plain_env "\<lambda>_. True"]) (rule sample_reachable, simp)

text \<open>
  C5: Every reachable page is well typed as a store: the handlers of every frame are requests
  that exist, the variable form of every closure and both parts of every pending removal are
  absent or name a form and a frame that were created, a request that is not marked done
  still has its response object, and, provided that callbacks start uploads with allowed
  options only, the options of every request are among the allowed ones.
\<close>

theorem page_well_typed:
  assumes "reachable ev ok w" "closed ev ok"
  shows "(\<forall>f \<in> set (frames w). \<forall>n \<in> set (handlers f). n < length (requests w)) \<and>
         (\<forall>r \<in> set (requests w). in_range (form_var r) (length (forms w)) \<and>
            (requestDone r \<or> xml r \<noteq> None) \<and> ok (opts r)) \<and>
         (\<forall>(io, form) \<in> set (removals w).
            in_range io (length (frames w)) \<and> in_range form (length (forms w)))"
  using reachable_proto [OF assms, of False]
  by (simp add: wf_def list_all_iff request_ok_def)

theorem page_well_typed_witness: "opts (hd (requests sample_page)) = plain_options"
proof -
  have "hd (requests sample_page) \<in> set (requests sample_page)"
    using sample_trace(3) by (cases "requests sample_page") simp_all
  then show ?thesis
    using page_well_typed [OF sample_reachable, of "\<lambda>s. s = plain_options"] sample_calm
    by (simp add: calm_def)
qed

text \<open>
  On every reachable page \<open>jQuery.active\<close> is the number of \<open>ajaxSend\<close> events minus the
  number of \<open>ajaxComplete\<close> events so far.
\<close>

theorem active_balance:
  assumes "reachable ev ok w"
  shows "active w = balance (ajax_of (trace w))"
proof -
  obtain p where "p_init p" "(pstep False)\<^sup>*\<^sup>* p (proto_of w)"
    using reachable_proto [OF reachable_any [OF assms] closed_True, of False] by auto
  then have "count (proto_of w) = balance (log (proto_of w))" by (rule counted.reach_inv)
  then show ?thesis by (simp add: proto_of_def)
qed

theorem active_balance_witness: "active sample_page = balance [AjaxStart, AjaxSend 0]"
  using active_balance [of plain_env "\<lambda>_. True" sample_page] sample_reachable
  by (simp add: sample_trace)

lemma reachable_quiet:
  assumes "reachable ev ok w" "calm ev ok"
  shows "quiet_inv (proto_of w)"
proof -
  obtain p where "p_init p" "(pstep True)\<^sup>*\<^sup>* p (proto_of w)"
    using reachable_proto [OF assms(1), of True] assms(2) by (auto simp: calm_def)
  then show ?thesis by (rule quiet_run.reach_inv)
qed

text \<open>
  C3: When no \<open>complete\<close> callback throws, \<open>jQuery.active\<close> is at every moment the number of
  global uploads that have not finished, so it is never negative, and each global upload has
  had its \<open>ajaxComplete\<close> event exactly once when it has finished and not at all before.
\<close>

theorem active_counts_open:
  assumes "reachable ev ok w" "calm ev ok"
  shows "active w = int (length (filter (\<lambda>r. is_global (opts r) \<and> xml r \<noteq> None) (requests w))) \<and>
         (\<forall>n. count_list (ajax_of (trace w)) (AjaxComplete n) =
            (if n < length (requests w) \<and> is_global (opts (requests w ! n)) \<and> xml (requests w ! n) = None
             then 1 else 0))"
proof -
  have "open_requests (map alive rs) = length (filter (\<lambda>r. is_global (opts r) \<and> xml r \<noteq> None) rs)" for rs
    by (induction rs) (auto simp: alive_def)
  moreover have "n < length (requests w) \<Longrightarrow>
      map alive (requests w) ! n = (True, False) \<longleftrightarrow>
      is_global (opts (requests w ! n)) \<and> xml (requests w ! n) = None" for n
    by (simp add: alive_def)
  ultimately show ?thesis
    using reachable_quiet [OF assms]
    by (auto simp: quiet_inv_def completions_def proto_of_def)
qed

theorem active_counts_open_witness:
  "length (filter (\<lambda>r. is_global (opts r) \<and> xml r \<noteq> None) (requests sample_page)) = 1"
  using active_counts_open [OF sample_reachable sample_calm] by (simp add: sample_trace)

text \<open>
  C2: When no \<open>complete\<close> callback throws, \<open>ajaxStart\<close> and \<open>ajaxStop\<close> alternate, beginning
  with a start; every other global event lies between a start and the following stop; and the
  last start has no stop yet exactly while the counter is positive.
\<close>

theorem start_stop_alternate:
  assumes "reachable ev ok w" "calm ev ok"
  shows "phases False (ajax_of (trace w)) = Some (0 < active w)"
  using reachable_quiet [OF assms] by (simp add: quiet_inv_def proto_of_def)

theorem start_stop_alternate_witness:
  "phases False [AjaxStart, AjaxSend 0] = Some True"
  using start_stop_alternate [OF sample_reachable sample_calm] by (simp add: sample_trace)

text \<open>A request that is live at the end of a run was live all along, so the counter never
  reached zero and no start or stop was triggered.\<close>

lemma pstep_live:
  "pstep q p p' \<Longrightarrow> n < length (live p) \<Longrightarrow>
     n < length (live p') \<and> fst (live p' ! n) = fst (live p ! n) \<and> (snd (live p' ! n) \<longrightarrow> snd (live p ! n))"
  by (erule pstepE) (auto simp: p_begin_def p_finish_def nth_append nth_list_update)

lemma pstep_stuck:
  assumes "pstep True p p'" "quiet_inv p" "n < length (live p)" "live p' ! n = (True, True)"
  shows "\<exists>l. log p' = log p @ l \<and> AjaxStart \<notin> set l \<and> AjaxStop \<notin> set l"
proof -
  have "quiet_inv p'" using assms(1,2) by (rule quiet_run.trans_inv [rotated])
  moreover have l: "live p ! n = (True, True)" "n < length (live p')"
    using pstep_live [OF assms(1,3)] assms(4) by (auto simp: prod_eq_iff)
  ultimately have "0 < count p" "0 < count p'"
    using assms(2-4) open_requests_pos by (auto simp: quiet_inv_def)
  then show ?thesis
    using assms(1) by (auto elim!: pstepE simp: p_begin_def p_finish_def split: if_splits)
qed

lemma pstep_run_stuck:
  assumes "(pstep True)\<^sup>*\<^sup>* p p'" "quiet_inv p" "n < length (live p)" "live p' ! n = (True, True)"
  shows "\<exists>l. log p' = log p @ l \<and> AjaxStart \<notin> set l \<and> AjaxStop \<notin> set l"
  using assms(1,4)
proof induction
  case (step u v)
  have u: "quiet_inv u" using step.hyps(1) assms(2) by (rule quiet_run.run_inv)
  have lu: "n < length (live u)"
    using step.hyps(1) assms(3) by (induction rule: rtranclp_induct) (auto dest: pstep_live)
  have "live u ! n = (True, True)"
    using pstep_live [OF step.hyps(2) lu] step.prems by (auto simp: prod_eq_iff)
  moreover obtain l where "log v = log u @ l \<and> AjaxStart \<notin> set l \<and> AjaxStop \<notin> set l"
    using pstep_stuck [OF step.hyps(2) u lu step.prems] by blast
  ultimately show ?case using step.IH by force
qed simp

text \<open>
  C17: When no complete callback throws: from any reachable page on, as long as one global upload
  has not finished, no \<open>ajaxStart\<close> and no \<open>ajaxStop\<close> is triggered, however many other uploads
  are started and finished.  (With a complete callback that throws this is false: a second load
  lowers the counter once more for the same upload.)
\<close>

theorem unfinished_upload_blocks_start:
  assumes "reachable ev ok w" "(page_step ev ok)\<^sup>*\<^sup>* w w'" "calm ev ok"
    and "n < length (requests w)" "is_global (opts (requests w' ! n))" "xml (requests w' ! n) \<noteq> None"
  shows "\<exists>l. ajax_of (trace w') = ajax_of (trace w) @ l \<and> AjaxStart \<notin> set l \<and> AjaxStop \<notin> set l"
proof -
  have wok: "wf ok w" using reachable_proto [OF assms(1), of False] assms(3) by (simp add: calm_def)
  have run: "(pstep True)\<^sup>*\<^sup>* (proto_of w) (proto_of w')"
    using page_run_follows [OF assms(2) wok, of True] assms(3) by (simp add: calm_def follows_def)
  have n: "n < length (live (proto_of w))" using assms(4) by simp
  have "n < length (live (proto_of w'))"
    using run n by (induction rule: rtranclp_induct) (auto dest: pstep_live)
  then have "live (proto_of w') ! n = (True, True)"
    using assms(5,6) by (simp add: alive_def)
  then show ?thesis
    using pstep_run_stuck [OF run reachable_quiet [OF assms(1,3)] n] by (simp add: proto_of_def)
qed

theorem unfinished_upload_blocks_start_witness:
  "\<exists>l. ajax_of (trace (run_step plain_env (Upload plain_options) (run_step plain_env (Tick 1) sample_page))) =
     [AjaxStart, AjaxSend 0] @ l \<and> AjaxStart \<notin> set l \<and> AjaxStop \<notin> set l"
proof -
  let ?ok = "\<lambda>s. s = plain_options" and ?v = "run_step plain_env (Tick 1) sample_page"
  let ?w = "run_step plain_env (Upload plain_options) ?v"
  have "page_step plain_env ?ok sample_page ?v" "page_step plain_env ?ok ?v ?w"
    by (rule page_step; use plain_extended in simp)+
  then have run: "(page_step plain_env ?ok)\<^sup>*\<^sup>* sample_page ?w" by (meson r_into_rtranclp rtranclp_trans)
  have "map alive (requests ?w) = [(True, True), (True, True)]"
    using upload_proto [of plain_env plain_options 8 ?v] sample_trace
    by (simp add: proto_of_def p_begin_def plain_extended upload_requests_alive)
  then have "is_global (opts (requests ?w ! 0))" "xml (requests ?w ! 0) \<noteq> None"
    by (auto simp: map_eq_Cons_conv alive_def)
  moreover have "0 < length (requests sample_page)"
    using sample_trace(3) by (cases "requests sample_page") simp_all
  ultimately show ?thesis
    using unfinished_upload_blocks_start [OF sample_reachable run sample_calm, of 0]
    by (simp add: sample_trace)
qed

end
