(* ===== verification/UploadRun.thy ===== *)
theory UploadRun
  imports UploadProtocol
begin

text \<open>
  What single operations of the plugin do, on every branch: the form that takes the file
  input away and leaves a clone, the callback on a good and on a bad response, the timeout,
  two calls in the same millisecond, and a whole upload from the call to the removal of its
  form and frame.
\<close>

subsection \<open>The form\<close>

text \<open>
  C26: Creating the form moves the first element with the given id, with its files, into a new
  form that is appended to the document, under a new id; its place is taken by a clone with
  the old id, every other element stays where it was, and the new form carries one hidden
  field per datum, in order.
\<close>

theorem createUploadForm_moves:
  assumes "elements w = before @ e # later" "elem_id e = to_string el"
    and "\<not> list_ex (\<lambda>x. elem_id x = to_string el) before"
  shows "elements (createUploadForm ev i el d w) =
           before @ e\<lparr>files := clone_files ev (files e)\<rparr> # later \<and>
         (\<exists>f. forms (createUploadForm ev i el d w) = forms w @ [f] \<and> form_live f \<and>
            form_id f = form_name_of i \<and> moved f = [e\<lparr>elem_id := file_name_of i\<rparr>] \<and>
            hidden f = (case d of None \<Rightarrow> [] | Some ps \<Rightarrow> map hidden_html ps))"
proof -
  have "find_index (\<lambda>x. elem_id x = to_string el) (elements w) = Some (length before)"
    unfolding assms(1) using assms(3,2) by (rule find_index_skip)
  then show ?thesis
    by (simp add: createUploadForm_def Let_def assms(1) new_form_def)
qed

theorem createUploadForm_moves_witness:
  "elements (createUploadForm plain_env 7 (Str (str ''f'')) None plain_page) =
     [\<lparr>elem_id = str ''f'', files = [str ''a.jpg'']\<rparr>]"
  using createUploadForm_moves [of plain_page "[]" "\<lparr>elem_id = str ''f'', files = [str ''a.jpg'']\<rparr>" "[]"
      "Str (str ''f'')" plain_env 7 None]
  by (simp add: plain_page_def plain_env_def)

text \<open>
  When no element has the id, the upload goes on without a file: the form is created
  with the hidden fields only, and the page keeps its elements.
\<close>

theorem createUploadForm_no_file:
  "list_ex (\<lambda>x. elem_id x = to_string el) (elements w) \<or>
   (elements (createUploadForm ev i el d w) = elements w \<and>
    forms (createUploadForm ev i el d w) = forms w @ [new_form i d []])"
  using find_index_None [of "\<lambda>x. elem_id x = to_string el" "elements w"]
  by (auto simp: createUploadForm_def split: option.splits)

subsection \<open>The callback\<close>

text \<open>Callbacks that start no upload.\<close>

fun is_emit :: "command \<Rightarrow> bool" where
  "is_emit (Emit u) = True"
| "is_emit (Start s) = False"

lemma emit_Nil [simp]: "emit [] w = w"
  by (simp add: emit_def)

lemma run_emits [simp]: "fold (run_command ev) (map Emit us) w = emit us w"
  by (induction us arbitrary: w) (simp_all, simp add: emit_def)

lemma only_emits: "list_all is_emit cs \<Longrightarrow> \<exists>us. cs = map Emit us"
proof (induction cs)
  case (Cons c cs)
  then obtain us where "cs = map Emit us" by auto
  moreover obtain u where "c = Emit u" using Cons.prems by (cases c) auto
  ultimately have "c # cs = map Emit (u # us)" by simp
  then show ?case by (rule exI)
qed simp

text \<open>The response is bad: it cannot be turned into data, or the callback throws on the data
  without having started another upload.\<close>

definition response_fails :: "env \<Rightarrow> options \<Rightarrow> response \<Rightarrow> bool" where
  "response_fails ev s x \<longleftrightarrow>
     (case uploadHttpData ev x (dataType s) of
        Inl e \<Rightarrow> True
      | Inr d \<Rightarrow>
          (case success s of
             None \<Rightarrow> False
           | Some f \<Rightarrow>
               (case f [d, Prim (Str (str ''success''))] of
                  (cs, Inl e) \<Rightarrow> list_all is_emit cs
                | (cs, Inr u) \<Rightarrow> False)))"

lemma deliver_fails:
  assumes "xml (requests w ! n) = Some x" "response_fails ev (opts (requests w ! n)) x"
  shows "\<exists>us e. deliver ev n w = (emit us w, Inl e)"
proof (cases "uploadHttpData ev x (dataType (opts (requests w ! n)))")
  case (Inl e)
  then have "deliver ev n w = (emit [] w, Inl e)" using assms(1) by (simp add: deliver_def)
  then show ?thesis by blast
next
  case (Inr d)
  then obtain f cs e where f: "success (opts (requests w ! n)) = Some f"
    "f [d, Prim (Str (str ''success''))] = (cs, Inl e)" "list_all is_emit cs"
    using assms(2)
    by (auto simp: response_fails_def simp del: str_simps split: option.splits prod.splits sum.splits)
  moreover obtain us where "cs = map Emit us" using only_emits [OF f(3)] by blast
  ultimately have "deliver ev n w = (emit us w, Inl e)"
    using assms(1) Inr by (simp add: deliver_def Let_def run_action_def del: str_simps)
  then show ?thesis by blast
qed

lemma emit_proto_simps [simp]:
  "active (emit us w) = active w" "removals (emit us w) = removals w"
  "forms (emit us w) = forms w" "elements (emit us w) = elements w"
  "trace (emit us w) = trace w @ map User us" "indicator (emit us w) = indicator w"
  by (simp_all add: emit_def)

lemma set_request_simps [simp]:
  "active (set_request n f w) = active w" "removals (set_request n f w) = removals w"
  "forms (set_request n f w) = forms w" "elements (set_request n f w) = elements w"
  "trace (set_request n f w) = trace w" "indicator (set_request n f w) = indicator w"
  by (simp_all add: set_request_def)

lemma frame_by_id_simps [simp]:
  "frame_by_id (emit us w) nm = frame_by_id w nm"
  "frame_by_id (set_request n f w) nm = frame_by_id w nm"
  by (simp_all add: frame_by_id_def)

lemma capture_loaded:
  "capture (Loaded txt doc) (Some k) (Some x) = Inr (Some \<lparr>responseText = txt, responseXML = doc\<rparr>)"
  by (simp add: capture_def)

text \<open>An exception while the response is delivered, when there is no \<open>handleError\<close>.\<close>

lemma uploadCallback_throws:
  assumes "handleError ev = None" "n < length (requests w)" "xml (requests w ! n) \<noteq> None"
    and "frame_by_id w (frame_name (requests w ! n)) = Some k"
    and "v = set_request n (\<lambda>r. r\<lparr>requestDone := True\<rparr>)
      (set_request n (\<lambda>r. r\<lparr>xml := Some \<lparr>responseText = txt, responseXML = doc\<rparr>\<rparr>) w)"
    and "deliver ev n v = (emit us v, Inl e)"
  shows "uploadCallback ev n False (Loaded txt doc) w = (emit us v, Inl TypeError)"
proof -
  obtain x0 where x0: "xml (requests w ! n) = Some x0" using assms(3) by auto
  show ?thesis
    using assms(1,2,4) x0 assms(6) unfolding assms(5)
    by (simp add: uploadCallback_def capture_loaded complete_request_def process_response_def
        handle_error_def Let_def del: str_simps requests_simps(10))
       (simp add: Let_def)
qed

lemma uploadCallback_bad:
  assumes "handleError ev = None" "n < length (requests w)" "xml (requests w ! n) \<noteq> None"
    and "frame_by_id w (frame_name (requests w ! n)) = Some k"
    and "response_fails ev (opts (requests w ! n)) \<lparr>responseText = txt, responseXML = doc\<rparr>"
  shows "\<exists>w'. uploadCallback ev n False (Loaded txt doc) w = (w', Inl TypeError) \<and>
           requestDone (requests w' ! n) \<and> xml (requests w' ! n) \<noteq> None \<and>
           active w' = active w \<and> removals w' = removals w \<and> frames w' = frames w \<and>
           ajax_of (trace w') = ajax_of (trace w) \<and>
           indicator w' = indicator w"
proof -
  let ?x = "Some \<lparr>responseText = txt, responseXML = doc\<rparr>"
  let ?w = "set_request n (\<lambda>r. r\<lparr>requestDone := True\<rparr>) (set_request n (\<lambda>r. r\<lparr>xml := ?x\<rparr>) w)"
  have r: "requests ?w ! n = (requests w ! n)\<lparr>xml := ?x, requestDone := True\<rparr>"
    using assms(2) by simp
  obtain us e where d: "deliver ev n ?w = (emit us ?w, Inl e)"
    using deliver_fails [of ?w n "the ?x" ev] assms(5) r by auto
  have "uploadCallback ev n False (Loaded txt doc) w = (emit us ?w, Inl TypeError)"
    by (rule uploadCallback_throws [OF assms(1-4) refl d])
  then show ?thesis using assms(2) by simp
qed

text \<open>
  C16: With a jQuery that has no \<open>handleError\<close>, a response that cannot be evaluated, or whose
  success callback throws before it started another upload, makes the plugin throw TypeError
  from its own error handler.  That callback marks the request done and leaves it open: the
  counter still counts it, no global event is triggered, its form and frame are not scheduled
  for removal, and the frame keeps its handlers and the closure its response object, so only a
  later load of the same frame could still complete it.
\<close>

theorem bad_response_leaks:
  assumes "handleError ev = None" "n < length (requests w)" "xml (requests w ! n) \<noteq> None"
    and "frame_by_id w (frame_name (requests w ! n)) = Some k"
    and "response_fails ev (opts (requests w ! n)) \<lparr>responseText = txt, responseXML = doc\<rparr>"
  shows "\<exists>w'. uploadCallback ev n False (Loaded txt doc) w = (w', Inl TypeError) \<and>
           requestDone (requests w' ! n) \<and> xml (requests w' ! n) \<noteq> None \<and>
           active w' = active w \<and> removals w' = removals w \<and> frames w' = frames w \<and>
           ajax_of (trace w') = ajax_of (trace w)"
  using uploadCallback_bad [OF assms] by blast

text \<open>What a good response does, with the page it leaves.\<close>

definition finished :: "nat \<Rightarrow> nat \<Rightarrow> user_event list \<Rightarrow> response \<Rightarrow> page \<Rightarrow> page" where
  "finished n k us x w =
     (let s = opts (requests w ! n);
          w1 = emit us
            (set_request n (\<lambda>r. r\<lparr>requestDone := True\<rparr>) (set_request n (\<lambda>r. r\<lparr>xml := Some x\<rparr>) w));
          w2 = end_request s n (if is_global s then trigger (AjaxSuccess n) w1 else w1);
          w3 = on_frame (Some k) (\<lambda>f. f\<lparr>handlers := []\<rparr>) w2
      in set_request n (\<lambda>r. r\<lparr>xml := None\<rparr>)
           (w3\<lparr>removals := removals w3 @ [(Some k, form_var (requests w ! n))]\<rparr>))"

lemma uploadCallback_good:
  assumes "n < length (requests w)" "xml (requests w ! n) \<noteq> None"
    and "frame_by_id w (frame_name (requests w ! n)) = Some k"
    and "uploadHttpData ev \<lparr>responseText = txt, responseXML = doc\<rparr> (dataType (opts (requests w ! n))) = Inr d"
    and "success (opts (requests w ! n)) = Some f"
    and "f [d, Prim (Str (str ''success''))] = (map Emit us, Inr ())"
    and "complete (opts (requests w ! n)) = None"
  shows "uploadCallback ev n False (Loaded txt doc) w =
           (finished n k us \<lparr>responseText = txt, responseXML = doc\<rparr> w, Inr ())"
proof -
  let ?x = "\<lparr>responseText = txt, responseXML = doc\<rparr>"
  let ?w = "set_request n (\<lambda>r. r\<lparr>requestDone := True\<rparr>) (set_request n (\<lambda>r. r\<lparr>xml := Some ?x\<rparr>) w)"
  have r: "requests ?w ! n = (requests w ! n)\<lparr>xml := Some ?x, requestDone := True\<rparr>"
    using assms(1) by simp
  have d: "deliver ev n ?w =
      (if is_global (opts (requests w ! n)) then trigger (AjaxSuccess n) (emit us ?w) else emit us ?w, Inr ())"
    using assms(4-6) r by (simp add: deliver_def Let_def run_action_def del: str_simps)
  obtain x0 where x0: "xml (requests w ! n) = Some x0" using assms(2) by auto
  show ?thesis
    using assms(1,3,7) x0 d
    by (simp add: uploadCallback_def capture_loaded complete_request_def process_response_def
        finish_def finished_def Let_def del: str_simps requests_simps(10))
       (simp add: Let_def)
qed

lemma finished_facts:
  assumes "n < length (requests w)"
  shows "requests (finished n k us x w) = (requests w)[n := (requests w ! n)\<lparr>requestDone := True, xml := None\<rparr>]"
    and "is_global (opts (requests w ! n)) \<Longrightarrow>
      active (finished n k us x w) = active w - 1 \<and>
      trace (finished n k us x w) = trace w @ map User us @
        map Ajax ([AjaxSuccess n, AjaxComplete n] @ (if active w = 1 then [AjaxStop] else []))"
    and "\<not> is_global (opts (requests w ! n)) \<Longrightarrow>
      active (finished n k us x w) = active w \<and> trace (finished n k us x w) = trace w @ map User us"
    and "removals (finished n k us x w) = removals w @ [(Some k, form_var (requests w ! n))]"
    and "frames (finished n k us x w) = (frames w)[k := (frames w ! k)\<lparr>handlers := []\<rparr>]"
    and "elements (finished n k us x w) = elements w" "forms (finished n k us x w) = forms w"
  using assms
  by (simp_all add: finished_def Let_def end_request_def trigger_def on_frame_def)

text \<open>
  C14: On a good response the callback hands the data to the caller once, then triggers
  success, complete and (for the last global upload) stop, in this order, lowers the counter
  by one, clears the handlers of the frame, schedules the removal of the frame and of the
  form, and drops the response so that no later event repeats any of it.
\<close>

theorem good_response_completes:
  assumes "n < length (requests w)" "xml (requests w ! n) \<noteq> None"
    and "frame_by_id w (frame_name (requests w ! n)) = Some k"
    and "uploadHttpData ev \<lparr>responseText = txt, responseXML = doc\<rparr> (dataType (opts (requests w ! n))) = Inr d"
    and "success (opts (requests w ! n)) = Some f"
    and "f [d, Prim (Str (str ''success''))] = (map Emit us, Inr ())"
    and "complete (opts (requests w ! n)) = None" "is_global (opts (requests w ! n))"
  shows "\<exists>w'. uploadCallback ev n False (Loaded txt doc) w = (w', Inr ()) \<and>
           trace w' = trace w @ map User us @ [Ajax (AjaxSuccess n), Ajax (AjaxComplete n)] @
             (if active w = 1 then [Ajax AjaxStop] else []) \<and>
           active w' = active w - 1 \<and>
           requests w' = (requests w)[n := (requests w ! n)\<lparr>requestDone := True, xml := None\<rparr>] \<and>
           frames w' = (frames w)[k := (frames w ! k)\<lparr>handlers := []\<rparr>] \<and>
           removals w' = removals w @ [(Some k, form_var (requests w ! n))]"
  using uploadCallback_good [OF assms(1-7)] finished_facts [OF assms(1)] assms(8) by simp

lemma uploadCallback_timeout:
  assumes "handleError ev = None" "n < length (requests w)" "xml (requests w ! n) \<noteq> None"
    and "frame_by_id w (frame_name (requests w ! n)) = Some k"
  shows "uploadCallback ev n True (Loaded txt doc) w =
           (set_request n (\<lambda>r. r\<lparr>requestDone := True\<rparr>)
              (set_request n (\<lambda>r. r\<lparr>xml := Some \<lparr>responseText = txt, responseXML = doc\<rparr>\<rparr>) w), Inl TypeError)"
proof -
  obtain x where x: "xml (requests w ! n) = Some x" using assms(3) by auto
  show ?thesis
    using assms(1,2,4) x
    by (simp add: uploadCallback_def capture_loaded complete_request_def process_response_def
        handle_error_def Let_def del: str_simps requests_simps(10))
qed

text \<open>
  C24: With a jQuery that has no \<open>handleError\<close>, a timeout does not end the upload: it marks
  the request done and throws TypeError, and the response that arrives later is still handed
  to the success callback, as if nothing had happened.
\<close>

theorem timeout_then_success:
  assumes "handleError ev = None" "n < length (requests w)" "xml (requests w ! n) \<noteq> None"
    and "\<not> requestDone (requests w ! n)"
    and "frame_by_id w (frame_name (requests w ! n)) = Some k"
    and "uploadHttpData ev \<lparr>responseText = txt, responseXML = doc\<rparr> (dataType (opts (requests w ! n))) = Inr d"
    and "success (opts (requests w ! n)) = Some f"
    and "f [d, Prim (Str (str ''success''))] = (map Emit us, Inr ())"
    and "complete (opts (requests w ! n)) = None"
  shows "let w1 = on_timeout ev n (Loaded txt0 doc0) w in
         trace w1 = trace w @ [User (Uncaught TypeError)] \<and> active w1 = active w \<and>
         requestDone (requests w1 ! n) \<and>
         (\<exists>w2 rest. uploadCallback ev n False (Loaded txt doc) w1 = (w2, Inr ()) \<and>
            trace w2 = trace w1 @ map User us @ rest)"
proof -
  let ?x0 = "Some \<lparr>responseText = txt0, responseXML = doc0\<rparr>"
  let ?t = "set_request n (\<lambda>r. r\<lparr>timer := False\<rparr>) w"
  let ?v = "set_request n (\<lambda>r. r\<lparr>requestDone := True\<rparr>) (set_request n (\<lambda>r. r\<lparr>xml := ?x0\<rparr>) ?t)"
  let ?w1 = "emit [Uncaught TypeError] ?v"
  have "uploadCallback ev n True (Loaded txt0 doc0) ?t = (?v, Inl TypeError)"
    using assms(2,3,5) by (intro uploadCallback_timeout [OF assms(1)]) simp_all
  then have t: "on_timeout ev n (Loaded txt0 doc0) w = ?w1"
    using assms(2,4) by (simp add: on_timeout_def Let_def)
  have r: "requests ?w1 ! n = (requests w ! n)\<lparr>timer := False, xml := ?x0, requestDone := True\<rparr>"
    and len: "n < length (requests ?w1)"
    using assms(2) by simp_all
  have good: "uploadCallback ev n False (Loaded txt doc) ?w1 =
      (finished n k us \<lparr>responseText = txt, responseXML = doc\<rparr> ?w1, Inr ())"
    by (rule uploadCallback_good [where f = f and d = d, OF len]) (use assms(2,5-9) in simp_all)
  obtain rest where rest: "trace (finished n k us \<lparr>responseText = txt, responseXML = doc\<rparr> ?w1) =
      trace ?w1 @ map User us @ rest"
    using finished_facts(2,3) [OF len] by (cases "is_global (opts (requests ?w1 ! n))") auto
  show ?thesis
    unfolding Let_def t
  proof (intro conjI exI)
    show "requestDone (requests ?w1 ! n)" using r by simp
    show "uploadCallback ev n False (Loaded txt doc) ?w1 =
      (finished n k us \<lparr>responseText = txt, responseXML = doc\<rparr> ?w1, Inr ())" by (rule good)
    show "trace (finished n k us \<lparr>responseText = txt, responseXML = doc\<rparr> ?w1) =
      trace ?w1 @ map User us @ rest" by (rule rest)
  qed simp_all
qed

subsection \<open>Starting an upload\<close>

lemma find_index_snoc:
  "find_index P (xs @ [y]) =
     (case find_index P xs of Some k \<Rightarrow> Some k | None \<Rightarrow> if P y then Some (length xs) else None)"
proof (cases "find_index P xs")
  case None
  then have none: "\<not> list_ex P xs" by (simp add: find_index_None)
  show ?thesis
  proof (cases "P y")
    case True
    then show ?thesis using find_index_skip [OF none, of y "[]"] None by simp
  next
    case False
    then have "\<not> list_ex P (xs @ [y])" using none by simp
    then show ?thesis using None False by (simp only: find_index_None [symmetric]) simp
  qed
next
  case (Some k)
  then have "k < length xs" "P (xs ! k)" "\<forall>j < k. \<not> P (xs ! j)"
    by (auto simp: find_index_def find_Some_iff)
  then have "find_index P (xs @ [y]) = Some k"
    unfolding find_index_def find_Some_iff by (intro exI [of _ k]) (auto simp: nth_append)
  then show ?thesis using Some by simp
qed

lemma find_index_update:
  "(\<And>x. P (f x) = P x) \<Longrightarrow> find_index P (xs[k := f (xs ! k)]) = find_index P xs"
proof -
  assume P: "\<And>x. P (f x) = P x"
  have nth: "P (xs[k := f (xs ! k)] ! i) = P (xs ! i)" if "i < length xs" for i
    using that P by (cases "i = k") simp_all
  show ?thesis
    unfolding find_index_def by (rule find_cong) (use nth in auto)
qed

text \<open>The request that a call creates, and the page it leaves when its ids are unused.\<close>

definition started :: "options \<Rightarrow> nat \<Rightarrow> nat option \<Rightarrow> request" where
  "started s now form =
     \<lparr>opts = s, frame_name = frame_name_of now, form_var = form,
      xml = Some \<lparr>responseText = Prim Undefined, responseXML = Prim Undefined\<rparr>,
      requestDone = False, timer = Fin 0 < to_number (timeout s)\<rparr>"

lemma begin_request_simps [simp]:
  "forms (begin_request s n w) = forms w" "elements (begin_request s n w) = elements w"
  "removals (begin_request s n w) = removals w"
  "active (begin_request s n w) = active w + (if is_global s then 1 else 0)"
  "trace (begin_request s n w) = trace w @
     (if is_global s then map Ajax ((if active w = 0 then [AjaxStart] else []) @ [AjaxSend n]) else [])"
  by (simp_all add: begin_request_def Let_def trigger_def)

lemma createUploadForm_facts:
  "active (createUploadForm ev i el d w) = active w" "trace (createUploadForm ev i el d w) = trace w"
  "removals (createUploadForm ev i el d w) = removals w"
  "map elem_id (elements (createUploadForm ev i el d w)) = map elem_id (elements w)"
  "\<exists>es. forms (createUploadForm ev i el d w) = forms w @ [new_form i d es]"
proof -
  show "map elem_id (elements (createUploadForm ev i el d w)) = map elem_id (elements w)"
    using find_index_found [of "\<lambda>e. elem_id e = to_string el" "elements w"]
    by (auto simp: createUploadForm_def Let_def map_update split: option.splits)
      (metis length_map list_update_id nth_map)
qed (auto simp: createUploadForm_def Let_def split: option.splits)

lemma createUploadIframe_facts:
  "active (createUploadIframe ev i u w) = active w" "trace (createUploadIframe ev i u w) = trace w"
  "removals (createUploadIframe ev i u w) = removals w"
  "elements (createUploadIframe ev i u w) = elements w" "forms (createUploadIframe ev i u w) = forms w"
  "frames (createUploadIframe ev i u w) = frames w @
     [\<lparr>frame_id = frame_name_of i, frame_html = iframe_html (has_ActiveXObject ev) (frame_name_of i) u,
       handlers = [], frame_live = True\<rparr>]"
  by (simp_all add: createUploadIframe_def Let_def)

lemma submit_form_facts:
  "active (submit_form s fr k w) = active w" "removals (submit_form s fr k w) = removals w"
  "elements (submit_form s fr k w) = elements w"
  "trace (submit_form s fr k w) = trace w @ [User (Submitted k fr)]"
  "form_by_id (submit_form s fr k w) nm = form_by_id w nm"
  "length (forms (submit_form s fr k w)) = length (forms w)"
  "map form_live (forms (submit_form s fr k w)) = map form_live (forms w)"
proof -
  have "map form_live ((forms w)[j := f (forms w ! j)]) = map form_live (forms w)"
    if "\<And>g. form_live (f g) = form_live g" for f j
    using that by (simp add: map_update) (metis length_map list_update_beyond list_update_id not_less nth_map)
  then show "map form_live (forms (submit_form s fr k w)) = map form_live (forms w)"
    by (simp add: submit_form_def on_form_def emit_def split: option.splits)
qed (auto simp: submit_form_def on_form_def emit_def form_by_id_def find_index_update split: option.splits)

definition target_frame :: "page \<Rightarrow> nat \<Rightarrow> nat" where
  "target_frame w now =
     (case frame_by_id w (frame_name_of now) of Some k \<Rightarrow> k | None \<Rightarrow> length (frames w))"

definition target_form :: "page \<Rightarrow> nat \<Rightarrow> nat" where
  "target_form w now =
     (case form_by_id w (form_name_of now) of Some j \<Rightarrow> j | None \<Rightarrow> length (forms w))"

definition new_frame :: "env \<Rightarrow> nat \<Rightarrow> prim \<Rightarrow> frame" where
  "new_frame ev now u =
     \<lparr>frame_id = frame_name_of now, frame_html = iframe_html (has_ActiveXObject ev) (frame_name_of now) u,
      handlers = [], frame_live = True\<rparr>"

lemma upload_facts:
  fixes ev s0 now w
  defines "s \<equiv> extend_options (ajaxSettings ev) s0" and "w' \<equiv> ajaxFileUpload ev s0 now w"
    and "n \<equiv> length (requests w)" and "k \<equiv> target_frame w now" and "j \<equiv> target_form w now"
  shows "requests w' = requests w @ [started s now (Some j)]"
    and "active w' = active w + (if is_global s then 1 else 0)"
    and "removals w' = removals w"
    and "map elem_id (elements w') = map elem_id (elements w)"
    and "trace w' = trace w @
      (if is_global s then map Ajax ((if active w = 0 then [AjaxStart] else []) @ [AjaxSend n]) else []) @
      [User (Submitted (Some j) (frame_name_of now))]"
    and "frames w' = (let fs = frames w @ [new_frame ev now (secureuri s)]
                      in fs[k := (fs ! k)\<lparr>handlers := handlers (fs ! k) @ [n]\<rparr>])"
    and "map form_live (forms w') = map form_live (forms w) @ [True]"
    and "frame_by_id w' (frame_name_of now) = Some k" "form_by_id w' (form_name_of now) = Some j"
proof -
  let ?w1 = "createUploadForm ev now (fileElementId s) (data s) w"
  let ?w2 = "createUploadIframe ev now (secureuri s) ?w1"
  let ?w3 = "begin_request s n ?w2"
  obtain es where forms: "forms ?w1 = forms w @ [new_form now (data s) es]"
    using createUploadForm_facts(5) by blast
  have form: "form_by_id ?w3 (form_name_of now) = Some j"
    by (simp add: form_by_id_def createUploadIframe_facts forms find_index_snoc new_form_def
        j_def target_form_def split: option.splits)
  define w4 where "w4 = submit_form s (frame_name_of now) (Some j)
    (?w3\<lparr>requests := requests ?w3 @ [started s now (Some j)]\<rparr>)"
  have fr: "frames w4 = frames w @ [new_frame ev now (secureuri s)]"
    by (simp add: w4_def createUploadIframe_facts new_frame_def)
  have frame: "frame_by_id w4 (frame_name_of now) = Some k"
    by (simp add: frame_by_id_def fr find_index_snoc new_frame_def k_def target_frame_def
        split: option.splits)
  have w': "w' = on_frame (Some k) (\<lambda>f. f\<lparr>handlers := handlers f @ [n]\<rparr>) w4"
    using form frame
    by (simp add: w'_def ajaxFileUpload_def s_def n_def w4_def started_def Let_def)
  note facts = createUploadForm_facts createUploadIframe_facts submit_form_facts
  show "requests w' = requests w @ [started s now (Some j)]"
    by (simp add: w' w4_def)
  show "active w' = active w + (if is_global s then 1 else 0)" "removals w' = removals w"
    "map elem_id (elements w') = map elem_id (elements w)"
    by (simp_all add: w' w4_def on_frame_def facts)
  show "trace w' = trace w @
      (if is_global s then map Ajax ((if active w = 0 then [AjaxStart] else []) @ [AjaxSend n]) else []) @
      [User (Submitted (Some j) (frame_name_of now))]"
    by (simp add: w' w4_def on_frame_def facts)
  show "frames w' = (let fs = frames w @ [new_frame ev now (secureuri s)]
                      in fs[k := (fs ! k)\<lparr>handlers := handlers (fs ! k) @ [n]\<rparr>])"
    by (simp add: w' on_frame_def fr Let_def)
  show "map form_live (forms w') = map form_live (forms w) @ [True]"
    by (simp add: w' w4_def on_frame_def facts forms new_form_def)
  show "frame_by_id w' (frame_name_of now) = Some k"
    using frame by (simp add: w' on_frame_def frame_by_id_def find_index_update)
  have "form_by_id w' nm = form_by_id w4 nm" for nm
    by (simp add: w' on_frame_def form_by_id_def)
  then show "form_by_id w' (form_name_of now) = Some j"
    using form by (simp add: w4_def submit_form_facts) (simp add: form_by_id_def)
qed

text \<open>A page with one upload under way.\<close>

definition good_options :: options where
  "good_options =
     Options (Str (str ''up'')) (Bool False) (Str (str ''f'')) (Str (str ''json'')) Undefined (Bool True)
       None (Some (\<lambda>args. ([Emit (Called (str ''ok'') args)], Inr ()))) None None"

lemma extended_sample: "ajaxSettings ev = plain_options \<Longrightarrow> extend_options (ajaxSettings ev) good_options = good_options"
  by (simp add: extend_options_def good_options_def plain_options_def or_default_def or_else_def)

lemma sample_upload:
  assumes "ajaxSettings ev = plain_options"
  shows "requests (ajaxFileUpload ev good_options 7 plain_page) = [started good_options 7 (Some 0)]"
    and "frame_by_id (ajaxFileUpload ev good_options 7 plain_page) (frame_name_of 7) = Some 0"
    and "active (ajaxFileUpload ev good_options 7 plain_page) = 1"
proof -
  have t: "target_frame plain_page 7 = 0" "target_form plain_page 7 = 0"
    by (simp_all add: target_frame_def target_form_def frame_by_id_def form_by_id_def
        find_index_def plain_page_def)
  note u = upload_facts [of ev good_options 7 plain_page, unfolded extended_sample [OF assms] t]
  show "requests (ajaxFileUpload ev good_options 7 plain_page) = [started good_options 7 (Some 0)]"
    "frame_by_id (ajaxFileUpload ev good_options 7 plain_page) (frame_name_of 7) = Some 0"
    "active (ajaxFileUpload ev good_options 7 plain_page) = 1"
    using u by (simp_all add: plain_page_def good_options_def plain_options_def is_global_def)
qed

lemma plain_env_simps:
  "ajaxSettings plain_env = plain_options" "handleError plain_env = None"
  "uploadHttpData plain_env x (dataType good_options) = Inr (Obj [])"
  by (simp_all add: uploadHttpData_def good_options_def plain_options_def plain_env_def)

definition bad_env :: env where
  "bad_env = plain_env\<lparr>eval := (\<lambda>_. Inl SyntaxError)\<rparr>"

lemma bad_env_simps:
  "ajaxSettings bad_env = plain_options" "handleError bad_env = None"
  "response_fails bad_env good_options x"
  by (simp_all add: response_fails_def uploadHttpData_def good_options_def plain_options_def
      bad_env_def plain_env_def)

lemma good_options_simps:
  "success good_options = Some (\<lambda>args. ([Emit (Called (str ''ok'') args)], Inr ()))"
  "complete good_options = None" "is_global good_options" "opts (started s now form) = s"
  "frame_name (started s now form) = frame_name_of now" "xml (started s now form) \<noteq> None"
  "\<not> requestDone (started s now form)"
  by (simp_all add: good_options_def plain_options_def is_global_def started_def)

theorem bad_response_leaks_witness:
  "active (fst (uploadCallback bad_env 0 False (Loaded (Prim (Str (str ''<pre>''))) (Prim Null))
     (ajaxFileUpload bad_env good_options 7 plain_page))) = 1"
proof -
  note u = sample_upload [OF bad_env_simps(1)]
  have "\<exists>w'. uploadCallback bad_env 0 False (Loaded (Prim (Str (str ''<pre>''))) (Prim Null))
       (ajaxFileUpload bad_env good_options 7 plain_page) = (w', Inl TypeError) \<and> active w' = 1"
    using bad_response_leaks [OF bad_env_simps(2), of 0 "ajaxFileUpload bad_env good_options 7 plain_page" 0
        "Prim (Str (str ''<pre>''))" "Prim Null"]
    by (simp add: u bad_env_simps good_options_simps del: str_simps) blast
  then show ?thesis by (metis fst_conv)
qed

theorem good_response_completes_witness:
  "active (fst (uploadCallback plain_env 0 False (Loaded (Prim (Str (str ''{}''))) (Prim Null))
     (ajaxFileUpload plain_env good_options 7 plain_page))) = 0"
proof -
  note u = sample_upload [OF plain_env_simps(1)]
  have "\<exists>w'. uploadCallback plain_env 0 False (Loaded (Prim (Str (str ''{}''))) (Prim Null))
       (ajaxFileUpload plain_env good_options 7 plain_page) = (w', Inr ()) \<and> active w' = 0"
    using good_response_completes [of 0 "ajaxFileUpload plain_env good_options 7 plain_page" 0 plain_env
        "Prim (Str (str ''{}''))" "Prim Null" "Obj []" "\<lambda>args. ([Emit (Called (str ''ok'') args)], Inr ())"
        "[Called (str ''ok'') [Obj [], Prim (Str (str ''success''))]]"]
    by (simp add: u plain_env_simps good_options_simps del: str_simps) blast
  then show ?thesis by (metis fst_conv)
qed

theorem timeout_then_success_witness:
  "requestDone (requests (on_timeout plain_env 0 (Loaded (Prim Null) (Prim Null))
     (ajaxFileUpload plain_env good_options 7 plain_page)) ! 0)"
proof -
  note u = sample_upload [OF plain_env_simps(1)]
  show ?thesis
    using timeout_then_success [OF plain_env_simps(2), of 0 "ajaxFileUpload plain_env good_options 7 plain_page" 0
        "Prim (Str (str ''{}''))" "Prim Null" "Obj []" "\<lambda>args. ([Emit (Called (str ''ok'') args)], Inr ())"
        "[Called (str ''ok'') [Obj [], Prim (Str (str ''success''))]]"]
    by (simp add: u plain_env_simps good_options_simps Let_def del: str_simps)
qed

text \<open>
  C25: Two uploads started in the same millisecond share their ids: the second one submits
  the form of the first one again, into the frame of the first one, and waits on that frame;
  its own form is never submitted and its own frame has no handler, so the file of the second
  upload is not sent.
\<close>

theorem same_millisecond_collision:
  assumes "frame_by_id w (frame_name_of now) = None" "form_by_id w (form_name_of now) = None"
    and "w1 = ajaxFileUpload ev s1 now w" "w2 = ajaxFileUpload ev s2 now w1"
  shows "(\<exists>t. trace w2 = trace w1 @ t @ [User (Submitted (Some (length (forms w))) (frame_name_of now))]) \<and>
         handlers (frames w2 ! length (frames w)) = [length (requests w), Suc (length (requests w))] \<and>
         handlers (frames w2 ! Suc (length (frames w))) = [] \<and>
         length (frames w2) = length (frames w) + 2 \<and> length (forms w2) = length (forms w) + 2"
proof -
  have k: "target_frame w now = length (frames w)" and j: "target_form w now = length (forms w)"
    using assms(1,2) by (simp_all add: target_frame_def target_form_def)
  note one = upload_facts [of ev s1 now w, folded assms(3)]
  note two = upload_facts [of ev s2 now w1, folded assms(4)]
  have f1: "frames w1 = frames w @
      [(new_frame ev now (secureuri (extend_options (ajaxSettings ev) s1)))\<lparr>handlers := [length (requests w)]\<rparr>]"
    using one(6) by (simp add: Let_def k new_frame_def)
  have l1: "length (forms w1) = Suc (length (forms w))" "length (forms w2) = Suc (length (forms w1))"
    using arg_cong [OF one(7), of length] arg_cong [OF two(7), of length] by simp_all
  have t1: "target_frame w1 now = length (frames w)" "target_form w1 now = length (forms w)"
    using one(8,9) k j by (simp_all add: target_frame_def target_form_def)
  have f2: "frames w2 = (let fs = frames w1 @ [new_frame ev now (secureuri (extend_options (ajaxSettings ev) s2))]
      in fs[length (frames w) := (fs ! length (frames w))\<lparr>handlers := handlers (fs ! length (frames w)) @
        [Suc (length (requests w))]\<rparr>])"
    using two(6) one(1) t1 by simp
  show ?thesis
    using two(5) t1 l1 by (simp add: f2 f1 Let_def nth_append new_frame_def)
qed

theorem same_millisecond_collision_witness:
  "handlers (frames (ajaxFileUpload plain_env good_options 7
     (ajaxFileUpload plain_env good_options 7 plain_page)) ! 1) = []"
  using same_millisecond_collision [of plain_page 7 _ plain_env good_options _ good_options]
  by (simp add: frame_by_id_def form_by_id_def find_index_def plain_page_def)

subsection \<open>A whole upload\<close>

text \<open>An upload whose ids are unused, and the load of its frame.\<close>

lemma isolated_upload:
  assumes "frame_by_id w (frame_name_of now) = None" "form_by_id w (form_name_of now) = None"
    and "s = extend_options (ajaxSettings ev) s0" and "w1 = ajaxFileUpload ev s0 now w"
  shows "target_frame w now = length (frames w)" "target_form w now = length (forms w)"
    and "frames w1 = frames w @ [(new_frame ev now (secureuri s))\<lparr>handlers := [length (requests w)]\<rparr>]"
    and "requests w1 ! length (requests w) = started s now (Some (length (forms w)))"
    and "length (requests w) < length (requests w1)"
    and "frame_by_id w1 (frame_name_of now) = Some (length (frames w))"
proof -
  show k: "target_frame w now = length (frames w)" and j: "target_form w now = length (forms w)"
    using assms(1,2) by (simp_all add: target_frame_def target_form_def)
  note one = upload_facts [of ev s0 now w, folded assms(3,4), unfolded k j]
  show "frames w1 = frames w @ [(new_frame ev now (secureuri s))\<lparr>handlers := [length (requests w)]\<rparr>]"
    using one(6) by (simp add: Let_def new_frame_def)
  show "requests w1 ! length (requests w) = started s now (Some (length (forms w)))"
    "length (requests w) < length (requests w1)"
    "frame_by_id w1 (frame_name_of now) = Some (length (frames w))"
    using one(1,8) by (simp_all add: nth_append)
qed

lemma isolated_load:
  assumes "frame_by_id w (frame_name_of now) = None" "form_by_id w (form_name_of now) = None"
    and "s = extend_options (ajaxSettings ev) s0" "w1 = ajaxFileUpload ev s0 now w"
    and "complete s = None"
    and "uploadHttpData ev \<lparr>responseText = txt, responseXML = doc\<rparr> (dataType s) = Inr d"
    and "success s = Some f" "f [d, Prim (Str (str ''success''))] = (map Emit us, Inr ())"
  shows "on_load ev (length (frames w)) (Loaded txt doc) w1 =
           finished (length (requests w)) (length (frames w)) us \<lparr>responseText = txt, responseXML = doc\<rparr> w1"
proof -
  note up = isolated_upload [OF assms(1-4)]
  have "uploadCallback ev (length (requests w)) False (Loaded txt doc) w1 =
      (finished (length (requests w)) (length (frames w)) us \<lparr>responseText = txt, responseXML = doc\<rparr> w1, Inr ())"
    by (rule uploadCallback_good [where f = f and d = d, OF up(5)])
       (use up assms(5-8) in \<open>simp_all add: started_def\<close>)
  then show ?thesis by (simp add: on_load_def up(3) new_frame_def)
qed

text \<open>
  C6: An upload whose response is good runs through and leaves nothing behind: started in
  any millisecond whose ids are unused, followed by the load of its frame and by the removal
  that its callback scheduled, it submits its form once, hands the data to the caller once,
  triggers the global events in the documented order (start and stop exactly when no other
  upload is open), gives the counter back, and takes its form and frame out of the document,
  while the page keeps all its own elements.
\<close>

theorem upload_lifecycle:
  assumes "frame_by_id w (frame_name_of (clock w)) = None" "form_by_id w (form_name_of (clock w)) = None"
    and "s = extend_options (ajaxSettings ev) s0" "is_global s" "complete s = None"
    and "uploadHttpData ev \<lparr>responseText = txt, responseXML = doc\<rparr> (dataType s) = Inr d"
    and "success s = Some f" "f [d, Prim (Str (str ''success''))] = (map Emit us, Inr ())"
    and "w1 = run_step ev (Upload s0) w"
    and "w2 = run_step ev (Load (length (frames w)) (Loaded txt doc)) w1"
    and "w3 = run_step ev (Removal (length (removals w))) w2"
  shows "enabled (Load (length (frames w)) (Loaded txt doc)) w1 \<and>
         enabled (Removal (length (removals w))) w2 \<and>
         trace w3 = trace w @ (if active w = 0 then [Ajax AjaxStart] else []) @
           [Ajax (AjaxSend (length (requests w))),
            User (Submitted (Some (length (forms w))) (frame_name_of (clock w)))] @
           map User us @
           [Ajax (AjaxSuccess (length (requests w))), Ajax (AjaxComplete (length (requests w)))] @
           (if active w = 0 then [Ajax AjaxStop] else []) \<and>
         active w3 = active w \<and> removals w3 = removals w \<and>
         map frame_live (frames w3) = map frame_live (frames w) @ [False] \<and>
         map form_live (forms w3) = map form_live (forms w) @ [False] \<and>
         map elem_id (elements w3) = map elem_id (elements w)"
proof -
  let ?n = "length (requests w)" and ?k = "length (frames w)" and ?j = "length (forms w)"
  let ?x = "\<lparr>responseText = txt, responseXML = doc\<rparr>"
  have w1: "w1 = ajaxFileUpload ev s0 (clock w) w" using assms(9) by simp
  note up = isolated_upload [OF assms(1-3) w1]
  note one = upload_facts [of ev s0 "clock w" w, folded w1 assms(3), unfolded up(1,2)]
  note f1 = up(3) and r1 = up(4,5)
  have w2: "w2 = finished ?n ?k us ?x w1"
    using isolated_load [OF assms(1-3) w1 assms(5-8)] by (simp add: assms(10))
  have g: "is_global (opts (requests w1 ! ?n))" using r1 assms(4) by (simp add: started_def)
  note fin = finished_facts [of ?n w1 ?k us ?x, OF r1(2), folded w2]
  have rem: "removals w2 = removals w @ [(Some ?k, Some ?j)]"
    using fin(4) r1 one(3) by (simp add: started_def)
  have w3: "w3 = on_form (Some ?j) (\<lambda>f. f\<lparr>form_live := False\<rparr>)
      (on_frame (Some ?k) (\<lambda>f. f\<lparr>frame_live := False, handlers := []\<rparr>) (w2\<lparr>removals := removals w\<rparr>))"
    by (simp add: assms(11) on_removal_def rem)
  have "length (forms w1) = Suc ?j" using arg_cong [OF one(7), of length] by simp
  then have forms: "map form_live (forms w3) = map form_live (forms w) @ [False]"
    using one(7) fin(7) by (simp add: w3 on_form_def on_frame_def map_update list_update_append)
  have frames: "map frame_live (frames w3) = map frame_live (frames w) @ [False]"
    using fin(5) by (simp add: w3 on_form_def on_frame_def f1 map_update list_update_append)
  have act: "active w3 = active w" "removals w3 = removals w"
    using fin(2) [OF g] one(2) assms(4) by (simp_all add: w3 on_form_def on_frame_def)
  have el: "map elem_id (elements w3) = map elem_id (elements w)"
    using fin(6) one(4) by (simp add: w3 on_form_def on_frame_def)
  have tr: "trace w3 = trace w1 @ map User us @ map Ajax ([AjaxSuccess ?n, AjaxComplete ?n] @
      (if active w1 = 1 then [AjaxStop] else []))"
    using fin(2) [OF g] by (simp add: w3 on_form_def on_frame_def)
  have en: "enabled (Load ?k (Loaded txt doc)) w1" "enabled (Removal (length (removals w))) w2"
    using f1 rem by (simp_all add: new_frame_def)
  show ?thesis
    using en forms frames act el tr one(2,5) assms(4) by (cases "active w = 0") simp_all
qed

theorem upload_lifecycle_witness:
  "trace (run_step plain_env (Removal 0)
     (run_step plain_env (Load 0 (Loaded (Prim (Str (str ''{}''))) (Prim Null)))
       (run_step plain_env (Upload good_options) plain_page))) =
   [Ajax AjaxStart, Ajax (AjaxSend 0), User (Submitted (Some 0) (frame_name_of 7)),
    User (Called (str ''ok'') [Obj [], Prim (Str (str ''success''))]),
    Ajax (AjaxSuccess 0), Ajax (AjaxComplete 0), Ajax AjaxStop]"
proof -
  have lookup: "frame_by_id plain_page nm = None" "form_by_id plain_page nm = None" for nm
    by (simp_all add: frame_by_id_def form_by_id_def find_index_def plain_page_def)
  show ?thesis
    using upload_lifecycle [OF lookup extended_sample [OF plain_env_simps(1), symmetric]
        good_options_simps(3,2) plain_env_simps(3) good_options_simps(1) _ refl refl refl,
        of "[Called (str ''ok'') [Obj [], Prim (Str (str ''success''))]]"]
    by (simp add: plain_page_def del: str_simps run_step.simps)
qed

end
