(* ===== verification/UploadChain.thy ===== *)
theory UploadChain
  imports UploadRun
begin

text \<open>
  Uploads that start the next upload: what the global events and the counter do when a callback
  of an upload calls the plugin again.
\<close>

lemma active_trigger: "active (trigger e w) = active w"
  by (simp add: trigger_def)

text \<open>The callback of a good response in terms of the protocol, whatever the two callbacks start:
  the uploads of the success callback come before the end of the request, those of the
  complete callback after it.\<close>

lemma good_callback_proto:
  assumes "n < length (requests w)" "xml (requests w ! n) \<noteq> None"
    and "frame_by_id w (frame_name (requests w ! n)) = Some k"
    and "s = opts (requests w ! n)" "x = \<lparr>responseText = txt, responseXML = doc\<rparr>"
    and "uploadHttpData ev x (dataType s) = Inr d"
    and "success s = Some f" "f [d, Prim (Str (str ''success''))] = (cs, Inr ())"
    and "complete s = Some g"
    and "g [response_value (Some x), Prim (Str (str ''success''))] = (cs', Inr ())" "is_global s"
  shows "\<exists>w' p. uploadCallback ev n False (Loaded txt doc) w = (w', Inr ()) \<and>
           p = fold p_begin (begin_flags ev cs) (proto_of w) \<and>
           proto_of w' = fold p_begin (begin_flags ev cs')
             (p_finish n True False (p\<lparr>log := log p @ [AjaxSuccess n]\<rparr>))"
proof -
  let ?v = "set_request n (\<lambda>r. r\<lparr>requestDone := True\<rparr>) (set_request n (\<lambda>r. r\<lparr>xml := Some x\<rparr>) w)"
  let ?a = "fold (run_command ev) cs ?v"
  let ?b = "end_request s n (trigger (AjaxSuccess n) ?a)"
  let ?c = "fold (run_command ev) cs' ?b"
  let ?w = "set_request n (\<lambda>r. r\<lparr>xml := None\<rparr>)
    (on_frame (Some k) (\<lambda>f. f\<lparr>handlers := []\<rparr>) ?c\<lparr>removals := removals ?c @ [(Some k, form_var (requests ?c ! n))]\<rparr>)"
  have r: "requests ?v ! n = (requests w ! n)\<lparr>xml := Some x, requestDone := True\<rparr>" "n < length (requests ?v)"
    using assms(1) by simp_all
  obtain rs where rs: "requests ?a = requests ?v @ rs" using commands_requests by blast
  obtain rs' where rs': "requests ?c = requests ?b @ rs'" using commands_requests by blast
  have a: "requests ?a ! n = requests ?v ! n" "requests ?c ! n = requests ?v ! n"
    "n < length (requests ?a)" "n < length (requests ?c)"
    using r(2) by (simp_all add: rs rs' nth_append)
  have d: "deliver ev n ?v = (trigger (AjaxSuccess n) ?a, Inr ())"
    using assms(4-8,11) r(1)
    by (simp add: deliver_def Let_def run_action_def del: str_simps requests_simps(10))
  have fin: "finish ev n (Some k) (str ''success'') (trigger (AjaxSuccess n) ?a) = (?w, Inr ())"
    using assms(4,9,10) a(1) r(1)
    by (simp add: finish_def Let_def run_action_def del: str_simps requests_simps(10))
  obtain x0 where x0: "xml (requests w ! n) = Some x0" using assms(2) by auto
  let ?u = "set_request n (\<lambda>r. r\<lparr>xml := Some x\<rparr>) w"
  have u: "xml (requests ?u ! n) = Some x" using assms(1) by simp
  have comp: "complete_request ev n (Some k) False ?u = (?w, Inr ())"
    unfolding complete_request_def process_response_def Let_def if_False d
    by (simp add: fin del: str_simps requests_simps(10))
  have "capture (Loaded txt doc) (Some k) (xml (requests w ! n)) = Inr (Some x)"
    using x0 assms(5) by (simp add: capture_loaded)
  then have call: "uploadCallback ev n False (Loaded txt doc) w = (?w, Inr ())"
    by (simp add: uploadCallback_def Let_def assms(3) comp u del: requests_simps(10))
  have live: "n < length (live (proto_of w))" "n < length (live (proto_of ?a))" "n < length (live (proto_of ?b))"
    using assms(1) a(3) by simp_all
  have "alive (requests w ! n) = (True, True)" using assms(2,4,11) by (simp add: alive_def)
  then have pv: "proto_of ?v = proto_of w"
    using assms(1,2) by (simp add: proto_of_set_request_same alive_def)
  let ?p = "fold p_begin (begin_flags ev cs) (proto_of w)"
  have pa: "proto_of ?a = ?p" by (simp only: commands_proto pv)
  have "proto_of ?w = (proto_of ?c)\<lparr>live := (live (proto_of ?c))[n := (True, False)]\<rparr>"
    using a r(1) assms(4,11) by (simp add: proto_of_set_request alive_def del: requests_simps(10))
  also have "\<dots> = fold p_begin (begin_flags ev cs')
      ((proto_of ?b)\<lparr>live := (live (proto_of ?b))[n := (True, False)]\<rparr>)"
    unfolding commands_proto using live(3) by (rule p_begins_live [symmetric])
  also have "(proto_of ?b)\<lparr>live := (live (proto_of ?b))[n := (True, False)]\<rparr> =
      p_finish n True False (?p\<lparr>log := log ?p @ [AjaxSuccess n]\<rparr>)"
    using assms(11) arg_cong [OF pa, of count]
    by (simp add: active_trigger end_request_proto p_finish_def pa [symmetric])
  finally show ?thesis using call by blast
qed

text \<open>
  C15: An upload that starts the next one: from its success callback, the new upload is sent
  before the old one succeeds and completes, so the counter never reaches zero and no stop and no
  start is triggered; from its complete callback, the old upload has already given the counter
  back, so the last open upload triggers a stop and the new one a start.  Either way the counter
  ends where it was.
\<close>

theorem chained_upload:
  assumes "n < length (requests w)" "xml (requests w ! n) \<noteq> None" "0 < active w"
    and "frame_by_id w (frame_name (requests w ! n)) = Some k"
    and "s = opts (requests w ! n)" "x = \<lparr>responseText = txt, responseXML = doc\<rparr>"
    and "uploadHttpData ev x (dataType s) = Inr d"
    and "success s = Some f"
    and "f [d, Prim (Str (str ''success''))] = (if early then [Start t] else [], Inr ())"
    and "complete s = Some g"
    and "g [response_value (Some x), Prim (Str (str ''success''))] = (if early then [] else [Start t], Inr ())"
    and "is_global s" "is_global (extend_options (ajaxSettings ev) t)"
  shows "\<exists>w'. uploadCallback ev n False (Loaded txt doc) w = (w', Inr ()) \<and> active w' = active w \<and>
           ajax_of (trace w') = ajax_of (trace w) @
             (if early then [AjaxSend (length (requests w)), AjaxSuccess n, AjaxComplete n]
              else [AjaxSuccess n, AjaxComplete n] @ (if active w = 1 then [AjaxStop, AjaxStart] else []) @
                [AjaxSend (length (requests w))])"
proof -
  have flags: "begin_flags ev (if b then [Start t] else []) = (if b then [True] else [])"
    "begin_flags ev (if b then [] else [Start t]) = (if b then [] else [True])" for b
    using assms(13) by (simp_all add: begin_flags_def)
  obtain w' where w': "uploadCallback ev n False (Loaded txt doc) w = (w', Inr ())"
    "proto_of w' = fold p_begin (if early then [] else [True]) (p_finish n True False
       (let p = fold p_begin (if early then [True] else []) (proto_of w)
        in p\<lparr>log := log p @ [AjaxSuccess n]\<rparr>))"
    using good_callback_proto [OF assms(1,2,4-12)] unfolding flags by (auto simp: Let_def)
  have "active w' = count (proto_of w')" "ajax_of (trace w') = log (proto_of w')"
    "log (proto_of w) = ajax_of (trace w)"
    by (simp_all add: proto_of_def)
  then show ?thesis
    using w' assms(3) by (cases early) (simp_all add: p_begin_def p_finish_def Let_def)
qed

definition chain_options :: options where
  "chain_options =
     Options (Str (str ''up'')) (Bool False) (Str (str ''f'')) (Str (str ''json'')) Undefined (Bool True)
       None (Some (\<lambda>args. ([], Inr ()))) None (Some (\<lambda>args. ([Start plain_options], Inr ())))"

theorem chained_upload_witness:
  "ajax_of (trace (fst (uploadCallback plain_env 0 False (Loaded (Prim Null) (Prim Null))
     (ajaxFileUpload plain_env chain_options 7 plain_page)))) =
   [AjaxStart, AjaxSend 0, AjaxSuccess 0, AjaxComplete 0, AjaxStop, AjaxStart, AjaxSend 1]"
proof -
  let ?w = "ajaxFileUpload plain_env chain_options 7 plain_page"
  have o: "extend_options (ajaxSettings plain_env) chain_options = chain_options" "is_global chain_options"
    "success chain_options = Some (\<lambda>args. ([], Inr ()))"
    "complete chain_options = Some (\<lambda>args. ([Start plain_options], Inr ()))"
    "uploadHttpData plain_env y (dataType chain_options) = Inr (Obj [])" for y
    by (simp_all add: extend_options_def chain_options_def plain_options_def plain_env_def or_default_def
        or_else_def is_global_def uploadHttpData_def)
  have t: "target_frame plain_page 7 = 0" "target_form plain_page 7 = 0"
    by (simp_all add: target_frame_def target_form_def frame_by_id_def form_by_id_def
        find_index_def plain_page_def)
  note u = upload_facts [of plain_env chain_options 7 plain_page, unfolded o(1) t]
  have r: "requests ?w = [started chain_options 7 (Some 0)]" "active ?w = 1"
    "ajax_of (trace ?w) = [AjaxStart, AjaxSend 0]" "frame_by_id ?w (frame_name_of 7) = Some 0"
    using u(1,2,5,8) o(2) by (simp_all add: plain_page_def)
  have n: "0 < length (requests ?w)" "xml (requests ?w ! 0) \<noteq> None" "0 < active ?w"
    "frame_by_id ?w (frame_name (requests ?w ! 0)) = Some 0" "chain_options = opts (requests ?w ! 0)"
    using r by (simp_all add: started_def)
  have "\<exists>w'. uploadCallback plain_env 0 False (Loaded (Prim Null) (Prim Null)) ?w = (w', Inr ()) \<and>
      active w' = active ?w \<and> ajax_of (trace w') = ajax_of (trace ?w) @
        (if False then [AjaxSend (length (requests ?w)), AjaxSuccess 0, AjaxComplete 0]
         else [AjaxSuccess 0, AjaxComplete 0] @ (if active ?w = 1 then [AjaxStop, AjaxStart] else []) @
           [AjaxSend (length (requests ?w))])"
    by (rule chained_upload [OF n refl o(5,3) _ o(4) _ o(2), where t = plain_options])
       (simp_all add: plain_extended)
  then show ?thesis using r by auto
qed

end
