(* ===== verification/UploadLive.thy ===== *)
theory UploadLive
  imports UploadRun
begin

text \<open>
  Uploads whose ids are unused when they start and whose callbacks start no upload
  (\<open>modest\<close>): every open upload keeps a live frame of its own, whatever the responses,
  timeouts and removals are.  If besides no \<open>complete\<close> callback throws and every upload can still
  get a response that its caller accepts, the page can finish every open upload and remove
  everything the plugin created.
\<close>

subsection \<open>Callbacks that start no upload\<close>

definition emits :: "callback option \<Rightarrow> bool" where
  "emits f \<longleftrightarrow> (case f of None \<Rightarrow> True | Some g \<Rightarrow> \<forall>args. list_all is_emit (fst (g args)))"

text \<open>No success, complete or error handler starts an upload; they may throw.\<close>

definition modest :: "env \<Rightarrow> (options \<Rightarrow> bool) \<Rightarrow> bool" where
  "modest ev ok \<longleftrightarrow>
     (\<forall>s. ok s \<longrightarrow> emits (success s) \<and> emits (complete s)) \<and>
     (\<forall>h s x st e. handleError ev = Some h \<longrightarrow> list_all is_emit (fst (h s x st e)))"

lemma emits_allowed: "list_all is_emit cs \<Longrightarrow> commands_ok ev ok cs"
  by (auto simp: commands_ok_def list_all_iff split: command.splits)

lemma modest_closed: "modest ev ok \<Longrightarrow> closed ev ok"
  by (auto simp: modest_def closed_def emits_def intro!: emits_allowed)

text \<open>The parts of the page that only the plugin changes.\<close>

definition same_store :: "page \<Rightarrow> page \<Rightarrow> bool" where
  "same_store w w' \<longleftrightarrow>
     requests w' = requests w \<and> frames w' = frames w \<and> removals w' = removals w \<and> forms w' = forms w"

lemma same_store_refl [simp]: "same_store w w"
  by (simp add: same_store_def)

lemma same_store_trans: "same_store u v \<Longrightarrow> same_store v w \<Longrightarrow> same_store u w"
  by (simp add: same_store_def)

lemma same_store_emit [simp]: "same_store w (emit us w)"
  by (simp add: same_store_def)

lemma same_store_trigger [simp]: "same_store w (trigger e w)"
  by (simp add: same_store_def trigger_def)

lemma same_store_end [simp]: "same_store w (end_request s n w)"
  by (simp add: same_store_def end_request_def trigger_def Let_def)

lemma run_action_store:
  "run_action ev a w = (w', r) \<Longrightarrow> list_all is_emit (fst a) \<Longrightarrow> same_store w w'"
  using only_emits [of "fst a"] by (auto simp: run_action_def)

lemma handle_error_store:
  "handle_error ev s x st e w = (w', r) \<Longrightarrow> modest ev ok \<Longrightarrow> same_store w w'"
  by (auto simp: handle_error_def modest_def split: option.splits dest: run_action_store)

lemma deliver_store:
  assumes "deliver ev n w = (w', r)" "modest ev ok" "ok (opts (requests w ! n))"
  shows "same_store w w'"
proof -
  let ?s = "opts (requests w ! n)"
  define called where "called d =
    (case success ?s of None \<Rightarrow> (w, Inr ()) | Some f \<Rightarrow> run_action ev (f [d, Prim (Str (str ''success''))]) w)" for d
  have "emits (success ?s)" using assms(2,3) by (simp add: modest_def)
  then have "called d = (w1, r1) \<Longrightarrow> same_store w w1" for d w1 r1
    by (auto simp: called_def emits_def split: option.splits dest: run_action_store)
  then have "called d = (w1, r1) \<Longrightarrow> same_store w w1 \<and> same_store w (trigger e w1)" for d w1 r1 e
    using same_store_trans same_store_trigger by blast
  then show ?thesis
    using assms(1) unfolding deliver_def Let_def called_def [symmetric]
    by (auto split: option.splits sum.splits prod.splits if_splits)
qed

lemma process_response_store:
  assumes "process_response ev n t w = (w', r)" "modest ev ok" "ok (opts (requests w ! n))"
  shows "same_store w w'"
proof -
  let ?s = "opts (requests w ! n)" and ?st = "if t then str ''error'' else str ''success''"
  obtain w1 r1 where first:
    "(if t then handle_error ev ?s (xml (requests w ! n)) (Str ?st) None w else deliver ev n w) = (w1, r1)"
    by fastforce
  then have one: "same_store w w1"
    using deliver_store [OF _ assms(2,3)] handle_error_store [OF _ assms(2)] by (cases t) simp_all
  obtain w2 r2 where second:
    "handle_error ev ?s (xml (requests w1 ! n)) (Str (str ''error'')) (Some (projl r1)) w1 = (w2, r2)"
    by fastforce
  then have "same_store w w2" using one handle_error_store [OF _ assms(2)] same_store_trans by blast
  moreover have "w' = w1 \<or> w' = w2"
    using assms(1) first second
    by (cases r1; cases r2) (auto simp: process_response_def Let_def simp del: str_simps)
  ultimately show ?thesis using one by auto
qed

subsection \<open>What a callback changes\<close>

text \<open>The closure changes its response and its flags only; at the end it drops the response,
  the handlers of its frame and schedules the removal.\<close>

definition same_request :: "request \<Rightarrow> request \<Rightarrow> bool" where
  "same_request r r' \<longleftrightarrow>
     opts r' = opts r \<and> frame_name r' = frame_name r \<and> form_var r' = form_var r"

definition kept :: "nat \<Rightarrow> page \<Rightarrow> page \<Rightarrow> bool" where
  "kept n w w' \<longleftrightarrow>
     frames w' = frames w \<and> removals w' = removals w \<and> forms w' = forms w \<and>
     (\<exists>r. requests w' = (requests w)[n := r] \<and> same_request (requests w ! n) r \<and>
        (xml r = None \<longleftrightarrow> xml (requests w ! n) = None))"

definition ended :: "nat \<Rightarrow> nat option \<Rightarrow> page \<Rightarrow> page \<Rightarrow> bool" where
  "ended n io w w' \<longleftrightarrow>
     frames w' = frames (on_frame io (\<lambda>f. f\<lparr>handlers := []\<rparr>) w) \<and>
     removals w' = removals w @ [(io, form_var (requests w ! n))] \<and> forms w' = forms w \<and>
     (\<exists>r. requests w' = (requests w)[n := r] \<and> same_request (requests w ! n) r \<and> xml r = None)"

lemma kept_refl: "n < length (requests w) \<Longrightarrow> kept n w w"
  by (auto simp: kept_def same_request_def intro: exI [of _ "requests w ! n"])

lemma kept_store: "kept n w v \<Longrightarrow> same_store v w' \<Longrightarrow> kept n w w'"
  by (auto simp: kept_def same_store_def)

lemma kept_set:
  "n < length (requests w) \<Longrightarrow> same_request (requests w ! n) (f (requests w ! n)) \<Longrightarrow>
     (xml (f (requests w ! n)) = None \<longleftrightarrow> xml (requests w ! n) = None) \<Longrightarrow> kept n w (set_request n f w)"
  by (auto simp: kept_def)

lemma kept_nth:
  "kept n w w' \<Longrightarrow> n < length (requests w) \<Longrightarrow>
     length (requests w') = length (requests w) \<and> same_request (requests w ! n) (requests w' ! n) \<and>
     (xml (requests w' ! n) = None \<longleftrightarrow> xml (requests w ! n) = None)"
  by (auto simp: kept_def)

lemma kept_kept: "kept n u v \<Longrightarrow> kept n v w \<Longrightarrow> n < length (requests u) \<Longrightarrow> kept n u w"
  by (auto simp: kept_def same_request_def)

lemma kept_ended: "kept n u v \<Longrightarrow> ended n io v w \<Longrightarrow> n < length (requests u) \<Longrightarrow> ended n io u w"
  by (auto simp: kept_def ended_def same_request_def on_frame_def split: option.splits)

lemma finish_ends:
  assumes "finish ev n io st w = (w', r)" "modest ev ok" "ok (opts (requests w ! n))"
    and "n < length (requests w)"
  shows "if r = Inr () then ended n io w w' else kept n w w'"
    and "quiet (opts (requests w ! n)) \<Longrightarrow> r = Inr ()"
proof -
  let ?s = "opts (requests w ! n)"
  let ?w1 = "end_request ?s n w"
  obtain w2 r2 where called: "(case complete ?s of
      None \<Rightarrow> (?w1, Inr ())
    | Some f \<Rightarrow> run_action ev (f [response_value (xml (requests ?w1 ! n)), Prim (Str st)]) ?w1) = (w2, r2)"
    by fastforce
  have "emits (complete ?s)" using assms(2,3) by (simp add: modest_def)
  then have "same_store ?w1 w2"
    using called by (auto simp: emits_def split: option.splits dest: run_action_store)
  then have same: "same_store w w2" using same_store_trans same_store_end by blast
  then have "kept n w w2" by (rule kept_store [OF kept_refl [OF assms(4)]])
  then show "if r = Inr () then ended n io w w' else kept n w w'"
    using assms(1,4) called same
    by (cases r2) (auto simp: finish_def Let_def ended_def same_store_def same_request_def on_frame_def
        set_request_def split: option.splits)
  show "r = Inr ()" if "quiet ?s"
    using assms(1) called that
    by (cases r2) (auto simp: finish_def Let_def quiet_def run_action_def split: option.splits)
qed

lemma complete_request_changes:
  assumes "complete_request ev n io t w = (w', r)" "modest ev ok" "ok (opts (requests w ! n))"
    and "n < length (requests w)"
  shows "kept n w w' \<or> ended n io w w'"
    and "\<not> t \<Longrightarrow> quiet (opts (requests w ! n)) \<Longrightarrow> snd (deliver ev n (set_request n (\<lambda>r. r\<lparr>requestDone := True\<rparr>) w)) = Inr () \<Longrightarrow>
      ended n io w w'"
proof -
  let ?v = "set_request n (\<lambda>r. r\<lparr>requestDone := True\<rparr>) w"
  have v: "kept n w ?v" using assms(4) by (intro kept_set) (simp_all add: same_request_def)
  have nv: "n < length (requests ?v)" "ok (opts (requests ?v ! n))" using assms(3,4) by simp_all
  obtain w1 r1 where p: "process_response ev n t ?v = (w1, r1)" by fastforce
  have w1: "same_store ?v w1" by (rule process_response_store [OF p assms(2) nv(2)])
  then have k: "kept n w w1" by (rule kept_store [OF v])
  have opts: "opts (requests w1 ! n) = opts (requests w ! n)" "n < length (requests w1)"
    using w1 assms(4) by (simp_all add: same_store_def)
  have fin: "kept n w w' \<or> ended n io w w'" "quiet (opts (requests w ! n)) \<longrightarrow> ended n io w w'"
    if "r1 = Inr st" for st
  proof -
    have f: "finish ev n io st w1 = (w', r)" using assms(1) p that by (simp add: complete_request_def)
    note ends = finish_ends [OF f assms(2)]
    show "kept n w w' \<or> ended n io w w'"
      using ends(1) opts assms(3) kept_kept [OF k _ assms(4)] kept_ended [OF k _ assms(4)]
      by (auto split: if_splits)
    show "quiet (opts (requests w ! n)) \<longrightarrow> ended n io w w'"
      using ends opts assms(3) kept_ended [OF k _ assms(4)] by auto
  qed
  show "kept n w w' \<or> ended n io w w'"
  proof (cases r1)
    case (Inl e)
    then show ?thesis using assms(1) p k by (simp add: complete_request_def)
  qed (use fin in blast)
  assume "\<not> t" "quiet (opts (requests w ! n))" "snd (deliver ev n ?v) = Inr ()"
  moreover from this have "\<exists>st. r1 = Inr st"
    using p by (cases "deliver ev n ?v") (auto simp: process_response_def Let_def)
  ultimately show "ended n io w w'" using fin by blast
qed

lemma uploadCallback_changes:
  assumes "uploadCallback ev n t view w = (w', r)" "modest ev ok" "ok (opts (requests w ! n))"
    and "n < length (requests w)" "t \<Longrightarrow> xml (requests w ! n) \<noteq> None"
  shows "kept n w w' \<or>
         xml (requests w ! n) \<noteq> None \<and> ended n (frame_by_id w (frame_name (requests w ! n))) w w'"
proof -
  let ?r = "requests w ! n" and ?io = "frame_by_id w (frame_name (requests w ! n))"
  obtain w1 r1 where first:
    "(case capture view ?io (xml ?r) of
        Inr x \<Rightarrow> (set_request n (\<lambda>r. r\<lparr>xml := x\<rparr>) w, Inr ())
      | Inl e \<Rightarrow> handle_error ev (opts ?r) (xml ?r) Null (Some e) w) = (w1, r1)"
    by fastforce
  have one: "kept n w w1"
  proof (cases "capture view ?io (xml ?r)")
    case (Inl e)
    then have "same_store w w1" using first handle_error_store [OF _ assms(2)] by auto
    then show ?thesis by (rule kept_store [OF kept_refl [OF assms(4)]])
  next
    case (Inr x)
    then have "w1 = set_request n (\<lambda>r. r\<lparr>xml := x\<rparr>) w" using first by simp
    then show ?thesis
      using capture_alive [OF Inr] assms(4) by (simp add: kept_set same_request_def)
  qed
  note n1 = kept_nth [OF one assms(4)]
  show ?thesis
  proof (cases "r1 = Inr () \<and> (xml ?r \<noteq> None \<or> t)")
    case True
    then have c: "complete_request ev n ?io t w1 = (w', r)"
      using assms(1) first n1 by (auto simp: uploadCallback_def Let_def)
    have ok: "ok (opts (requests w1 ! n))" "n < length (requests w1)"
      using n1 assms(3,4) by (simp_all add: same_request_def)
    have "xml ?r \<noteq> None" using True assms(5) by blast
    then show ?thesis
      using complete_request_changes(1) [OF c assms(2) ok] kept_kept [OF one _ assms(4)]
        kept_ended [OF one _ assms(4)]
      by blast
  next
    case False
    then have "w' = w1"
      using assms(1) first n1 by (cases r1) (auto simp: uploadCallback_def Let_def)
    then show ?thesis using one by simp
  qed
qed

text \<open>A response that the caller accepts ends the upload.\<close>

definition served :: "env \<Rightarrow> options \<Rightarrow> response \<Rightarrow> bool" where
  "served ev s x \<longleftrightarrow>
     (case uploadHttpData ev x (dataType s) of
        Inl e \<Rightarrow> False
      | Inr d \<Rightarrow>
          (case success s of
             None \<Rightarrow> True | Some f \<Rightarrow> snd (f [d, Prim (Str (str ''success''))]) = Inr ()))"

lemma deliver_served:
  assumes "xml (requests w ! n) = Some x" "served ev (opts (requests w ! n)) x"
  shows "snd (deliver ev n w) = Inr ()"
  using assms
  by (auto simp: deliver_def served_def Let_def run_action_def simp del: str_simps
      split: option.splits sum.splits prod.splits)

lemma uploadCallback_served:
  assumes "modest ev ok" "ok (opts (requests w ! n))" "n < length (requests w)"
    and "xml (requests w ! n) \<noteq> None" "frame_by_id w (frame_name (requests w ! n)) = Some k"
    and "served ev (opts (requests w ! n)) \<lparr>responseText = txt, responseXML = doc\<rparr>"
    and "quiet (opts (requests w ! n))"
  shows "ended n (Some k) w (fst (uploadCallback ev n False (Loaded txt doc) w))"
proof -
  let ?x = "\<lparr>responseText = txt, responseXML = doc\<rparr>"
  let ?w1 = "set_request n (\<lambda>r. r\<lparr>xml := Some ?x\<rparr>) w"
  obtain x0 where x0: "xml (requests w ! n) = Some x0" using assms(4) by auto
  have k: "kept n w ?w1" using assms(3,4) by (intro kept_set) (simp_all add: same_request_def)
  obtain w' r where c: "complete_request ev n (Some k) False ?w1 = (w', r)" by fastforce
  have call: "uploadCallback ev n False (Loaded txt doc) w = (w', r)"
    using assms(3,5) x0 c
    by (simp add: uploadCallback_def capture_loaded Let_def del: requests_simps(10))
       (simp add: Let_def)
  let ?v = "set_request n (\<lambda>r. r\<lparr>requestDone := True\<rparr>) ?w1"
  have "snd (deliver ev n ?v) = Inr ()"
    by (rule deliver_served [where x = ?x]) (use assms(3,6) in simp_all)
  moreover have "ok (opts (requests ?w1 ! n))" "n < length (requests ?w1)"
    "quiet (opts (requests ?w1 ! n))"
    using assms(2,3,7) by simp_all
  ultimately have "ended n (Some k) ?w1 w'"
    using complete_request_changes(2) [OF c assms(1)] by blast
  then show ?thesis using kept_ended [OF k _ assms(3)] call by simp
qed

subsection \<open>Uploads at different times\<close>

text \<open>The requests, the frames and the forms go together: the request, the frame and the form
  of the same index belong to one upload.\<close>

definition attached_at :: "page \<Rightarrow> nat \<Rightarrow> bool" where
  "attached_at w n \<longleftrightarrow>
     frame_id (frames w ! n) = frame_name (requests w ! n) \<and> form_var (requests w ! n) = Some n \<and>
     (if xml (requests w ! n) = None
      then handlers (frames w ! n) = [] \<and>
        (frame_live (frames w ! n) \<or> form_live (forms w ! n) \<longrightarrow> (Some n, Some n) \<in> set (removals w))
      else frame_live (frames w ! n) \<and> handlers (frames w ! n) = [n])"

definition attached :: "page \<Rightarrow> bool" where
  "attached w \<longleftrightarrow>
     length (frames w) = length (requests w) \<and> length (forms w) = length (requests w) \<and>
     (\<forall>n < length (requests w). attached_at w n) \<and>
     (\<forall>m < length (frames w). \<forall>n < length (frames w).
        frame_live (frames w ! m) \<and> frame_live (frames w ! n) \<and>
        frame_id (frames w ! m) = frame_id (frames w ! n) \<longrightarrow> m = n) \<and>
     (\<forall>p \<in> set (removals w). \<exists>n < length (requests w). p = (Some n, Some n) \<and> xml (requests w ! n) = None)"

lemma attached_frame:
  assumes "attached w" "n < length (requests w)" "xml (requests w ! n) \<noteq> None"
  shows "frame_by_id w (frame_name (requests w ! n)) = Some n"
proof -
  let ?P = "\<lambda>f. frame_live f \<and> frame_id f = frame_name (requests w ! n)"
  have n: "n < length (frames w)" "?P (frames w ! n)"
    using assms by (auto simp: attached_def attached_at_def)
  then have "find_index ?P (frames w) \<noteq> None"
    by (auto simp: find_index_None list_ex_length)
  then obtain k where k: "find_index ?P (frames w) = Some k" by auto
  then have "k < length (frames w)" "?P (frames w ! k)" using find_index_found by blast+
  then have "k = n" using assms(1) n by (simp add: attached_def)
  then show ?thesis using k by (simp add: frame_by_id_def)
qed

lemma attached_cong:
  assumes "attached w" "frames w' = frames w" "removals w' = removals w" "forms w' = forms w"
    and "length (requests w') = length (requests w)"
    and "\<And>m. m < length (requests w) \<Longrightarrow> frame_name (requests w' ! m) = frame_name (requests w ! m) \<and>
      form_var (requests w' ! m) = form_var (requests w ! m) \<and>
      (xml (requests w' ! m) = None \<longleftrightarrow> xml (requests w ! m) = None)"
  shows "attached w'"
proof -
  have "attached_at w' m \<longleftrightarrow> attached_at w m" if "m < length (requests w)" for m
    using assms(2-4) assms(6) [OF that] by (simp add: attached_at_def)
  moreover have "(\<exists>n < length (requests w'). p = (Some n, Some n) \<and> xml (requests w' ! n) = None) \<longleftrightarrow>
      (\<exists>n < length (requests w). p = (Some n, Some n) \<and> xml (requests w ! n) = None)" for p
    using assms(5,6) by auto
  ultimately show ?thesis
    using assms(1-5) unfolding attached_def by simp
qed

lemma attached_store: "attached w \<Longrightarrow> same_store w w' \<Longrightarrow> attached w'"
  by (erule attached_cong) (simp_all add: same_store_def)

lemma attached_kept:
  assumes "attached w" "n < length (requests w)" "kept n w w'"
  shows "attached w'"
proof -
  obtain r where r: "requests w' = (requests w)[n := r]" "same_request (requests w ! n) r"
    "xml r = None \<longleftrightarrow> xml (requests w ! n) = None"
    using assms(3) by (auto simp: kept_def)
  show ?thesis
    by (rule attached_cong [OF assms(1)])
       (use assms(2,3) r in \<open>auto simp: kept_def nth_list_update same_request_def\<close>)
qed

lemma attached_ended:
  assumes "attached w" "n < length (requests w)" "xml (requests w ! n) \<noteq> None" "ended n (Some n) w w'"
  shows "attached w'"
proof -
  obtain r where r: "requests w' = (requests w)[n := r]" "same_request (requests w ! n) r" "xml r = None"
    using assms(4) by (auto simp: ended_def)
  have n: "attached_at w n" "n < length (frames w)" using assms(1,2) by (simp_all add: attached_def)
  then have v: "form_var (requests w ! n) = Some n" by (simp add: attached_at_def)
  have f: "frames w' = (frames w)[n := (frames w ! n)\<lparr>handlers := []\<rparr>]"
    "removals w' = removals w @ [(Some n, Some n)]" "forms w' = forms w"
    using assms(4) v by (simp_all add: ended_def on_frame_def)
  have ids: "m < length (frames w) \<Longrightarrow> frame_live (frames w' ! m) = frame_live (frames w ! m) \<and>
      frame_id (frames w' ! m) = frame_id (frames w ! m)" for m
    using n(2) by (simp add: f nth_list_update)
  have at: "attached_at w' m" if "m < length (requests w)" for m
  proof (cases "m = n")
    case True
    then show ?thesis using n r v assms(2) by (simp add: attached_at_def f same_request_def)
  next
    case False
    then have "attached_at w m" using assms(1) that by (simp add: attached_def)
    then show ?thesis using False by (simp add: attached_at_def f r)
  qed
  have rem: "\<exists>m < length (requests w'). p = (Some m, Some m) \<and> xml (requests w' ! m) = None"
    if p: "p \<in> set (removals w')" for p
  proof (cases "p = (Some n, Some n)")
    case True
    then show ?thesis using assms(2) r by (intro exI [of _ n]) simp
  next
    case False
    then obtain m where "m < length (requests w)" "p = (Some m, Some m)" "xml (requests w ! m) = None"
      using p assms(1) by (auto simp: f attached_def)
    then show ?thesis using False by (intro exI [of _ m]) (auto simp: r)
  qed
  show ?thesis
    using assms(1) at rem ids unfolding attached_def by (simp add: f r)
qed

lemma attached_callback:
  assumes "attached w" "n < length (requests w)" "modest ev ok" "ok (opts (requests w ! n))"
    and "t \<Longrightarrow> xml (requests w ! n) \<noteq> None" "uploadCallback ev n t view w = (w', r)"
  shows "attached w'"
  using uploadCallback_changes [OF assms(6,3,4,2,5)] attached_kept [OF assms(1,2)]
    attached_ended [OF assms(1,2)] attached_frame [OF assms(1,2)]
  by auto

text \<open>An upload is timely when no live frame or form has the ids of its millisecond.\<close>

definition unused :: "page \<Rightarrow> bool" where
  "unused w \<longleftrightarrow>
     frame_by_id w (frame_name_of (clock w)) = None \<and> form_by_id w (form_name_of (clock w)) = None"

lemma attached_upload:
  assumes "attached w" "unused w"
  shows "attached (ajaxFileUpload ev s (clock w) w)"
proof -
  let ?w = "ajaxFileUpload ev s (clock w) w" and ?n = "length (requests w)"
  let ?s = "extend_options (ajaxSettings ev) s"
  have len: "length (frames w) = ?n" "length (forms w) = ?n" using assms(1) by (simp_all add: attached_def)
  have ids: "frame_by_id w (frame_name_of (clock w)) = None" "form_by_id w (form_name_of (clock w)) = None"
    using assms(2) by (simp_all add: unused_def)
  note up = isolated_upload [where ev = ev and ?s0.0 = s, OF ids refl refl]
  note facts = upload_facts [of ev s "clock w" w, unfolded up(1,2)]
  have fr: "frames ?w = frames w @ [(new_frame ev (clock w) (secureuri ?s))\<lparr>handlers := [?n]\<rparr>]" by (rule up(3))
  have rq: "requests ?w = requests w @ [started ?s (clock w) (Some ?n)]" using facts(1) len by simp
  have fm: "map form_live (forms ?w) = map form_live (forms w) @ [True]" by (rule facts(7))
  have lf: "length (forms ?w) = Suc ?n" using arg_cong [OF fm, of length] len by simp
  have live: "form_live (forms ?w ! m) = form_live (forms w ! m)" if "m < ?n" for m
    using arg_cong [OF fm, of "\<lambda>l. l ! m"] that len lf by (simp add: nth_append)
  have rem: "removals ?w = removals w" by (rule facts(3))
  have at: "attached_at ?w m" if "m < Suc ?n" for m
  proof (cases "m = ?n")
    case True
    then show ?thesis using len by (simp add: attached_at_def fr rq started_def new_frame_def nth_append)
  next
    case False
    then have m: "m < ?n" "attached_at w m" using that assms(1) by (simp_all add: attached_def)
    then show ?thesis using live [OF m(1)] len by (simp add: attached_at_def fr rq rem nth_append)
  qed
  have new: "\<not> (frame_live (frames w ! m) \<and> frame_id (frames w ! m) = frame_name_of (clock w))"
    if "m < length (frames w)" for m
    using ids(1) that by (auto simp: frame_by_id_def find_index_None list_ex_length)
  have distinct: "m = n" if "m < Suc ?n" "n < Suc ?n" "frame_live (frames ?w ! m)" "frame_live (frames ?w ! n)"
    "frame_id (frames ?w ! m) = frame_id (frames ?w ! n)" for m n
    using that assms(1) new [of m] new [of n] len
    by (auto simp: fr nth_append new_frame_def attached_def less_Suc_eq split: if_splits)
  have "\<exists>n < Suc ?n. p = (Some n, Some n) \<and> xml (requests ?w ! n) = None" if p: "p \<in> set (removals w)" for p
  proof -
    obtain n where "n < ?n" "p = (Some n, Some n)" "xml (requests w ! n) = None"
      using p assms(1) by (auto simp: attached_def)
    then show ?thesis by (intro exI [of _ n]) (simp add: rq nth_append)
  qed
  then show ?thesis
    using at distinct lf len unfolding attached_def by (simp add: rq fr rem)
qed

lemma set_without: "x \<in> set xs \<Longrightarrow> x \<noteq> xs ! k \<Longrightarrow> x \<in> set (take k xs @ drop (Suc k) xs)"
proof (cases "k < length xs")
  case True
  assume "x \<in> set xs" "x \<noteq> xs ! k"
  then show ?thesis using id_take_nth_drop [OF True] by (metis Un_iff set_ConsD set_append)
qed simp

lemma attached_removal:
  assumes "attached w" "k < length (removals w)"
  shows "attached (on_removal k w) \<and> requests (on_removal k w) = requests w \<and>
         length (removals (on_removal k w)) < length (removals w)"
proof -
  have "removals w ! k \<in> set (removals w)" using assms(2) by simp
  then obtain n where n: "n < length (requests w)" "removals w ! k = (Some n, Some n)"
    "xml (requests w ! n) = None"
    using assms(1) by (auto simp: attached_def)
  let ?w = "on_removal k w"
  have f: "frames ?w = (frames w)[n := (frames w ! n)\<lparr>frame_live := False, handlers := []\<rparr>]"
    "forms ?w = (forms w)[n := (forms w ! n)\<lparr>form_live := False\<rparr>]" "requests ?w = requests w"
    "removals ?w = take k (removals w) @ drop (Suc k) (removals w)"
    by (simp_all add: on_removal_def n on_frame_def on_form_def)
  have len: "n < length (frames w)" "n < length (forms w)" using assms(1) n by (simp_all add: attached_def)
  have at: "attached_at ?w m" if "m < length (requests w)" for m
  proof (cases "m = n")
    case True
    then show ?thesis using that assms(1) n len by (simp add: attached_def attached_at_def f)
  next
    case False
    have "(Some m, Some m) \<in> set (removals w) \<Longrightarrow> (Some m, Some m) \<in> set (removals ?w)"
      unfolding f by (rule set_without) (use False n in simp_all)
    then show ?thesis using that False assms(1) by (auto simp: attached_def attached_at_def f)
  qed
  have sub: "set (removals ?w) \<subseteq> set (removals w)"
    using set_take_subset [of k "removals w"] set_drop_subset [of "Suc k" "removals w"] by (auto simp: f)
  have live: "m < length (frames w) \<Longrightarrow> (frame_live (frames ?w ! m) \<longrightarrow> frame_live (frames w ! m)) \<and>
      frame_id (frames ?w ! m) = frame_id (frames w ! m)" for m
    using len by (simp add: f nth_list_update)
  have "attached ?w"
    using assms(1) at sub live unfolding attached_def by (simp add: f(1-3)) blast
  then show ?thesis using assms(2) by (simp add: f)
qed

inductive timely_step :: "env \<Rightarrow> (options \<Rightarrow> bool) \<Rightarrow> page \<Rightarrow> page \<Rightarrow> bool" for ev ok where
  timely_step: "enabled st w \<Longrightarrow>
     (\<And>s. st = Upload s \<Longrightarrow> ok (extend_options (ajaxSettings ev) s) \<and> unused w) \<Longrightarrow>
     timely_step ev ok w (run_step ev st w)"

inductive_cases timely_stepE: "timely_step ev ok w w'"

definition timely :: "env \<Rightarrow> (options \<Rightarrow> bool) \<Rightarrow> page \<Rightarrow> bool" where
  "timely ev ok w \<longleftrightarrow> (\<exists>w0. fresh w0 \<and> (timely_step ev ok)\<^sup>*\<^sup>* w0 w)"

lemma timely_page_step: "timely_step ev ok w w' \<Longrightarrow> page_step ev ok w w'"
  by (erule timely_stepE) (auto intro: page_step)

lemma timely_runs: "(timely_step ev ok)\<^sup>*\<^sup>* w w' \<Longrightarrow> (page_step ev ok)\<^sup>*\<^sup>* w w'"
  using mono_rtranclp [of "timely_step ev ok" "page_step ev ok"] timely_page_step by blast

lemma timely_reachable: "timely ev ok w \<Longrightarrow> reachable ev ok w"
  using timely_runs by (auto simp: timely_def reachable_def)

definition sound :: "env \<Rightarrow> (options \<Rightarrow> bool) \<Rightarrow> page \<Rightarrow> bool" where
  "sound ev ok w \<longleftrightarrow> attached w \<and> wf ok w \<and> modest ev ok"

lemma sound_opts: "sound ev ok w \<Longrightarrow> n < length (requests w) \<Longrightarrow> ok (opts (requests w ! n))"
  using wf_request [of ok w n] by (simp add: sound_def request_ok_def)

lemma sound_load:
  assumes "sound ev ok w" "k < length (frames w)"
  shows "attached (on_load ev k view w)"
proof -
  have a: "attached w" "k < length (requests w)" "modest ev ok"
    using assms by (simp_all add: sound_def attached_def)
  obtain w1 r1 where c: "uploadCallback ev k False view w = (w1, r1)" by fastforce
  have "attached w1"
    by (rule attached_callback [OF a _ _ c]) (use sound_opts [OF assms(1) a(2)] in simp_all)
  moreover have "handlers (frames w ! k) = [] \<or> handlers (frames w ! k) = [k]"
    using a(1,2) by (auto simp: attached_def attached_at_def split: if_splits)
  ultimately show ?thesis
    using a(1) c attached_store by (auto simp: on_load_def split: sum.splits)
qed

lemma sound_timeout:
  assumes "sound ev ok w" "n < length (requests w)"
  shows "attached (on_timeout ev n view w)"
proof -
  let ?w = "set_request n (\<lambda>r. r\<lparr>timer := False\<rparr>) w"
  have k: "kept n w ?w" using assms(2) by (intro kept_set) (simp_all add: same_request_def)
  have a: "attached ?w" "n < length (requests ?w)" "modest ev ok" "ok (opts (requests ?w ! n))"
    using attached_kept [OF _ assms(2) k] sound_opts [OF assms] assms by (simp_all add: sound_def)
  obtain w1 r1 where c: "uploadCallback ev n True view ?w = (w1, r1)" by fastforce
  have "attached w1" if "\<not> requestDone (requests ?w ! n)"
  proof (rule attached_callback [OF a _ c])
    have "request_ok ok (length (forms w)) (requests w ! n)"
      using assms by (intro wf_request) (simp_all add: sound_def)
    then show "xml (requests ?w ! n) \<noteq> None" using that assms(2) by (simp add: request_ok_def)
  qed
  then show ?thesis
    using a(1) c attached_store by (auto simp: on_timeout_def Let_def split: sum.splits)
qed

lemma sound_step:
  assumes "sound ev ok w" "timely_step ev ok w w'"
  shows "sound ev ok w'"
proof -
  obtain st where st: "w' = run_step ev st w" "enabled st w"
    "\<And>s. st = Upload s \<Longrightarrow> ok (extend_options (ajaxSettings ev) s) \<and> unused w"
    using assms(2) by (rule timely_stepE) blast
  have m: "modest ev ok" "attached w" "wf ok w" using assms(1) by (simp_all add: sound_def)
  have "follows ok False w w'"
    unfolding st(1) using st(2,3) m modest_closed [OF m(1)] by (intro step_follows) auto
  then have wf: "wf ok w'" by (simp add: follows_def)
  have "attached w'"
  proof (cases st)
    case (Tick d)
    then show ?thesis using m(2) attached_store [of w w'] by (simp add: st(1) same_store_def)
  next
    case (Upload s)
    then show ?thesis using attached_upload [OF m(2)] st by simp
  next
    case (Load k view)
    then show ?thesis using sound_load [OF assms(1)] st by simp
  next
    case (Timeout n view)
    then show ?thesis using sound_timeout [OF assms(1)] st by simp
  next
    case (Removal k)
    then show ?thesis using attached_removal [OF m(2)] st by simp
  qed
  then show ?thesis using wf m by (simp add: sound_def)
qed

interpretation timely_run: invariant_system "\<lambda>w. fresh w \<and> modest ev ok" "timely_step ev ok" "sound ev ok"
proof
  show "sound ev ok w" if "fresh w \<and> modest ev ok" for w
    using that fresh_proto by (simp add: sound_def attached_def fresh_def)
  show "sound ev ok w'" if "sound ev ok w" "timely_step ev ok w w'" for w w'
    using that by (rule sound_step)
qed

lemma timely_sound: "timely ev ok w \<Longrightarrow> modest ev ok \<Longrightarrow> sound ev ok w"
  using timely_run.reach_inv by (auto simp: timely_def)

subsection \<open>Finishing everything\<close>

definition unfinished :: "page \<Rightarrow> nat" where
  "unfinished w = length (filter (\<lambda>r. xml r \<noteq> None) (requests w))"

lemma filter_update_less:
  assumes "n < length xs" "P (xs ! n)" "\<not> P x"
  shows "length (filter P (xs[n := x])) < length (filter P xs)"
proof -
  have xs: "xs = take n xs @ xs ! n # drop (Suc n) xs" using assms(1) by (rule id_take_nth_drop)
  have "filter P xs = filter P (take n xs) @ xs ! n # filter P (drop (Suc n) xs)"
    by (subst xs) (simp add: assms(2))
  then show ?thesis using assms(1,3) by (simp add: upd_conv_take_nth_drop)
qed

text \<open>The load of an open upload with a response that its caller accepts.\<close>

lemma load_served:
  assumes "sound ev ok w" "n < length (requests w)" "xml (requests w ! n) \<noteq> None"
    and "served ev (opts (requests w ! n)) \<lparr>responseText = txt, responseXML = doc\<rparr>"
    and "quiet (opts (requests w ! n))"
  shows "timely_step ev ok w (run_step ev (Load n (Loaded txt doc)) w)"
    and "unfinished (run_step ev (Load n (Loaded txt doc)) w) < unfinished w"
    and "length (requests (run_step ev (Load n (Loaded txt doc)) w)) = length (requests w)"
proof -
  have m: "modest ev ok" "attached w" using assms(1) by (simp_all add: sound_def)
  have at: "frame_live (frames w ! n)" "handlers (frames w ! n) = [n]" "n < length (frames w)"
    using m(2) assms(2,3) by (auto simp: attached_def attached_at_def)
  then show "timely_step ev ok w (run_step ev (Load n (Loaded txt doc)) w)"
    by (intro timely_step) simp_all
  obtain w1 r1 where c: "uploadCallback ev n False (Loaded txt doc) w = (w1, r1)" by fastforce
  have "ended n (Some n) w w1"
    using uploadCallback_served [OF m(1) sound_opts [OF assms(1,2)] assms(2,3)
        attached_frame [OF m(2) assms(2,3)] assms(4,5)] c by simp
  moreover have "requests (run_step ev (Load n (Loaded txt doc)) w) = requests w1"
    using at(2) c by (auto simp: on_load_def split: sum.splits)
  ultimately obtain r where r: "requests (run_step ev (Load n (Loaded txt doc)) w) = (requests w)[n := r]"
    "xml r = None"
    by (auto simp: ended_def)
  then show "unfinished (run_step ev (Load n (Loaded txt doc)) w) < unfinished w"
    "length (requests (run_step ev (Load n (Loaded txt doc)) w)) = length (requests w)"
    using filter_update_less [OF assms(2)] assms(3) by (simp_all add: unfinished_def del: run_step.simps)
qed

lemma finish_requests:
  assumes "sound ev ok w" "\<And>s. ok s \<Longrightarrow> quiet s"
    and "\<And>s. ok s \<Longrightarrow> \<exists>txt doc. served ev s \<lparr>responseText = txt, responseXML = doc\<rparr>"
  shows "\<exists>w'. (timely_step ev ok)\<^sup>*\<^sup>* w w' \<and> length (requests w') = length (requests w) \<and> unfinished w' = 0"
  using assms(1)
proof (induction "unfinished w" arbitrary: w rule: less_induct)
  case less
  show ?case
  proof (cases "unfinished w = 0")
    case False
    then obtain n where n: "n < length (requests w)" "xml (requests w ! n) \<noteq> None"
      by (auto simp: unfinished_def filter_empty_conv in_set_conv_nth)
    obtain t d where "served ev (opts (requests w ! n)) \<lparr>responseText = t, responseXML = d\<rparr>"
      using assms(3) sound_opts [OF less.prems n(1)] by blast
    note load = load_served [OF less.prems n this assms(2) [OF sound_opts [OF less.prems n(1)]]]
    have "sound ev ok (run_step ev (Load n (Loaded t d)) w)"
      using less.prems load(1) by (rule sound_step)
    from less.hyps [OF load(2) this] show ?thesis
      using load(1,3) by (metis converse_rtranclp_into_rtranclp)
  qed blast
qed

lemma remove_everything:
  assumes "sound ev ok w" "unfinished w = 0"
  shows "\<exists>w'. (timely_step ev ok)\<^sup>*\<^sup>* w w' \<and> requests w' = requests w \<and> removals w' = []"
  using assms
proof (induction "length (removals w)" arbitrary: w rule: less_induct)
  case less
  show ?case
  proof (cases "removals w = []")
    case False
    let ?w = "run_step ev (Removal 0) w"
    have "attached w" using less.prems(1) by (simp add: sound_def)
    then have r: "requests ?w = requests w" "length (removals ?w) < length (removals w)"
      using attached_removal [of w 0] False by simp_all
    have step: "timely_step ev ok w ?w" by (rule timely_step) (use False in simp_all)
    have "unfinished ?w = 0" using less.prems(2) r(1) by (simp add: unfinished_def)
    from less.hyps [OF r(2) sound_step [OF less.prems(1) step] this] show ?thesis
      using step r(1) by (metis converse_rtranclp_into_rtranclp)
  qed blast
qed

lemma nothing_left:
  assumes "attached w" "unfinished w = 0" "removals w = []"
  shows "list_all (\<lambda>f. \<not> frame_live f \<and> handlers f = []) (frames w) \<and> list_all (\<lambda>f. \<not> form_live f) (forms w)"
proof -
  have "xml (requests w ! n) = None" if "n < length (requests w)" for n
    using assms(2) that by (auto simp: unfinished_def filter_empty_conv)
  then show ?thesis
    using assms(1,3) by (auto simp: attached_def attached_at_def list_all_length)
qed

text \<open>
  C7: Uploads whose ids are unused in the millisecond they start in do not disturb each other, as
  long as no success, complete or error handler starts an upload itself (handlers may
  throw): whatever the responses, timeouts and removals were, every open upload still has a
  frame of its own in the document, which the plugin finds by its name and whose only handler is
  its own callback, and an upload that is over has no handler anywhere, so no load event
  reaches it again.
\<close>

theorem timely_uploads_isolated:
  assumes "timely ev ok w" "modest ev ok" "n < length (requests w)"
  shows "if xml (requests w ! n) = None
         then \<forall>f \<in> set (frames w). n \<notin> set (handlers f)
         else frame_by_id w (frame_name (requests w ! n)) = Some n \<and> frame_live (frames w ! n) \<and>
           handlers (frames w ! n) = [n] \<and>
           (\<forall>k < length (frames w). k \<noteq> n \<longrightarrow> n \<notin> set (handlers (frames w ! k)))"
proof -
  have a: "attached w" using timely_sound [OF assms(1,2)] by (simp add: sound_def)
  have h: "handlers (frames w ! k) = (if xml (requests w ! k) = None then [] else [k])"
    if "k < length (frames w)" for k
    using a that by (auto simp: attached_def attached_at_def split: if_splits)
  have "length (frames w) = length (requests w)" using a by (simp add: attached_def)
  then show ?thesis
    using h a attached_frame [OF a assms(3)] assms(3)
    by (auto simp: in_set_conv_nth attached_def attached_at_def split: if_splits)
qed

text \<open>
  C4: Liveness, under four assumptions: the ids of every upload were unused in the millisecond
  it started in; no success, complete or error handler starts an upload itself; no complete
  callback throws; and for the options of every upload there is a response that its caller
  accepts (it evaluates and the success callback returns).  Then, whatever responses,
  timeouts and removals came so far, the page can go on, without any further upload, to a state
  in which every upload is over, jQuery.active is zero, no removal is pending, and every form
  and every frame of the plugin has left the document.
\<close>

theorem uploads_can_finish:
  assumes "timely ev ok w" "modest ev ok" "\<And>s. ok s \<Longrightarrow> quiet s"
    and "\<And>s. ok s \<Longrightarrow> \<exists>txt doc. served ev s \<lparr>responseText = txt, responseXML = doc\<rparr>"
  shows "\<exists>w'. (page_step ev ok)\<^sup>*\<^sup>* w w' \<and> length (requests w') = length (requests w) \<and>
           list_all (\<lambda>r. xml r = None) (requests w') \<and> active w' = 0 \<and> removals w' = [] \<and>
           list_all (\<lambda>f. \<not> frame_live f) (frames w') \<and> list_all (\<lambda>f. \<not> form_live f) (forms w')"
proof -
  have s: "sound ev ok w" using assms(1,2) by (rule timely_sound)
  obtain w1 where w1: "(timely_step ev ok)\<^sup>*\<^sup>* w w1" "length (requests w1) = length (requests w)" "unfinished w1 = 0"
    using finish_requests [OF s assms(3,4)] by blast
  have s1: "sound ev ok w1" using w1(1) s by (rule timely_run.run_inv)
  obtain w2 where w2: "(timely_step ev ok)\<^sup>*\<^sup>* w1 w2" "requests w2 = requests w1" "removals w2 = []"
    using remove_everything [OF s1 w1(3)] by blast
  have s2: "attached w2" using timely_run.run_inv [OF w2(1) s1] by (simp add: sound_def)
  have u2: "unfinished w2 = 0" using w1(3) w2(2) by (simp add: unfinished_def)
  have run: "(timely_step ev ok)\<^sup>*\<^sup>* w w2" using w1(1) w2(1) by simp
  then have "timely ev ok w2" using assms(1) by (auto simp: timely_def)
  moreover have "calm ev ok" using modest_closed [OF assms(2)] assms(3) by (simp add: calm_def)
  ultimately have "quiet_inv (proto_of w2)"
    using reachable_quiet timely_reachable by blast
  moreover have over: "list_all (\<lambda>r. xml r = None) (requests w2)"
    using u2 by (simp add: unfinished_def filter_empty_conv list_all_iff)
  then have "open_requests (map alive (requests w2)) = 0"
    by (auto simp: open_requests_def filter_empty_conv alive_def list_all_iff)
  ultimately have "active w2 = 0" by (simp add: quiet_inv_def)
  then show ?thesis
    using timely_runs [OF run] w1(2) w2(2,3) over nothing_left [OF s2 u2 w2(3)]
    by (auto simp: list_all_iff)
qed

subsection \<open>The theorems on the sample page\<close>

lemma sample_modest: "modest plain_env (\<lambda>s. s = plain_options)"
  by (simp add: modest_def emits_def plain_options_def plain_env_def)

lemma sample_timely: "timely plain_env (\<lambda>s. s = plain_options) sample_page"
proof -
  have "unused plain_page"
    by (simp add: unused_def frame_by_id_def form_by_id_def find_index_def plain_page_def)
  then have "timely_step plain_env (\<lambda>s. s = plain_options) plain_page sample_page"
    unfolding sample_page_def by (intro timely_step) (auto simp: plain_extended)
  moreover have "fresh plain_page" by (simp add: fresh_def plain_page_def)
  ultimately show ?thesis unfolding timely_def by blast
qed

lemma sample_requests: "length (requests sample_page) = 1" "xml (requests sample_page ! 0) \<noteq> None"
  using sample_trace(3) by (cases "requests sample_page"; simp add: alive_def)+

theorem timely_uploads_isolated_witness:
  "handlers (frames sample_page ! 0) = [0]"
  using timely_uploads_isolated [OF sample_timely sample_modest, of 0] sample_requests by simp

theorem uploads_can_finish_witness:
  "\<exists>w'. (page_step plain_env (\<lambda>s. s = plain_options))\<^sup>*\<^sup>* sample_page w' \<and> active w' = 0"
proof -
  have "served plain_env plain_options x" for x
    by (simp add: served_def uploadHttpData_def plain_options_def plain_env_def)
  then show ?thesis
    using uploads_can_finish [OF sample_timely sample_modest] sample_calm by (auto simp: calm_def)
qed

end
