(* ===== verification/UploadFile.thy ===== *)
theory UploadFile
  imports UploadRun
begin

text \<open>
  \<open>scripts/comm/ajaxupload.js\<close>: \<open>uploadFile\<close>, which starts an upload of a form field through
  the plugin and dispatches on the JSON reply, and \<open>defaultUploadAnimation\<close>, which binds the
  element \<open>#loading\<close> to the global events.  The two callbacks and the animation are arguments
  of \<open>uploadFile\<close>.
\<close>

definition uploadUrl :: jsstr where
  "uploadUrl = str ''fileUploadServlet?func=ajaxUploadAvatar''"

text \<open>\<open>v == ''\<close> for a value that is not undefined.\<close>

fun equals_empty :: "jsval \<Rightarrow> bool" where
  "equals_empty (Prim (Str s)) = (s = [])"
| "equals_empty (Prim (Num x)) = (x = Fin 0 \<or> x = NegZero)"
| "equals_empty (Prim (Bool b)) = (\<not> b)"
| "equals_empty (Prim _) = False"
| "equals_empty v = (value_to_string v = [])"

text \<open>The function given to the plugin as \<open>success\<close>; its first argument is the data.\<close>

definition upload_success :: "callback \<Rightarrow> callback \<Rightarrow> callback" where
  "upload_success successFunc errorFunc args =
     (case args of
        [] \<Rightarrow> ([], Inl TypeError)
      | d # _ \<Rightarrow>
          if d = Prim Undefined \<or> d = Prim Null then ([], Inl TypeError)
          else let err = get_prop d (str ''err'')
               in if err \<noteq> Prim Undefined
                  then (if \<not> equals_empty err then errorFunc [d] else successFunc [d])
                  else ([], Inr ()))"

text \<open>The function given as \<open>error\<close> shows its third argument.\<close>

definition upload_error :: callback where
  "upload_error args = ([Emit (Called (str ''alert'') [if 2 < length args then args ! 2 else Prim Undefined])], Inr ())"

definition upload_options :: "(jsstr \<times> prim) list \<Rightarrow> callback \<Rightarrow> callback \<Rightarrow> options" where
  "upload_options params successFunc errorFunc =
     Options (Str uploadUrl) (Bool False)
       (case map_of params (str ''iptId'') of Some v \<Rightarrow> v | None \<Rightarrow> Undefined)
       (Str (str ''json'')) Undefined Undefined (Some params)
       (Some (upload_success successFunc errorFunc)) (Some upload_error) None"

definition uploadFile ::
  "env \<Rightarrow> (jsstr \<times> prim) list \<Rightarrow> (page \<Rightarrow> page \<times> unit result) \<Rightarrow> callback \<Rightarrow> callback \<Rightarrow>
     page \<Rightarrow> page \<times> prim result" where
  "uploadFile ev params animation successFunc errorFunc w =
     (case animation w of
        (w1, Inl e) \<Rightarrow> (w1, Inl e)
      | (w1, Inr _) \<Rightarrow>
          (ajaxFileUpload ev (upload_options params successFunc errorFunc) (clock w1) w1, Inr (Bool False)))"

text \<open>Each call binds one more handler to each of the two events; a page without the element
  binds nothing.\<close>

definition defaultUploadAnimation :: "page \<Rightarrow> page \<times> unit result" where
  "defaultUploadAnimation w =
     (w\<lparr>indicator := map_option
          (\<lambda>i. i\<lparr>start_handlers := start_handlers i + 1, complete_handlers := complete_handlers i + 1\<rparr>)
          (indicator w)\<rparr>, Inr ())"

subsection \<open>The reply\<close>








subsection \<open>The indicator\<close>

lemma trigger_indicator [simp]: "indicator (trigger e w) = map_option (react e) (indicator w)"
  by (simp add: trigger_def)

lemma indicator_simps [simp]:
  "indicator (on_form k f w) = indicator w" "indicator (on_frame k g w) = indicator w"
  "indicator (createUploadForm ev i el d w) = indicator w"
  "indicator (createUploadIframe ev i u w) = indicator w"
  "indicator (submit_form s fr k w) = indicator w"
  by (simp_all add: on_form_def on_frame_def createUploadForm_def createUploadIframe_def
      submit_form_def Let_def split: option.splits)

lemma react_other [simp]: "react (AjaxSend n) i = i" "react AjaxStop i = i" "react (AjaxSuccess n) i = i"
  by simp_all

lemma map_react_other [simp]:
  "map_option (react (AjaxSend n)) x = x" "map_option (react AjaxStop) x = x"
  "map_option (react (AjaxSuccess n)) x = x"
  by (cases x; simp)+

lemma upload_indicator:
  "indicator (ajaxFileUpload ev s0 now w) =
     (if is_global (extend_options (ajaxSettings ev) s0) \<and> active w = 0
      then map_option (react AjaxStart) (indicator w) else indicator w)"
  by (simp add: ajaxFileUpload_def Let_def begin_request_def createUploadForm_facts
      createUploadIframe_facts)

lemma finished_indicator:
  "is_global (opts (requests w ! n)) \<Longrightarrow>
     indicator (finished n k us x w) = map_option (react (AjaxComplete n)) (indicator w)"
  by (simp add: finished_def Let_def end_request_def)

text \<open>The page between the animation and the upload.\<close>

definition animated :: "page \<Rightarrow> page" where
  "animated w = fst (defaultUploadAnimation w)"

lemma animated_simps [simp]:
  "frame_by_id (animated w) nm = frame_by_id w nm" "form_by_id (animated w) nm = form_by_id w nm"
  "active (animated w) = active w" "trace (animated w) = trace w" "frames (animated w) = frames w"
  "forms (animated w) = forms w" "requests (animated w) = requests w"
  "clock (animated w) = clock w"
  by (simp_all add: animated_def defaultUploadAnimation_def frame_by_id_def form_by_id_def)

lemma animated_indicator:
  "indicator (animated w) = map_option
     (\<lambda>i. i\<lparr>start_handlers := start_handlers i + 1, complete_handlers := complete_handlers i + 1\<rparr>)
     (indicator w)"
  by (simp add: animated_def defaultUploadAnimation_def)

lemma uploadFile_animated:
  "uploadFile ev params defaultUploadAnimation sF eF w =
     (ajaxFileUpload ev (upload_options params sF eF) (clock w) (animated w), Inr (Bool False))"
  by (simp add: uploadFile_def animated_def defaultUploadAnimation_def)

text \<open>The defaults of jQuery that the call relies on: global events, and no callback of its own.\<close>

definition plain_defaults :: "env \<Rightarrow> bool" where
  "plain_defaults ev \<longleftrightarrow> global (ajaxSettings ev) = Bool True \<and> complete (ajaxSettings ev) = None"

lemma extended_upload_options:
  assumes "plain_defaults ev"
  shows "is_global (extend_options (ajaxSettings ev) (upload_options params sF eF))"
    and "complete (extend_options (ajaxSettings ev) (upload_options params sF eF)) = None"
    and "success (extend_options (ajaxSettings ev) (upload_options params sF eF)) = Some (upload_success sF eF)"
    and "dataType (extend_options (ajaxSettings ev) (upload_options params sF eF)) = Str (str ''json'')"
  using assms
  by (simp_all add: plain_defaults_def extend_options_def upload_options_def or_default_def or_else_def
      is_global_def)

lemma json_data:
  "uploadHttpData ev x (Str (str ''json'')) = eval ev (str ''data = '' @ value_to_string (responseText x))"
  by (simp add: uploadHttpData_def split: sum.splits) (cases "eval ev (str ''data = '' @ value_to_string (responseText x))"; simp)

lemma upload_round:
  assumes "plain_defaults ev" "active w = 0" "indicator w = Some i"
    and "frame_by_id w (frame_name_of (clock w)) = None" "form_by_id w (form_name_of (clock w)) = None"
    and "eval ev (str ''data = '' @ value_to_string txt) = Inr v"
    and "upload_success sF eF [v, Prim (Str (str ''success''))] = (map Emit us, Inr ())"
    and "w1 = fst (uploadFile ev params defaultUploadAnimation sF eF w)"
    and "w2 = on_load ev (length (frames w)) (Loaded txt doc) w1"
  shows "map_option shown (indicator w1) = Some True" "active w1 = 1"
    and "trace w1 = trace w @ [Ajax AjaxStart, Ajax (AjaxSend (length (requests w))),
      User (Submitted (Some (length (forms w))) (frame_name_of (clock w)))]"
    and "map_option shown (indicator w2) = Some False" "active w2 = 0"
    and "trace w2 = trace w1 @ map User us @
      map Ajax [AjaxSuccess (length (requests w)), AjaxComplete (length (requests w)), AjaxStop]"
proof -
  let ?o = "upload_options params sF eF" and ?n = "length (requests w)"
  note o = extended_upload_options [OF assms(1), of params sF eF]
  have w1: "w1 = ajaxFileUpload ev ?o (clock w) (animated w)"
    using assms(8) by (simp add: uploadFile_animated)
  note up = isolated_upload [of "animated w" "clock w" _ ev ?o w1, OF _ _ refl w1]
  have ids: "frame_by_id (animated w) (frame_name_of (clock w)) = None" "form_by_id (animated w) (form_name_of (clock w)) = None"
    using assms(4,5) by simp_all
  have data: "uploadHttpData ev \<lparr>responseText = txt, responseXML = doc\<rparr>
      (dataType (extend_options (ajaxSettings ev) ?o)) = Inr v"
    by (simp only: o(4) json_data) (simp add: assms(6) del: str_simps)
  have w2: "w2 = finished ?n (length (frames w)) us \<lparr>responseText = txt, responseXML = doc\<rparr> w1"
    using isolated_load [OF ids refl w1 o(2) data o(3) assms(7)] by (simp add: assms(9))
  have r: "requests w1 ! ?n = started (extend_options (ajaxSettings ev) ?o) (clock w) (Some (length (forms w)))"
    "?n < length (requests w1)"
    using up(4,5) [OF ids] by simp_all
  then have g: "is_global (opts (requests w1 ! ?n))" using o(1) by (simp add: started_def)
  have a1: "active w1 = 1"
    using upload_facts(2) [of ev ?o "clock w" "animated w", folded w1] assms(2) o(1) by simp
  have i1: "indicator w1 = map_option (react AjaxStart) (indicator (animated w))"
    using o(1) assms(2) by (simp only: w1 upload_indicator animated_simps if_True simp_thms)
  show "active w1 = 1" by (rule a1)
  show "map_option shown (indicator w1) = Some True"
    by (simp add: i1 animated_indicator assms(3))
  show "trace w1 = trace w @ [Ajax AjaxStart, Ajax (AjaxSend ?n),
      User (Submitted (Some (length (forms w))) (frame_name_of (clock w)))]"
    using upload_facts(5) [of ev ?o "clock w" "animated w", folded w1] up(2) [OF ids] assms(2) o(1)
    by simp
  show "map_option shown (indicator w2) = Some False"
    by (simp add: w2 finished_indicator [OF g] i1 animated_indicator assms(3))
  note fin = finished_facts(2) [OF r(2) g, of "length (frames w)" us "\<lparr>responseText = txt, responseXML = doc\<rparr>"]
  show "active w2 = 0"
    "trace w2 = trace w1 @ map User us @ map Ajax [AjaxSuccess ?n, AjaxComplete ?n, AjaxStop]"
    using fin a1 by (simp_all add: w2)
qed

text \<open>
  C19: On a page with no upload under way, uploading with the default animation shows the
  indicator, and a reply that evaluates to an object and whose callback returns hides it
  again; between the two, the callback that the reply selects has run, and the counter is
  back at zero.
\<close>

theorem upload_shows_and_hides:
  assumes "plain_defaults ev" "active w = 0" "indicator w = Some i"
    and "frame_by_id w (frame_name_of (clock w)) = None" "form_by_id w (form_name_of (clock w)) = None"
    and "eval ev (str ''data = '' @ value_to_string txt) = Inr (Obj ps)"
    and "upload_success sF eF [Obj ps, Prim (Str (str ''success''))] = (map Emit us, Inr ())"
    and "w1 = fst (uploadFile ev params defaultUploadAnimation sF eF w)"
    and "w2 = on_load ev (length (frames w)) (Loaded txt doc) w1"
  shows "map_option shown (indicator w1) = Some True \<and> active w1 = 1 \<and>
         map_option shown (indicator w2) = Some False \<and> active w2 = 0 \<and>
         trace w2 = trace w1 @ map User us @
           map Ajax [AjaxSuccess (length (requests w)), AjaxComplete (length (requests w)), AjaxStop]"
  using upload_round [OF assms] by simp

text \<open>A reply on which the delivery throws before anything is called.\<close>

definition reply_throws :: "env \<Rightarrow> callback \<Rightarrow> callback \<Rightarrow> jsval \<Rightarrow> bool" where
  "reply_throws ev sF eF txt \<longleftrightarrow>
     (case eval ev (str ''data = '' @ value_to_string txt) of
        Inl e \<Rightarrow> True
      | Inr v \<Rightarrow> (case upload_success sF eF [v, Prim (Str (str ''success''))] of
                  ([], Inl e) \<Rightarrow> True | _ \<Rightarrow> False))"

lemma upload_throws:
  assumes "plain_defaults ev" "handleError ev = None" "active w = 0" "indicator w = Some i"
    and "frame_by_id w (frame_name_of (clock w)) = None" "form_by_id w (form_name_of (clock w)) = None"
    and "reply_throws ev sF eF txt"
    and "w1 = fst (uploadFile ev params defaultUploadAnimation sF eF w)"
    and "w2 = on_load ev (length (frames w)) (Loaded txt doc) w1"
  shows "map_option shown (indicator w2) = Some True" "active w2 = 1"
    and "ajax_of (trace w2) = ajax_of (trace w) @ [AjaxStart, AjaxSend (length (requests w))]"
    and "trace w2 = trace w1 @ [User (Uncaught TypeError)]"
proof -
  let ?o = "upload_options params sF eF" and ?n = "length (requests w)"
  let ?s = "extend_options (ajaxSettings ev) ?o" and ?x = "\<lparr>responseText = txt, responseXML = doc\<rparr>"
  note o = extended_upload_options [OF assms(1), of params sF eF]
  have w1: "w1 = ajaxFileUpload ev ?o (clock w) (animated w)"
    using assms(8) by (simp add: uploadFile_animated)
  have ids: "frame_by_id (animated w) (frame_name_of (clock w)) = None" "form_by_id (animated w) (form_name_of (clock w)) = None"
    using assms(5,6) by simp_all
  note up = isolated_upload [OF ids refl w1]
  have r: "requests w1 ! ?n = started ?s (clock w) (Some (length (forms w)))" "?n < length (requests w1)"
    "frame_by_id w1 (frame_name (requests w1 ! ?n)) = Some (length (frames w))"
    using up(4-6) by (simp_all add: started_def)
  define v where "v = set_request ?n (\<lambda>r. r\<lparr>requestDone := True\<rparr>) (set_request ?n (\<lambda>r. r\<lparr>xml := Some ?x\<rparr>) w1)"
  have q: "xml (requests v ! ?n) = Some ?x" "opts (requests v ! ?n) = ?s"
    using r by (simp_all add: v_def started_def)
  have "\<exists>e. deliver ev ?n v = (emit [] v, Inl e)"
  proof (cases "eval ev (str ''data = '' @ value_to_string txt)")
    case (Inl e)
    then show ?thesis using q o by (simp add: deliver_def Let_def json_data del: str_simps)
  next
    case (Inr y)
    then obtain e where "upload_success sF eF [y, Prim (Str (str ''success''))] = ([], Inl e)"
      using assms(7)
      by (auto simp: reply_throws_def simp del: str_simps split: prod.splits list.splits sum.splits)
    then show ?thesis
      using q o Inr by (simp add: deliver_def Let_def json_data run_action_def del: str_simps)
  qed
  then obtain e where d: "deliver ev ?n v = (emit [] v, Inl e)" by blast
  have "uploadCallback ev ?n False (Loaded txt doc) w1 = (emit [] v, Inl TypeError)"
    using r by (intro uploadCallback_throws [OF assms(2) r(2) _ r(3) v_def d]) (simp add: started_def)
  then have w2: "w2 = emit [Uncaught TypeError] v"
    using up(3) by (simp add: assms(9) on_load_def new_frame_def)
  have a1: "active w1 = 1" "ajax_of (trace w1) = ajax_of (trace w) @ [AjaxStart, AjaxSend ?n]"
    using upload_facts(2,5) [of ev ?o "clock w" "animated w", folded w1] assms(3) o(1) by simp_all
  have i1: "indicator w1 = map_option (react AjaxStart) (indicator (animated w))"
    using o(1) assms(3) by (simp only: w1 upload_indicator animated_simps if_True simp_thms)
  show "map_option shown (indicator w2) = Some True" "active w2 = 1"
    "ajax_of (trace w2) = ajax_of (trace w) @ [AjaxStart, AjaxSend ?n]"
    "trace w2 = trace w1 @ [User (Uncaught TypeError)]"
    using a1 by (simp_all add: w2 v_def i1 animated_indicator assms(4))
qed

text \<open>
  C21: With the shipped jQuery, a reply that is not JSON leaves the indicator shown: the load ends
  in an uncaught TypeError and nothing else, so no callback is called and no completion event is
  triggered, and the counter keeps the upload: the page behaves as if it were still running.
\<close>

theorem bad_reply_keeps_indicator:
  assumes "plain_defaults ev" "handleError ev = None" "active w = 0" "indicator w = Some i"
    and "frame_by_id w (frame_name_of (clock w)) = None" "form_by_id w (form_name_of (clock w)) = None"
    and "eval ev (str ''data = '' @ value_to_string txt) = Inl e"
    and "w1 = fst (uploadFile ev params defaultUploadAnimation sF eF w)"
    and "w2 = on_load ev (length (frames w)) (Loaded txt doc) w1"
  shows "map_option shown (indicator w2) = Some True \<and> active w2 = 1 \<and>
         ajax_of (trace w2) = ajax_of (trace w) @ [AjaxStart, AjaxSend (length (requests w))] \<and>
         trace w2 = trace w1 @ [User (Uncaught TypeError)]"
proof -
  have "reply_throws ev sF eF txt" using assms(7) by (simp add: reply_throws_def)
  then show ?thesis using upload_throws [OF assms(1-6) _ assms(8,9)] by simp
qed


text \<open>Another upload leaves the request, the frame and the handlers of the first one alone.\<close>

lemma frame_name_inject: "frame_name_of a = frame_name_of b \<longleftrightarrow> a = b"
  unfolding frame_name_of_def by (metis dec_val_dec same_append_eq)

lemma later_upload:
  assumes "w2 = ajaxFileUpload ev s0 now' w1" "target_frame w1 now' = length (frames w1)"
    and "frame_by_id w1 nm = Some k"
  shows "frame_by_id w2 nm = Some k" "frames w2 ! k = frames w1 ! k"
    and "n < length (requests w1) \<Longrightarrow> requests w2 ! n = requests w1 ! n \<and> n < length (requests w2)"
proof -
  note two = upload_facts [of ev s0 now' w1, folded assms(1), unfolded assms(2)]
  have k: "k < length (frames w1)"
    using assms(3) find_index_found by (auto simp: frame_by_id_def)
  have f2: "frames w2 = frames w1 @
      [(new_frame ev now' (secureuri (extend_options (ajaxSettings ev) s0)))\<lparr>handlers := [length (requests w1)]\<rparr>]"
    using two(6) by (simp add: Let_def new_frame_def)
  show "frame_by_id w2 nm = Some k"
    using assms(3) by (simp add: frame_by_id_def f2 find_index_snoc)
  show "frames w2 ! k = frames w1 ! k" using k by (simp add: f2 nth_append)
  show "n < length (requests w1) \<Longrightarrow> requests w2 ! n = requests w1 ! n \<and> n < length (requests w2)"
    using two(1) by (simp add: nth_append)
qed

text \<open>
  C22: With two uploads under way, the first reply hides the indicator although the second
  upload is still running: the counter is one, and the page shows nothing of it.
\<close>

theorem first_reply_hides_indicator:
  assumes "plain_defaults ev" "active w = 0" "indicator w = Some i" "0 < d"
    and "frame_by_id w (frame_name_of (clock w)) = None" "form_by_id w (form_name_of (clock w)) = None"
    and "frame_by_id w (frame_name_of (clock w + d)) = None"
    and "eval ev (str ''data = '' @ value_to_string txt) = Inr (Obj ps)"
    and "upload_success sF eF [Obj ps, Prim (Str (str ''success''))] = (map Emit us, Inr ())"
    and "w1 = fst (uploadFile ev params defaultUploadAnimation sF eF w)"
    and "w2 = fst (uploadFile ev params' defaultUploadAnimation sF eF (run_step ev (Tick d) w1))"
    and "w3 = on_load ev (length (frames w)) (Loaded txt doc) w2"
  shows "map_option shown (indicator w2) = Some True \<and> active w2 = 2 \<and>
         map_option shown (indicator w3) = Some False \<and> active w3 = 1"
proof -
  let ?o = "upload_options params sF eF" and ?o' = "upload_options params' sF eF"
  let ?s = "extend_options (ajaxSettings ev) ?o" and ?n = "length (requests w)" and ?k = "length (frames w)"
  note o = extended_upload_options [OF assms(1)]
  have w1: "w1 = ajaxFileUpload ev ?o (clock w) (animated w)"
    using assms(10) by (simp add: uploadFile_animated)
  let ?v = "run_step ev (Tick d) w1"
  have v: "frame_by_id ?v nm = frame_by_id w1 nm" "frames ?v = frames w1" "requests ?v = requests w1"
    "active ?v = active w1" "indicator ?v = indicator w1" for nm
    by (simp_all add: frame_by_id_def)
  have "clock ?v = clock w + d" by (simp add: w1 upload_clock)
  then have w2: "w2 = ajaxFileUpload ev ?o' (clock w + d) (animated ?v)"
    using assms(11) by (simp add: uploadFile_animated del: run_step.simps)
  have ids: "frame_by_id (animated w) (frame_name_of (clock w)) = None" "form_by_id (animated w) (form_name_of (clock w)) = None"
    using assms(5,6) by simp_all
  note up = isolated_upload [OF ids refl w1]
  have "frame_by_id w1 (frame_name_of (clock w + d)) = None"
    using assms(4,7) up(3) by (simp add: frame_by_id_def find_index_snoc new_frame_def frame_name_inject)
  then have tf: "target_frame (animated ?v) (clock w + d) = length (frames (animated ?v))"
    by (simp add: target_frame_def v del: run_step.simps)
  have "frame_by_id (animated ?v) (frame_name_of (clock w)) = Some ?k"
    using up(6) by (simp add: v del: run_step.simps)
  note later = later_upload [OF w2 tf this]
  have r: "requests w2 ! ?n = started ?s (clock w) (Some (length (forms w)))" "?n < length (requests w2)"
    using later(3) [of ?n] up(4,5) by (simp_all add: v del: run_step.simps)
  have "uploadCallback ev ?n False (Loaded txt doc) w2 =
      (finished ?n ?k us \<lparr>responseText = txt, responseXML = doc\<rparr> w2, Inr ())"
    by (rule uploadCallback_good [where d = "Obj ps" and f = "upload_success sF eF", OF r(2)])
       (use r o assms(8,9) later(1) in \<open>simp_all add: started_def json_data del: str_simps\<close>)
  then have w3: "w3 = finished ?n ?k us \<lparr>responseText = txt, responseXML = doc\<rparr> w2"
    using later(2) up(3) by (simp add: assms(12) on_load_def new_frame_def v del: run_step.simps)
  have g: "is_global (opts (requests w2 ! ?n))" using r o(1) by (simp add: started_def)
  have a1: "active w1 = 1"
    using upload_facts(2) [of ev ?o "clock w" "animated w", folded w1] assms(2) o(1) by simp
  have a2: "active w2 = 2"
    using upload_facts(2) [of ev ?o' "clock w + d" "animated ?v", folded w2] a1 o(1)
    by (simp add: v del: run_step.simps)
  have i1: "indicator w1 = map_option (react AjaxStart) (indicator (animated w))"
    using o(1) assms(2) by (simp only: w1 upload_indicator animated_simps if_True simp_thms)
  have i2: "indicator w2 = indicator (animated ?v)"
    using a1 by (simp add: w2 upload_indicator v del: run_step.simps)
  show ?thesis
    using finished_facts(2) [OF r(2) g, of ?k us "\<lparr>responseText = txt, responseXML = doc\<rparr>"] a2
    by (simp add: w3 finished_indicator [OF g] i2 i1 animated_indicator assms(3) v del: run_step.simps)
qed

subsection \<open>The theorems on the sample page\<close>

lemma sample_defaults:
  "plain_defaults plain_env" "plain_defaults bad_env" "active plain_page = 0"
  "indicator plain_page = Some \<lparr>shown = False, start_handlers = 1, complete_handlers = 1\<rparr>"
  "frame_by_id plain_page nm = None" "form_by_id plain_page nm = None"
  "eval plain_env c = Inr (Obj [])" "eval bad_env c = Inl SyntaxError" "frames plain_page = []"
  by (simp_all add: plain_defaults_def plain_env_def bad_env_def plain_options_def plain_page_def
      frame_by_id_def form_by_id_def find_index_def)

lemma sample_reply: "upload_success sF eF [Obj [], Prim (Str (str ''success''))] = ([], Inr ())"
  by (simp add: upload_success_def)

lemma sample_clock: "clock plain_page = 7"
  by (simp add: plain_page_def)

abbreviation "no_action \<equiv> (\<lambda>args :: jsval list. ([] :: command list, Inr () :: unit result))"
abbreviation "sample_start ev w \<equiv> fst (uploadFile ev [] defaultUploadAnimation no_action no_action w)"

theorem upload_shows_and_hides_witness:
  "map_option shown (indicator (on_load plain_env 0 (Loaded (Prim Null) (Prim Null))
     (sample_start plain_env plain_page))) = Some False"
  using upload_shows_and_hides [OF sample_defaults(1,3,4,5,6,7) _ refl refl, of no_action no_action "[]"]
    sample_reply sample_defaults(9)
  by simp

theorem bad_reply_keeps_indicator_witness:
  "map_option shown (indicator (on_load bad_env 0 (Loaded (Prim Null) (Prim Null))
     (sample_start bad_env plain_page))) = Some True"
  using bad_reply_keeps_indicator [OF sample_defaults(2) bad_env_simps(2) sample_defaults(3,4,5,6,8) refl refl]
    sample_defaults(9)
  by simp



theorem first_reply_hides_indicator_witness:
  "active (on_load plain_env 0 (Loaded (Prim Null) (Prim Null))
     (sample_start plain_env (run_step plain_env (Tick 1) (sample_start plain_env plain_page)))) = 1"
  using first_reply_hides_indicator [OF sample_defaults(1,3,4) _ sample_defaults(5,6,5,7) _ refl refl refl,
      of 1 no_action no_action "[]"] sample_reply sample_defaults(9)
  by simp

end
