(* ===== verification/AvatarPage.thy ===== *)
theory AvatarPage
  imports UploadFile
begin

text \<open>
  The script of the page \<open>file-upload/upload-avatar.jsp\<close>, which puts \<open>uploadFile\<close> to use: the
  button starts an upload of the field \<open>upFileIpt\<close>, a good reply puts the four sizes of the new
  avatar into the page and an error is shown.  The base path, which the server writes into
  the page, is an argument; a call of \<open>attr\<close> on an image is an event with the selector, the
  attribute and the value.
\<close>

definition avatar_params :: "(jsstr \<times> prim) list" where
  "avatar_params =
     [(str ''iptId'', Str (str ''upFileIpt'')), (str ''funcName'', Str (str ''userAvatar'')),
      (str ''isRename'', Str (str ''true''))]"

definition set_src :: "string \<Rightarrow> jsstr \<Rightarrow> user_event" where
  "set_src img u = Called (str ''attr'') [Prim (Str (str img)), Prim (Str (str ''src'')), Prim (Str u)]"

definition avatar_events :: "jsstr \<Rightarrow> jsval \<Rightarrow> user_event list" where
  "avatar_events basePath d =
     (let px = basePath @ str ''upload/images/'' @ value_to_string (get_prop d (str ''relativePath'')) @
            value_to_string (get_prop d (str ''avatarUUID''))
      in [set_src ''#avatarH'' (px @ str ''-H.jpg''), set_src ''#avatarL'' (px @ str ''-L.jpg''),
          set_src ''#avatarM'' (px @ str ''-M.jpg''), set_src ''#avatarS'' (px @ str ''-S.jpg'')])"

definition uploadSuccessFunc :: "jsstr \<Rightarrow> callback" where
  "uploadSuccessFunc basePath args =
     (case args of
        [] \<Rightarrow> ([], Inl TypeError)
      | d # _ \<Rightarrow>
          if d = Prim Undefined \<or> d = Prim Null then ([], Inl TypeError)
          else (map Emit (avatar_events basePath d), Inr ()))"

definition uploadErrorFunc :: callback where
  "uploadErrorFunc args =
     (case args of
        [] \<Rightarrow> ([], Inl TypeError)
      | d # _ \<Rightarrow>
          if d = Prim Undefined \<or> d = Prim Null then ([], Inl TypeError)
          else ([Emit (Called (str ''alert'') [get_prop d (str ''err'')])], Inr ()))"

definition uploadAvatar :: "env \<Rightarrow> jsstr \<Rightarrow> page \<Rightarrow> page \<times> prim result" where
  "uploadAvatar ev basePath w =
     (case uploadFile ev avatar_params defaultUploadAnimation (uploadSuccessFunc basePath) uploadErrorFunc w of
        (w1, Inl e) \<Rightarrow> (w1, Inl e)
      | (w1, Inr _) \<Rightarrow> (w1, Inr Undefined))"

lemma uploadAvatar_uploadFile:
  "uploadAvatar ev basePath w =
     (fst (uploadFile ev avatar_params defaultUploadAnimation (uploadSuccessFunc basePath) uploadErrorFunc w),
      Inr Undefined)"
  by (simp add: uploadAvatar_def uploadFile_animated)

text \<open>What the page does with a reply that has an \<open>err\<close>.\<close>

lemma avatar_reply:
  assumes "map_of ps (str ''err'') = Some (Prim (Str e))"
  shows "upload_success (uploadSuccessFunc basePath) uploadErrorFunc [Obj ps, st] =
    (map Emit (if e = [] then avatar_events basePath (Obj ps)
               else [Called (str ''alert'') [Prim (Str e)]]), Inr ())"
  using assms
  by (simp add: upload_success_def uploadSuccessFunc_def uploadErrorFunc_def Let_def del: str_simps)

text \<open>
  C20: A click on the button of the avatar page, from the click to the reply of the server: with no
  upload under way, the indicator is shown, the form is submitted once, and a reply object with
  a text err hides the indicator again and lowers the counter to zero; when err is empty
  exactly the four images get the address built from the reply, and otherwise the page shows
  err in an alert and leaves the images alone.
\<close>

theorem avatar_upload:
  assumes "plain_defaults ev" "active w = 0" "indicator w = Some i"
    and "frame_by_id w (frame_name_of (clock w)) = None" "form_by_id w (form_name_of (clock w)) = None"
    and "eval ev (str ''data = '' @ value_to_string txt) = Inr (Obj ps)"
    and "map_of ps (str ''err'') = Some (Prim (Str e))"
    and "map_of ps (str ''relativePath'') = Some (Prim (Str dir))"
    and "map_of ps (str ''avatarUUID'') = Some (Prim (Str uuid))"
    and "px = basePath @ str ''upload/images/'' @ dir @ uuid"
    and "w1 = fst (uploadAvatar ev basePath w)"
    and "w2 = on_load ev (length (frames w)) (Loaded txt doc) w1"
  shows "trace w2 = trace w @
           [Ajax AjaxStart, Ajax (AjaxSend (length (requests w))),
            User (Submitted (Some (length (forms w))) (frame_name_of (clock w)))] @
           map User (if e = []
                     then [set_src ''#avatarH'' (px @ str ''-H.jpg''), set_src ''#avatarL'' (px @ str ''-L.jpg''),
                           set_src ''#avatarM'' (px @ str ''-M.jpg''), set_src ''#avatarS'' (px @ str ''-S.jpg'')]
                     else [Called (str ''alert'') [Prim (Str e)]]) @
           [Ajax (AjaxSuccess (length (requests w))), Ajax (AjaxComplete (length (requests w))),
            Ajax AjaxStop] \<and>
         map_option shown (indicator w1) = Some True \<and>
         map_option shown (indicator w2) = Some False \<and> active w2 = 0"
  using upload_round [OF assms(1-6) avatar_reply [OF assms(7)] _ assms(12)] assms(8-11)
  by (simp add: uploadAvatar_uploadFile avatar_events_def Let_def del: str_simps)

definition reply_env :: env where
  "reply_env = plain_env\<lparr>eval := (\<lambda>_. Inr (Obj [(str ''err'', Prim (Str [])),
     (str ''relativePath'', Prim (Str (str ''p/''))), (str ''avatarUUID'', Prim (Str (str ''u'')))]))\<rparr>"

theorem avatar_upload_witness:
  "User (set_src ''#avatarS'' (str ''http://h/upload/images/p/u-S.jpg'')) \<in>
     set (trace (on_load reply_env 0 (Loaded (Prim Null) (Prim Null))
       (fst (uploadAvatar reply_env (str ''http://h/'') plain_page))))"
proof -
  have env: "plain_defaults reply_env" "eval reply_env c = Inr (Obj [(str ''err'', Prim (Str [])),
      (str ''relativePath'', Prim (Str (str ''p/''))), (str ''avatarUUID'', Prim (Str (str ''u'')))])" for c
    using sample_defaults(1) by (simp_all add: reply_env_def plain_defaults_def del: str_simps)
  show ?thesis
    using avatar_upload [OF env(1) sample_defaults(3,4,5,6) env(2) _ _ _ refl refl refl, of "[]" "str ''p/''"
        "str ''u''" "Prim Null" "Prim Null" "str ''http://h/''"] sample_defaults(9)
    by simp
qed

end
