(* ===== verification/City.thy ===== *)
theory City
  imports JsBase
begin

text \<open>
  The rows of the city table of \<open>docs/citycode/json.js\<close> and the check of a sequence of them.
  A row has the five properties of the source; the ASCII ones are HOL strings, the word, which
  is in Chinese characters, is a JavaScript string.  A client of the table finds a city by its
  \<open>id\<close>, so what matters is that every \<open>id\<close> is a canonical decimal numeral and that no two rows
  share one: the check establishes both in one pass, and passes compose.
\<close>

datatype city =
  City (city_id: string) (city_code: string) (city_short: string) (city_spell: string)
       (city_word: jsstr)

text \<open>The value of a decimal numeral.\<close>

fun id_value :: "nat \<Rightarrow> string \<Rightarrow> nat option" where
  "id_value a [] = Some a"
| "id_value a (c # cs) =
     (let d = of_char c :: nat
      in if 48 \<le> d \<and> d \<le> 57 then id_value (10 * a + (d - 48)) cs else None)"

text \<open>
  The pass over a sequence of rows: the ids are numerals without leading zeros whose values
  increase from \<open>lo\<close>, the code is empty and the word is not.  The result is the last value.
\<close>

fun checked :: "nat \<Rightarrow> city list \<Rightarrow> nat option" where
  "checked lo [] = Some lo"
| "checked lo (City i code short spell word # cs) =
     (case id_value 0 i of
        None \<Rightarrow> None
      | Some n \<Rightarrow>
          if lo < n \<and> i \<noteq> [] \<and> hd i \<noteq> CHR ''0'' \<and> code = [] \<and> word \<noteq> [] then checked n cs else None)"

lemma checked_append: "checked lo xs = Some m \<Longrightarrow> checked lo (xs @ ys) = checked m ys"
  by (induction lo xs rule: checked.induct) (auto split: option.splits if_splits)

lemma checked_ids:
  "checked lo xs = Some hi \<Longrightarrow>
     lo \<le> hi \<and> (\<forall>c \<in> set xs. \<exists>n. id_value 0 (city_id c) = Some n \<and> lo < n \<and> n \<le> hi)"
proof (induction lo xs rule: checked.induct)
  case (2 lo i code short spell word cs)
  then obtain n where n: "id_value 0 i = Some n" "lo < n" "checked n cs = Some hi"
    by (auto split: option.splits if_splits)
  then have "n \<le> hi \<and> (\<forall>c \<in> set cs. \<exists>m. id_value 0 (city_id c) = Some m \<and> n < m \<and> m \<le> hi)"
    using 2 by (auto split: if_splits)
  then show ?case using n by fastforce
qed simp

lemma checked_sorted:
  "checked lo xs = Some hi \<Longrightarrow> sorted_wrt (<) (map (\<lambda>c. the (id_value 0 (city_id c))) xs)"
proof (induction lo xs rule: checked.induct)
  case (2 lo i code short spell word cs)
  then obtain n where n: "id_value 0 i = Some n" "lo < n" "checked n cs = Some hi"
    by (auto split: option.splits if_splits)
  then have "sorted_wrt (<) (map (\<lambda>c. the (id_value 0 (city_id c))) cs)"
    using 2 by (auto split: if_splits)
  then show ?case using n checked_ids [OF n(3)] by fastforce
qed simp

lemma checked_rows:
  "checked lo xs = Some hi \<Longrightarrow> c \<in> set xs \<Longrightarrow>
     city_id c \<noteq> [] \<and> hd (city_id c) \<noteq> CHR ''0'' \<and> city_code c = [] \<and> city_word c \<noteq> []"
  by (induction lo xs rule: checked.induct) (auto split: option.splits if_splits)

lemma checked_distinct: "checked lo xs = Some hi \<Longrightarrow> distinct (map city_id xs)"
proof -
  assume "checked lo xs = Some hi"
  then have "sorted_wrt (<) (map (\<lambda>c. the (id_value 0 (city_id c))) xs)"
    by (rule checked_sorted)
  then have "distinct (map ((\<lambda>i. the (id_value 0 i)) \<circ> city_id) xs)"
    by (simp add: strict_sorted_iff comp_def)
  then show ?thesis by (metis distinct_map map_map)
qed

text \<open>One row of a pass; resolution with it leaves the rows behind it untouched.\<close>

lemma checked_rule:
  "id_value 0 i = Some n \<Longrightarrow> lo < n \<Longrightarrow> i \<noteq> [] \<Longrightarrow> hd i \<noteq> CHR ''0'' \<Longrightarrow> word \<noteq> [] \<Longrightarrow>
     checked n cs = r \<Longrightarrow> checked lo (City i [] short spell word # cs) = r"
  by simp

lemmas count_rows = list.size add_0 add_Suc add_Suc_right arith_simps

end
