(* ===== verification/CityRows1.thy ===== *)
theory CityRows1
  imports City
begin

text \<open>
  \<open>docs/citycode/json.js\<close>, lines 3 to 1052: the rows of \<open>citylist\<close>, in groups, and the check of
  each group.
\<close>

definition cities_0 :: "city list" where
  "cities_0 =
    [City ''1'' '''' ''bj'' ''beijing'' [21271, 20140],
     City ''2'' '''' ''sh'' ''shanghai'' [19978, 28023],
     City ''3'' '''' ''tj'' ''tianjin'' [22825, 27941],
     City ''4'' '''' ''CQ'' ''chongqing'' [37325, 24198],
     City ''5'' '''' ''heb'' ''haerbin'' [21704, 23572, 28392],
     City ''6'' '''' ''dl'' ''dalian'' [22823, 36830],
     City ''7'' '''' ''qd'' ''qingdao'' [38738, 23707],
     City ''10'' '''' ''xa'' ''xian'' [35199, 23433],
     City ''11'' '''' ''dh'' ''dunhuang'' [25958, 29004],
     City ''12'' '''' ''nj'' ''nanjing'' [21335, 20140],
     City ''13'' '''' ''wx'' ''wuxi'' [26080, 38177],
     City ''14'' '''' ''sz'' ''suzhou'' [33487, 24030],
     City ''15'' '''' ''yz'' ''yangzhou'' [25196, 24030],
     City ''16'' '''' ''zj'' ''zhenjiang'' [38215, 27743],
     City ''17'' '''' ''hz'' ''hangzhou'' [26477, 24030],
     City ''18'' '''' ''xt'' ''xitang'' [35199, 22616],
     City ''19'' '''' ''zs'' ''zhoushan'' [33311, 23665],
     City ''20'' '''' ''ca'' ''chunan'' [28147, 23433],
     City ''21'' '''' ''qdhz'' ''qiandaohuzhen'' [21315, 23707, 28246, 38215],
     City ''22'' '''' ''sx'' ''shaoxing'' [32461, 20852],
     City ''23'' '''' ''hs'' ''huangshan'' [40644, 23665],
     City ''24'' '''' ''jj'' ''jiujiang'' [20061, 27743],
     City ''25'' '''' ''xm'' ''xiamen'' [21414, 38376],
     City ''26'' '''' ''wys'' ''wuyishan'' [27494, 22839, 23665],
     City ''27'' '''' ''zjj'' ''zhangjiajie'' [24352, 23478, 30028],
     City ''28'' '''' ''cd'' ''chengdu'' [25104, 37117],
     City ''30'' '''' ''sz'' ''shenzhen'' [28145, 22323],
     City ''31'' '''' ''zh'' ''zhuhai'' [29664, 28023],
     City ''32'' '''' ''gz'' ''guangzhou'' [24191, 24030],
     City ''33'' '''' ''gl'' ''guilin'' [26690, 26519],
     City ''34'' '''' ''km'' ''kunming'' [26118, 26126],
     City ''35'' '''' ''xsbn'' ''xishuangbanna'' [35199, 21452, 29256, 32435],
     City ''36'' '''' ''dls'' ''dalishi'' [22823, 29702, 24066],
     City ''37'' '''' ''lj'' ''lijiang'' [20029, 27743],
     City ''38'' '''' ''gy'' ''guiyang'' [36149, 38451],
     City ''39'' '''' ''wlmq'' ''wulumuqi'' [20044, 40065, 26408, 40784],
     City ''40'' '''' ''tlfs'' ''tulufanshi'' [21520, 40065, 30058, 24066],
     City ''41'' '''' ''ls'' ''lasa'' [25289, 33832],
     City ''42'' '''' ''hk'' ''haikou'' [28023, 21475],
     City ''43'' '''' ''sy'' ''sanya'' [19977, 20122],
     City ''44'' '''' ''wc'' ''wenchang'' [25991, 26124],
     City ''45'' '''' ''wn'' ''wanning'' [19975, 23425],
     City ''46'' '''' ''wzs'' ''wuzhishan'' [20116, 25351, 23665],
     City ''47'' '''' ''tc'' ''tunchang'' [23663, 26124],
     City ''48'' '''' ''df'' ''dongfang'' [19996, 26041],
     City ''49'' '''' ''ld'' ''ledong'' [20048, 19996],
     City ''50'' '''' ''da'' ''dingan'' [23450, 23433],
     City ''51'' '''' ''qs'' ''qiongshan'' [29756, 23665],
     City ''52'' '''' ''qh'' ''qionghai'' [29756, 28023],
     City ''53'' '''' ''qz'' ''qiongzhong'' [29756, 20013],
     City ''54'' '''' ''bt'' ''baoting'' [20445, 20141],
     City ''55'' '''' ''ls'' ''lingshui'' [38517, 27700],
     City ''56'' '''' ''CJ'' ''changjiang'' [26124, 27743],
     City ''57'' '''' ''dz'' ''danzhou'' [20747, 24030],
     City ''58'' '''' ''xg'' ''xianggang'' [39321, 28207],
     City ''59'' '''' ''am'' ''aomen'' [28595, 38376],
     City ''82'' '''' ''nt'' ''nantong'' [21335, 36890],
     City ''83'' '''' ''ks'' ''kunshan'' [26118, 23665],
     City ''84'' '''' ''hn'' ''haining'' [28023, 23425],
     City ''85'' '''' ''yj'' ''yongjia'' [27704, 22025],
     City ''86'' '''' ''hz'' ''huzhou'' [28246, 24030],
     City ''87'' '''' ''fh'' ''fenghua'' [22857, 21270],
     City ''90'' '''' ''la'' ''linan'' [20020, 23433],
     City ''91'' '''' ''jzg'' ''jiuzhaigou'' [20061, 23528, 27807],
     City ''92'' '''' ''rkz'' ''rikazhe'' [26085, 21888, 21017],
     City ''93'' '''' ''DQ'' ''diqing'' [36842, 24198],
     City ''94'' '''' ''djy'' ''dujiangyan'' [37117, 27743, 22576],
     City ''95'' '''' ''ems'' ''emeishan'' [23784, 30473, 23665],
     City ''96'' '''' ''cs'' ''changshu'' [24120, 29087],
     City ''97'' '''' ''al'' ''ali'' [38463, 37324],
     City ''98'' '''' ''yl'' ''yili'' [20234, 29313],
     City ''99'' '''' ''yc'' ''yinchuan'' [38134, 24029],
     City ''100'' '''' ''lz'' ''lanzhou'' [20848, 24030],
     City ''103'' '''' ''hhht'' ''huhehaote'' [21628, 21644, 28009, 29305],
     City ''104'' '''' ''py'' ''pingyao'' [24179, 36965],
     City ''105'' '''' ''ty'' ''taiyuan'' [22826, 21407],
     City ''106'' '''' ''wts'' ''wutaishan'' [20116, 21488, 23665],
     City ''108'' '''' ''lz'' ''linzhi'' [26519, 33437],
     City ''109'' '''' ''kss'' ''kashenshi'' [21888, 20160, 24066],
     City ''110'' '''' ''ya'' ''yanan'' [24310, 23433],
     City ''111'' '''' ''xy'' ''xianyang'' [21688, 38451],
     City ''112'' '''' ''bj'' ''baoji'' [23453, 40481],
     City ''117'' '''' ''tg'' ''tongguan'' [28540, 20851],
     City ''118'' '''' ''tc'' ''tongchuan'' [38108, 24029],
     City ''119'' '''' ''hy'' ''huayin'' [21326, 38452],
     City ''123'' '''' ''df'' ''danfeng'' [20025, 20964],
     City ''124'' '''' ''xn'' ''xining'' [35199, 23425],
     City ''125'' '''' ''dl'' ''doulan'' [37117, 20848],
     City ''126'' '''' ''jx'' ''jiaxian'' [20339, 21439],
     City ''127'' '''' ''hl'' ''huangling'' [40644, 38517],
     City ''128'' '''' ''hc'' ''hancheng'' [38889, 22478],
     City ''129'' '''' ''hz'' ''hanzhong'' [27721, 20013],
     City ''130'' '''' ''cx'' ''chuanxian'' [24029, 21439],
     City ''131'' '''' ''qs'' ''Qishan'' [23696, 23665],
     City ''132'' '''' ''gem'' ''geermu'' [26684, 23572, 26408],
     City ''133'' '''' ''yc'' ''yuci'' [27014, 27425],
     City ''134'' '''' ''ls'' ''lingshi'' [28789, 30707],
     City ''135'' '''' ''jx'' ''jiexiu'' [20171, 20241],
     City ''136'' '''' ''dt'' ''datong'' [22823, 21516],
     City ''137'' '''' ''cz'' ''changzhi'' [38271, 27835],
     City ''139'' '''' ''lf'' ''linfen'' [20020, 27774],
     City ''140'' '''' ''yc'' ''yuncheng'' [36816, 22478],
     City ''141'' '''' ''bt'' ''baotou'' [21253, 22836],
     City ''142'' '''' ''hle'' ''hailaer'' [28023, 25289, 23572],
     City ''143'' '''' ''qf'' ''qufu'' [26354, 38428],
     City ''144'' '''' ''jn'' ''jinan'' [27982, 21335],
     City ''145'' '''' ''ts'' ''taishan'' [27888, 23665],
     City ''147'' '''' ''qhd'' ''qinhuangdao'' [31206, 30343, 23707],
     City ''149'' '''' ''qqhe'' ''qiqihaer'' [40784, 40784, 21704, 23572],
     City ''150'' '''' ''mdj'' ''mudanjiang'' [29281, 20025, 27743],
     City ''153'' '''' ''ba'' ''beian'' [21271, 23433],
     City ''155'' '''' ''mh'' ''mohe'' [28448, 27827],
     City ''156'' '''' ''hl'' ''hulin'' [34382, 26519],
     City ''157'' '''' ''jx'' ''jixi'' [40481, 35199],
     City ''158'' '''' ''cc'' ''changchun'' [38271, 26149],
     City ''159'' '''' ''jl'' ''jilin'' [21513, 26519],
     City ''161'' '''' ''ja'' ''jian'' [38598, 23433],
     City ''162'' '''' ''na'' ''nongan'' [20892, 23433],
     City ''165'' '''' ''dh'' ''dunhua'' [25958, 21270],
     City ''166'' '''' ''klmy'' ''kelamayi'' [20811, 25289, 29595, 20381],
     City ''171'' '''' ''ak'' ''ankang'' [23433, 24247],
     City ''173'' '''' ''aks'' ''akesu'' [38463, 20811, 33487],
     City ''175'' '''' ''alt'' ''aletai'' [38463, 21202, 27888],
     City ''177'' '''' ''aq'' ''anqing'' [23433, 24198],
     City ''178'' '''' ''as'' ''anshan'' [38797, 23665],
     City ''179'' '''' ''as'' ''anshun'' [23433, 39034],
     City ''180'' '''' ''ax'' ''anxi'' [23433, 28330],
     City ''181'' '''' ''ay'' ''anyang'' [23433, 38451],
     City ''182'' '''' ''bb'' ''bangbu'' [34444, 22496],
     City ''184'' '''' ''cg'' ''cuogang'' [23919, 23703],
     City ''185'' '''' ''bd'' ''baoding'' [20445, 23450],
     City ''186'' '''' ''yx'' ''yuxi'' [29577, 28330],
     City ''187'' '''' ''bdh'' ''beidaihe'' [21271, 25140, 27827],
     City ''188'' '''' ''yc'' ''yancheng'' [26191, 22478],
     City ''189'' '''' ''bh'' ''beihai'' [21271, 28023],
     City ''190'' '''' ''bh'' ''baihe'' [30333, 27827],
     City ''195'' '''' ''bl'' ''boli'' [20271, 21147],
     City ''197'' '''' ''bs'' ''baoshan'' [20445, 23665],
     City ''198'' '''' ''zb'' ''zhangbai'' [38271, 30333],
     City ''199'' '''' ''zbs'' ''zhangbaishan'' [38271, 30333, 23665],
     City ''201'' '''' ''cd'' ''changde'' [24120, 24503],
     City ''202'' '''' ''cf'' ''chifeng'' [36196, 23792],
     City ''203'' '''' ''cl'' ''Changle'' [38271, 20048],
     City ''204'' '''' ''clj'' ''chenglingji'' [22478, 38517, 30710],
     City ''206'' '''' ''cs'' ''changsha'' [38271, 27801],
     City ''208'' '''' ''ss'' ''shengsi'' [23882, 27863],
     City ''209'' '''' ''gd'' ''guangde'' [24191, 24503],
     City ''210'' '''' ''sd'' ''shunde'' [39034, 24503],
     City ''211'' '''' ''cy'' ''chaoyang'' [26397, 38451],
     City ''212'' '''' ''cy'' ''chaoyang'' [28526, 38451]]"

lemma checked_0: "checked 0 cities_0 = Some 212"
  unfolding cities_0_def by ((rule checked_rule, simp, simp, simp, simp, simp)+, simp)

lemma length_0: "length cities_0 = 150"
  by (simp only: cities_0_def count_rows)

definition cities_1 :: "city list" where
  "cities_1 =
    [City ''213'' '''' ''cz'' ''changzhou'' [24120, 24030],
     City ''214'' '''' ''cz'' ''chuzhou'' [28353, 24030],
     City ''215'' '''' ''cz'' ''chaozhou'' [28526, 24030],
     City ''216'' '''' ''cz'' ''cangzhou'' [27815, 24030],
     City ''218'' '''' ''cz'' ''chizhou'' [27744, 24030],
     City ''221'' '''' ''dd'' ''dandong'' [20025, 19996],
     City ''222'' '''' ''df'' ''dengfeng'' [30331, 23553],
     City ''223'' '''' ''dg'' ''dongguan'' [19996, 33694],
     City ''224'' '''' ''dg'' ''dagang'' [22823, 28207],
     City ''225'' '''' ''dh'' ''dinghai'' [23450, 28023],
     City ''226'' '''' ''dh'' ''daohu'' [23707, 28246],
     City ''229'' '''' ''dl'' ''dailing'' [24102, 23725],
     City ''231'' '''' ''dq'' ''daqing'' [22823, 24198],
     City ''232'' '''' ''dsh'' ''dianshanhu'' [28096, 23665, 28246],
     City ''234'' '''' ''dx'' ''daxian'' [36798, 21439],
     City ''236'' '''' ''dy'' ''dongying'' [19996, 33829],
     City ''237'' '''' ''dy'' ''deyang'' [24503, 38451],
     City ''238'' '''' ''dy'' ''danyang'' [20025, 38451],
     City ''240'' '''' ''dyd'' ''dayudu'' [22823, 31161, 28193],
     City ''241'' '''' ''dz'' ''dazu'' [22823, 36275],
     City ''245'' '''' ''es'' ''enshi'' [24681, 26045],
     City ''246'' '''' ''fd'' ''fuding'' [31119, 40718],
     City ''247'' '''' ''fd'' ''fengdu'' [20016, 37117],
     City ''249'' '''' ''fl'' ''fuling'' [28074, 38517],
     City ''251'' '''' ''fs'' ''foshan'' [20315, 23665],
     City ''252'' '''' ''fs'' ''fushun'' [25242, 39034],
     City ''254'' '''' ''fx'' ''fuxin'' [38428, 26032],
     City ''255'' '''' ''fy'' ''fuyun'' [23500, 34164],
     City ''256'' '''' ''fy'' ''fuyang'' [23500, 38451],
     City ''257'' '''' ''fy'' ''fuyang'' [38428, 38451],
     City ''258'' '''' ''fz'' ''fuzhou'' [31119, 24030],
     City ''259'' '''' ''gb'' ''gongbei'' [25329, 21271],
     City ''267'' '''' ''gy'' ''guangyuan'' [24191, 20803],
     City ''268'' '''' ''gz'' ''ganzhou'' [36195, 24030],
     City ''270'' '''' ''ha'' ''huian'' [24800, 23433],
     City ''272'' '''' ''hb'' ''huaibei'' [28142, 21271],
     City ''275'' '''' ''hd'' ''handan'' [37039, 37112],
     City ''278'' '''' ''hf'' ''hefei'' [21512, 32933],
     City ''279'' '''' ''hg'' ''hangu'' [27721, 27837],
     City ''280'' '''' ''hg'' ''huanggang'' [40644, 23703],
     City ''281'' '''' ''hh'' ''heihe'' [40657, 27827],
     City ''282'' '''' ''hh'' ''huaihua'' [24576, 21270],
     City ''283'' '''' ''hk'' ''hankou'' [27721, 21475],
     City ''284'' '''' ''hls'' ''helanshan'' [36154, 20848, 23665],
     City ''285'' '''' ''hms'' ''hamishi'' [21704, 23494, 24066],
     City ''287'' '''' ''hn'' ''huainan'' [28142, 21335],
     City ''288'' '''' ''hs'' ''huashan'' [21326, 23665],
     City ''289'' '''' ''hs'' ''hengshan'' [24658, 23665],
     City ''290'' '''' ''hs'' ''hengshui'' [34913, 27700],
     City ''291'' '''' ''hs'' ''heshan'' [40548, 23665],
     City ''292'' '''' ''hs'' ''huangshi'' [40644, 30707],
     City ''294'' '''' ''hts'' ''hetianshi'' [21644, 30000, 24066],
     City ''295'' '''' ''hx'' ''huaxian'' [33457, 21439],
     City ''296'' '''' ''hy'' ''huangyan'' [40644, 23721],
     City ''297'' '''' ''hy'' ''hengyang'' [34913, 38451],
     City ''298'' '''' ''hy'' ''huiyang'' [24800, 38451],
     City ''299'' '''' ''hz'' ''huizhou'' [24800, 24030],
     City ''305'' '''' ''jdz'' ''jingdezhen'' [26223, 24503, 38215],
     City ''307'' '''' ''jgs'' ''jinggangshan'' [20117, 20872, 23665],
     City ''308'' '''' ''jh'' ''jinhua'' [37329, 21326],
     City ''309'' '''' ''jh'' ''jinghong'' [26223, 27946],
     City ''310'' '''' ''pl'' ''penglai'' [34028, 33713],
     City ''311'' '''' ''jj'' ''jiaojiang'' [26898, 27743],
     City ''312'' '''' ''sb'' ''shibing'' [26045, 31177],
     City ''314'' '''' ''jl'' ''jiulong'' [20061, 40857],
     City ''316'' '''' ''jm'' ''jiangmen'' [27743, 38376],
     City ''317'' '''' ''jms'' ''jiamusi'' [20339, 26408, 26031],
     City ''318'' '''' ''jn'' ''jining'' [27982, 23425],
     City ''321'' '''' ''gy'' ''guyuan'' [22266, 21407],
     City ''324'' '''' ''jy'' ''jianyang'' [24314, 38451],
     City ''325'' '''' ''jy'' ''jiangyin'' [27743, 38452],
     City ''326'' '''' ''jyg'' ''jiayuguan'' [22025, 23786, 20851],
     City ''327'' '''' ''jz'' ''jinzhou'' [38182, 24030],
     City ''328'' '''' ''jz'' ''jingzhou'' [33606, 24030],
     City ''329'' '''' ''kc'' ''kuche'' [24211, 36710],
     City ''330'' '''' ''kel'' ''kuerle'' [24211, 23572, 21202],
     City ''331'' '''' ''kf'' ''kaifeng'' [24320, 23553],
     City ''333'' '''' ''kl'' ''kaili'' [20975, 37324],
     City ''335'' '''' ''kp'' ''kaiping'' [24320, 24179],
     City ''337'' '''' ''lcg'' ''luchaogang'' [33446, 28526, 28207],
     City ''339'' '''' ''ld'' ''luoding'' [32599, 23450],
     City ''340'' '''' ''lf'' ''langfang'' [24266, 22346],
     City ''341'' '''' ''lh'' ''longhai'' [40857, 28023],
     City ''342'' '''' ''lhk'' ''laohekou'' [32769, 27827, 21475],
     City ''344'' '''' ''ls'' ''lushan'' [24208, 23665],
     City ''345'' '''' ''ls'' ''leshan'' [20048, 23665],
     City ''346'' '''' ''ls'' ''lishui'' [20029, 27700],
     City ''348'' '''' ''ly'' ''longyan'' [40857, 23721],
     City ''349'' '''' ''ly'' ''liuyuan'' [26611, 22253],
     City ''350'' '''' ''ly'' ''luoyang'' [27931, 38451],
     City ''351'' '''' ''ly'' ''liaoyang'' [36797, 38451],
     City ''352'' '''' ''ly'' ''liaoyuan'' [36797, 28304],
     City ''353'' '''' ''lyg'' ''lianyungang'' [36830, 20113, 28207],
     City ''354'' '''' ''lz'' ''liuzhou'' [26611, 24030],
     City ''355'' '''' ''lz'' ''luzhou'' [27896, 24030],
     City ''356'' '''' ''zsd'' ''zhangshudong'' [27167, 26641, 19996],
     City ''365'' '''' ''dh'' ''dehong'' [24503, 23439],
     City ''367'' '''' ''mw'' ''mawei'' [39532, 23614],
     City ''369'' '''' ''my'' ''mengyuan'' [23391, 22636],
     City ''370'' '''' ''my'' ''mianyang'' [32501, 38451],
     City ''371'' '''' ''hy'' ''haiyan'' [28023, 26191],
     City ''372'' '''' ''mz'' ''meizhou'' [28228, 24030],
     City ''373'' '''' ''lh'' ''longhua'' [38534, 21270],
     City ''374'' '''' ''na'' ''nanan'' [21335, 23433],
     City ''375'' '''' ''nb'' ''ningbo'' [23425, 27874],
     City ''376'' '''' ''nc'' ''nanchang'' [21335, 26124],
     City ''377'' '''' ''nc'' ''nanchong'' [21335, 20805],
     City ''378'' '''' ''nd'' ''ningde'' [23425, 24503],
     City ''380'' '''' ''nn'' ''nanning'' [21335, 23425],
     City ''382'' '''' ''nts'' ''niutoushan'' [29275, 22836, 23665],
     City ''385'' '''' ''ny'' ''nanyang'' [21335, 38451],
     City ''387'' '''' ''pj'' ''panjin'' [30424, 38182],
     City ''388'' '''' ''pl'' ''pingliang'' [24179, 20937],
     City ''389'' '''' ''pn'' ''puning'' [26222, 23425],
     City ''392'' '''' ''pt'' ''Pingtan'' [24179, 28525],
     City ''394'' '''' ''pq'' ''puqi'' [33970, 22331],
     City ''395'' '''' ''gl'' ''gulong'' [35895, 38471],
     City ''396'' '''' ''px'' ''pingxiang'' [20973, 31077],
     City ''397'' '''' ''fy'' ''fanyu'' [30058, 31162],
     City ''399'' '''' ''qm'' ''qiemo'' [19988, 26411],
     City ''401'' '''' ''qs'' ''qiushui'' [27845, 27700],
     City ''402'' '''' ''qsy'' ''qishuyan'' [25114, 22661, 22576],
     City ''403'' '''' ''yx'' ''yixian'' [40671, 21439],
     City ''404'' '''' ''qy'' ''qingyang'' [24198, 38451],
     City ''405'' '''' ''qys'' ''qiyunshan'' [40784, 20113, 23665],
     City ''406'' '''' ''qz'' ''quanzhou'' [27849, 24030],
     City ''407'' '''' ''qz'' ''quzhou'' [34914, 24030],
     City ''408'' '''' ''ra'' ''ruian'' [29790, 23433],
     City ''411'' '''' ''sr'' ''shangrao'' [19978, 39286],
     City ''412'' '''' ''rl'' ''ruili'' [29790, 20029],
     City ''413'' '''' ''sa'' ''shunan'' [39034, 23433],
     City ''414'' '''' ''sbkw'' ''subikewan'' [33487, 27604, 20811, 28286],
     City ''416'' '''' ''sc'' ''shuangcheng'' [21452, 22478],
     City ''417'' '''' ''sd'' ''shandong'' [23665, 19996],
     City ''418'' '''' ''sd'' ''shendu'' [28145, 28193],
     City ''421'' '''' ''sfh'' ''suifenhe'' [32485, 33452, 27827],
     City ''422'' '''' ''sg'' ''shaoguan'' [38902, 20851],
     City ''424'' '''' ''shg'' ''shanhaiguan'' [23665, 28023, 20851],
     City ''426'' '''' ''shz'' ''shihezi'' [30707, 27827, 23376],
     City ''427'' '''' ''lp'' ''liangping'' [26753, 24179],
     City ''428'' '''' ''sjz'' ''shijiazhuang'' [30707, 23478, 24196],
     City ''429'' '''' ''sk'' ''shekou'' [34503, 21475],
     City ''430'' '''' ''sks'' ''sankeshu'' [19977, 26869, 26641],
     City ''431'' '''' ''sl'' ''shilin'' [30707, 26519],
     City ''432'' '''' ''gssl'' ''gansusilu'' [29976, 32899, 19997, 36335],
     City ''433'' '''' ''hs'' ''hanshou'' [27721, 23551],
     City ''435'' '''' ''sm'' ''simao'' [24605, 33541],
     City ''436'' '''' ''smx'' ''sanmenxia'' [19977, 38376, 23777],
     City ''437'' '''' ''sm'' ''sanming'' [19977, 26126],
     City ''439'' '''' ''sn'' ''shannan'' [23665, 21335]]"

lemma checked_1: "checked 212 cities_1 = Some 439"
  unfolding cities_1_def by ((rule checked_rule, simp, simp, simp, simp, simp)+, simp)

lemma length_1: "length cities_1 = 150"
  by (simp only: cities_1_def count_rows)

definition cities_2 :: "city list" where
  "cities_2 =
    [City ''440'' '''' ''sp'' ''siping'' [22235, 24179],
     City ''441'' '''' ''sq'' ''shangqiu'' [21830, 19992],
     City ''442'' '''' ''ss'' ''shashi'' [27801, 24066],
     City ''443'' '''' ''ss'' ''Sihui'' [27863, 27700],
     City ''444'' '''' ''ss'' ''shishi'' [30707, 29422],
     City ''445'' '''' ''ss'' ''sanshui'' [19977, 27700],
     City ''446'' '''' ''ss'' ''shaoshan'' [38902, 23665],
     City ''447'' '''' ''st'' ''shantou'' [27733, 22836],
     City ''448'' '''' ''sw'' ''shaowu'' [37045, 27494],
     City ''449'' '''' ''sx'' ''shaxian'' [27801, 21439],
     City ''450'' '''' ''sxy'' ''suoxiyu'' [32034, 28330, 23786],
     City ''451'' '''' ''sy'' ''shenyang'' [27784, 38451],
     City ''452'' '''' ''sy'' ''shiyan'' [21313, 22576],
     City ''454'' '''' ''ta'' ''taian'' [27888, 23433],
     City ''455'' '''' ''tc'' ''tacheng'' [22612, 22478],
     City ''456'' '''' ''th'' ''tonghua'' [36890, 21270],
     City ''458'' '''' ''tl'' ''tongliao'' [36890, 36797],
     City ''459'' '''' ''tl'' ''tongling'' [38108, 38517],
     City ''460'' '''' ''tl'' ''tonglu'' [26704, 24208],
     City ''463'' '''' ''tm'' ''tumen'' [22270, 20204],
     City ''464'' '''' ''ts'' ''tianshui'' [22825, 27700],
     City ''465'' '''' ''ts'' ''tuoshan'' [38464, 23665],
     City ''466'' '''' ''ts'' ''tashen'' [22612, 20160],
     City ''467'' '''' ''ts'' ''taoshan'' [26691, 23665],
     City ''468'' '''' ''ts'' ''tangshan'' [21776, 23665],
     City ''470'' '''' ''tt'' ''tiantai'' [22825, 21488],
     City ''471'' '''' ''tx'' ''tunxi'' [23663, 28330],
     City ''473'' '''' ''wdlc'' ''wudalianchi'' [20116, 22823, 36830, 27744],
     City ''474'' '''' ''wds'' ''wudangshan'' [27494, 24403, 23665],
     City ''475'' '''' ''wf'' ''weifang'' [28493, 22346],
     City ''477'' '''' ''wh'' ''wuhan'' [27494, 27721],
     City ''478'' '''' ''wh'' ''wuhu'' [33436, 28246],
     City ''479'' '''' ''wh'' ''weihai'' [23041, 28023],
     City ''480'' '''' ''wh'' ''wuhua'' [20116, 21326],
     City ''481'' '''' ''wj'' ''wujiang'' [21556, 27743],
     City ''484'' '''' ''wlht'' ''wulanhaote'' [20044, 20848, 28009, 29305],
     City ''485'' '''' ''ya'' ''yongan'' [27704, 23433],
     City ''487'' '''' ''WZ'' ''wanzhou'' [19975, 24030],
     City ''489'' '''' ''wy'' ''wuyuan'' [23162, 28304],
     City ''491'' '''' ''wz'' ''wenzhou'' [28201, 24030],
     City ''492'' '''' ''wz'' ''wuzhou'' [26791, 24030],
     City ''493'' '''' ''xaj'' ''xinanjiang'' [26032, 23433, 27743],
     City ''494'' '''' ''xc'' ''xichang'' [35199, 26124],
     City ''496'' '''' ''xy'' ''xiangyang'' [35140, 38451],
     City ''497'' '''' ''xh'' ''xiahe'' [22799, 27827],
     City ''498'' '''' ''xk'' ''xikou'' [28330, 21475],
     City ''499'' '''' ''xl'' ''xinglong'' [20852, 38534],
     City ''500'' '''' ''xlht'' ''xilinhaote'' [38177, 26519, 28009, 29305],
     City ''502'' '''' ''qx'' ''qingxian'' [38738, 21439],
     City ''503'' '''' ''xs'' ''xiaoshan'' [33831, 23665],
     City ''504'' '''' ''hsg'' ''hushuguan'' [27986, 22661, 20851],
     City ''505'' '''' ''xt'' ''xiangtang'' [21521, 22616],
     City ''507'' '''' ''xx'' ''xinxiang'' [26032, 20065],
     City ''508'' '''' ''sx'' ''shexian'' [27481, 21439],
     City ''510'' '''' ''xy'' ''xinyang'' [20449, 38451],
     City ''512'' '''' ''xz'' ''xuzhou'' [24464, 24030],
     City ''513'' '''' ''xz'' ''xinzhou'' [24571, 24030],
     City ''514'' '''' ''yb'' ''yibin'' [23452, 23486],
     City ''515'' '''' ''yc'' ''yichang'' [23452, 26124],
     City ''516'' '''' ''yc'' ''yongchuan'' [27704, 24029],
     City ''517'' '''' ''yc'' ''yichun'' [20234, 26149],
     City ''518'' '''' ''yc'' ''yichun'' [23452, 26149],
     City ''519'' '''' ''yd'' ''yongding'' [27704, 23450],
     City ''520'' '''' ''yds'' ''yadesi'' [20122, 30340, 26031],
     City ''521'' '''' ''sz'' ''suzhou'' [23487, 24030],
     City ''523'' '''' ''yj'' ''yanji'' [24310, 21513],
     City ''525'' '''' ''yl'' ''yaolin'' [29814, 29747],
     City ''527'' '''' ''yl'' ''yulin'' [27014, 26519],
     City ''528'' '''' ''yl'' ''yilan'' [20381, 20848],
     City ''529'' '''' ''yns'' ''yiningshi'' [20234, 23425, 24066],
     City ''530'' '''' ''yql'' ''yaqueling'' [40486, 38592, 23725],
     City ''533'' '''' ''yt'' ''yantai'' [28895, 21488],
     City ''534'' '''' ''yt'' ''yingtan'' [40560, 28525],
     City ''535'' '''' ''ytp'' ''youtingpu'' [37038, 20141, 38138],
     City ''536'' '''' ''yw'' ''yiwu'' [20041, 20044],
     City ''537'' '''' ''yx'' ''yixing'' [23452, 20852],
     City ''538'' '''' ''yx'' ''yingxian'' [24212, 21439],
     City ''539'' '''' ''yy'' ''yueyang'' [23731, 38451],
     City ''540'' '''' ''yy'' ''yuyao'' [20313, 23002],
     City ''541'' '''' ''yz'' ''yanzhou'' [20822, 24030],
     City ''542'' '''' ''zb'' ''zibo'' [28100, 21338],
     City ''543'' '''' ''zd'' ''zedang'' [27901, 24403],
     City ''544'' '''' ''zg'' ''zigong'' [33258, 36129],
     City ''545'' '''' ''zh'' ''zunhua'' [36981, 21270],
     City ''546'' '''' ''zh'' ''zhenhai'' [38215, 28023],
     City ''547'' '''' ''zj'' ''zhanjiang'' [28251, 27743],
     City ''548'' '''' ''zj'' ''zhuji'' [35832, 26280],
     City ''550'' '''' ''zjk'' ''zhangjiakou'' [24352, 23478, 21475],
     City ''551'' '''' ''zmd'' ''zhumadian'' [39547, 39532, 24215],
     City ''552'' '''' ''zq'' ''zhaoqing'' [32903, 24198],
     City ''553'' '''' ''zs'' ''zhongshan'' [20013, 23665],
     City ''555'' '''' ''zt'' ''zhaotong'' [26157, 36890],
     City ''556'' '''' ''zw'' ''zhongwei'' [20013, 21355],
     City ''557'' '''' ''hy'' ''hunyuan'' [27985, 28304],
     City ''558'' '''' ''zy'' ''zunyi'' [36981, 20041],
     City ''559'' '''' ''zz'' ''zhengzhou'' [37073, 24030],
     City ''560'' '''' ''zz'' ''zhangzhou'' [28467, 24030],
     City ''561'' '''' ''zz'' ''zhouzhuang'' [21608, 24196],
     City ''562'' '''' ''cd'' ''chengde'' [25215, 24503],
     City ''569'' '''' ''ly'' ''linyi'' [20020, 27778],
     City ''571'' '''' ''jx'' ''jiaxing'' [22025, 20852],
     City ''575'' '''' ''cd'' ''changdu'' [26124, 37117],
     City ''576'' '''' ''hd'' ''huadou'' [33457, 37117],
     City ''577'' '''' ''ha'' ''huaian'' [28142, 23433],
     City ''578'' '''' ''tz'' ''taizhou'' [21488, 24030],
     City ''579'' '''' ''tz'' ''taizhou'' [27888, 24030],
     City ''580'' '''' ''tx'' ''tongxiang'' [26704, 20065],
     City ''581'' '''' ''xh'' ''xinhui'' [26032, 20250],
     City ''582'' '''' ''hy'' ''haiyan'' [28023, 30416],
     City ''583'' '''' ''jhs'' ''jiuhuashan'' [20061, 21326, 23665],
     City ''588'' '''' ''zjj'' ''zhujiajiao'' [26417, 23478, 35282],
     City ''589'' '''' ''ch'' ''chaohu'' [24034, 28246],
     City ''590'' '''' ''gc'' ''guichi'' [36149, 27744],
     City ''594'' '''' ''at'' ''anting'' [23433, 20141],
     City ''595'' '''' ''sy'' ''shangyu'' [19978, 34398],
     City ''596'' '''' ''js'' ''jiashan'' [22025, 21892],
     City ''597'' '''' ''lx'' ''lanxi'' [20848, 28330],
     City ''598'' '''' ''xt'' ''xiangtan'' [28248, 28525],
     City ''599'' '''' ''nxj'' ''nanxijiang'' [26976, 28330, 27743],
     City ''600'' '''' ''zp'' ''zhangping'' [28467, 24179],
     City ''601'' '''' ''zz'' ''zhuzhou'' [26666, 27954],
     City ''603'' '''' ''xy'' ''xinyu'' [26032, 20313],
     City ''605'' '''' ''lps'' ''liupanshui'' [20845, 30424, 27700],
     City ''606'' '''' ''np'' ''Nanping'' [21335, 24179],
     City ''611'' '''' ''tk'' ''taikang'' [27888, 24247],
     City ''612'' '''' ''cz'' ''chenzhou'' [37108, 24030],
     City ''614'' '''' ''zz'' ''zaozhuang'' [26531, 24196],
     City ''617'' '''' ''tb'' ''taibei'' [21488, 21271],
     City ''618'' '''' ''ss'' ''songshan'' [23913, 23665],
     City ''619'' '''' ''wl'' ''wenling'' [28201, 23725],
     City ''620'' '''' ''yds'' ''yandangshan'' [38593, 33633, 23665],
     City ''621'' '''' ''zjg'' ''zhangjiagang'' [24352, 23478, 28207],
     City ''629'' '''' ''ch'' ''chenghai'' [28548, 28023],
     City ''630'' '''' ''dq'' ''dongqing'' [19996, 28165],
     City ''652'' '''' ''jy'' ''jinyun'' [32537, 20113],
     City ''653'' '''' ''hgs'' ''huangguoshu'' [40644, 26524, 26641],
     City ''654'' '''' ''tc'' ''taicang'' [22826, 20179],
     City ''655'' '''' ''zjj'' ''zhujiajian'' [26417, 23478, 23574],
     City ''656'' '''' ''wx'' ''wuxian'' [21556, 21439],
     City ''657'' '''' ''snj'' ''shennongjia'' [31070, 20892, 26550],
     City ''658'' '''' ''jd'' ''jiande'' [24314, 24503],
     City ''659'' '''' ''aj'' ''anji'' [23433, 21513],
     City ''660'' '''' ''xgll'' ''xianggelila'' [39321, 26684, 37324, 25289],
     City ''661'' '''' ''ln'' ''lunan'' [36335, 21335],
     City ''662'' '''' ''jq'' ''jiuquan'' [37202, 27849],
     City ''663'' '''' ''zy'' ''zhangye'' [24352, 25494],
     City ''664'' '''' ''ww'' ''wuwei'' [27494, 23041],
     City ''667'' '''' ''pt'' ''putian'' [33670, 30000],
     City ''677'' '''' ''hs'' ''hengshan'' [34913, 23665],
     City ''686'' '''' ''gz'' ''gaozhou'' [39640, 24030]]"

lemma checked_2: "checked 439 cities_2 = Some 686"
  unfolding cities_2_def by ((rule checked_rule, simp, simp, simp, simp, simp)+, simp)

lemma length_2: "length cities_2 = 150"
  by (simp only: cities_2_def count_rows)

definition cities_3 :: "city list" where
  "cities_3 =
    [City ''689'' '''' ''nhs'' ''nanhaishi'' [21335, 28023, 24066],
     City ''692'' '''' ''yj'' ''yangjiang'' [38451, 27743],
     City ''693'' '''' ''hy'' ''heyuan'' [27827, 28304],
     City ''696'' '''' ''xy'' ''xuyi'' [30449, 30489],
     City ''697'' '''' ''qd'' ''qidong'' [21551, 19996],
     City ''720'' '''' ''GX'' ''Kaohsiung'' [39640, 38596],
     City ''729'' '''' ''ts'' ''taishan'' [21488, 23665],
     City ''732'' '''' ''YQ'' ''yueqing'' [20048, 28165],
     City ''744'' '''' ''lx'' ''linxi'' [26519, 35199],
     City ''746'' '''' ''gh'' ''guanghua'' [20809, 21270],
     City ''747'' '''' ''dy'' ''dayong'' [22823, 24248],
     City ''750'' '''' ''gh'' ''guanghan'' [24191, 27721],
     City ''755'' '''' ''dy'' ''dongyang'' [19996, 38451],
     City ''833'' '''' ''rc'' ''rongcheng'' [33635, 25104],
     City ''865'' '''' ''ck'' ''cangkou'' [27815, 21475],
     City ''866'' '''' ''fh'' ''fenghuang'' [20964, 20976],
     City ''867'' '''' ''yb'' ''yanbian'' [24310, 36793],
     City ''868'' '''' ''xj'' ''xianju'' [20185, 23621],
     City ''869'' '''' ''lp'' ''luoping'' [32599, 24179],
     City ''870'' '''' ''sqs'' ''sanqingshan'' [19977, 28165, 23665],
     City ''871'' '''' ''ys'' ''yangshuo'' [38451, 26388],
     City ''872'' '''' ''xc'' ''xinchang'' [26032, 26124],
     City ''873'' '''' ''ht'' ''hutun'' [28246, 23663],
     City ''874'' '''' ''ps'' ''pingshi'' [22378, 30707],
     City ''875'' '''' ''lc'' ''lu:cheng'' [21525, 22478],
     City ''876'' '''' ''sf'' ''shuofang'' [30805, 25918],
     City ''877'' '''' ''ls'' ''luoshe'' [27931, 31038],
     City ''878'' '''' ''zaz'' ''zhanganzhen'' [38271, 23433, 38215],
     City ''879'' '''' ''wt'' ''wangting'' [26395, 20141],
     City ''880'' '''' ''cc'' ''cicheng'' [24904, 22478],
     City ''881'' '''' ''kq'' ''keqiao'' [26607, 26725],
     City ''882'' '''' ''lp'' ''linping'' [20020, 24179],
     City ''883'' '''' ''wd'' ''wangdian'' [29579, 24215],
     City ''884'' '''' ''yd'' ''yingde'' [33521, 24503],
     City ''885'' '''' ''jh'' ''jinghai'' [38745, 28023],
     City ''886'' '''' ''tgt'' ''tangguantun'' [21776, 23448, 23663],
     City ''887'' '''' ''WQ'' ''Wuqiao'' [21556, 26725],
     City ''888'' '''' ''yc'' ''Yucheng'' [31161, 22478],
     City ''889'' '''' ''zx'' ''zouxian'' [37049, 21439],
     City ''890'' '''' ''flj'' ''fuliji'' [31526, 31163, 38598],
     City ''891'' '''' ''gz'' ''guzhen'' [22266, 38215],
     City ''892'' '''' ''mg'' ''mingguang'' [26126, 20809],
     City ''893'' '''' ''LJ'' ''lujiang'' [24208, 27743],
     City ''894'' '''' ''dh'' ''donghai'' [19996, 28023],
     City ''895'' '''' ''xy'' ''xinyi'' [26032, 27778],
     City ''896'' '''' ''px'' ''pixian'' [37043, 21439],
     City ''897'' '''' ''lk'' ''lankao'' [20848, 32771],
     City ''898'' '''' ''mq'' ''minquan'' [27665, 26435],
     City ''899'' '''' ''yc'' ''yucheng'' [34398, 22478],
     City ''900'' '''' ''ds'' ''dangshan'' [30720, 23665],
     City ''901'' '''' ''ss'' ''shanshan'' [37167, 21892],
     City ''902'' '''' ''dwp'' ''diwopu'' [20302, 31389, 38138],
     City ''903'' '''' ''wwn'' ''wuweinan'' [27494, 23041, 21335],
     City ''904'' '''' ''gg'' ''gangu'' [29976, 35895],
     City ''905'' '''' ''xj'' ''xinji'' [36763, 38598],
     City ''906'' '''' ''pt'' ''paitou'' [29260, 22836],
     City ''907'' '''' ''yq'' ''yangquan'' [38451, 27849],
     City ''908'' '''' ''sy'' ''shouyang'' [23551, 38451],
     City ''909'' '''' ''tz'' ''tengzhou'' [28373, 24030],
     City ''910'' '''' ''xc'' ''xiancun'' [20185, 26449],
     City ''911'' '''' ''st'' ''shitan'' [30707, 28393],
     City ''912'' '''' ''sl'' ''shilong'' [30707, 40857],
     City ''913'' '''' ''hl'' ''hengli'' [27178, 27813],
     City ''914'' '''' ''zmt'' ''zhangmutou'' [27167, 26408, 22836],
     City ''915'' '''' ''tts'' ''tangtousha'' [22616, 22836, 21414],
     City ''916'' '''' ''bj'' ''buji'' [24067, 21513],
     City ''917'' '''' ''xx'' ''xiangxiang'' [28248, 20065],
     City ''918'' '''' ''ld'' ''loudi'' [23044, 24213],
     City ''920'' '''' ''lsj'' ''lengshuijiang'' [20919, 27700, 27743],
     City ''921'' '''' ''xh'' ''xinhua'' [26032, 21270],
     City ''922'' '''' ''pk'' ''pingkou'' [22378, 21475],
     City ''923'' '''' ''yx'' ''yanxi '' [28895, 28330, 32],
     City ''924'' '''' ''dz'' ''dizhuang'' [20302, 24196],
     City ''925'' '''' ''xp'' ''xupu'' [28294, 28006],
     City ''926'' '''' ''cx'' ''chenxi '' [36784, 28330, 32],
     City ''927'' '''' ''hp'' ''heping'' [21644, 24179],
     City ''928'' '''' ''lc'' ''longchuan'' [40857, 24029],
     City ''929'' '''' ''pj'' ''pujiang'' [28006, 27743],
     City ''930'' '''' ''xs'' ''xiaoshun'' [23389, 39034],
     City ''931'' '''' ''bt'' ''bantian'' [22338, 30000],
     City ''932'' '''' ''xg'' ''xingan'' [26032, 24178],
     City ''933'' '''' ''ja'' ''jian'' [21513, 23433],
     City ''934'' '''' ''xg'' ''xingguo'' [20852, 22269],
     City ''935'' '''' ''xf'' ''Xinfeng'' [20449, 20016],
     City ''936'' '''' ''DN'' ''dingnan'' [23450, 21335],
     City ''937'' '''' ''xn'' ''xianning'' [21688, 23425],
     City ''938'' '''' ''lc'' ''lechang'' [20048, 26124],
     City ''939'' '''' ''mb'' ''maba'' [39532, 22365],
     City ''940'' '''' ''ly'' ''leiyang'' [32786, 38451],
     City ''941'' '''' ''hm'' ''Huangmei'' [40644, 26757],
     City ''942'' '''' ''da'' ''dean'' [24503, 23433],
     City ''943'' '''' ''yx'' ''yongxiou'' [27704, 20462],
     City ''944'' '''' ''tc'' ''tongcheng'' [26704, 22478],
     City ''945'' '''' ''tzs'' ''tianzhushan'' [22825, 26609, 23665],
     City ''946'' '''' ''th'' ''taihu'' [22826, 28246],
     City ''947'' '''' ''xt'' ''xingtai'' [37026, 21488],
     City ''948'' '''' ''ss'' ''susong'' [23487, 26494],
     City ''949'' '''' ''SHS'' ''shaheshi'' [27801, 27827, 24066],
     City ''950'' '''' ''ty'' ''tangyin'' [27748, 38452],
     City ''951'' '''' ''hb'' ''hebi'' [40548, 22721],
     City ''952'' '''' ''xy'' ''xiayi'' [22799, 37009],
     City ''953'' '''' ''hc'' ''huacheng'' [21326, 22478],
     City ''954'' '''' ''xn'' ''xingning'' [20852, 23425],
     City ''955'' '''' ''fs'' ''fengshun'' [20016, 39034],
     City ''956'' '''' ''jy'' ''jieyang'' [25581, 38451],
     City ''957'' '''' ''ys'' ''yanshi'' [20547, 24072],
     City ''958'' '''' ''gy'' ''gongyi'' [24041, 20041],
     City ''959'' '''' ''wy'' ''wuyi'' [27494, 20041],
     City ''960'' '''' ''yk'' ''yongkang'' [27704, 24247],
     City ''961'' '''' ''qt'' ''qingtian'' [38738, 30000],
     City ''962'' '''' ''fy'' ''fuyu'' [25206, 20313],
     City ''963'' '''' ''hc'' ''haicheng'' [28023, 22478],
     City ''964'' '''' ''gbz'' ''goubangzi'' [27807, 24110, 23376],
     City ''965'' '''' ''tg'' ''tanggu'' [22616, 27837],
     City ''966'' '''' ''wfd'' ''Wafang'' [29926, 25151, 24215],
     City ''967'' '''' ''dsq'' ''dashiqiao'' [22823, 30707, 26725],
     City ''968'' '''' ''lx'' ''longxi'' [38471, 35199],
     City ''969'' '''' ''xy'' ''xingyang'' [33637, 38451],
     City ''970'' '''' ''yz'' ''yongzhou'' [27704, 24030],
     City ''971'' '''' ''qz'' ''quanzhou'' [20840, 24030],
     City ''972'' '''' ''jcj'' ''jinchengjiang'' [37329, 22478, 27743],
     City ''973'' '''' ''ly'' ''longyou'' [40857, 28216],
     City ''974'' '''' ''mw'' ''mawei'' [40635, 23614],
     City ''975'' '''' ''dy'' ''duyun'' [37117, 21248],
     City ''976'' '''' ''gd'' ''guiding'' [36149, 23450],
     City ''977'' '''' ''DX'' ''Dongxiang'' [19996, 20065],
     City ''978'' '''' ''lp'' ''linpu'' [20020, 28006],
     City ''979'' '''' ''zs'' ''zhangshu'' [27167, 26641],
     City ''980'' '''' ''lz'' ''liuzhi'' [20845, 26525],
     City ''981'' '''' ''ll'' ''liling'' [37300, 38517],
     City ''982'' '''' ''yp'' ''yuping'' [29577, 23631],
     City ''983'' '''' ''tz'' ''tongzi'' [26704, 26771],
     City ''984'' '''' ''xw'' ''xuanwei'' [23459, 23041],
     City ''985'' '''' ''qj'' ''qujing'' [26354, 38742],
     City ''986'' '''' ''zy'' ''zhenyuan'' [38215, 36828],
     City ''987'' '''' ''gs'' ''ganshui'' [36214, 27700],
     City ''988'' '''' ''qj'' ''qijiang'' [32166, 27743],
     City ''989'' '''' ''qd'' ''qidong'' [31041, 19996],
     City ''990'' '''' ''da'' ''dongan'' [19996, 23433],
     City ''991'' '''' ''jx'' ''jinxian'' [36827, 36132],
     City ''992'' '''' ''ez'' ''ezhou'' [37122, 24030],
     City ''993'' '''' ''lz'' ''laizhou'' [26469, 33311],
     City ''994'' '''' ''gk'' ''guokeng'' [37101, 22353],
     City ''995'' '''' ''sc'' ''shunchang'' [39034, 26124],
     City ''996'' '''' ''gt'' ''gutian'' [21476, 30000],
     City ''997'' '''' ''xq'' ''xieqiao'' [26012, 26725],
     City ''998'' '''' ''mc'' ''meichi'' [28228, 27744],
     City ''999'' '''' ''yt'' ''yiting'' [20041, 20141],
     City ''1000'' '''' ''js'' ''jiangshan'' [27743, 23665],
     City ''1001'' '''' ''ys'' ''yushan'' [29577, 23665]]"

lemma checked_3: "checked 686 cities_3 = Some 1001"
  unfolding cities_3_def by ((rule checked_rule, simp, simp, simp, simp, simp)+, simp)

lemma length_3: "length cities_3 = 150"
  by (simp only: cities_3_def count_rows)

definition cities_4 :: "city list" where
  "cities_4 =
    [City ''1002'' '''' ''yy'' ''yiyang'' [24331, 38451],
     City ''1003'' '''' ''fc'' ''fengcheng'' [20016, 22478],
     City ''1004'' '''' ''fy'' ''fenyi'' [20998, 23452],
     City ''1005'' '''' ''ng'' ''ningguo'' [23425, 22269],
     City ''1006'' '''' ''xc'' ''xuancheng'' [23459, 22478],
     City ''1007'' '''' ''dt'' ''dangtu'' [24403, 28034],
     City ''1008'' '''' ''JX'' ''jixi'' [32489, 28330],
     City ''1009'' '''' ''sjh'' ''shuijiahu'' [27700, 23478, 28246],
     City ''1010'' '''' ''fy'' ''fengyang'' [20964, 38451],
     City ''1011'' '''' ''nx'' ''ningxiang'' [23425, 20065],
     City ''1012'' '''' ''lt'' ''longtan'' [40857, 28525],
     City ''1013'' '''' ''jkj'' ''jiangkouji'' [27743, 21475, 38598],
     City ''1014'' '''' ''zj'' ''zhangji'' [24352, 38598],
     City ''1015'' '''' ''sj'' ''sanjie'' [19977, 30028],
     City ''1016'' '''' ''fc'' ''fanchang'' [32321, 26124],
     City ''1017'' '''' ''qtz'' ''qiaotouzhen'' [26725, 22836, 38215],
     City ''1018'' '''' ''bn'' ''benniu'' [22868, 29275],
     City ''1019'' '''' ''lk'' ''lingkou'' [38517, 21475],
     City ''1020'' '''' ''pa'' ''pingan'' [24179, 23433],
     City ''1021'' '''' ''dx'' ''dingxi'' [23450, 35199],
     City ''1022'' '''' ''xp'' ''Xingping'' [20852, 24179],
     City ''1023'' '''' ''lb'' ''lingbao'' [28789, 23453],
     City ''1024'' '''' ''mas'' ''maanshan'' [39532, 38797, 23665],
     City ''1025'' '''' ''mc'' ''mianchi'' [28177, 27744],
     City ''1026'' '''' ''qm'' ''qimen'' [31041, 38376],
     City ''1027'' '''' ''dps'' ''dongpingshi'' [19996, 24179, 24066],
     City ''1028'' '''' ''wn'' ''wannian'' [19975, 24180],
     City ''1029'' '''' ''ym'' ''yima'' [20041, 39532],
     City ''1030'' '''' ''wn'' ''weinan'' [28205, 21335],
     City ''1031'' '''' ''lt'' ''lintong'' [20020, 28540],
     City ''1032'' '''' ''cjp'' ''caijiapo'' [34081, 23478, 22369],
     City ''1033'' '''' ''tx'' ''tongxin'' [21516, 24515],
     City ''1034'' '''' ''qtx'' ''qingtongxia'' [38738, 38108, 23777],
     City ''1035'' '''' ''zn'' ''zhongning'' [20013, 23425],
     City ''1036'' '''' ''tc'' ''taocun'' [26691, 26449],
     City ''1037'' '''' ''hy'' ''haiyang'' [28023, 38451],
     City ''1038'' '''' ''ly'' ''laiyang'' [33713, 38451],
     City ''1039'' '''' ''lc'' ''lancun'' [34013, 26449],
     City ''1040'' '''' ''gm'' ''gaomi'' [39640, 23494],
     City ''1041'' '''' ''lz'' ''linzi'' [20020, 28100],
     City ''1042'' '''' ''zc'' ''zhoucun'' [21608, 26449],
     City ''1043'' '''' ''jz'' ''jiaozhou'' [33014, 24030],
     City ''1044'' '''' ''qz'' ''qingzhou'' [38738, 24030],
     City ''1045'' '''' ''ms'' ''mingshui'' [26126, 27700],
     City ''1046'' '''' ''gzl'' ''gongzhulin'' [20844, 20027, 23725],
     City ''1047'' '''' ''ct'' ''changtu'' [26124, 22270],
     City ''1048'' '''' ''tl'' ''tieling'' [38081, 23725],
     City ''1049'' '''' ''dhs'' ''dahushan'' [22823, 34382, 23665],
     City ''1050'' '''' ''hld'' ''huludao'' [33899, 33446, 23707],
     City ''1051'' '''' ''xc'' ''xingcheng'' [20852, 22478],
     City ''1052'' '''' ''cl'' ''changli'' [26124, 40654],
     City ''1053'' '''' ''lx'' ''luanxian'' [28390, 21439],
     City ''1054'' '''' ''jy'' ''jiangyou'' [27743, 27833],
     City ''1055'' '''' ''mx'' ''Mianxian'' [21193, 21439],
     City ''1056'' '''' ''xx'' ''xixiang'' [35199, 20065],
     City ''1057'' '''' ''llp'' ''liuliping'' [20845, 37324, 22378],
     City ''1058'' '''' ''dz'' ''dengzhou'' [37011, 24030],
     City ''1059'' '''' ''bzd'' ''beizhaodian'' [21271, 21484, 24215],
     City ''1060'' '''' ''rz'' ''ruzhou'' [27741, 24030],
     City ''1061'' '''' ''gl'' ''guanlin'' [20851, 26519],
     City ''1062'' '''' ''zh'' ''zhaohua'' [26157, 21270],
     City ''1063'' '''' ''yp'' ''yangping'' [38451, 24179],
     City ''1064'' '''' ''ly'' ''lu:eyang'' [30053, 38451],
     City ''1065'' '''' ''fz'' ''fengzhou'' [20964, 24030],
     City ''1066'' '''' ''ql'' ''qinling'' [31206, 23725],
     City ''1067'' '''' ''wg'' ''wugong'' [27494, 21151],
     City ''1068'' '''' ''bz'' ''bazhou'' [38712, 24030],
     City ''1069'' '''' ''rq'' ''renqiu'' [20219, 19992],
     City ''1070'' '''' ''sn'' ''suning'' [32899, 23425],
     City ''1071'' '''' ''lc'' ''liaocheng'' [32842, 22478],
     City ''1072'' '''' ''tq'' ''taiqian'' [21488, 21069],
     City ''1073'' '''' ''ls'' ''liangshan'' [26753, 23665],
     City ''1074'' '''' ''hz'' ''heze'' [33743, 27901],
     City ''1075'' '''' ''hc'' ''huangchuan'' [28514, 24029],
     City ''1076'' '''' ''xx'' ''xinxian'' [26032, 21439],
     City ''1077'' '''' ''stj'' ''santangji'' [19977, 22530, 38598],
     City ''1078'' '''' ''bz'' ''bozhou'' [20147, 24030],
     City ''1079'' '''' ''mc'' ''macheng'' [40635, 22478],
     City ''1080'' '''' ''hz'' ''huangzhou'' [40644, 24030],
     City ''1081'' '''' ''qc'' ''qichun'' [34162, 26149],
     City ''1082'' '''' ''sc'' ''shucheng'' [33298, 22478],
     City ''1083'' '''' ''mzl'' ''manzhouli'' [28385, 27954, 37324],
     City ''1084'' '''' ''xtj'' ''xiatangji'' [19979, 22616, 38598],
     City ''1085'' '''' ''ys'' ''yingshang'' [39062, 19978],
     City ''1086'' '''' ''qls'' ''qinglongshan'' [38738, 40857, 23665],
     City ''1087'' '''' ''sx'' ''suixi'' [28617, 28330],
     City ''1088'' '''' ''lh'' ''luohe'' [28463, 27827],
     City ''1089'' '''' ''lp'' ''leping'' [20048, 24179],
     City ''1090'' '''' ''dz'' ''dingzhou'' [23450, 24030],
     City ''1091'' '''' ''ys'' ''yueshan'' [26376, 23665],
     City ''1092'' '''' ''jc'' ''jincheng'' [26187, 22478],
     City ''1093'' '''' ''jz'' ''jiaozuo'' [28966, 20316],
     City ''1094'' '''' ''xc'' ''xuchang'' [35768, 26124],
     City ''1095'' '''' ''hm'' ''houma'' [20399, 39532],
     City ''1096'' '''' ''fr'' ''fengrun'' [20016, 28070],
     City ''1097'' '''' ''pzh'' ''panzhihua'' [25856, 26525, 33457],
     City ''1098'' '''' ''hr'' ''huairou'' [24576, 26580],
     City ''1099'' '''' ''wy'' ''wanyuan'' [19975, 28304],
     City ''1100'' '''' ''ga'' ''guangan'' [24191, 23433],
     City ''1102'' '''' ''cw'' ''chunwan'' [26149, 28286],
     City ''1103'' '''' ''yc'' ''yangchun'' [38451, 26149],
     City ''1104'' '''' ''sl'' ''shalang'' [27801, 29701],
     City ''1105'' '''' ''mm'' ''maoming'' [33538, 21517],
     City ''1106'' '''' ''rz'' ''rizhao'' [26085, 29031],
     City ''1107'' '''' ''cx'' ''changxing'' [38271, 20852],
     City ''1108'' '''' ''ln'' ''longnan'' [40857, 21335],
     City ''1109'' '''' ''tlh'' ''tulihe'' [22270, 37324, 27827],
     City ''1110'' '''' ''js'' ''jishou'' [21513, 39318],
     City ''1111'' '''' ''sy'' ''shaoyang'' [37045, 38451],
     City ''1112'' '''' ''lt'' ''litang'' [40654, 22616],
     City ''1113'' '''' ''yl'' ''yulin'' [29577, 26519],
     City ''1114'' '''' ''ds'' ''dushan'' [29420, 23665],
     City ''1115'' '''' ''mhk'' ''meihekou'' [26757, 27827, 21475],
     City ''1116'' '''' ''bc'' ''baicheng'' [30333, 22478],
     City ''1117'' '''' ''sz'' ''suizhou'' [38543, 24030],
     City ''1118'' '''' ''pq'' ''pingquan'' [24179, 27849],
     City ''1119'' '''' ''ly'' ''lingyuan'' [20940, 28304],
     City ''1120'' '''' ''ybs'' ''yeboshou'' [21494, 26575, 23551],
     City ''1121'' '''' ''jm'' ''jingmen'' [33606, 38376],
     City ''1122'' '''' ''dy'' ''dangyang'' [24403, 38451],
     City ''1123'' '''' ''sm'' ''Shimeng'' [30707, 38376],
     City ''1124'' '''' ''ll'' ''linli'' [20020, 28583],
     City ''1125'' '''' ''yy'' ''yiyang'' [30410, 38451],
     City ''1126'' '''' ''zjb'' ''zhangjiangbu'' [38271, 27743, 22496],
     City ''1127'' '''' ''tl'' ''tailai'' [27888, 26469],
     City ''1128'' '''' ''sh'' ''suihua'' [32485, 21270],
     City ''1129'' '''' ''nc'' ''nancha'' [21335, 23700],
     City ''1130'' '''' ''ad'' ''anda'' [23433, 36798],
     City ''1131'' '''' ''sc'' ''shacheng'' [27801, 22478],
     City ''1132'' '''' ''jn'' ''jining'' [38598, 23425],
     City ''1133'' '''' ''wh'' ''wuhai'' [20044, 28023],
     City ''1134'' '''' ''szs'' ''shizuishan'' [30707, 22068, 23665],
     City ''1135'' '''' ''zlt'' ''zhalantun'' [25166, 20848, 23663],
     City ''1136'' '''' ''yks'' ''yakeshi'' [29273, 20811, 30707],
     City ''1137'' '''' ''cw'' ''chawu'' [33590, 22366],
     City ''1138'' '''' ''yq'' ''yanqing'' [24310, 24198],
     City ''1139'' '''' ''xy'' ''xingyi'' [20852, 20041],
     City ''1140'' '''' ''bs'' ''baise'' [30334, 33394],
     City ''1141'' '''' ''pg'' ''pingguo'' [24179, 26524],
     City ''1142'' '''' ''nj'' ''nenjiang'' [23273, 27743],
     City ''1143'' '''' ''jgdq'' ''jiagedaqi'' [21152, 26684, 36798, 22855],
     City ''1144'' '''' ''gh'' ''ganhe'' [29976, 27827],
     City ''1145'' '''' ''xlt'' ''xiaolongtan'' [23567, 40857, 28525],
     City ''1146'' '''' ''px'' ''puxiong'' [26222, 38596],
     City ''1147'' '''' ''yg'' ''yangang'' [29141, 23703],
     City ''1148'' '''' ''ms'' ''meishan'' [30473, 23665],
     City ''1149'' '''' ''td'' ''taida'' [27888, 36798],
     City ''1150'' '''' ''qy'' ''qingyuan'' [28165, 21407],
     City ''1151'' '''' ''tpc'' ''taipingchuan'' [22826, 24179, 24029],
     City ''1152'' '''' ''xl'' ''xiliu'' [35199, 26611]]"

lemma checked_4: "checked 1001 cities_4 = Some 1152"
  unfolding cities_4_def by ((rule checked_rule, simp, simp, simp, simp, simp)+, simp)

lemma length_4: "length cities_4 = 150"
  by (simp only: cities_4_def count_rows)

definition cities_5 :: "city list" where
  "cities_5 =
    [City ''1153'' '''' ''bkt'' ''boketu'' [21338, 20811, 22270],
     City ''1154'' '''' ''rhl'' ''ranghulu'' [35753, 28246, 36335],
     City ''1155'' '''' ''bx'' ''benxi'' [26412, 28330],
     City ''1156'' '''' ''xlt'' ''xinlitun'' [26032, 31435, 23663],
     City ''1157'' '''' ''yx'' ''yixian'' [20041, 21439],
     City ''1158'' '''' ''jc'' ''jinchang'' [37329, 26124],
     City ''1159'' '''' ''qj'' ''qingjian'' [28165, 28071],
     City ''1160'' '''' ''bf'' ''beifu'' [21271, 28074],
     City ''1161'' '''' ''nl'' ''ninglang'' [23425, 33943],
     City ''1200'' '''' ''yc'' ''yancheng'' [30416, 22478],
     City ''1201'' '''' ''nh'' ''ninghai'' [23425, 28023],
     City ''1202'' '''' ''ws'' ''wushan'' [27494, 23665],
     City ''1203'' '''' ''zc'' ''zengcheng'' [22686, 22478],
     City ''1204'' '''' ''hc'' ''huangcun'' [40644, 26449],
     City ''1205'' '''' ''tl'' ''tongli'' [21516, 37324],
     City ''1206'' '''' ''ph'' ''pinghu'' [24179, 28246],
     City ''1208'' '''' ''cx'' ''cixi'' [24904, 28330],
     City ''1209'' '''' ''lh'' ''linhai'' [20020, 28023],
     City ''1212'' '''' ''sz'' ''shengzhou'' [23882, 24030],
     City ''1219'' '''' ''wx'' ''wuxue'' [27494, 31348],
     City ''1220'' '''' ''ws'' ''wansheng'' [19975, 30427],
     City ''1221'' '''' ''sx'' ''shexian'' [28041, 21439],
     City ''1222'' '''' ''dc'' ''daocheng'' [31291, 22478],
     City ''1223'' '''' ''jd'' ''jiangdu'' [27743, 37117],
     City ''1224'' '''' ''yz'' ''yizheng'' [20202, 24449],
     City ''1226'' '''' ''ndh'' ''nandaihe'' [21335, 25140, 27827],
     City ''1227'' '''' ''trs'' ''tongrenshi'' [38108, 20161, 24066],
     City ''1230'' '''' ''cm'' ''chongming'' [23815, 26126],
     City ''1232'' '''' ''py'' ''puyang'' [28654, 38451],
     City ''1233'' '''' ''dz'' ''dazhou'' [36798, 24030],
     City ''1236'' '''' ''LC'' ''lincang'' [20020, 27815],
     City ''1299'' '''' ''wx'' ''wuxi'' [20044, 35199],
     City ''1300'' '''' ''yk'' ''yingkou'' [33829, 21475],
     City ''1301'' '''' ''qy'' ''quanyang'' [27849, 38451],
     City ''1302'' '''' ''lj'' ''linjiang'' [20020, 27743],
     City ''1303'' '''' ''sy'' ''songyuan'' [26494, 21407],
     City ''1305'' '''' ''bs'' ''bishui'' [30887, 27700],
     City ''1306'' '''' ''lx'' ''linxi'' [20020, 35199],
     City ''1307'' '''' ''ymp'' ''yimianpo'' [19968, 38754, 22369],
     City ''1308'' '''' ''yq'' ''yuquan'' [29577, 27849],
     City ''1309'' '''' ''ytlh'' ''yitulihe'' [20234, 22270, 37324, 27827],
     City ''1310'' '''' ''xgc'' ''xigucheng'' [35199, 22266, 22478],
     City ''1311'' '''' ''ls'' ''lu:shun'' [26053, 39034],
     City ''1312'' '''' ''sl'' ''shiling'' [30707, 23725],
     City ''1313'' '''' ''el'' ''erlian'' [20108, 36830],
     City ''1314'' '''' ''byeb'' ''baiyunebo'' [30333, 20113, 37122, 21338],
     City ''1315'' '''' ''yj'' ''yongji'' [27704, 27982],
     City ''1316'' '''' ''kl'' ''kelan'' [23714, 23706],
     City ''1317'' '''' ''sz'' ''shuozhou'' [26388, 24030],
     City ''1318'' '''' ''wyl'' ''wuyiling'' [20044, 20234, 23725],
     City ''1319'' '''' ''ff'' ''fengfeng'' [23792, 23792],
     City ''1320'' '''' ''sq'' ''shenqiu'' [27784, 19992],
     City ''1321'' '''' ''cl'' ''chaling'' [33590, 38517],
     City ''1322'' '''' ''dm'' ''dongming'' [19996, 26126],
     City ''1323'' '''' ''lx'' ''lixian'' [28583, 21439],
     City ''1324'' '''' ''ws'' ''weishe'' [23041, 33293],
     City ''1325'' '''' ''kt'' ''kuitun'' [22862, 23663],
     City ''1326'' '''' ''ym'' ''yumen'' [29577, 38376],
     City ''1327'' '''' ''alsk'' ''alashankou'' [38463, 25289, 23665, 21475],
     City ''1329'' '''' ''pj'' ''puji'' [26222, 27982],
     City ''1330'' '''' ''sp'' ''shiping'' [30707, 23631],
     City ''1331'' '''' ''yp'' ''yongping'' [27704, 24179],
     City ''1332'' '''' ''qdh'' ''qiandaohu'' [21315, 23707, 28246],
     City ''1333'' '''' ''ky'' ''kaiyuan'' [24320, 36828],
     City ''1334'' '''' ''gt'' ''guangtong'' [24191, 36890],
     City ''1335'' '''' ''xc'' ''xunchang'' [24033, 22330],
     City ''1336'' '''' ''ys'' ''yingshan'' [33829, 23665],
     City ''1337'' '''' ''bx'' ''baoxiu'' [23453, 31168],
     City ''1338'' '''' ''bs'' ''boshan'' [21338, 23665],
     City ''1339'' '''' ''jd'' ''jiaodong'' [33014, 19996],
     City ''1340'' '''' ''nbs'' ''nanboshan'' [21335, 21338, 23665],
     City ''1341'' '''' ''hh'' ''honghe'' [32418, 27827],
     City ''1342'' '''' ''wsx'' ''wenshanxian'' [25991, 23665, 21439],
     City ''1358'' '''' ''ly'' ''liyang'' [28327, 38451],
     City ''1367'' '''' ''dq'' ''deqing'' [24503, 28165],
     City ''1370'' '''' ''dz'' ''dezhou'' [24503, 24030],
     City ''1371'' '''' ''sn'' ''suining'' [36930, 23425],
     City ''1372'' '''' ''sp'' ''songpan'' [26494, 28504],
     City ''1373'' '''' ''lc'' ''liancheng'' [36830, 22478],
     City ''1407'' '''' ''lh'' ''linhe'' [20020, 27827],
     City ''1421'' '''' ''ch'' ''conghua'' [20174, 21270],
     City ''1422'' '''' ''qy'' ''qingyuan'' [28165, 36828],
     City ''1428'' '''' ''ep'' ''enping'' [24681, 24179],
     City ''1436'' '''' ''sw'' ''shanwei'' [27733, 23614],
     City ''1443'' '''' ''ts'' ''taishun'' [27888, 39034],
     City ''1452'' '''' ''lw'' ''laiwu'' [33713, 33436],
     City ''1453'' '''' ''jz'' ''jinzhong'' [26187, 20013],
     City ''1454'' '''' ''jy'' ''jiyuan'' [27982, 28304],
     City ''1466'' '''' ''at'' ''antu'' [23433, 22270],
     City ''1472'' '''' ''sq'' ''suqian'' [23487, 36801],
     City ''1474'' '''' ''fn'' ''fengning'' [20016, 23425],
     City ''1485'' '''' ''lp'' ''luanping'' [28390, 24179],
     City ''1490'' '''' ''xg'' ''xiaogan'' [23389, 24863],
     City ''1491'' '''' ''zz'' ''zizhong'' [36164, 20013],
     City ''1492'' '''' ''dkl'' ''dakunlun '' [22823, 26118, 20177, 32],
     City ''1493'' '''' ''wjy'' ''wangjiaying'' [29579, 23478, 33829],
     City ''1494'' '''' ''lc'' ''luchuan'' [38470, 24029],
     City ''1495'' '''' ''hk'' ''Hekou'' [27827, 21475],
     City ''1496'' '''' ''hsw'' ''haishiwan'' [28023, 30707, 28286],
     City ''1497'' '''' ''xh'' ''xuanhua'' [23459, 21270],
     City ''1498'' '''' ''zz'' ''zhangzheng'' [38271, 24449],
     City ''1499'' '''' ''nk'' ''nankou'' [21335, 21475],
     City ''1500'' '''' ''kz'' ''kangzhuang'' [24247, 24196],
     City ''1501'' '''' ''gbd'' ''gaobeidian'' [39640, 30865, 24215],
     City ''1502'' '''' ''jbc'' ''jiangbiancun'' [27743, 36793, 26449],
     City ''1503'' '''' ''shy'' ''siheyong'' [22235, 21512, 27704],
     City ''1504'' '''' ''jjg'' ''jijiagou'' [32426, 23478, 27807],
     City ''1505'' '''' ''nm'' ''naiman'' [22856, 26364],
     City ''1506'' '''' ''mdh'' ''mianduhe'' [20813, 28193, 27827],
     City ''1507'' '''' ''tn'' ''taonan'' [27950, 21335],
     City ''1508'' '''' ''gbk'' ''gubeikou'' [21476, 21271, 21475],
     City ''1509'' '''' ''hr'' ''huairen'' [24576, 20161],
     City ''1510'' '''' ''nw'' ''ningwu'' [23425, 27494],
     City ''1511'' '''' ''yp'' ''yuanping'' [21407, 24179],
     City ''1512'' '''' ''xx'' ''xiaoxian'' [23389, 21688],
     City ''1513'' '''' ''bxt'' ''baxiantong'' [20843, 20185, 31570],
     City ''1514'' '''' ''dl'' ''donglai'' [19996, 26469],
     City ''1515'' '''' ''my'' ''miyi'' [31859, 26131],
     City ''1516'' '''' ''dc'' ''dechang'' [24503, 26124],
     City ''1517'' '''' ''hy'' ''hanyuan'' [27721, 28304],
     City ''1518'' '''' ''gg'' ''guigang'' [36149, 28207],
     City ''1519'' '''' ''hc'' ''hechun'' [27827, 21767],
     City ''1520'' '''' ''nd'' ''nanding'' [21335, 23450],
     City ''1521'' '''' ''cb'' ''chibi'' [36196, 22721],
     City ''1522'' '''' ''ly'' ''laiyuan'' [28062, 28304],
     City ''1523'' '''' ''lq'' ''lingqiu'' [28789, 19992],
     City ''1524'' '''' ''dx'' ''daixian'' [20195, 21439],
     City ''1525'' '''' ''qc'' ''qiaocun'' [20052, 26449],
     City ''1526'' '''' ''zcd'' ''zhenchengdi'' [38215, 22478, 24213],
     City ''1527'' '''' ''xg'' ''xuangang'' [36713, 23703],
     City ''1528'' '''' ''hb'' ''hebian'' [27827, 36793],
     City ''1529'' '''' ''slc'' ''shanglancun'' [19978, 20848, 26449],
     City ''1530'' '''' ''xs'' ''xianshi'' [20185, 24072],
     City ''1531'' '''' ''jf'' ''jiafeng'' [22025, 23792],
     City ''1532'' '''' ''db'' ''daban'' [22823, 26495],
     City ''1533'' '''' ''hw'' ''hanwang'' [27721, 26106],
     City ''1534'' '''' ''ld'' ''lindong'' [26519, 19996],
     City ''1535'' '''' ''yqq'' ''yangquanqu'' [38451, 27849, 26354],
     City ''1538'' '''' ''rjg'' ''rujigou'' [27741, 31637, 27807],
     City ''1539'' '''' ''gt'' ''gantang'' [24178, 22616],
     City ''1540'' '''' ''cx'' ''chongxin'' [23815, 20449],
     City ''1541'' '''' ''by'' ''baiyin'' [30333, 38134],
     City ''1542'' '''' ''srn'' ''sharinai'' [27801, 26085, 20035],
     City ''1543'' '''' ''ac'' ''acheng'' [38463, 22478],
     City ''1544'' '''' ''zw'' ''zhangwu'' [24432, 27494],
     City ''1545'' '''' ''zl'' ''zhenlai'' [38215, 36169],
     City ''1546'' '''' ''fy'' ''fuyu'' [23500, 35029],
     City ''1547'' '''' ''zjt'' ''zhengjiatun'' [37073, 23478, 23663],
     City ''1548'' '''' ''xy'' ''xunyang'' [26092, 38451],
     City ''1549'' '''' ''sq'' ''shiquan'' [30707, 27849]]"

lemma checked_5: "checked 1152 cities_5 = Some 1549"
  unfolding cities_5_def by ((rule checked_rule, simp, simp, simp, simp, simp)+, simp)

lemma length_5: "length cities_5 = 150"
  by (simp only: cities_5_def count_rows)

definition cities_6 :: "city list" where
  "cities_6 =
    [City ''1550'' '''' ''gj'' ''gujiao'' [21476, 20132],
     City ''1551'' '''' ''yts'' ''yantongshan'' [28895, 31570, 23665],
     City ''1552'' '''' ''ytb'' ''yatunbao'' [29273, 23663, 22561],
     City ''1553'' '''' ''zs'' ''zhashui'' [27048, 27700],
     City ''1554'' '''' ''slh'' ''shulehe'' [30095, 21202, 27827],
     City ''1555'' '''' ''zy'' ''Zaoyang'' [26531, 38451],
     City ''1556'' '''' ''al'' ''anlu'' [23433, 38470],
     City ''1557'' '''' ''zj'' ''zhijiang'' [26525, 27743],
     City ''1558'' '''' ''sz'' ''Songzi'' [26494, 28363],
     City ''1559'' '''' ''cl'' ''cili'' [24904, 21033],
     City ''1560'' '''' ''zy'' ''ziyang'' [36164, 38451],
     City ''1561'' '''' ''jx'' ''jinxian'' [38182, 21439],
     City ''1562'' '''' ''kq'' ''kouquan'' [21475, 27849],
     City ''1563'' '''' ''pw'' ''pingwang'' [24179, 26106],
     City ''1564'' '''' ''sz'' ''suizhong'' [32485, 20013],
     City ''1565'' '''' ''ky'' ''kaiyuan'' [24320, 21407],
     City ''1566'' '''' ''mgp'' ''muguaping'' [26408, 29916, 22378],
     City ''1567'' '''' ''tyb'' ''tongyuanbao'' [36890, 36828, 22561],
     City ''1568'' '''' ''fhc'' ''fenghuangcheng'' [20964, 20976, 22478],
     City ''1569'' '''' ''wlb'' ''wulongbei'' [20116, 40857, 32972],
     City ''1570'' '''' ''lz'' ''longzhen'' [40857, 38215],
     City ''1572'' '''' ''da'' ''daan'' [22823, 23433],
     City ''1575'' '''' ''ap'' ''anping'' [23433, 24179],
     City ''1576'' '''' ''nf'' ''nanfen'' [21335, 33452],
     City ''1577'' '''' ''zsh'' ''zhusihua'' [29664, 26031, 33457],
     City ''1578'' '''' ''byhs'' ''baiyinhushuo'' [30333, 38899, 32993, 30805],
     City ''1579'' '''' ''hj'' ''hunjiang'' [27985, 27743],
     City ''1580'' '''' ''ssz'' ''songshuzhen'' [26494, 26641, 38215],
     City ''1581'' '''' ''jt'' ''jiutai'' [20061, 21488],
     City ''1582'' '''' ''wc'' ''wuchang'' [20116, 24120],
     City ''1583'' '''' ''js'' ''jishu'' [21513, 33298],
     City ''1584'' '''' ''sl'' ''shulan'' [33298, 20848],
     City ''1585'' '''' ''jh'' ''jiaohe'' [34527, 27827],
     City ''1586'' '''' ''sht'' ''shanhetun'' [23665, 27827, 23663],
     City ''1587'' '''' ''ld'' ''ludao'' [40575, 36947],
     City ''1588'' '''' ''wq'' ''wangqing'' [27754, 28165],
     City ''1589'' '''' ''nh'' ''nehe'' [35767, 27827],
     City ''1590'' '''' ''cjg'' ''caijiagou'' [34081, 23478, 27807],
     City ''1591'' '''' ''tlz'' ''taolaizhao'' [38518, 36182, 26157],
     City ''1592'' '''' ''jj'' ''jiangjin'' [27743, 27941],
     City ''1593'' '''' ''lc'' ''longchang'' [38534, 26124],
     City ''1595'' '''' ''hl'' ''hulan'' [21628, 20848],
     City ''1596'' '''' ''sl'' ''suileng'' [32485, 26865],
     City ''1597'' '''' ''nj'' ''neijiang'' [20869, 27743],
     City ''1598'' '''' ''tb'' ''tongbei'' [36890, 21271],
     City ''1599'' '''' ''qth'' ''qitaihei'' [19971, 21488, 27827],
     City ''1600'' '''' ''bl'' ''boli'' [21187, 21033],
     City ''1601'' '''' ''ml'' ''muleng'' [31302, 26865],
     City ''1602'' '''' ''xcz'' ''xiachengzi'' [19979, 22478, 23376],
     City ''1603'' '''' ''sy'' ''suiyang'' [32485, 38451],
     City ''1604'' '''' ''sx'' ''suixi'' [32485, 35199],
     City ''1605'' '''' ''bg'' ''boguo'' [26575, 26524],
     City ''1606'' '''' ''hjy'' ''hanjiayuan'' [38889, 23478, 22253],
     City ''1607'' '''' ''teq'' ''taerqi'' [22612, 23572, 27668],
     City ''1609'' '''' ''ms'' ''mishan'' [23494, 23665],
     City ''1610'' '''' ''ys'' ''yushu'' [27014, 26641],
     City ''1611'' '''' ''hg'' ''hegang'' [40548, 23703],
     City ''1612'' '''' ''dfh'' ''dongfanghong'' [19996, 26041, 32418],
     City ''1613'' '''' ''bj'' ''binjiang'' [28392, 27743],
     City ''1614'' '''' ''ss'' ''shenshu'' [31070, 26641],
     City ''1615'' '''' ''gl'' ''gulian'' [21476, 33714],
     City ''1616'' '''' ''hb'' ''hebei'' [40548, 21271],
     City ''1617'' '''' ''sys'' ''shuangyashan'' [21452, 40493, 23665],
     City ''1618'' '''' ''tl'' ''tieli'' [38081, 21147],
     City ''1619'' '''' ''jts'' ''jingtieshan'' [38236, 38081, 23665],
     City ''1620'' '''' ''wy'' ''wuying'' [20116, 33829],
     City ''1621'' '''' ''flt'' ''fulitun'' [31119, 21033, 23663],
     City ''1622'' '''' ''fj'' ''fujin'' [23500, 38182],
     City ''1623'' '''' ''jsj'' ''jiansanjiang'' [24314, 19977, 27743],
     City ''1624'' '''' ''zd'' ''Zhaodong'' [32903, 19996],
     City ''1625'' '''' ''ya'' ''yian'' [20381, 23433],
     City ''1626'' '''' ''medg'' ''moerdaoga'' [33707, 23572, 36947, 22030],
     City ''1627'' '''' ''aax'' ''angangxi'' [26114, 26114, 28330],
     City ''1628'' '''' ''th'' ''tahe'' [22612, 27827],
     City ''1629'' '''' ''nzs'' ''nianzishan'' [30910, 23376, 23665],
     City ''1630'' '''' ''tx'' ''tongxian'' [36890, 21439],
     City ''1631'' '''' ''yj'' ''yanjiao'' [29141, 37066],
     City ''1632'' '''' ''sh'' ''sanhe'' [19977, 27827],
     City ''1633'' '''' ''yt'' ''yutian'' [29577, 30000],
     City ''1634'' '''' ''sy'' ''shunyi'' [39034, 20041],
     City ''1635'' '''' ''jx'' ''jixian'' [34015, 21439],
     City ''1636'' '''' ''bc'' ''baocheng'' [23453, 22478],
     City ''1637'' '''' ''ft'' ''fengtai'' [20016, 21488],
     City ''1638'' '''' ''xm'' ''xinmin'' [26032, 27665],
     City ''1639'' '''' ''np'' ''nanpiao'' [21335, 31080],
     City ''1640'' '''' ''qhm'' ''qinghemen'' [28165, 27827, 38376],
     City ''1641'' '''' ''dt'' ''dengta'' [28783, 22612],
     City ''1642'' '''' ''hst'' ''hushitai'' [34382, 30707, 21488],
     City ''1643'' '''' ''xtz'' ''xintaizi'' [26032, 21488, 23376],
     City ''1644'' '''' ''dq'' ''daqing'' [22823, 28165],
     City ''1645'' '''' ''czt'' ''chengzitan'' [22478, 23376, 22374],
     City ''1646'' '''' ''zh'' ''zhuanghe'' [24196, 27827],
     City ''1647'' '''' ''msj'' ''masanjia'' [39532, 19977, 23478],
     City ''1648'' '''' ''bt'' ''beitai'' [21271, 21488],
     City ''1649'' '''' ''ts'' ''tashan'' [22612, 23665],
     City ''1650'' '''' ''tsf'' ''tianshifu'' [30000, 24072, 24220],
     City ''1651'' '''' ''sqz'' ''shiqiaozi'' [30707, 26725, 23376],
     City ''1652'' '''' ''wts'' ''waitoushan'' [27498, 22836, 23665],
     City ''1653'' '''' ''cs'' ''cangshi'' [33485, 30707],
     City ''1654'' '''' ''ps'' ''panshi'' [30928, 30707],
     City ''1655'' '''' ''ssg'' ''shansonggang'' [26441, 26494, 23703],
     City ''1656'' '''' ''gs'' ''guosong'' [26524, 26494],
     City ''1657'' '''' ''xls'' ''xinglongshan'' [20852, 38534, 23665],
     City ''1658'' '''' ''aes'' ''aershan'' [38463, 23572, 23665],
     City ''1659'' '''' ''djc'' ''dongjingcheng'' [19996, 20140, 22478],
     City ''1660'' '''' ''cy'' ''chunyang'' [26149, 38451],
     City ''1661'' '''' ''dh'' ''dehui'' [24503, 24800],
     City ''1662'' '''' ''ll'' ''lanleng'' [20848, 26865],
     City ''1663'' '''' ''xf'' ''xiangfang'' [39321, 22346],
     City ''1664'' '''' ''ybl'' ''yabuli'' [20122, 24067, 21147],
     City ''1665'' '''' ''hdhz'' ''hengdaohezi'' [27178, 36947, 27827, 23376],
     City ''1666'' '''' ''hl'' ''hailin'' [28023, 26519],
     City ''1667'' '''' ''ss'' ''shanshi'' [23665, 24066],
     City ''1668'' '''' ''sw'' ''sunwu'' [23385, 21556],
     City ''1669'' '''' ''qjz'' ''qianjinzhen'' [21069, 36827, 38215],
     City ''1670'' '''' ''yj'' ''yaojia'' [23002, 23478],
     City ''1671'' '''' ''wj'' ''wujia'' [20116, 23478],
     City ''1672'' '''' ''mg'' ''mangui'' [28385, 24402],
     City ''1673'' '''' ''swz'' ''suanwangzhuang'' [31639, 29579, 24196],
     City ''1674'' '''' ''tb'' ''tangbao'' [22616, 35961],
     City ''1675'' '''' ''jy'' ''jingyuan'' [38742, 36828],
     City ''1676'' '''' ''ycz'' ''yingchengzi'' [33829, 22478, 23376],
     City ''1677'' '''' ''fcg'' ''fangchenggang'' [38450, 22478, 28207],
     City ''1679'' '''' ''bc'' ''baochi'' [23453, 22395],
     City ''1680'' '''' ''sm'' ''shenmu'' [31070, 26408],
     City ''1681'' '''' ''dq'' ''daqing'' [22823, 38738],
     City ''1682'' '''' ''hl'' ''hailun'' [28023, 20262],
     City ''1683'' '''' ''sl'' ''suolun'' [32034, 20262],
     City ''1685'' '''' ''hb'' ''huaibin'' [28142, 28392],
     City ''1686'' '''' ''xf'' ''xiafan'' [22799, 30024],
     City ''1687'' '''' ''zc'' ''zichuan'' [28100, 24029],
     City ''1688'' '''' ''ts'' ''tieshan'' [38081, 23665],
     City ''1689'' '''' ''cq'' ''changqian'' [21378, 21069],
     City ''1690'' '''' ''shj'' ''shaheji'' [27801, 27827, 38598],
     City ''1691'' '''' ''pt'' ''peitun'' [27803, 23663],
     City ''1692'' '''' ''xql'' ''xiquele'' [21916, 40522, 20048],
     City ''1693'' '''' ''hg'' ''hongguo'' [32418, 26524],
     City ''1694'' '''' ''zyc'' ''zhongyicun'' [20013, 35850, 26449],
     City ''1695'' '''' ''glp'' ''geliping'' [26684, 37324, 22378],
     City ''1696'' '''' ''cx'' ''Caoxian'' [26361, 21439],
     City ''1697'' '''' ''xs'' ''xishui'' [28000, 27700],
     City ''1699'' '''' ''ml'' ''meilong'' [26757, 38471],
     City ''1700'' '''' ''RC'' ''Ruichang'' [29790, 26124],
     City ''1701'' '''' ''heg'' ''haergai'' [21704, 23572, 30422],
     City ''1702'' '''' ''kk'' ''keke'' [26607, 26607],
     City ''1703'' '''' ''xts'' ''xitieshan'' [38177, 38081, 23665],
     City ''1704'' '''' ''ceh'' ''chaerhan'' [23519, 23572, 27735],
     City ''1705'' '''' ''la'' ''Luan|Liuan'' [20845, 23433],
     City ''1706'' '''' ''hlg'' ''hailuogou'' [28023, 34746, 27807],
     City ''1707'' '''' ''tjc'' ''tuanjiecun'' [22242, 32467, 26449]]"

lemma checked_6: "checked 1549 cities_6 = Some 1707"
  unfolding cities_6_def by ((rule checked_rule, simp, simp, simp, simp, simp)+, simp)

lemma length_6: "length cities_6 = 150"
  by (simp only: cities_6_def count_rows)

end
