(* ===== verification/CityRows3.thy ===== *)
theory CityRows3
  imports City
begin

text \<open>
  \<open>docs/citycode/json.js\<close>, lines 2103 to 3152: the rows of \<open>citylist\<close>, in groups, and the check of
  each group.
\<close>

definition cities_14 :: "city list" where
  "cities_14 =
    [City ''2955'' '''' ''dx'' ''daxi'' [22823, 35199],
     City ''2956'' '''' ''xs'' ''xingshu'' [26447, 26641],
     City ''2957'' '''' ''hn'' ''huanan'' [26726, 21335],
     City ''2958'' '''' ''bhl'' ''bahuli'' [20843, 34382, 21147],
     City ''2959'' '''' ''sjd'' ''shenjiadian'' [30003, 23478, 24215],
     City ''2960'' '''' ''djms'' ''dongjiamusi'' [19996, 20339, 26408, 26031],
     City ''2961'' '''' ''cgz'' ''chenggaozi'' [25104, 39640, 23376],
     City ''2962'' '''' ''yg'' ''yagou'' [20122, 27807],
     City ''2963'' '''' ''ps'' ''pingshan'' [24179, 23665],
     City ''2964'' '''' ''mes'' ''maoershan'' [24125, 20799, 23665],
     City ''2965'' '''' ''xj'' ''xiaojiu'' [23567, 20061],
     City ''2966'' '''' ''sz'' ''shangzhi'' [23578, 24535],
     City ''2967'' '''' ''my'' ''mayan'' [39532, 24310],
     City ''2968'' '''' ''wh'' ''weihe'' [33479, 27827],
     City ''2969'' '''' ''yc'' ''yuchi'' [40060, 27744],
     City ''2970'' '''' ''kd'' ''kaidao'' [24320, 36947],
     City ''2971'' '''' ''dc'' ''ducao'' [26460, 33609],
     City ''2972'' '''' ''dl'' ''daolin'' [36947, 26519],
     City ''2973'' '''' ''lg'' ''lagu'' [25289, 21476],
     City ''2974'' '''' ''lt'' ''lu:tan'' [32511, 28525],
     City ''2975'' '''' ''wl'' ''weiling'' [23041, 23725],
     City ''2976'' '''' ''xl'' ''xianglan'' [39321, 20848],
     City ''2977'' '''' ''fl'' ''fulong'' [31119, 38534],
     City ''2978'' '''' ''zt'' ''zhangting'' [38271, 27712],
     City ''2979'' '''' ''kj'' ''kongjia'' [23380, 23478],
     City ''2980'' '''' ''glt'' ''gaolintun'' [39640, 26519, 23663],
     City ''2981'' '''' ''ydt'' ''yandengtu'' [28895, 28783, 21520],
     City ''2982'' '''' ''sjz'' ''sijingzi'' [22235, 20117, 23376],
     City ''2983'' '''' ''dsc'' ''deshengcun'' [24471, 32988, 26449],
     City ''2984'' '''' ''zq'' ''zhangqing'' [38271, 38738],
     City ''2985'' '''' ''qf'' ''qingfeng'' [24198, 20016],
     City ''2986'' '''' ''zd'' ''zhende'' [25391, 24503],
     City ''2987'' '''' ''zzj'' ''zhizijing'' [30693, 23383, 20117],
     City ''2988'' '''' ''qy'' ''qianyu'' [21069, 27014],
     City ''2989'' '''' ''js'' ''jianshe'' [24314, 35774],
     City ''2990'' '''' ''jm'' ''jianmin'' [20581, 27665],
     City ''2991'' '''' ''gz'' ''gezhi'' [38761, 24535],
     City ''2992'' '''' ''ldt'' ''laodongtun'' [21171, 21160, 23663],
     City ''2993'' '''' ''lz'' ''lizhi'' [31435, 24535],
     City ''2994'' '''' ''xw'' ''xingwu'' [20852, 26080],
     City ''2995'' '''' ''bc'' ''bacun'' [20843, 26449],
     City ''2996'' '''' ''cyc'' ''chuangyecun'' [21019, 19994, 26449],
     City ''2997'' '''' ''yl'' ''yinlang'' [38134, 28010],
     City ''2998'' '''' ''zz'' ''zhuangzhi'' [22766, 24535],
     City ''2999'' '''' ''lmd'' ''lamadian'' [21895, 22043, 30008],
     City ''3000'' '''' ''wlz'' ''wulanzhao'' [20044, 20848, 26157],
     City ''3001'' '''' ''py'' ''pingyang'' [24179, 27915],
     City ''3002'' '''' ''jh'' ''jianghai'' [27743, 28023],
     City ''3003'' '''' ''dj'' ''dajiang'' [22823, 27743],
     City ''3004'' '''' ''tc'' ''tangchi'' [27748, 27744],
     City ''3005'' '''' ''yst'' ''yushutun'' [27014, 26641, 23663],
     City ''3006'' '''' ''qnc'' ''qinanchang'' [40784, 21335, 22330],
     City ''3007'' '''' ''sjf'' ''sanjianfang'' [19977, 38388, 25151],
     City ''3008'' '''' ''qs'' ''qushui'' [26354, 27700],
     City ''3009'' '''' ''xx'' ''xinxing'' [26032, 20852],
     City ''3010'' '''' ''dxg'' ''daxinggou'' [22823, 20852, 27807],
     City ''3011'' '''' ''lts'' ''luotuoshan'' [39558, 39548, 23665],
     City ''3012'' '''' ''lm'' ''laomiao'' [32769, 24217],
     City ''3013'' '''' ''lsl'' ''laosongling'' [32769, 26494, 23725],
     City ''3014'' '''' ''sdg'' ''sandaogou'' [19977, 36947, 27807],
     City ''3015'' '''' ''dgz'' ''dougouzi'' [26007, 27807, 23376],
     City ''3016'' '''' ''st'' ''shitou'' [30707, 22836],
     City ''3017'' '''' ''NA'' ''Ningan'' [23425, 23433],
     City ''3018'' '''' ''hl'' ''hailang'' [28023, 28010],
     City ''3019'' '''' ''klt'' ''kalutun'' [21345, 36335, 23663],
     City ''3020'' '''' ''xn'' ''xiaonan'' [23567, 21335],
     City ''3021'' '''' ''xhl'' ''xiaohelong'' [23567, 21512, 38534],
     City ''3022'' '''' ''ka'' ''kaian'' [24320, 23433],
     City ''3023'' '''' ''hj'' ''huajia'' [21326, 23478],
     City ''3024'' '''' ''qjz'' ''qijiazi'' [19971, 23478, 23376],
     City ''3025'' '''' ''tt'' ''tongtu'' [36890, 36884],
     City ''3026'' '''' ''lj'' ''liangjia'' [20004, 23478],
     City ''3027'' '''' ''ag'' ''anguang'' [23433, 24191],
     City ''3028'' '''' ''sl'' ''sheli'' [33293, 21147],
     City ''3029'' '''' ''db'' ''daobao'' [21040, 20445],
     City ''3030'' '''' ''wjh'' ''wujiahu'' [20116, 23478, 25143],
     City ''3031'' '''' ''pt'' ''pingtai'' [24179, 21488],
     City ''3032'' '''' ''paz'' ''pinganzhen'' [24179, 23433, 38215],
     City ''3033'' '''' ''glh'' ''guiliuhe'' [24402, 27969, 27827],
     City ''3034'' '''' ''dsz'' ''dashizhai'' [22823, 30707, 23528],
     City ''3035'' '''' ''msh'' ''mingshuihe'' [26126, 27700, 27827],
     City ''3036'' '''' ''bl'' ''bailang'' [30333, 29436],
     City ''3037'' '''' ''zz'' ''zazi'' [21643, 23376],
     City ''3038'' '''' ''jy'' ''jiangyuan'' [27743, 28304],
     City ''3040'' '''' ''yh'' ''yonghong'' [27704, 32418],
     City ''3041'' '''' ''sjh'' ''songjianghe'' [26494, 27743, 27827],
     City ''3042'' '''' ''lts'' ''longtanshan'' [40857, 28525, 23665],
     City ''3043'' '''' ''jb'' ''jiangbei'' [27743, 21271],
     City ''3044'' '''' ''yf'' ''yafu'' [20122, 22797],
     City ''3045'' '''' ''fg'' ''fengguang'' [20016, 24191],
     City ''3046'' '''' ''df'' ''dongfu'' [19996, 23500],
     City ''3047'' '''' ''aj'' ''anjia'' [23433, 23478],
     City ''3048'' '''' ''ll'' ''lalin'' [25289, 26519],
     City ''3049'' '''' ''nj'' ''niujia'' [29275, 23478],
     City ''3050'' '''' ''zj'' ''zhoujia'' [21608, 23478],
     City ''3051'' '''' ''sj'' ''sunjia'' [23385, 23478],
     City ''3052'' '''' ''mh'' ''mohe'' [28448, 27827],
     City ''3053'' '''' ''mz'' ''meizhou'' [26757, 24030],
     City ''3054'' '''' ''zcd'' ''zhangchundong'' [38271, 26149, 19996],
     City ''3055'' '''' ''lq'' ''longquan'' [40857, 27849],
     City ''3056'' '''' ''kl'' ''kalun'' [21345, 20262],
     City ''3057'' '''' ''ymh'' ''yinmahe'' [39278, 39532, 27827],
     City ''3058'' '''' ''yc'' ''yingcheng'' [33829, 22478],
     City ''3059'' '''' ''hwz'' ''hewanzi'' [27827, 28286, 23376],
     City ''3060'' '''' ''gdz'' ''gudianzi'' [23396, 24215, 23376],
     City ''3061'' '''' ''jz'' ''jiuzhan'' [20061, 31449],
     City ''3062'' '''' ''hdw'' ''hadawan'' [21704, 36798, 28286],
     City ''3063'' '''' ''mws'' ''maweishan'' [39532, 23614, 23665],
     City ''3064'' '''' ''tg'' ''tiangang'' [22825, 23703],
     City ''3065'' '''' ''hs'' ''huangshan'' [33618, 23665],
     City ''3066'' '''' ''ldh'' ''liudaohe'' [20845, 36947, 27827],
     City ''3067'' '''' ''qdh'' ''qidaohe'' [19971, 36947, 27827],
     City ''3068'' '''' ''lf'' ''lafa'' [25289, 27861],
     City ''3069'' '''' ''wt'' ''weitang'' [33479, 22616],
     City ''3070'' '''' ''lsh'' ''liushuhe'' [26611, 26641, 27827],
     City ''3071'' '''' ''edh'' ''erdaohe'' [20108, 36947, 27827],
     City ''3072'' '''' ''qh'' ''qianhe'' [21069, 27827],
     City ''3073'' '''' ''whl'' ''weihuling'' [23041, 34382, 23725],
     City ''3074'' '''' ''hnh'' ''huangnihe'' [40644, 27877, 27827],
     City ''3075'' '''' ''tpl'' ''taipingling'' [22826, 24179, 23725],
     City ''3076'' '''' ''dq'' ''daqiao'' [22823, 26725],
     City ''3077'' '''' ''dst'' ''dashitou'' [22823, 30707, 22836],
     City ''3078'' '''' ''ng'' ''nangou'' [21335, 27807],
     City ''3080'' '''' ''ctg'' ''chatiaogou'' [33590, 26465, 27807],
     City ''3081'' '''' ''ysc'' ''yushuchuan'' [27014, 26641, 24029],
     City ''3082'' '''' ''ltg'' ''laotougou'' [32769, 22836, 27807],
     City ''3083'' '''' ''cyc'' ''chaoyangchuan'' [26397, 38451, 24029],
     City ''3085'' '''' ''xd'' ''xidong'' [28330, 27934],
     City ''3086'' '''' ''wzg'' ''weizigou'' [33479, 23376, 27807],
     City ''3221'' '''' ''zk'' ''zhoukou'' [21608, 21475],
     City ''3222'' '''' ''pds'' ''pingdingshan'' [24179, 39030, 23665],
     City ''3225'' '''' ''bjs'' ''bijieshi'' [27605, 33410, 24066],
     City ''3229'' '''' ''zj'' ''zhijiang'' [33463, 27743],
     City ''3230'' '''' ''jr'' ''jurong'' [21477, 23481],
     City ''3233'' '''' ''dt'' ''dongtai'' [19996, 21488],
     City ''3275'' '''' ''lz'' ''langzhong'' [38406, 20013],
     City ''3276'' '''' ''hsw'' ''huashuiwan'' [33457, 27700, 28286],
     City ''3277'' '''' ''ya'' ''yaan'' [38597, 23433],
     City ''3309'' '''' ''hd'' ''hengdian'' [27178, 24215],
     City ''3315'' '''' ''syhs'' ''shengyuehansi'' [22307, 32422, 32752, 26031],
     City ''3326'' '''' ''kns'' ''kanasi'' [21888, 32435, 26031],
     City ''3327'' '''' ''bej'' ''buerjin'' [24067, 23572, 27941],
     City ''3329'' '''' ''tz'' ''tongzhou'' [36890, 24030],
     City ''3360'' '''' ''nlt'' ''neilati'' [37027, 25289, 25552],
     City ''3839'' '''' ''nq'' ''naqu'' [37027, 26354],
     City ''3844'' '''' ''kd'' ''kending'' [22438, 19969],
     City ''3845'' '''' ''XZ'' ''Hsinchu'' [26032, 31481],
     City ''3846'' '''' ''Pingtung'' ''Pingtung'' [80, 105, 110, 103, 116, 117, 110, 103],
     City ''3847'' '''' ''TN'' ''Tainan'' [21488, 21335],
     City ''3848'' '''' ''TD'' ''Taitung'' [21488, 19996]]"

lemma checked_14: "checked 2953 cities_14 = Some 3848"
  unfolding cities_14_def by ((rule checked_rule, simp, simp, simp, simp, simp)+, simp)

lemma length_14: "length cities_14 = 150"
  by (simp only: cities_14_def count_rows)

definition cities_15 :: "city list" where
  "cities_15 =
    [City ''3849'' '''' ''TZ'' ''Taichung'' [21488, 20013],
     City ''3852'' '''' ''lp'' ''liping'' [40654, 24179],
     City ''3863'' '''' ''sg'' ''shouguang'' [23551, 20809],
     City ''3876'' '''' ''nx'' ''nanxun'' [21335, 27988],
     City ''3881'' '''' ''sy'' ''siyang'' [27863, 38451],
     City ''3884'' '''' ''fz'' ''fuzhou'' [25242, 24030],
     City ''3885'' '''' ''HG'' ''huanggang'' [40644, 20872],
     City ''3886'' '''' ''bs'' ''baishan'' [30333, 23665],
     City ''3887'' '''' ''byne'' ''bayannaoer'' [24052, 24422, 28118, 23572],
     City ''3889'' '''' ''ls'' ''lishi'' [31163, 30707],
     City ''3906'' '''' ''jm'' ''jimo'' [21363, 22696],
     City ''3908'' '''' ''wd'' ''wendeng'' [25991, 30331],
     City ''3909'' '''' ''jn'' ''jiaonan'' [33014, 21335],
     City ''3910'' '''' ''xx'' ''xiangxi'' [28248, 35199],
     City ''3911'' '''' ''xz'' ''xiangzhou'' [28248, 24030],
     City ''3913'' '''' ''yy'' ''yiyuan'' [27778, 28304],
     City ''3914'' '''' ''dy'' ''daye'' [22823, 20918],
     City ''3915'' '''' ''lz'' ''laizhou'' [33713, 24030],
     City ''3917'' '''' ''fq'' ''fuqing'' [31119, 28165],
     City ''3918'' '''' ''wz'' ''wuzhen'' [20044, 38215],
     City ''3919'' '''' ''gx'' ''guixi'' [36149, 28330],
     City ''3920'' '''' ''tm'' ''tianmen'' [22825, 38376],
     City ''3921'' '''' ''cxs'' ''chuxiongshi'' [26970, 38596, 24066],
     City ''3922'' '''' ''gj'' ''gejiu'' [20010, 26087],
     City ''3923'' '''' ''ha'' ''haian'' [28023, 23433],
     City ''3924'' '''' ''ps'' ''pingshan'' [24179, 23665],
     City ''3925'' '''' ''yh'' ''yuhuan'' [29577, 29615],
     City ''3926'' '''' ''jj'' ''jingjiang'' [38742, 27743],
     City ''3927'' '''' ''dx'' ''dexing'' [24503, 20852],
     City ''3928'' '''' ''dq'' ''deqin'' [24503, 38054],
     City ''3929'' '''' ''pz'' ''pizhou'' [37043, 24030],
     City ''3930'' '''' ''ll'' ''luliang'' [38470, 33391],
     City ''3931'' '''' ''lz'' ''lianzhou'' [36830, 24030],
     City ''3932'' '''' ''ys'' ''yangshan'' [38451, 23665],
     City ''3933'' '''' ''yf'' ''yunfu'' [20113, 28014],
     City ''3934'' '''' ''xy'' ''xiaoyi'' [23389, 20041],
     City ''3935'' '''' ''yc'' ''yingcheng'' [24212, 22478],
     City ''3936'' '''' ''px'' ''puxian'' [33970, 21439],
     City ''3937'' '''' ''yz'' ''yangzhong'' [25196, 20013],
     City ''3938'' '''' ''zx'' ''zhongxiang'' [38047, 31077],
     City ''3940'' '''' ''wd'' ''wudi'' [26080, 26851],
     City ''3941'' '''' ''hs'' ''heshan'' [21512, 23665],
     City ''3942'' '''' ''xl'' ''xianlin '' [21688, 20020, 32],
     City ''3943'' '''' ''pd'' ''pingdu'' [24179, 24230],
     City ''3944'' '''' ''bx'' ''binxian'' [24428, 21439],
     City ''3946'' '''' ''lk'' ''longkou'' [40857, 21475],
     City ''3961'' '''' ''jo'' ''jianou'' [24314, 29935],
     City ''3962'' '''' ''sh'' ''shanghang'' [19978, 26477],
     City ''3963'' '''' ''fa'' ''Fuan'' [31119, 23433],
     City ''3964'' '''' ''zt'' ''zhangting'' [38271, 27712],
     City ''3966'' '''' ''bz'' ''bazhong'' [24052, 20013],
     City ''3967'' '''' ''dx'' ''dongxing'' [19996, 20852],
     City ''3968'' '''' ''gp'' ''guiping'' [26690, 24179],
     City ''3969'' '''' ''hc'' ''hechi'' [27827, 27744],
     City ''3970'' '''' ''ga'' ''gaoan'' [39640, 23433],
     City ''3971'' '''' ''rj'' ''ruijin'' [29790, 37329],
     City ''3972'' '''' ''yd'' ''yidou'' [23452, 37117],
     City ''3973'' '''' ''wt'' ''wantong'' [19975, 36890],
     City ''3976'' '''' ''eeds'' ''eerduosi'' [37122, 23572, 22810, 26031],
     City ''3977'' '''' ''zx'' ''zixing'' [36164, 20852],
     City ''3978'' '''' ''lxs'' ''linxiashi'' [20020, 22799, 24066],
     City ''3979'' '''' ''da'' ''donga'' [19996, 38463],
     City ''3980'' '''' ''tx'' ''taixing'' [27888, 20852],
     City ''3988'' '''' ''qc'' ''qingcheng'' [24198, 22478],
     City ''3989'' '''' ''jy'' ''jiyang'' [27982, 38451],
     City ''3990'' '''' ''da'' ''donga'' [19996, 38463],
     City ''3995'' '''' ''wg'' ''wugang'' [33310, 38050],
     City ''3996'' '''' ''pe'' ''puer'' [26222, 27953],
     City ''3997'' '''' ''ms'' ''mangshi'' [33426, 24066],
     City ''4004'' '''' ''jb'' ''jingbian'' [38742, 36793],
     City ''4013'' '''' ''xj'' ''xiajin'' [22799, 27941],
     City ''4020'' '''' ''yc'' ''yongcheng'' [27704, 22478],
     City ''4021'' '''' ''yz'' ''yuzhou'' [34074, 24030],
     City ''4026'' '''' ''jy'' ''jiangyan'' [23004, 22576],
     City ''4029'' '''' ''df'' ''dafeng'' [22823, 20016],
     City ''4124'' '''' ''gz'' ''ganzi'' [29976, 23388],
     City ''4125'' '''' ''gy'' ''gaoyou'' [39640, 37038],
     City ''4130'' '''' ''kd'' ''kangding'' [24247, 23450],
     City ''4131'' '''' ''yc'' ''yangcheng'' [38451, 22478],
     City ''4132'' '''' ''xh'' ''xianghe'' [39321, 27827],
     City ''4136'' '''' ''xm'' ''xinmi'' [26032, 23494],
     City ''4137'' '''' ''hc'' ''hunchun'' [29682, 26149],
     City ''4139'' '''' ''rg'' ''rugao'' [22914, 30347],
     City ''4141'' '''' ''bx'' ''boxing'' [21338, 20852],
     City ''4142'' '''' ''yl'' ''youlun'' [37038, 36718],
     City ''4143'' '''' ''zy'' ''zongyang'' [26526, 38451],
     City ''4144'' '''' ''zc'' ''zhucheng'' [35832, 22478],
     City ''4145'' '''' ''lf'' ''lufeng'' [38470, 20016],
     City ''4146'' '''' ''hz'' ''hezhou'' [36154, 24030],
     City ''4147'' '''' ''yz'' ''yizhou'' [23452, 24030],
     City ''4154'' '''' ''qj'' ''qianjiang'' [28508, 27743],
     City ''4159'' '''' ''ba'' ''boao'' [21338, 40140],
     City ''4182'' '''' ''by'' ''baoying'' [23453, 24212],
     City ''4183'' '''' ''ky'' ''kaiyuan'' [24320, 20803],
     City ''4185'' '''' ''ly'' ''liuyang'' [27983, 38451],
     City ''4216'' '''' ''szs'' ''shizuishan'' [30707, 22068, 23665],
     City ''4243'' '''' ''ml'' ''milexian'' [24357, 21202],
     City ''4244'' '''' ''pts'' ''putuoshan'' [26222, 38464, 23665],
     City ''4248'' '''' ''test2'' ''test2'' [116, 101, 115, 116, 50],
     City ''4251'' '''' ''zy'' ''zhaoyuan'' [25307, 36828],
     City ''4254'' '''' ''wlthq'' ''wulatehouqi'' [20044, 25289, 29305, 21518, 26071],
     City ''4255'' '''' ''hlbe'' ''hulunbeier'' [21628, 20262, 36125, 23572],
     City ''5083'' '''' ''qm'' ''qimei'' [19971, 32654],
     City ''5091'' '''' ''zh'' ''zhanghai'' [38271, 28023],
     City ''5152'' '''' ''jy'' ''jiayi'' [22025, 20041],
     City ''5383'' '''' ''mg'' ''magong'' [39532, 20844],
     City ''5589'' '''' ''PD'' ''PINGTUNG'' [23631, 19996],
     City ''6309'' '''' ''wa'' ''wangan'' [26395, 23433],
     City ''6484'' '''' ''ym'' ''yuanmou'' [20803, 35851],
     City ''6769'' '''' ''yfh'' ''yingfenhe'' [32552, 33452, 27827],
     City ''6954'' '''' ''hl'' ''hualian'' [33457, 33714],
     City ''7203'' '''' ''JM'' ''KINMEN'' [37329, 38376],
     City ''7495'' '''' ''smw'' ''shimeiwan'' [30707, 26757, 28286],
     City ''7518'' '''' ''WLCB'' ''wulanchabu'' [20044, 20848, 23519, 24067],
     City ''7519'' '''' ''zc'' ''zoucheng'' [37049, 22478],
     City ''7521'' '''' ''ls'' ''longsheng'' [40857, 32988],
     City ''7523'' '''' ''yl'' ''yunlin'' [20113, 26519],
     City ''7524'' '''' ''NT'' ''nantou'' [21335, 25237],
     City ''7525'' '''' ''bc'' ''beichuan'' [21271, 24029],
     City ''7530'' '''' ''th'' ''tanghai'' [21776, 28023],
     City ''7531'' '''' ''dx'' ''daxin'' [22823, 26032],
     City ''7533'' '''' ''py'' ''pingyang'' [24179, 38451],
     City ''7534'' '''' ''cjs'' ''changjishi'' [26124, 21513, 24066],
     City ''7536'' '''' ''py'' ''pingyi'' [24179, 37009],
     City ''7537'' '''' ''LS'' ''liangshan'' [20937, 23665],
     City ''7538'' '''' ''pn'' ''pingnan'' [24179, 21335],
     City ''7539'' '''' ''wm'' ''wuming'' [27494, 40483],
     City ''7540'' '''' ''mek'' ''maerkang'' [39532, 23572, 24247],
     City ''7541'' '''' ''zy'' ''ziyuan'' [36164, 28304],
     City ''7542'' '''' ''zy'' ''ziyun'' [32043, 20113],
     City ''7544'' '''' ''cs'' ''chishui'' [36196, 27700],
     City ''7545'' '''' ''lz'' ''linzhou'' [26519, 24030],
     City ''7547'' '''' ''aj'' ''aojiang'' [40140, 27743],
     City ''7548'' '''' ''als'' ''alashan'' [38463, 25289, 21892],
     City ''7549'' '''' ''ld'' ''luding'' [27896, 23450],
     City ''7550'' '''' ''pz'' ''pengzhou'' [24429, 24030],
     City ''7551'' '''' ''sl'' ''shangluo'' [21830, 27931],
     City ''7552'' '''' ''pd'' ''pingding'' [24179, 23450],
     City ''7553'' '''' ''ql'' ''qionglai'' [37019, 23811],
     City ''7554'' '''' ''rs'' ''rushan'' [20083, 23665],
     City ''7557'' '''' ''rd'' ''rudong'' [22914, 19996],
     City ''7558'' '''' ''sm'' ''sanmen'' [19977, 38376],
     City ''7559'' '''' ''hm'' ''haimen'' [28023, 38376],
     City ''7560'' '''' ''ml'' ''miluo'' [27752, 32599],
     City ''7561'' '''' ''my'' ''miyun'' [23494, 20113],
     City ''7562'' '''' ''cp'' ''changping'' [26124, 24179],
     City ''7563'' '''' ''dx'' ''daxing'' [22823, 20852],
     City ''7564'' '''' ''pg'' ''pinggu'' [24179, 35895],
     City ''7565'' '''' ''sjs'' ''shijingshan'' [30707, 26223, 23665],
     City ''7566'' '''' ''hd'' ''haidian'' [28023, 28096]]"

lemma checked_15: "checked 3848 cities_15 = Some 7566"
  unfolding cities_15_def by ((rule checked_rule, simp, simp, simp, simp, simp)+, simp)

lemma length_15: "length cities_15 = 150"
  by (simp only: cities_15_def count_rows)

definition cities_16 :: "city list" where
  "cities_16 =
    [City ''7567'' '''' ''fs'' ''fangshan'' [25151, 23665],
     City ''7568'' '''' ''fp'' ''foping'' [20315, 22378],
     City ''7569'' '''' ''gz'' ''gaizhou'' [30422, 24030],
     City ''7570'' '''' ''TY'' ''Taoyuan(TW)'' [26691, 22253],
     City ''7571'' '''' ''pa'' ''panan'' [30928, 23433],
     City ''7572'' '''' ''hl'' ''helong'' [21644, 40857],
     City ''7575'' '''' ''sh'' ''shehong'' [23556, 27946],
     City ''7576'' '''' ''xlgl'' ''xilinguole'' [38177, 26519, 37101, 21202],
     City ''7577'' '''' ''tc'' ''tianchang'' [22825, 38271],
     City ''7578'' '''' ''xh'' ''xinghua'' [20852, 21270],
     City ''7579'' '''' ''dg'' ''donggang'' [19996, 28207],
     City ''7582'' '''' ''ysx'' ''yushuxian'' [29577, 26641, 21439],
     City ''7586'' '''' ''kh'' ''kaihua'' [24320, 21270],
     City ''7587'' '''' ''wz'' ''wuzhong'' [21556, 24544],
     City ''7588'' '''' ''ts'' ''tongshan'' [38108, 23665],
     City ''7589'' '''' ''hx'' ''haixi'' [28023, 35199],
     City ''7590'' '''' ''cs'' ''changshan'' [24120, 23665],
     City ''7592'' '''' ''nk'' ''Nankang'' [21335, 24247],
     City ''7593'' '''' ''zq'' ''zhangqiu'' [31456, 19992],
     City ''7594'' '''' ''yy'' ''yuanyang'' [20803, 38451],
     City ''7595'' '''' ''zt'' ''zhangtai'' [38271, 27888],
     City ''7596'' '''' ''ff'' ''fufeng'' [25206, 39118],
     City ''7598'' '''' ''mx'' ''meixian'' [26757, 21439],
     City ''7599'' '''' ''tq'' ''tianquan'' [22825, 20840],
     City ''7600'' '''' ''dz'' ''dazhou'' [36798, 27954],
     City ''7604'' '''' ''fy'' ''fenyang'' [27774, 38451],
     City ''7605'' '''' ''zz'' ''zhuozhou'' [28095, 24030],
     City ''7606'' '''' ''wc'' ''wuchuan'' [21556, 24029],
     City ''7607'' '''' ''lp'' ''lipu'' [33620, 28006],
     City ''7613'' '''' ''dl'' ''douliu'' [26007, 20845],
     City ''7614'' '''' ''YL'' ''Yilan'' [23452, 20848],
     City ''7615'' '''' ''mtg'' ''mentougou'' [38376, 22836, 27807],
     City ''7618'' '''' ''hh'' ''honghu'' [27946, 28246],
     City ''7619'' '''' ''rh'' ''renhuai'' [20161, 24576],
     City ''7622'' '''' ''xlxs'' ''xilingxueshan'' [35199, 23725, 38634, 23665],
     City ''7624'' '''' ''sh'' ''sihui'' [22235, 20250],
     City ''7625'' '''' ''gr'' ''guangrao'' [24191, 39286],
     City ''7626'' '''' ''ELHT'' ''erlianhaote'' [20108, 36830, 28009, 29305],
     City ''7629'' '''' ''bt'' ''botou'' [27850, 22836],
     City ''7630'' '''' ''ys'' ''yishui'' [27778, 27700],
     City ''7631'' '''' ''ll'' ''lvliang'' [21525, 26753],
     City ''7632'' '''' ''wg'' ''wugang'' [27494, 20872],
     City ''7637'' '''' ''lc'' ''luanchuan'' [26686, 24029],
     City ''7638'' '''' ''eegn'' ''eerguna'' [39069, 23572, 21476, 32435],
     City ''7639'' '''' ''mc'' ''mengcheng'' [33945, 22478],
     City ''7642'' '''' ''qz'' ''qingzhen'' [28165, 38215],
     City ''7644'' '''' ''hh'' ''huanghua'' [40644, 39557],
     City ''7646'' '''' ''yy'' ''youyang'' [37193, 38451],
     City ''7650'' '''' ''cg'' ''changge'' [38271, 33883],
     City ''7651'' '''' ''nc'' ''ningcheng'' [23425, 22478],
     City ''7652'' '''' ''fs'' ''fengshan'' [20964, 23665],
     City ''7662'' '''' ''XBS'' ''Xinbeishi'' [26032, 21271, 24066],
     City ''7663'' '''' ''dxal'' ''Daxinganling'' [22823, 20852, 23433, 23725],
     City ''7665'' '''' ''sc'' ''suichang'' [36930, 26124],
     City ''7666'' '''' ''cn'' ''cangnan'' [33485, 21335],
     City ''7667'' '''' ''lt'' ''luotian'' [32599, 30000],
     City ''7669'' '''' ''qx'' ''qixia'' [26646, 38686],
     City ''7670'' '''' ''lhs'' ''longhushan'' [40857, 34382, 23665],
     City ''7671'' '''' ''fc'' ''fengcheng'' [20964, 22478],
     City ''7673'' '''' ''yc'' ''yuncheng'' [37075, 22478],
     City ''7674'' '''' ''cd'' ''changdao'' [38271, 23707],
     City ''7675'' '''' ''yn'' ''yinan'' [27778, 21335],
     City ''7678'' '''' ''cz'' ''chongzhou'' [23815, 24030],
     City ''7679'' '''' ''jn'' ''jingning'' [26223, 23425],
     City ''7680'' '''' ''kl'' ''kenli'' [22438, 21033],
     City ''7681'' '''' ''xx'' ''xuexiang'' [38634, 20065],
     City ''7682'' '''' ''lx'' ''luxi'' [27896, 35199],
     City ''7685'' '''' ''djk'' ''danjiangkou'' [20025, 27743, 21475],
     City ''7686'' '''' ''fxh'' ''fuxianhu'' [25242, 20185, 28246],
     City ''7687'' '''' ''gc'' ''gaocheng'' [34241, 22478],
     City ''7688'' '''' ''lt'' ''laoting'' [20048, 20141],
     City ''7692'' '''' ''jh'' ''jinhu'' [37329, 28246],
     City ''7693'' '''' ''ls'' ''lianshui'' [28063, 27700],
     City ''7694'' '''' ''sn'' ''suining'' [30562, 23425],
     City ''7695'' '''' ''xs'' ''xiangshui'' [21709, 27700],
     City ''7696'' '''' ''gc'' ''gaochun'' [39640, 28147],
     City ''7697'' '''' ''ls'' ''lishui'' [28327, 27700],
     City ''7698'' '''' ''bz'' ''beizhen'' [21271, 38215],
     City ''7700'' '''' ''wl'' ''wulian'' [20116, 33714],
     City ''7702'' '''' ''yy'' ''youyu'' [21491, 29577],
     City ''7703'' '''' ''wy'' ''wuyang'' [33310, 38451],
     City ''7707'' '''' ''ln'' ''longnan'' [38471, 21335],
     City ''7708'' '''' ''qj'' ''qianjiang'' [40660, 27743],
     City ''7710'' '''' ''gs'' ''guangshan'' [20809, 23665],
     City ''7711'' '''' ''wa'' ''wengan'' [29934, 23433],
     City ''7712'' '''' ''pl'' ''pingluo'' [24179, 32599],
     City ''7713'' '''' ''hz'' ''huangzhong'' [28255, 20013],
     City ''7714'' '''' ''jn'' ''junan'' [33682, 21335],
     City ''7716'' '''' ''dyx'' ''dayixian'' [22823, 37009],
     City ''7723'' '''' ''sq'' ''shiqian'' [30707, 38433],
     City ''7724'' '''' ''wgs'' ''wugongshan'' [27494, 21151, 23665],
     City ''7727'' '''' ''hl'' ''helan'' [36154, 20848],
     City ''7728'' '''' ''dp'' ''dongping'' [19996, 24179],
     City ''7733'' '''' ''ys'' ''yanshan'' [30416, 23665],
     City ''7736'' '''' ''aq'' ''anqiu'' [23433, 19992],
     City ''7740'' '''' ''xf'' ''xiangfan'' [35140, 27146],
     City ''7744'' '''' ''jy'' ''jianyang'' [31616, 38451],
     City ''7745'' '''' ''jx'' ''jinxiang'' [37329, 20065],
     City ''7746'' '''' ''wx'' ''weixi'' [32500, 35199],
     City ''7748'' '''' ''yjhlq'' ''yijinhuoluoqi'' [20234, 37329, 38669, 27931, 26071],
     City ''7749'' '''' ''dltq'' ''dalateqi'' [36798, 25289, 29305, 26071],
     City ''7751'' '''' ''lx'' ''lixian'' [29702, 21439],
     City ''7752'' '''' ''hd'' ''Haidong'' [28023, 19996],
     City ''7758'' '''' ''zp'' ''zouping'' [37049, 24179],
     City ''7759'' '''' ''hj'' ''hejian'' [27827, 38388],
     City ''7766'' '''' ''yz'' ''Yuzhou'' [31161, 24030],
     City ''7767'' '''' ''sh'' ''Sihong'' [27863, 27946],
     City ''7770'' '''' ''tk'' ''taikang'' [22826, 24247],
     City ''7771'' '''' ''xt'' ''Xintai'' [26032, 27888],
     City ''7772'' '''' ''hj'' ''hejin'' [27827, 27941],
     City ''7773'' '''' ''sj'' ''sanjiang'' [19977, 27743],
     City ''7779'' '''' ''lc'' ''lichuan'' [21033, 24029],
     City ''7782'' '''' ''jmn'' ''Jimunai'' [21513, 26408, 20035],
     City ''7783'' '''' ''ll'' ''Leling'' [20048, 38517],
     City ''7789'' '''' ''yh'' ''Yunhe'' [20113, 21644],
     City ''7791'' '''' ''yl'' ''yiliang'' [23452, 33391],
     City ''7792'' '''' ''WJQ'' ''WuJiaQu'' [20116, 23478, 28192],
     City ''7793'' '''' ''etkq'' ''Etuokeqi'' [37122, 25176, 20811, 26071],
     City ''7794'' '''' ''hnz'' ''hainanzhou'' [28023, 21335, 24030],
     City ''7799'' '''' ''bg'' ''baigou'' [30333, 27807],
     City ''7802'' '''' ''hnzzzzz'' ''huangnanzangzuzizhizhou'' [40644, 21335, 34255, 26063, 33258, 27835, 24030],
     City ''7803'' '''' ''hjs'' ''hongjiangshi'' [27946, 27743, 24066],
     City ''7805'' '''' ''PH'' ''Penghu'' [28558, 28246],
     City ''7806'' '''' ''nyx'' ''ningyangxian'' [23425, 38451, 21439],
     City ''7807'' '''' ''hb'' ''Haibei'' [28023, 21271],
     City ''7808'' '''' ''mz'' ''mazu'' [39532, 31062],
     City ''7809'' '''' ''ML'' ''Miaoli'' [33495, 26647],
     City ''7810'' '''' ''jl'' ''jilong'' [22522, 38534],
     City ''7811'' '''' ''ZH'' ''Zhanghua'' [24432, 21270],
     City ''7814'' '''' ''hd'' ''huadian'' [26726, 30008],
     City ''7823'' '''' ''fkx'' ''fakuxian'' [27861, 24211, 21439],
     City ''7828'' '''' ''ysx'' ''yanshouxian'' [24310, 23551, 21439],
     City ''7829'' '''' ''cx'' ''Chengxian'' [25104, 21439],
     City ''7834'' '''' ''regx'' ''ruoergaixian'' [33509, 23572, 30422, 21439],
     City ''7835'' '''' ''hyx'' ''hongyuanxian'' [32418, 21407, 21439],
     City ''7836'' '''' ''wc'' ''Wencheng'' [25991, 25104],
     City ''7839'' '''' ''qhx'' ''Qihexian'' [40784, 27827],
     City ''7840'' '''' ''gy'' ''guyuan'' [27837, 28304],
     City ''7841'' '''' ''DT'' ''Dongtou'' [27934, 22836],
     City ''7842'' '''' ''CP'' ''Chipingxian'' [33548, 24179],
     City ''7843'' '''' ''EY'' ''Eryuan'' [27953, 28304],
     City ''7844'' '''' ''gn'' ''gannan'' [29976, 21335],
     City ''10252'' '''' ''bt'' ''butuo'' [24067, 25302],
     City ''10253'' '''' ''cl'' ''chongli'' [23815, 31036],
     City ''10254'' '''' ''an'' ''anning'' [23433, 23425],
     City ''10270'' '''' ''YL'' ''Yangling'' [26472, 20940],
     City ''10271'' '''' ''LN'' ''Luoning'' [27931, 23425],
     City ''10272'' '''' ''db'' ''danba'' [20025, 24052],
     City ''10273'' '''' ''JX'' ''Juxian'' [33682, 21439],
     City ''10296'' '''' ''HY'' ''Hongya'' [27946, 38597]]"

lemma checked_16: "checked 7566 cities_16 = Some 10296"
  unfolding cities_16_def by ((rule checked_rule, simp, simp, simp, simp, simp)+, simp)

lemma length_16: "length cities_16 = 150"
  by (simp only: cities_16_def count_rows)

definition cities_17 :: "city list" where
  "cities_17 =
    [City ''10297'' '''' ''CL'' ''Changle'' [26124, 20048],
     City ''10298'' '''' ''MX'' ''Maoxian'' [33538, 21439],
     City ''10299'' '''' ''lz'' ''luzhi'' [29994, 30452],
     City ''19953'' '''' ''PYX'' ''Pingyuanxian'' [24179, 21407],
     City ''19954'' '''' ''QYX'' ''Qingyunxian'' [24198, 20113],
     City ''19955'' '''' ''QY'' ''Qingyuan'' [24198, 20803],
     City ''19956'' '''' ''GTX'' ''Gaotangxian'' [39640, 21776],
     City ''19958'' '''' ''GD'' ''Guide'' [36149, 24503],
     City ''19959'' '''' ''my'' ''mengyin'' [33945, 38452],
     City ''19960'' '''' ''wz'' ''wuzhi '' [27494, 38495, 32],
     City ''20743'' '''' ''WS'' ''Weishan'' [24494, 23665],
     City ''20756'' '''' ''PY'' ''Pingyin'' [24179, 38452],
     City ''20793'' '''' ''CS'' ''Changshun'' [38271, 39034],
     City ''20794'' '''' ''lw'' ''lingwu'' [28789, 27494],
     City ''20801'' '''' ''wp'' ''wuping'' [27494, 24179],
     City ''20805'' '''' ''HT'' ''Huantai'' [26707, 21488],
     City ''20806'' '''' ''LQ'' ''Linqu'' [20020, 26384],
     City ''20807'' '''' ''hs'' ''heshun'' [21644, 39034],
     City ''20808'' '''' ''JX'' ''Jixian'' [21513, 21439],
     City ''20809'' '''' ''LS'' ''Linshu'' [20020, 27821],
     City ''20810'' '''' ''yy'' ''yunyang'' [20113, 38451],
     City ''20811'' '''' ''jcx'' ''jianchuanxian'' [21073, 24029, 21439],
     City ''20812'' '''' ''sx'' ''songxian'' [23913, 21439],
     City ''20813'' '''' ''xy'' ''xiuyan'' [23723, 23721],
     City ''20822'' '''' ''yyx'' ''yueyangxian'' [23731, 38451, 21439],
     City ''20823'' '''' ''nq'' ''ningqiang'' [23425, 24378],
     City ''20824'' '''' ''xh'' ''xinhuang'' [26032, 26179],
     City ''20825'' '''' ''gn'' ''guannan'' [28748, 21335],
     City ''20826'' '''' ''ll'' ''liulin'' [26611, 26519],
     City ''20827'' '''' ''fd'' ''feidong'' [32933, 19996],
     City ''20828'' '''' ''hj'' ''huaiji'' [24576, 38598],
     City ''20829'' '''' ''jd'' ''jingdong'' [26223, 19996],
     City ''20830'' '''' ''sb'' ''subei'' [32899, 21271],
     City ''20831'' '''' ''xy'' ''xinye'' [26032, 37326],
     City ''20832'' '''' ''yw'' ''yiwu'' [20234, 21566],
     City ''20833'' '''' ''yg'' ''yanggu'' [38451, 35895],
     City ''20834'' '''' ''dz'' ''dongzhi'' [19996, 33267],
     City ''20836'' '''' ''CM'' ''chengmai'' [28548, 36808],
     City ''20837'' '''' ''bm'' ''bama'' [24052, 39532],
     City ''20838'' '''' ''dy'' ''dayu'' [22823, 20313],
     City ''20839'' '''' ''sz'' ''shenzha'' [30003, 25166],
     City ''20840'' '''' ''dh'' ''dahua'' [22823, 21270],
     City ''20841'' '''' ''ha'' ''huaian'' [24576, 23433],
     City ''20842'' '''' ''jz'' ''jize'' [40481, 27901],
     City ''20843'' '''' ''sx'' ''shanxian'' [38485, 21439],
     City ''20844'' '''' ''az'' ''anze'' [23433, 27901],
     City ''20845'' '''' ''br'' ''biru'' [27604, 22914],
     City ''20846'' '''' ''HS'' ''huishui'' [24800, 27700],
     City ''20847'' '''' ''jss'' ''jishishan'' [31215, 30707, 23665],
     City ''20848'' '''' ''cn'' ''cuonei'' [38169, 37027],
     City ''20849'' '''' ''yt'' ''yongtai'' [27704, 27888],
     City ''20850'' '''' ''kb'' ''kangbao'' [24247, 20445],
     City ''20851'' '''' ''lx'' ''linxi'' [26519, 35199],
     City ''20852'' '''' ''szwq'' ''siziwangqi'' [22235, 23376, 29579, 26071],
     City ''20853'' '''' ''kd'' ''kuandian'' [23485, 30008],
     City ''20854'' '''' ''px'' ''panxian'' [30424, 21439],
     City ''20855'' '''' ''xz'' ''xiangzhou'' [35937, 24030],
     City ''20856'' '''' ''xw'' ''xingwen'' [20852, 25991],
     City ''20857'' '''' ''gc'' ''guangchang'' [24191, 26124],
     City ''20858'' '''' ''zxbq'' ''zhengxiangbaiqi'' [27491, 38262, 30333, 26071],
     City ''20859'' '''' ''jz'' ''jiangzi'' [27743, 23388],
     City ''20860'' '''' ''rc'' ''rucheng'' [27741, 22478],
     City ''20861'' '''' ''ax'' ''anxian'' [23433, 21439],
     City ''20862'' '''' ''gn'' ''guangnan'' [24191, 21335],
     City ''20863'' '''' ''hn'' ''hengnan'' [34913, 21335],
     City ''20864'' '''' ''nz'' ''nanzheng'' [21335, 37073],
     City ''20865'' '''' ''ml'' ''mulan'' [26408, 20848],
     City ''20866'' '''' ''sx'' ''sixian'' [27863, 21439],
     City ''20867'' '''' ''tq'' ''tuquan'' [31361, 27849],
     City ''20868'' '''' ''LG'' ''lingao'' [20020, 39640],
     City ''20869'' '''' ''jy'' ''jingyu'' [38742, 23431],
     City ''20870'' '''' ''cy'' ''chaya'' [23519, 38597],
     City ''20871'' '''' ''dc'' ''dangchang'' [23445, 26124],
     City ''20872'' '''' ''jd'' ''jingde'' [26060, 24503],
     City ''20873'' '''' ''hc'' ''huachi'' [21326, 27744],
     City ''20874'' '''' ''th'' ''taihe'' [22826, 21644],
     City ''20875'' '''' ''by'' ''boye'' [21338, 37326],
     City ''20876'' '''' ''ga'' ''gongan'' [20844, 23433],
     City ''20877'' '''' ''ky'' ''kaiyang'' [24320, 38451],
     City ''20878'' '''' ''lc'' ''lichuan'' [40654, 24029],
     City ''20879'' '''' ''lf'' ''lufeng'' [31108, 20016],
     City ''20880'' '''' ''yx'' ''yunxi'' [37095, 35199],
     City ''20881'' '''' ''zw'' ''zhangwu'' [38271, 27494],
     City ''20882'' '''' ''sl'' ''shuangliao'' [21452, 36797],
     City ''20883'' '''' ''abgq'' ''abagaqi'' [38463, 24052, 22030, 26071],
     City ''20884'' '''' ''fj'' ''fengjie'' [22857, 33410],
     City ''20885'' '''' ''fl'' ''fuliang'' [28014, 26753],
     City ''20886'' '''' ''ht'' ''huating'' [21326, 20141],
     City ''20887'' '''' ''nj'' ''nanjian'' [21335, 28071],
     City ''20888'' '''' ''wc'' ''wuchuan'' [27494, 24029],
     City ''20889'' '''' ''lb'' ''luobei'' [33821, 21271],
     City ''20890'' '''' ''sx'' ''suixian'' [30562, 21439],
     City ''20891'' '''' ''tlx'' ''tonglingxian'' [38108, 38517, 21439],
     City ''20892'' '''' ''ql'' ''qilian'' [31041, 36830],
     City ''20893'' '''' ''ess'' ''enshishi'' [24681, 26045, 24066],
     City ''20894'' '''' ''gy'' ''guanyang'' [28748, 38451],
     City ''20895'' '''' ''jl'' ''jiaoling'' [34121, 23725],
     City ''20896'' '''' ''LQ'' ''luquan'' [40575, 27849],
     City ''20897'' '''' ''td'' ''tongde'' [21516, 24503],
     City ''20898'' '''' ''hyx'' ''hengyangxian'' [34913, 38451, 21439],
     City ''20899'' '''' ''hz'' ''huize'' [20250, 27901],
     City ''20900'' '''' ''ms'' ''mingshan'' [21517, 23665],
     City ''20901'' '''' ''rn'' ''runan'' [27741, 21335],
     City ''20902'' '''' ''xx'' ''xiaxian'' [22799, 21439],
     City ''20903'' '''' ''yb'' ''yanbian'' [30416, 36793],
     City ''20904'' '''' ''bx'' ''boxiang'' [26575, 20065],
     City ''20905'' '''' ''hs'' ''heshui'' [21512, 27700],
     City ''20906'' '''' ''lp'' ''lipu'' [33620, 33970],
     City ''20907'' '''' ''nh'' ''nanhe'' [21335, 21644],
     City ''20908'' '''' ''qz'' ''quzhou'' [26354, 21608],
     City ''20909'' '''' ''rx'' ''renxian'' [20219, 21439],
     City ''20910'' '''' ''xw'' ''xunwu'' [23547, 20044],
     City ''20911'' '''' ''gl'' ''gongliu'' [24041, 30041],
     City ''20912'' '''' ''nm'' ''nimu'' [23612, 26408],
     City ''20913'' '''' ''rt'' ''rangtang'' [22756, 22616],
     City ''20914'' '''' ''wc'' ''weichang'' [22260, 22330],
     City ''20915'' '''' ''af'' ''anfu'' [23433, 31119],
     City ''20916'' '''' ''bh'' ''binhai'' [28392, 28023],
     City ''20917'' '''' ''dbs'' ''diaobingshan'' [35843, 20853, 23665],
     City ''20918'' '''' ''nj'' ''ningjin'' [23425, 26187],
     City ''20919'' '''' ''cj'' ''chengjiang'' [28548, 27743],
     City ''20920'' '''' ''dr'' ''derong'' [24471, 33635],
     City ''20921'' '''' ''hjhq'' ''hangjinhouqi'' [26477, 38182, 21518, 26071],
     City ''20922'' '''' ''js'' ''jianshi'' [24314, 22987],
     City ''20923'' '''' ''yx'' ''yangxin'' [38451, 20449],
     City ''20924'' '''' ''fx'' ''fengxian'' [20016, 21439],
     City ''20925'' '''' ''sd'' ''shangdou'' [21830, 37117],
     City ''20926'' '''' ''sq'' ''sheqi'' [31038, 26071],
     City ''20927'' '''' ''ws'' ''wanshan'' [19975, 23665],
     City ''20928'' '''' ''lh'' ''luhe'' [38470, 27827],
     City ''20929'' '''' ''lx'' ''luxi'' [28510, 35199],
     City ''20930'' '''' ''fp'' ''fuping'' [23500, 24179],
     City ''20931'' '''' ''ht'' ''hetian'' [21644, 30000],
     City ''20932'' '''' ''qy'' ''qingyang'' [38738, 38451],
     City ''20933'' '''' ''tw'' ''tongwei'' [36890, 28205],
     City ''20934'' '''' ''cw'' ''cangwu'' [33485, 26791],
     City ''20935'' '''' ''hf'' ''hengfeng'' [27178, 23792],
     City ''20936'' '''' ''ny'' ''ningyuan'' [23425, 36828],
     City ''20937'' '''' ''jl'' ''jiangling'' [27743, 38517],
     City ''20938'' '''' ''TC'' ''tancheng'' [37103, 22478],
     City ''20939'' '''' ''rh'' ''renhua'' [20161, 21270],
     City ''20940'' '''' ''qs'' ''qingshen'' [38738, 31070],
     City ''20941'' '''' ''dz'' ''danzhai'' [20025, 23528],
     City ''20942'' '''' ''ln'' ''luonan'' [27931, 21335],
     City ''20943'' '''' ''ale'' ''alaer'' [38463, 25289, 23572],
     City ''20944'' '''' ''sy'' ''shangyou'' [19978, 29369],
     City ''20945'' '''' ''sl'' ''shilou'' [30707, 27004],
     City ''20946'' '''' ''ph'' ''pinghe'' [24179, 21644],
     City ''20947'' '''' ''sl'' ''shuangliu'' [21452, 27969],
     City ''20948'' '''' ''sp'' ''shuangpai'' [21452, 29260]]"

lemma checked_17: "checked 10296 cities_17 = Some 20948"
  unfolding cities_17_def by ((rule checked_rule, simp, simp, simp, simp, simp)+, simp)

lemma length_17: "length cities_17 = 150"
  by (simp only: cities_17_def count_rows)

definition cities_18 :: "city list" where
  "cities_18 =
    [City ''20949'' '''' ''tl'' ''tunliu'' [23663, 30041],
     City ''20950'' '''' ''yx'' ''yuxian'' [30402, 21439],
     City ''20951'' '''' ''gd'' ''guidong'' [26690, 19996],
     City ''20952'' '''' ''jx'' ''jiaxian'' [37071, 21439],
     City ''20953'' '''' ''ls'' ''lingshan'' [28789, 23665],
     City ''20954'' '''' ''ls'' ''lingshou'' [28789, 23551],
     City ''20955'' '''' ''kl'' ''kangle'' [24247, 20048],
     City ''20956'' '''' ''xy'' ''xinyi'' [20449, 23452],
     City ''20957'' '''' ''fx'' ''fanxian'' [33539, 21439],
     City ''20958'' '''' ''HY'' ''huayuan'' [33457, 22435],
     City ''20959'' '''' ''ry'' ''raoyang'' [39286, 38451],
     City ''20960'' '''' ''ym'' ''yuanmou'' [20803, 35851],
     City ''20961'' '''' ''sj'' ''sajia'' [33832, 36838],
     City ''20962'' '''' ''wx'' ''weixian'' [39759, 21439],
     City ''20963'' '''' ''WS'' ''wenshan'' [25991, 23665],
     City ''20964'' '''' ''zq'' ''zhouqu'' [33311, 26354],
     City ''20965'' '''' ''sb'' ''shuangbo'' [21452, 26575],
     City ''20966'' '''' ''zj'' ''zhaojue'' [26157, 35273],
     City ''20967'' '''' ''CN'' ''changning'' [38271, 23425],
     City ''20968'' '''' ''jl'' ''jiangle'' [23558, 20048],
     City ''20969'' '''' ''kx'' ''kangxian'' [24247, 21439],
     City ''20970'' '''' ''lt'' ''lantian'' [34013, 30000],
     City ''20971'' '''' ''lxx'' ''linxiaxian'' [20020, 22799, 21439],
     City ''20972'' '''' ''lt'' ''litang'' [29702, 22616],
     City ''20973'' '''' ''pd'' ''puding'' [26222, 23450],
     City ''20974'' '''' ''lz'' ''lezhi'' [20048, 33267],
     City ''20975'' '''' ''yj'' ''yingjiang'' [30408, 27743],
     City ''20976'' '''' ''dl'' ''duolun'' [22810, 20262],
     City ''20977'' '''' ''ja'' ''jiangan'' [27743, 23433],
     City ''20978'' '''' ''dy'' ''dingyuan'' [23450, 36828],
     City ''20979'' '''' ''kp'' ''kangping'' [24247, 24179],
     City ''20980'' '''' ''xp'' ''xiapu'' [38686, 28006],
     City ''20981'' '''' ''bb'' ''bianba'' [36793, 22365],
     City ''20982'' '''' ''fg'' ''fugou'' [25206, 27807],
     City ''20983'' '''' ''lg'' ''langao'' [23706, 30347],
     City ''20984'' '''' ''gx'' ''guxian'' [21476, 21439],
     City ''20985'' '''' ''jy'' ''jingyang'' [27902, 38451],
     City ''20986'' '''' ''lh'' ''luhuo'' [28809, 38669],
     City ''20987'' '''' ''nl'' ''ningling'' [23425, 38517],
     City ''20988'' '''' ''zd'' ''zaduo'' [26434, 22810],
     City ''20989'' '''' ''yg'' ''yugan'' [20313, 24178],
     City ''20990'' '''' ''JZ'' ''jinzhou'' [26187, 24030],
     City ''20991'' '''' ''lz'' ''lazi'' [25289, 23388],
     City ''20992'' '''' ''td'' ''tiandeng'' [22825, 31561],
     City ''20993'' '''' ''dmq'' ''damaoqi'' [36798, 33538, 26071],
     City ''20994'' '''' ''lx'' ''lanxian'' [23706, 21439],
     City ''20995'' '''' ''cj'' ''congjiang'' [20174, 27743],
     City ''20996'' '''' ''DX'' ''shanxian'' [21333, 21439],
     City ''20997'' '''' ''dm'' ''daming'' [22823, 21517],
     City ''20998'' '''' ''jmse'' ''jimusaer'' [21513, 26408, 33832, 23572],
     City ''20999'' '''' ''jy'' ''jingyan'' [20117, 30740],
     City ''21000'' '''' ''yl'' ''yanling'' [37154, 38517],
     City ''21001'' '''' ''ksktq'' ''keshenketengqi'' [20811, 20160, 20811, 33150, 26071],
     City ''21002'' '''' ''th'' ''taihe'' [27888, 21644],
     City ''21003'' '''' ''cb'' ''chengbu'' [22478, 27493],
     City ''21004'' '''' ''jx'' ''jingxian'' [26223, 21439],
     City ''21005'' '''' ''lj'' ''longjiang'' [40857, 27743],
     City ''21006'' '''' ''lh'' ''longhui'' [38534, 22238],
     City ''21007'' '''' ''wb'' ''wubao'' [21556, 22561],
     City ''21008'' '''' ''xn'' ''xiuning'' [20241, 23425],
     City ''21009'' '''' ''XZ'' ''xinzheng'' [26032, 37073],
     City ''21010'' '''' ''yl'' ''yanling'' [28814, 38517],
     City ''21011'' '''' ''zp'' ''zepu'' [27901, 26222],
     City ''21012'' '''' ''js'' ''jishui'' [21513, 27700],
     City ''21013'' '''' ''jl'' ''julu'' [24040, 40575],
     City ''21014'' '''' ''gh'' ''guanghe'' [24191, 27827],
     City ''21015'' '''' ''cr'' ''chongren'' [23815, 20161],
     City ''21016'' '''' ''kd'' ''kedong'' [20811, 19996],
     City ''21017'' '''' ''sf'' ''shufu'' [30095, 38468],
     City ''21018'' '''' ''jx'' ''jinxiu'' [37329, 31168],
     City ''21019'' '''' ''as'' ''ansai'' [23433, 22622],
     City ''21020'' '''' ''my'' ''miyang'' [27852, 38451],
     City ''21021'' '''' ''xam'' ''xinganmeng'' [20852, 23433, 30431],
     City ''21022'' '''' ''kc'' ''kuancheng'' [23485, 22478],
     City ''21023'' '''' ''qh'' ''qinghe'' [38738, 27827],
     City ''21024'' '''' ''tg'' ''tonggu'' [38108, 40723],
     City ''21025'' '''' ''bs'' ''baisha'' [30333, 27801],
     City ''21026'' '''' ''zzx'' ''zhangzhixian'' [38271, 27835, 21439],
     City ''21027'' '''' ''whx'' ''wuhuxian'' [33436, 28246, 21439],
     City ''21028'' '''' ''cq'' ''cuoqin'' [25514, 21220],
     City ''21029'' '''' ''jc'' ''jinchuan'' [37329, 24029],
     City ''21030'' '''' ''lt'' ''lintan'' [20020, 28525],
     City ''21031'' '''' ''mt'' ''motuo'' [22696, 33073],
     City ''21032'' '''' ''xj'' ''xinjiang'' [26032, 32475],
     City ''21033'' '''' ''ay'' ''anyi'' [23433, 20041],
     City ''21034'' '''' ''cbce'' ''chabuchaer'' [23519, 24067, 26597, 23572],
     City ''21035'' '''' ''hc'' ''huichang'' [20250, 26124],
     City ''21036'' '''' ''ls'' ''linshui'' [37051, 27700],
     City ''21037'' '''' ''db'' ''debao'' [24503, 20445],
     City ''21038'' '''' ''hs'' ''hengshan'' [27178, 23665],
     City ''21039'' '''' ''lz'' ''longzhou'' [40857, 24030],
     City ''21040'' '''' ''xc'' ''xichong'' [35199, 20805],
     City ''21041'' '''' ''yx'' ''yingxian'' [24212, 21439],
     City ''21042'' '''' ''cx'' ''cangxian'' [27815, 21439],
     City ''21043'' '''' ''dl'' ''dongliao'' [19996, 36797],
     City ''21044'' '''' ''KZHQ'' ''kezuohouqi'' [31185, 24038, 21518, 26071],
     City ''21045'' '''' ''gz'' ''guangze'' [20809, 27901],
     City ''21046'' '''' ''zr'' ''zherong'' [26584, 33635],
     City ''21047'' '''' ''jx'' ''jiangxian'' [32475, 21439],
     City ''21048'' '''' ''sf'' ''shuangfeng'' [21452, 23792],
     City ''21049'' '''' ''wc'' ''wucheng'' [27494, 22478],
     City ''21050'' '''' ''yd'' ''yadong'' [20122, 19996],
     City ''21051'' '''' ''aks'' ''akesai'' [38463, 20811, 22622],
     City ''21052'' '''' ''cy'' ''changyang'' [38271, 38451],
     City ''21053'' '''' ''YH'' ''yanhe'' [27839, 27827],
     City ''21054'' '''' ''zn'' ''zhengning'' [27491, 23425],
     City ''21055'' '''' ''hm'' ''huma'' [21628, 29595],
     City ''21056'' '''' ''lx'' ''luxi'' [33446, 28330],
     City ''21057'' '''' ''lb'' ''leibo'' [38647, 27874],
     City ''21058'' '''' ''py'' ''pingyuan'' [24179, 36828],
     City ''21059'' '''' ''rs'' ''rongshui'' [34701, 27700],
     City ''21060'' '''' ''xx'' ''xiongxian'' [38596, 21439],
     City ''21061'' '''' ''HC'' ''hanchuan'' [27721, 24029],
     City ''21062'' '''' ''ta'' ''taian'' [21488, 23433],
     City ''21063'' '''' ''qx'' ''qingxin'' [28165, 26032],
     City ''21064'' '''' ''sn'' ''shouning'' [23551, 23425],
     City ''21065'' '''' ''wk'' ''wangkui'' [26395, 22862],
     City ''21066'' '''' ''hd'' ''hongdong'' [27946, 27934],
     City ''21067'' '''' ''tskeg'' ''tashenkuergan'' [22612, 20160, 24211, 23572, 24178],
     City ''21068'' '''' ''ge'' ''gaer'' [22134, 23572],
     City ''21069'' '''' ''lp'' ''luopu'' [27931, 28006],
     City ''21070'' '''' ''yy'' ''youyi'' [21451, 35850],
     City ''21071'' '''' ''by'' ''binyang'' [23486, 38451],
     City ''21072'' '''' ''qx'' ''qixian'' [28103, 21439],
     City ''21073'' '''' ''sl'' ''shanglin'' [19978, 26519],
     City ''21074'' '''' ''sxx'' ''shaoxingxian'' [32461, 20852, 21439],
     City ''21075'' '''' ''lm'' ''longmen'' [40857, 38376],
     City ''21076'' '''' ''ya'' ''yaoan'' [23002, 23433],
     City ''21077'' '''' ''wy'' ''weiyuan'' [23041, 36828],
     City ''21078'' '''' ''ly'' ''linyi'' [20020, 29463],
     City ''21079'' '''' ''px'' ''pixian'' [37099, 21439],
     City ''21080'' '''' ''rj'' ''rongjiang'' [27029, 27743],
     City ''21081'' '''' ''yj'' ''yinjiang'' [21360, 27743],
     City ''21082'' '''' ''pyx'' ''puyangxian'' [28654, 38451, 21439],
     City ''21083'' '''' ''zz'' ''zhangzi'' [38271, 23376],
     City ''21084'' '''' ''alkeqq'' ''alukeerqinqi'' [38463, 40065, 31185, 23572, 27777, 26071],
     City ''21085'' '''' ''ks'' ''keshan'' [20811, 23665],
     City ''21086'' '''' ''nx'' ''nanxian'' [21335, 21439],
     City ''21087'' '''' ''ss'' ''sansui'' [19977, 31319],
     City ''21088'' '''' ''zx'' ''zixi'' [36164, 28330],
     City ''21089'' '''' ''ls'' ''laishui'' [28062, 27700],
     City ''21090'' '''' ''ha'' ''huaan'' [21326, 23433],
     City ''21091'' '''' ''HLGL'' ''huolinguole'' [38669, 26519, 37101, 21202],
     City ''21092'' '''' ''rx'' ''rongxian'' [33635, 21439],
     City ''21093'' '''' ''xf'' ''xifeng'' [24687, 28925],
     City ''21094'' '''' ''gs'' ''gushi'' [22266, 22987],
     City ''21095'' '''' ''tx'' ''tengxian'' [34276, 21439],
     City ''21096'' '''' ''yj'' ''yajiang'' [38597, 27743],
     City ''21097'' '''' ''yq'' ''yangqu'' [38451, 26354],
     City ''21098'' '''' ''ml'' ''malong'' [39532, 40857]]"

lemma checked_18: "checked 20948 cities_18 = Some 21098"
  unfolding cities_18_def by ((rule checked_rule, simp, simp, simp, simp, simp)+, simp)

lemma length_18: "length cities_18 = 150"
  by (simp only: cities_18_def count_rows)

definition cities_19 :: "city list" where
  "cities_19 =
    [City ''21099'' '''' ''TMTYQ'' ''tumoteyouqi'' [22303, 40664, 29305, 21491, 26071],
     City ''21100'' '''' ''xw'' ''xuwen'' [24464, 38395],
     City ''21101'' '''' ''XH'' ''xunhua'' [24490, 21270],
     City ''21102'' '''' ''fz'' ''fangzheng'' [26041, 27491],
     City ''21103'' '''' ''LL'' ''longling'' [40857, 38517],
     City ''21104'' '''' ''mb'' ''mabian'' [39532, 36793],
     City ''21105'' '''' ''fg'' ''fenggang'' [20964, 20872],
     City ''21106'' '''' ''wc'' ''wangcang'' [26106, 33485],
     City ''21107'' '''' ''sb'' ''songbo'' [26494, 26575],
     City ''21108'' '''' ''hlge'' ''helingeer'' [21644, 26519, 26684, 23572],
     City ''21109'' '''' ''ML'' ''mulei'' [26408, 22418],
     City ''21110'' '''' ''qx'' ''qixian'' [26462, 21439],
     City ''21111'' '''' ''sy'' ''shuyang'' [27821, 38451],
     City ''21112'' '''' ''tj'' ''tongjiang'' [36890, 27743],
     City ''21113'' '''' ''dx'' ''dingxiang'' [23450, 35140],
     City ''21114'' '''' ''ys'' ''yushu'' [29577, 26641],
     City ''21115'' '''' ''jz'' ''jinzhai'' [37329, 23528],
     City ''21116'' '''' ''sd'' ''seda'' [33394, 36798],
     City ''21117'' '''' ''xc'' ''xichou'' [35199, 30068],
     City ''21118'' '''' ''xj'' ''xiji'' [35199, 21513],
     City ''21119'' '''' ''zy'' ''zhongyang'' [20013, 38451],
     City ''21120'' '''' ''bs'' ''basu'' [20843, 23487],
     City ''21121'' '''' ''CH'' ''changhai'' [38271, 28023],
     City ''21122'' '''' ''py'' ''pengyang'' [24429, 38451],
     City ''21123'' '''' ''wz'' ''wanzai'' [19975, 36733],
     City ''21124'' '''' ''yx'' ''yongxin'' [27704, 26032],
     City ''21125'' '''' ''mg'' ''maguan'' [39532, 20851],
     City ''21126'' '''' ''py'' ''pingyu'' [24179, 33286],
     City ''21127'' '''' ''pn'' ''pingnan'' [23631, 21335],
     City ''21128'' '''' ''ty'' ''tongyu'' [36890, 27014],
     City ''21129'' '''' ''zn'' ''zhuoni'' [21331, 23612],
     City ''21130'' '''' ''bygl'' ''bayinguoleng'' [24052, 38899, 37101, 26974],
     City ''21131'' '''' ''bq'' ''baoqing'' [23453, 28165],
     City ''21132'' '''' ''st'' ''songtao'' [26494, 26691],
     City ''21133'' '''' ''xc'' ''xincai'' [26032, 34081],
     City ''21134'' '''' ''fsx'' ''fushunxian'' [25242, 39034, 21439],
     City ''21135'' '''' ''jjx'' ''jiujiangxian'' [20061, 27743, 21439],
     City ''21136'' '''' ''md'' ''maduo'' [29595, 22810],
     City ''21137'' '''' ''dr'' ''dingri'' [23450, 26085],
     City ''21138'' '''' ''JY'' ''juye'' [24040, 37326],
     City ''21139'' '''' ''kyzq'' ''keyouzhongqi'' [31185, 21491, 20013, 26071],
     City ''21140'' '''' ''qs'' ''qianshan'' [28508, 23665],
     City ''21141'' '''' ''WS'' ''weishan'' [24013, 23665],
     City ''21142'' '''' ''jp'' ''jinping'' [37329, 24179],
     City ''21143'' '''' ''wh'' ''weihui'' [21355, 36745],
     City ''21144'' '''' ''fx'' ''feixiang'' [32933, 20065],
     City ''21145'' '''' ''ls'' ''lushan'' [33446, 23665],
     City ''21146'' '''' ''md'' ''mouding'' [29279, 23450],
     City ''21147'' '''' ''tn'' ''tongnan'' [28540, 21335],
     City ''21148'' '''' ''WSQ'' ''wushenqi'' [20044, 23457, 26071],
     City ''21149'' '''' ''zb'' ''zhongba'' [20210, 24052],
     City ''21150'' '''' ''dy'' ''dayao'' [22823, 23002],
     City ''21151'' '''' ''LQ'' ''luqu'' [30860, 26354],
     City ''21152'' '''' ''YX'' ''yuxian'' [34074, 21439],
     City ''21153'' '''' ''yy'' ''yangyuan'' [38451, 21407],
     City ''21154'' '''' ''yn'' ''yongnian'' [27704, 24180],
     City ''21155'' '''' ''zs'' ''zhushan'' [31481, 23665],
     City ''21156'' '''' ''dl'' ''dali'' [22823, 33620],
     City ''21157'' '''' ''lx'' ''lixin'' [21033, 36763],
     City ''21158'' '''' ''ly'' ''linyou'' [40607, 28216],
     City ''21159'' '''' ''xp'' ''xiping'' [35199, 24179],
     City ''21160'' '''' ''cyzq'' ''chayouzhongqi'' [23519, 21491, 20013, 26071],
     City ''21161'' '''' ''np'' ''nanpi'' [21335, 30382],
     City ''21162'' '''' ''yx'' ''yangxi'' [38451, 35199],
     City ''21163'' '''' ''zg'' ''zuogong'' [24038, 36129],
     City ''21164'' '''' ''sc'' ''shangcai'' [19978, 34081],
     City ''21165'' '''' ''em'' ''emin'' [39069, 25935],
     City ''21166'' '''' ''hz'' ''hongze'' [27946, 27901],
     City ''21167'' '''' ''rt'' ''ritu'' [26085, 22303],
     City ''21168'' '''' ''ws'' ''wenshang'' [27766, 19978],
     City ''21169'' '''' ''jd'' ''jiangda'' [27743, 36798],
     City ''21170'' '''' ''jc'' ''jiaocheng'' [20132, 22478],
     City ''21171'' '''' ''sd'' ''sandou'' [19977, 37117],
     City ''21172'' '''' ''zp'' ''zhaoping'' [26157, 24179],
     City ''21173'' '''' ''za'' ''zhengan'' [27491, 23433],
     City ''21174'' '''' ''mf'' ''minfeng'' [27665, 20016],
     City ''21175'' '''' ''qy'' ''qinyuan'' [27777, 28304],
     City ''21176'' '''' ''ar'' ''angren'' [26114, 20161],
     City ''21177'' '''' ''hx'' ''huxian'' [25143, 21439],
     City ''21178'' '''' ''mzgk'' ''mozhugongka'' [22696, 31481, 24037, 21345],
     City ''21179'' '''' ''qn'' ''qiannan'' [40660, 21335],
     City ''21180'' '''' ''CS'' ''cangshan'' [33485, 23665],
     City ''21181'' '''' ''gq'' ''gaoqing'' [39640, 38738],
     City ''21182'' '''' ''yy'' ''yanyuan'' [30416, 28304],
     City ''21183'' '''' ''sz'' ''shizhu'' [30707, 26609],
     City ''21184'' '''' ''wltzq'' ''wulatezhongqi'' [20044, 25289, 29305, 20013, 26071],
     City ''21185'' '''' ''xc'' ''xiangcheng'' [39033, 22478],
     City ''21186'' '''' ''my'' ''muyu'' [26408, 40060],
     City ''21187'' '''' ''cc'' ''chengcheng'' [28548, 22478],
     City ''21188'' '''' ''lc'' ''lingchuan'' [38517, 24029],
     City ''21189'' '''' ''mc'' ''mengcun'' [23391, 26449],
     City ''21190'' '''' ''zx'' ''zhongxian'' [24544, 21439],
     City ''21191'' '''' ''dl'' ''danleng'' [20025, 26865],
     City ''21192'' '''' ''jn'' ''jinning'' [26187, 23425],
     City ''21193'' '''' ''sn'' ''sinan'' [24605, 21335],
     City ''21194'' '''' ''ZM'' ''zhongmou'' [20013, 29279],
     City ''21195'' '''' ''jx'' ''jixian'' [38598, 36132],
     City ''21196'' '''' ''yc'' ''yongchang'' [27704, 26124],
     City ''21197'' '''' ''zz'' ''zhuozi'' [21331, 36164],
     City ''21198'' '''' ''dk'' ''dengkou'' [30964, 21475],
     City ''21199'' '''' ''QX'' ''qianxi'' [40660, 35199],
     City ''21200'' '''' ''xbehzq'' ''xinbaerhuzuoqi'' [26032, 24052, 23572, 34382, 24038, 26071],
     City ''21201'' '''' ''fg'' ''fugu'' [24220, 35895],
     City ''21202'' '''' ''bx'' ''baoxing'' [23453, 20852],
     City ''21203'' '''' ''xs'' ''xishui'' [20064, 27700],
     City ''21204'' '''' ''xs'' ''xinshao'' [26032, 37045],
     City ''21205'' '''' ''xf'' ''xinfeng'' [26032, 20016],
     City ''21206'' '''' ''XS'' ''xiushui'' [20462, 27700],
     City ''21207'' '''' ''jx'' ''junxian'' [27994, 21439],
     City ''21208'' '''' ''ml'' ''mengla'' [21200, 33098],
     City ''21209'' '''' ''tz'' ''tianzhen'' [22825, 38215],
     City ''21210'' '''' ''wt'' ''wutai'' [20116, 21488],
     City ''21211'' '''' ''fx'' ''fengxin'' [22857, 26032],
     City ''21212'' '''' ''hz'' ''huozhou'' [38669, 24030],
     City ''21213'' '''' ''hj'' ''hejiang'' [21512, 27743],
     City ''21214'' '''' ''lc'' ''luancheng'' [26686, 22478],
     City ''21215'' '''' ''dw'' ''dawu'' [22823, 24735],
     City ''21216'' '''' ''sx'' ''shixing'' [22987, 20852],
     City ''21217'' '''' ''hd'' ''hengdong'' [34913, 19996],
     City ''21218'' '''' ''ld'' ''ludian'' [40065, 30008],
     City ''21219'' '''' ''lx'' ''linxiang'' [20020, 28248],
     City ''21220'' '''' ''qj'' ''qiaojia'' [24039, 23478],
     City ''21221'' '''' ''yf'' ''yongfeng'' [27704, 20016],
     City ''21222'' '''' ''nd'' ''naidong'' [20035, 19996],
     City ''21223'' '''' ''pc'' ''pucheng'' [28006, 22478],
     City ''21224'' '''' ''ZY'' ''zhanyi'' [27838, 30410],
     City ''21225'' '''' ''jz'' ''jiuzhi'' [20037, 27835],
     City ''21226'' '''' ''nh'' ''neihuang'' [20869, 40644],
     City ''21227'' '''' ''yc'' ''yichuan'' [23452, 24029],
     City ''21228'' '''' ''cg'' ''chenggong'' [21576, 36129],
     City ''21229'' '''' ''jx'' ''jinxi'' [37329, 28330],
     City ''21230'' '''' ''fn'' ''funing'' [38428, 23425],
     City ''21231'' '''' ''jh'' ''jianhe'' [21073, 27827],
     City ''21232'' '''' ''ws'' ''wusheng'' [27494, 32988],
     City ''21233'' '''' ''df'' ''dongfeng'' [19996, 20016],
     City ''21234'' '''' ''lh'' ''linghai'' [20940, 28023],
     City ''21235'' '''' ''nmq'' ''naimanqi'' [22856, 26364, 26071],
     City ''21236'' '''' ''zp'' ''zhenping'' [38215, 24179],
     City ''21237'' '''' ''lyx'' ''liaoyangxian'' [36797, 38451, 21439],
     City ''21238'' '''' ''cy'' ''chongyi'' [23815, 20041],
     City ''21239'' '''' ''wn'' ''wuning'' [27494, 23425],
     City ''21240'' '''' ''yy'' ''yuanyang'' [21407, 38451],
     City ''21241'' '''' ''zyx'' ''zunyixian'' [36981, 20041, 21439],
     City ''21242'' '''' ''zy'' ''zhaoyuan'' [32903, 28304],
     City ''21243'' '''' ''qs'' ''qianshan'' [38085, 23665],
     City ''21244'' '''' ''th'' ''tonghai'' [36890, 28023],
     City ''21245'' '''' ''yc'' ''yicheng'' [23452, 22478],
     City ''21246'' '''' ''fg'' ''fugong'' [31119, 36129],
     City ''21247'' '''' ''sq'' ''shiqu'' [30707, 28192],
     City ''21248'' '''' ''yt'' ''yanting'' [30416, 20141]]"

lemma checked_19: "checked 21098 cities_19 = Some 21248"
  unfolding cities_19_def by ((rule checked_rule, simp, simp, simp, simp, simp)+, simp)

lemma length_19: "length cities_19 = 150"
  by (simp only: cities_19_def count_rows)

definition cities_20 :: "city list" where
  "cities_20 =
    [City ''21249'' '''' ''FK'' ''fukang'' [38428, 24247],
     City ''21250'' '''' ''jl'' ''junlian'' [31584, 36830],
     City ''21251'' '''' ''mt'' ''meitan'' [28228, 28525],
     City ''21252'' '''' ''yx'' ''yunxian'' [20113, 21439],
     City ''21253'' '''' ''zq'' ''zaoqiang'' [26531, 24378],
     City ''21255'' '''' ''hf'' ''haifeng'' [28023, 20016],
     City ''21256'' '''' ''hx'' ''hengxian'' [27178, 21439],
     City ''21257'' '''' ''mx'' ''minxian'' [23735, 21439],
     City ''21258'' '''' ''tx'' ''tangxian'' [21776, 21439],
     City ''21259'' '''' ''wl'' ''wulong'' [27494, 38534],
     City ''21260'' '''' ''xy'' ''xiyang'' [26132, 38451],
     City ''21261'' '''' ''SY'' ''shayang'' [27801, 27915],
     City ''21262'' '''' ''hhx'' ''honghexian'' [32418, 27827, 21439],
     City ''21263'' '''' ''zz'' ''zhaozhou'' [32903, 24030],
     City ''21264'' '''' ''cn'' ''changning'' [26124, 23425],
     City ''21265'' '''' ''lc'' ''liangcheng'' [20937, 22478],
     City ''21266'' '''' ''jc'' ''jiangcheng'' [27743, 22478],
     City ''21267'' '''' ''md'' ''midu'' [24357, 28193],
     City ''21268'' '''' ''dl'' ''dali'' [22823, 29702],
     City ''21269'' '''' ''alszq'' ''alashanzuoqi'' [38463, 25289, 21892, 24038, 26071],
     City ''21270'' '''' ''lp'' ''lanping'' [20848, 22378],
     City ''21271'' '''' ''lt'' ''lingtai'' [28789, 21488],
     City ''21272'' '''' ''HL'' ''Huili'' [20250, 29702],
     City ''21273'' '''' ''hy'' ''heyang'' [21512, 38451],
     City ''21274'' '''' ''yx'' ''youxian'' [25912, 21439],
     City ''21275'' '''' ''yq'' ''yongqing'' [27704, 28165],
     City ''21276'' '''' ''la'' ''lean'' [20048, 23433],
     City ''21277'' '''' ''sc'' ''shicheng'' [30707, 22478],
     City ''21278'' '''' ''ya'' ''yunan'' [20113, 23433],
     City ''21279'' '''' ''zq'' ''zuoquan'' [24038, 26435],
     City ''21280'' '''' ''dz'' ''daozhen'' [36947, 30495],
     City ''21281'' '''' ''hx'' ''huanxian'' [29615, 21439],
     City ''21282'' '''' ''nl'' ''nanle'' [21335, 20048],
     City ''21283'' '''' ''xx'' ''xixia'' [35199, 23777],
     City ''21284'' '''' ''zltq'' ''zhalaiteqi'' [25166, 36169, 29305, 26071],
     City ''21285'' '''' ''lkz'' ''langkazi'' [28010, 21345, 23376],
     City ''21286'' '''' ''ls'' ''leishan'' [38647, 23665],
     City ''21287'' '''' ''xr'' ''xingren'' [20852, 20161],
     City ''21288'' '''' ''akt'' ''aketao'' [38463, 20811, 38518],
     City ''21289'' '''' ''gz'' ''gaize'' [25913, 21017],
     City ''21290'' '''' ''zd'' ''zhada'' [26413, 36798],
     City ''21291'' '''' ''CN'' ''changning'' [24120, 23425],
     City ''21292'' '''' ''xd'' ''xide'' [21916, 24503],
     City ''21293'' '''' ''jw'' ''jianwei'' [29325, 20026],
     City ''21294'' '''' ''pl'' ''pingle'' [24179, 20048],
     City ''21295'' '''' ''srx'' ''shangraoxian'' [19978, 39286, 21439],
     City ''21296'' '''' ''cx'' ''cenxi'' [23697, 28330],
     City ''21297'' '''' ''ly'' ''luyi'' [40575, 37009],
     City ''21298'' '''' ''rc'' ''ruicheng'' [33454, 22478],
     City ''21299'' '''' ''xs'' ''xiushan'' [31168, 23665],
     City ''21300'' '''' ''cyhq'' ''chayouhouqi'' [23519, 21491, 21518, 26071],
     City ''21301'' '''' ''nb'' ''nanbu'' [21335, 37096],
     City ''21302'' '''' ''bxx'' ''benxixian'' [26412, 28330, 21439],
     City ''21303'' '''' ''dj'' ''dejiang'' [24503, 27743],
     City ''21304'' '''' ''gc'' ''gongcheng'' [24685, 22478],
     City ''21305'' '''' ''xj'' ''xinjin'' [26032, 27941],
     City ''21306'' '''' ''gx'' ''gaoxian'' [39640, 21439],
     City ''21307'' '''' ''gp'' ''guangping'' [24191, 24179],
     City ''21308'' '''' ''hq'' ''huoqiu'' [38669, 37041],
     City ''21309'' '''' ''ld'' ''longde'' [38534, 24503],
     City ''21310'' '''' ''bl'' ''bailang'' [30333, 26391],
     City ''21311'' '''' ''mldwq'' ''molidawaqi'' [33707, 21147, 36798, 29926, 26071],
     City ''21312'' '''' ''YX'' ''yixian'' [26131, 21439],
     City ''21313'' '''' ''zx'' ''zhenxiong'' [38215, 38596],
     City ''21314'' '''' ''gnx'' ''gannanxian'' [29976, 21335, 21439],
     City ''21315'' '''' ''dq'' ''dingqing'' [19969, 38738],
     City ''21316'' '''' ''ps'' ''pengshui'' [24429, 27700],
     City ''21317'' '''' ''hn'' ''huining'' [20250, 23425],
     City ''21318'' '''' ''nx'' ''ningxian'' [23425, 21439],
     City ''21319'' '''' ''yx'' ''yunxiao'' [20113, 38660],
     City ''21320'' '''' ''qf'' ''qingfeng'' [28165, 20016],
     City ''21321'' '''' ''cl'' ''cele'' [31574, 21202],
     City ''21322'' '''' ''wq'' ''wuqiang'' [27494, 24378],
     City ''21323'' '''' ''sn'' ''sunan'' [32899, 21335],
     City ''21324'' '''' ''zl'' ''zhuanglang'' [24196, 28010],
     City ''21325'' '''' ''dz'' ''dazi'' [36798, 23388],
     City ''21326'' '''' ''fs'' ''fushan'' [28014, 23665],
     City ''21327'' '''' ''jh'' ''jiahe'' [22025, 31166],
     City ''21328'' '''' ''pl'' ''pingli'' [24179, 21033],
     City ''21329'' '''' ''pg'' ''puge'' [26222, 26684],
     City ''21330'' '''' ''qx'' ''qianxi'' [36801, 35199],
     City ''21331'' '''' ''ly'' ''linyi'' [20020, 37009],
     City ''21332'' '''' ''nd'' ''ningdou'' [23425, 37117],
     City ''21333'' '''' ''sp'' ''shunping'' [39034, 24179],
     City ''21334'' '''' ''mj'' ''mojiang'' [22696, 27743],
     City ''21335'' '''' ''ws'' ''wensu'' [28201, 23487],
     City ''21336'' '''' ''HS'' ''heshuo'' [21644, 30805],
     City ''21337'' '''' ''xj'' ''xinjian'' [26032, 24314],
     City ''21338'' '''' ''ZH'' ''zhanhua'' [27838, 21270],
     City ''21339'' '''' ''ejnq'' ''ejinaqi'' [39069, 27982, 32435, 26071],
     City ''21340'' '''' ''nx'' ''nanxi'' [21335, 28330],
     City ''21341'' '''' ''sntzq'' ''sunitezuoqi'' [33487, 23612, 29305, 24038, 26071],
     City ''21342'' '''' ''tkx'' ''tuokexun'' [25176, 20811, 36874],
     City ''21343'' '''' ''GX'' ''guanxian'' [20896, 21439],
     City ''21344'' '''' ''xm'' ''ximeng'' [35199, 30431],
     City ''21345'' '''' ''ys'' ''yongshan'' [27704, 21892],
     City ''21346'' '''' ''nn'' ''ningnan'' [23425, 21335],
     City ''21347'' '''' ''wy'' ''wengyuan'' [32705, 28304],
     City ''21348'' '''' ''xl'' ''xinlong'' [26032, 40857],
     City ''21349'' '''' ''fx'' ''fangxian'' [25151, 21439],
     City ''21350'' '''' ''gbjd'' ''gongbujiangda'' [24037, 24067, 27743, 36798],
     City ''21351'' '''' ''XX'' ''shenxian'' [33688, 21439],
     City ''21352'' '''' ''dn'' ''daning'' [22823, 23425],
     City ''21353'' '''' ''hbkse'' ''hebukesaier'' [21644, 24067, 20811, 36187, 23572],
     City ''21354'' '''' ''hc'' ''huocheng'' [38669, 22478],
     City ''21355'' '''' ''cdx'' ''changdouxian'' [26124, 37117, 21439],
     City ''21356'' '''' ''ss'' ''shangsi'' [19978, 24605],
     City ''21357'' '''' ''yj'' ''yuanjiang'' [20803, 27743],
     City ''21358'' '''' ''ks'' ''kashen'' [21888, 20160],
     City ''21359'' '''' ''gz'' ''guangzong'' [24191, 23447],
     City ''21360'' '''' ''yl'' ''yulong'' [29577, 40857],
     City ''21361'' '''' ''ws'' ''wushen'' [20044, 20160],
     City ''21362'' '''' ''kp'' ''keping'' [26607, 22378],
     City ''21363'' '''' ''ll'' ''luolong'' [27931, 38534],
     City ''21364'' '''' ''lx'' ''lingxian'' [38517, 21439],
     City ''21365'' '''' ''sx'' ''songxi'' [26494, 28330],
     City ''21366'' '''' ''df'' ''daofu'' [36947, 23386],
     City ''21367'' '''' ''lb'' ''liuba'' [30041, 22365],
     City ''21368'' '''' ''ml'' ''milin'' [31859, 26519],
     City ''21369'' '''' ''ha'' ''hongan'' [32418, 23433],
     City ''21370'' '''' ''lz'' ''longzi'' [38534, 23376],
     City ''21371'' '''' ''sy'' ''shanyin'' [23665, 38452],
     City ''21372'' '''' ''yj'' ''yingjing'' [33637, 32463],
     City ''21373'' '''' ''zlq'' ''zhenglanqi'' [27491, 34013, 26071],
     City ''21374'' '''' ''by'' ''bayan'' [24052, 24422],
     City ''21375'' '''' ''fg'' ''fogang'' [20315, 20872],
     City ''21376'' '''' ''hy'' ''haiyuan'' [28023, 21407],
     City ''21377'' '''' ''lf'' ''loufan'' [23044, 28902],
     City ''21378'' '''' ''wy'' ''weiyuan'' [28205, 28304],
     City ''21379'' '''' ''akss'' ''akesushi'' [38463, 20811, 33487, 24066],
     City ''21380'' '''' ''sx'' ''shouxian'' [23551, 21439],
     City ''21381'' '''' ''yd'' ''yongde'' [27704, 24503],
     City ''21382'' '''' ''qy'' ''qiyang'' [31041, 38451],
     City ''21383'' '''' ''yj'' ''yuanjiang'' [27781, 27743],
     City ''21384'' '''' ''cyx'' ''chaoyangxian'' [26397, 38451, 21439],
     City ''21385'' '''' ''fx'' ''feixian'' [36153, 21439],
     City ''21386'' '''' ''fs'' ''fushun'' [23500, 39034],
     City ''21387'' '''' ''tl'' ''tongliang'' [38108, 26753],
     City ''21388'' '''' ''zy'' ''zhengyang'' [27491, 38451],
     City ''21389'' '''' ''hn'' ''henan'' [27827, 21335],
     City ''21390'' '''' ''bj'' ''baojing'' [20445, 38742],
     City ''21391'' '''' ''hjq'' ''hangjinqi'' [26477, 38182, 26071],
     City ''21392'' '''' ''db'' ''dianbai'' [30005, 30333],
     City ''21393'' '''' ''xj'' ''xiajiang'' [23777, 27743],
     City ''21394'' '''' ''zd'' ''zhidan'' [24535, 20025],
     City ''21395'' '''' ''hm'' ''hami'' [21704, 23494],
     City ''21396'' '''' ''dr'' ''dari'' [36798, 26085],
     City ''21397'' '''' ''hg'' ''huguan'' [22774, 20851],
     City ''21398'' '''' ''sl'' ''shangli'' [19978, 26647],
     City ''21399'' '''' ''jc'' ''juancheng'' [37124, 22478]]"

lemma checked_20: "checked 21248 cities_20 = Some 21399"
  unfolding cities_20_def by ((rule checked_rule, simp, simp, simp, simp, simp)+, simp)

lemma length_20: "length cities_20 = 150"
  by (simp only: cities_20_def count_rows)

end
