(* ===== verification/CityRows4.thy ===== *)
theory CityRows4
  imports City
begin

text \<open>
  \<open>docs/citycode/json.js\<close>, lines 3153 to 3782: the rows of \<open>citylist\<close>, in groups, and the check of
  each group.
\<close>

definition cities_21 :: "city list" where
  "cities_21 =
    [City ''21400'' '''' ''yl'' ''yuanling'' [27781, 38517],
     City ''21401'' '''' ''ad'' ''anduo'' [23433, 22810],
     City ''21402'' '''' ''ahq'' ''aohanqi'' [25942, 27721, 26071],
     City ''21403'' '''' ''bq'' ''baqing'' [24052, 38738],
     City ''21404'' '''' ''gy'' ''ganyu'' [36195, 27014],
     City ''21405'' '''' ''ry'' ''ruyuan'' [20083, 28304],
     City ''21406'' '''' ''dwq'' ''dongwuqi'' [19996, 20044, 26071],
     City ''21407'' '''' ''xp'' ''xinping'' [26032, 24179],
     City ''21408'' '''' ''jk'' ''jiangkou'' [27743, 21475],
     City ''21409'' '''' ''st'' ''shitai'' [30707, 21488],
     City ''21410'' '''' ''GY'' ''guoyang'' [28065, 38451],
     City ''21411'' '''' ''zz'' ''zhouzhi'' [21608, 33267],
     City ''21412'' '''' ''yl'' ''yaoli'' [29814, 37324],
     City ''21413'' '''' ''xn'' ''xiangning'' [20065, 23425],
     City ''21414'' '''' ''qy'' ''qingyuan'' [28165, 33489],
     City ''21415'' '''' ''wltqq'' ''wulateqianqi'' [20044, 25289, 29305, 21069, 26071],
     City ''21416'' '''' ''nj'' ''nanjing'' [21335, 38742],
     City ''21417'' '''' ''jx'' ''jingxi'' [38742, 35199],
     City ''21418'' '''' ''nj'' ''ningjin'' [23425, 27941],
     City ''21419'' '''' ''xh'' ''xinghai'' [20852, 28023],
     City ''21420'' '''' ''jy'' ''jiayin'' [22025, 33643],
     City ''21421'' '''' ''zsx'' ''zhangshaxian'' [38271, 27801, 21439],
     City ''21422'' '''' ''ybx'' ''yibinxian'' [23452, 23486, 21439],
     City ''21423'' '''' ''jn'' ''jingning'' [38745, 23425],
     City ''21424'' '''' ''dtx'' ''datongxian'' [22823, 21516, 21439],
     City ''21425'' '''' ''wq'' ''wanquan'' [19975, 20840],
     City ''21426'' '''' ''wz'' ''wuzhai'' [20116, 23528],
     City ''21427'' '''' ''yy'' ''yiyang'' [23452, 38451],
     City ''21428'' '''' ''xx'' ''xiaoxian'' [33831, 21439],
     City ''21429'' '''' ''yx'' ''yongxing'' [27704, 20852],
     City ''21430'' '''' ''hy'' ''huaiyang'' [28142, 38451],
     City ''21431'' '''' ''ZG'' ''zigui'' [31213, 24402],
     City ''21432'' '''' ''etkqq'' ''etuokeqianqi'' [37122, 25176, 20811, 21069, 26071],
     City ''21433'' '''' ''yz'' ''yizhang'' [23452, 31456],
     City ''21434'' '''' ''lb'' ''lingbi'' [28789, 29863],
     City ''21435'' '''' ''qa'' ''qinan'' [31206, 23433],
     City ''21436'' '''' ''zj'' ''zhijin'' [32455, 37329],
     City ''21437'' '''' ''gy'' ''guanyun'' [28748, 20113],
     City ''21438'' '''' ''jd'' ''jiedong'' [25581, 19996],
     City ''21439'' '''' ''mgt'' ''maigaiti'' [40614, 30422, 25552],
     City ''21440'' '''' ''nh'' ''nanhua'' [21335, 21326],
     City ''21441'' '''' ''rb'' ''renbu'' [20161, 24067],
     City ''21442'' '''' ''SS'' ''shishou'' [30707, 39318],
     City ''21443'' '''' ''wd'' ''wuding'' [27494, 23450],
     City ''21444'' '''' ''xy'' ''xunyi'' [26092, 37009],
     City ''21445'' '''' ''bk'' ''baokang'' [20445, 24247],
     City ''21446'' '''' ''hp'' ''huaping'' [21326, 22378],
     City ''21447'' '''' ''wx'' ''wenxian'' [25991, 21439],
     City ''21448'' '''' ''gt'' ''guantao'' [39302, 38518],
     City ''21449'' '''' ''ws'' ''wenshui'' [25991, 27700],
     City ''21450'' '''' ''lw'' ''linwu'' [20020, 27494],
     City ''21451'' '''' ''ty'' ''taoyuan'' [26691, 28304],
     City ''21452'' '''' ''yc'' ''yongchun'' [27704, 26149],
     City ''21453'' '''' ''yx'' ''yuexi'' [36234, 35199],
     City ''21454'' '''' ''zjc'' ''zhangjiachuan'' [24352, 23478, 24029],
     City ''21455'' '''' ''yj'' ''yujiang'' [20313, 27743],
     City ''21456'' '''' ''ps'' ''panshan'' [30424, 23665],
     City ''21457'' '''' ''fx'' ''fenxi'' [27774, 35199],
     City ''21458'' '''' ''JJ'' ''jiajiang'' [22841, 27743],
     City ''21459'' '''' ''lx'' ''luxi'' [27896, 28330],
     City ''21460'' '''' ''mx'' ''mingxi'' [26126, 28330],
     City ''21461'' '''' ''zs'' ''zhaosu'' [26157, 33487],
     City ''21462'' '''' ''ar'' ''anren'' [23433, 20161],
     City ''21463'' '''' ''dc'' ''douchang'' [37117, 26124],
     City ''21464'' '''' ''fs'' ''fusong'' [25242, 26494],
     City ''21465'' '''' ''gqc'' ''gongqingcheng'' [20849, 38738, 22478],
     City ''21466'' '''' ''js'' ''jinshi'' [27941, 24066],
     City ''21467'' '''' ''lx'' ''linxian'' [20020, 21439],
     City ''21468'' '''' ''betl'' ''boertala'' [21338, 23572, 22612, 25289],
     City ''21469'' '''' ''ba'' ''boai'' [21338, 29233],
     City ''21470'' '''' ''gf'' ''guangfeng'' [24191, 20016],
     City ''21471'' '''' ''ly'' ''lingyun'' [20940, 20113],
     City ''21472'' '''' ''ws'' ''wushan'' [24043, 23665],
     City ''21473'' '''' ''yx'' ''yuexi'' [23731, 35199],
     City ''21474'' '''' ''mh'' ''menghai'' [21200, 28023],
     City ''21475'' '''' ''hr'' ''huarong'' [21326, 23481],
     City ''21476'' '''' ''jy'' ''jinyang'' [37329, 38451],
     City ''21477'' '''' ''gn'' ''guinan'' [36149, 21335],
     City ''21478'' '''' ''jy'' ''jingyuan'' [27902, 28304],
     City ''21479'' '''' ''lc'' ''liucheng'' [26611, 22478],
     City ''21480'' '''' ''pb'' ''pingba'' [24179, 22365],
     City ''21481'' '''' ''ny'' ''nayong'' [32435, 38605],
     City ''21482'' '''' ''kzls'' ''kezilesu'' [20811, 23388, 21202, 33487],
     City ''21483'' '''' ''wq'' ''wuqi'' [21556, 36215],
     City ''21484'' '''' ''yx'' ''yunxian'' [37095, 21439],
     City ''21485'' '''' ''zh'' ''zanhuang'' [36190, 30343],
     City ''21486'' '''' ''DB'' ''dingbian'' [23450, 36793],
     City ''21487'' '''' ''lx'' ''lanxi'' [20848, 35199],
     City ''21488'' '''' ''fx'' ''feixi'' [32933, 35199],
     City ''21489'' '''' ''JZ'' ''jizhou'' [20864, 24030],
     City ''21490'' '''' ''wa'' ''wenan'' [25991, 23433],
     City ''21491'' '''' ''dc'' ''dancheng'' [37112, 22478],
     City ''21492'' '''' ''ps'' ''pingshan'' [23631, 23665],
     City ''21493'' '''' ''hj'' ''huanjiang'' [29615, 27743],
     City ''21494'' '''' ''jp'' ''jianping'' [24314, 24179],
     City ''21495'' '''' ''cd'' ''chengduo'' [31216, 22810],
     City ''21496'' '''' ''ql'' ''qinglong'' [26228, 38534],
     City ''21497'' '''' ''fc'' ''fucheng'' [38428, 22478],
     City ''21498'' '''' ''nm'' ''nima'' [23612, 29595],
     City ''21499'' '''' ''zn'' ''zhenning'' [38215, 23425],
     City ''21500'' '''' ''yf'' ''yifeng'' [23452, 20016],
     City ''21501'' '''' ''ft'' ''fengtai'' [20964, 21488],
     City ''21502'' '''' ''hk'' ''hukou'' [28246, 21475],
     City ''21503'' '''' ''sc'' ''shenchi'' [31070, 27744],
     City ''21504'' '''' ''tx'' ''tongxu'' [36890, 35768],
     City ''21505'' '''' ''xc'' ''xiaochang'' [23389, 26124],
     City ''21506'' '''' ''xc'' ''xiangcheng'' [35140, 22478],
     City ''21507'' '''' ''js'' ''jieshou'' [30028, 39318],
     City ''21508'' '''' ''ys'' ''yongshun'' [27704, 39034],
     City ''21509'' '''' ''lj'' ''lianjiang'' [36830, 27743],
     City ''21510'' '''' ''yt'' ''yutai'' [40060, 21488],
     City ''21511'' '''' ''qx'' ''qixian'' [31041, 21439],
     City ''21512'' '''' ''cy'' ''chongyang'' [23815, 38451],
     City ''21513'' '''' ''yc'' ''yicheng'' [32764, 22478],
     City ''21514'' '''' ''bs'' ''bishan'' [29863, 23665],
     City ''21515'' '''' ''sh'' ''shanghe'' [21830, 27827],
     City ''21516'' '''' ''za'' ''zhaoan'' [35791, 23433],
     City ''21517'' '''' ''hdx'' ''handanxian'' [37039, 37112, 21439],
     City ''21518'' '''' ''gg'' ''gongga'' [36129, 22030],
     City ''21519'' '''' ''np'' ''neipo'' [37027, 22369],
     City ''21520'' '''' ''hc'' ''huachuan'' [26726, 24029],
     City ''21521'' '''' ''lj'' ''longjing'' [40857, 20117],
     City ''21522'' '''' ''yq'' ''yuanqu'' [22435, 26354],
     City ''21523'' '''' ''kzzq'' ''kezuozhongqi'' [31185, 24038, 20013, 26071],
     City ''21524'' '''' ''lq'' ''linquan'' [20020, 27849],
     City ''21525'' '''' ''lc'' ''longchuan'' [38471, 24029],
     City ''21526'' '''' ''ls'' ''luoshan'' [32599, 23665],
     City ''21527'' '''' ''qt'' ''qitai'' [22855, 21488],
     City ''21528'' '''' ''sm'' ''songming'' [23913, 26126],
     City ''21529'' '''' ''wh'' ''wuhe'' [20116, 27827],
     City ''21530'' '''' ''hq'' ''heqing'' [40548, 24198],
     City ''21531'' '''' ''hs'' ''huoshan'' [38669, 23665],
     City ''21532'' '''' ''jy'' ''jiayu'' [22025, 40060],
     City ''21533'' '''' ''lwq'' ''leiwuqi'' [31867, 20044, 40784],
     City ''21534'' '''' ''zy'' ''zhenyuan'' [38215, 20803],
     City ''21535'' '''' ''hx'' ''huixian'' [24509, 21439],
     City ''21536'' '''' ''km'' ''kangma'' [24247, 39532],
     City ''21537'' '''' ''klq'' ''kulunqi'' [24211, 20262, 26071],
     City ''21538'' '''' ''sx'' ''suoxian'' [32034, 21439],
     City ''21539'' '''' ''wm'' ''wangmo'' [26395, 35871],
     City ''21540'' '''' ''yjs'' ''yingjisha'' [33521, 21513, 27801],
     City ''21541'' '''' ''ln'' ''liannan'' [36830, 21335],
     City ''21542'' '''' ''yd'' ''yudou'' [20110, 37117],
     City ''21543'' '''' ''yz'' ''yuzhong'' [27014, 20013],
     City ''21544'' '''' ''gx'' ''gongxian'' [29657, 21439],
     City ''21545'' '''' ''yx'' ''yexian'' [21494, 21439],
     City ''21546'' '''' ''gs'' ''gongshan'' [36129, 23665],
     City ''21547'' '''' ''lj'' ''lianjiang'' [24265, 27743],
     City ''21548'' '''' ''ly'' ''linying'' [20020, 39053],
     City ''21549'' '''' ''sg'' ''saga'' [33832, 22030]]"

lemma checked_21: "checked 21399 cities_21 = Some 21549"
  unfolding cities_21_def by ((rule checked_rule, simp, simp, simp, simp, simp)+, simp)

lemma length_21: "length cities_21 = 150"
  by (simp only: cities_21_def count_rows)

definition cities_22 :: "city list" where
  "cities_22 =
    [City ''21550'' '''' ''lp'' ''lianping'' [36830, 24179],
     City ''21551'' '''' ''XY'' ''xinyuan'' [26032, 28304],
     City ''21552'' '''' ''yl'' ''yilong'' [20202, 38471],
     City ''21553'' '''' ''lx'' ''lixian'' [34849, 21439],
     City ''21554'' '''' ''mc'' ''mancheng'' [28385, 22478],
     City ''21555'' '''' ''qc'' ''qingchuan'' [38738, 24029],
     City ''21556'' '''' ''zn'' ''zhanang'' [25166, 22218],
     City ''21557'' '''' ''bt'' ''batang'' [24052, 22616],
     City ''21558'' '''' ''ml'' ''muli'' [26408, 37324],
     City ''21559'' '''' ''px'' ''pingxiang'' [24179, 20065],
     City ''21560'' '''' ''xy'' ''xianyou'' [20185, 28216],
     City ''21561'' '''' ''ls'' ''lanshan'' [34013, 23665],
     City ''21562'' '''' ''mq'' ''minqin'' [27665, 21220],
     City ''21563'' '''' ''qw'' ''quwo'' [26354, 27779],
     City ''21564'' '''' ''sf'' ''shenfang'' [20160, 37025],
     City ''21565'' '''' ''xd'' ''xundian'' [23547, 30008],
     City ''21566'' '''' ''dl'' ''donglan'' [19996, 20848],
     City ''21567'' '''' ''ls'' ''lushui'' [27896, 27700],
     City ''21568'' '''' ''zs'' ''zhongshan'' [38047, 23665],
     City ''21569'' '''' ''ls'' ''lianshan'' [36830, 23665],
     City ''21570'' '''' ''nq'' ''nangqian'' [22218, 35878],
     City ''21571'' '''' ''rh'' ''raohe'' [39286, 27827],
     City ''21572'' '''' ''xf'' ''xifeng'' [35199, 20016],
     City ''21573'' '''' ''lh'' ''lianhua'' [33714, 33457],
     City ''21574'' '''' ''tn'' ''taining'' [27888, 23425],
     City ''21575'' '''' ''hz'' ''hezhang'' [36203, 31456],
     City ''21576'' '''' ''jh'' ''jianghua'' [27743, 21326],
     City ''21577'' '''' ''ld'' ''lindian'' [26519, 30008],
     City ''21578'' '''' ''yh'' ''yihuang'' [23452, 40644],
     City ''21579'' '''' ''zz'' ''zezhou'' [27901, 24030],
     City ''21580'' '''' ''fn'' ''funan'' [38428, 21335],
     City ''21581'' '''' ''JS'' ''jingshan'' [20140, 23665],
     City ''21582'' '''' ''ja'' ''jingan'' [38742, 23433],
     City ''21583'' '''' ''LS'' ''lushi'' [21346, 27663],
     City ''21584'' '''' ''blzq'' ''balinzuoqi'' [24052, 26519, 24038, 26071],
     City ''21585'' '''' ''gn'' ''guangning'' [24191, 23425],
     City ''21586'' '''' ''nf'' ''nanfeng'' [21335, 20016],
     City ''21587'' '''' ''sz'' ''shenze'' [28145, 27901],
     City ''21588'' '''' ''hy'' ''huaying'' [21326, 34021],
     City ''21589'' '''' ''tj'' ''taijiang'' [21488, 27743],
     City ''21590'' '''' ''JH'' ''jianhu'' [24314, 28246],
     City ''21591'' '''' ''ms'' ''mengshan'' [33945, 23665],
     City ''21592'' '''' ''ch'' ''chunhua'' [28147, 21270],
     City ''21593'' '''' ''xtm'' ''xietongmen'' [35874, 36890, 38376],
     City ''21594'' '''' ''dx'' ''dangxiong'' [24403, 38596],
     City ''21595'' '''' ''fk'' ''fengkai'' [23553, 24320],
     City ''21596'' '''' ''lc'' ''lancang'' [28572, 27815],
     City ''21597'' '''' ''lj'' ''liujiang'' [26611, 27743],
     City ''21598'' '''' ''wx'' ''wenxian'' [28201, 21439],
     City ''21599'' '''' ''ym'' ''yimen'' [26131, 38376],
     City ''21600'' '''' ''bc'' ''baicheng'' [25308, 22478],
     City ''21601'' '''' ''ga'' ''guan'' [22266, 23433],
     City ''21602'' '''' ''yb'' ''yangbi'' [28478, 28638],
     City ''21603'' '''' ''sy'' ''sheyang'' [23556, 38451],
     City ''21604'' '''' ''ml'' ''menglian'' [23391, 36830],
     City ''21605'' '''' ''cx'' ''cangxi'' [33485, 28330],
     City ''21606'' '''' ''gl'' ''gaoling'' [39640, 38517],
     City ''21607'' '''' ''lx'' ''luxian'' [27896, 21439],
     City ''21608'' '''' ''ne'' ''ninger'' [23425, 27953],
     City ''21609'' '''' ''xj'' ''xiaojin'' [23567, 37329],
     City ''21610'' '''' ''kx'' ''kaixian'' [24320, 21439],
     City ''21611'' '''' ''sj'' ''shuangjiang'' [21452, 27743],
     City ''21612'' '''' ''zltq'' ''zhaluteqi'' [25166, 40065, 29305, 26071],
     City ''21613'' '''' ''qxn'' ''qianxinan'' [40660, 35199, 21335],
     City ''21614'' '''' ''nqx'' ''neiquxian'' [37027, 26354, 21439],
     City ''21615'' '''' ''bd'' ''baode'' [20445, 24503],
     City ''21616'' '''' ''mq'' ''minqing'' [38397, 28165],
     City ''21617'' '''' ''wy'' ''wuyi'' [27494, 37009],
     City ''21618'' '''' ''lc'' ''luocheng'' [32599, 22478],
     City ''21619'' '''' ''sp'' ''suiping'' [36930, 24179],
     City ''21620'' '''' ''zb'' ''zhenba'' [38215, 24052],
     City ''21621'' '''' ''lf'' ''laifeng'' [26469, 20964],
     City ''21622'' '''' ''wc'' ''wuchuan'' [21153, 24029],
     City ''21623'' '''' ''lc'' ''lu:chun'' [32511, 26149],
     City ''21624'' '''' ''xx'' ''xianxian'' [29486, 21439],
     City ''21625'' '''' ''mlp'' ''malipo'' [40635, 26647, 22369],
     City ''21626'' '''' ''mq'' ''maqu'' [29595, 26354],
     City ''21627'' '''' ''gy'' ''gaoyang'' [39640, 38451],
     City ''21628'' '''' ''ps'' ''pishan'' [30382, 23665],
     City ''21629'' '''' ''js'' ''jinsha'' [37329, 27801],
     City ''21630'' '''' ''wq'' ''wenquan'' [28201, 27849],
     City ''21631'' '''' ''fm'' ''fumin'' [23500, 27665],
     City ''21632'' '''' ''kyqq'' ''keyouqianqi'' [31185, 21491, 21069, 26071],
     City ''21633'' '''' ''xy'' ''xiangyin'' [28248, 38452],
     City ''21634'' '''' ''yn'' ''yunan'' [37057, 21335],
     City ''21635'' '''' ''zx'' ''zhangxian'' [28467, 21439],
     City ''21636'' '''' ''ay'' ''anyue'' [23433, 23731],
     City ''21637'' '''' ''sn'' ''shangnan'' [21830, 21335],
     City ''21638'' '''' ''xtx'' ''xiangtanxian'' [28248, 28525, 21439],
     City ''21639'' '''' ''kl'' ''kailu'' [24320, 40065],
     City ''21640'' '''' ''ca'' ''chengan'' [25104, 23433],
     City ''21641'' '''' ''my'' ''menyuan'' [38376, 28304],
     City ''21642'' '''' ''bm'' ''banma'' [29677, 29595],
     City ''21643'' '''' ''dw'' ''dawa'' [22823, 27964],
     City ''21644'' '''' ''jc'' ''jiacha'' [21152, 26597],
     City ''21645'' '''' ''dp'' ''dapu'' [22823, 22484],
     City ''21646'' '''' ''dg'' ''dongguang'' [19996, 20809],
     City ''21647'' '''' ''debt'' ''duerbote'' [26460, 23572, 20271, 29305],
     City ''21648'' '''' ''WW'' ''wuwei'' [26080, 20026],
     City ''21649'' '''' ''zx'' ''zhuxi'' [31481, 28330],
     City ''21650'' '''' ''klqzy'' ''kalaqinzuoyi'' [21888, 21895, 27777, 24038, 32764],
     City ''21651'' '''' ''tb'' ''tongbo'' [26704, 26575],
     City ''21652'' '''' ''dt'' ''datian'' [22823, 30000],
     City ''21653'' '''' ''eb'' ''ebian'' [23784, 36793],
     City ''21654'' '''' ''hz'' ''hezuo'' [21512, 20316],
     City ''21655'' '''' ''gl'' ''gulin'' [21476, 34106],
     City ''21656'' '''' ''xn'' ''xinning'' [26032, 23425],
     City ''21657'' '''' ''bg'' ''bange'' [29677, 25096],
     City ''21658'' '''' ''cx'' ''chuxiong'' [26970, 38596],
     City ''21659'' '''' ''bb'' ''bobai'' [21338, 30333],
     City ''21660'' '''' ''CY'' ''changyi'' [26124, 37009],
     City ''21661'' '''' ''jn'' ''jianning'' [24314, 23425],
     City ''21662'' '''' ''zgeq'' ''zhungeerqi'' [20934, 26684, 23572, 26071],
     City ''21663'' '''' ''hf'' ''hefeng'' [40548, 23792],
     City ''21664'' '''' ''syx'' ''shaoyangxian'' [37045, 38451, 21439],
     City ''21665'' '''' ''fxx'' ''fuxinxian'' [38428, 26032, 21439],
     City ''21666'' '''' ''jax'' ''jianxian'' [21513, 23433, 21439],
     City ''21667'' '''' ''blyq'' ''balinyouqi'' [24052, 26519, 21491, 26071],
     City ''21668'' '''' ''db'' ''diebu'' [36845, 37096],
     City ''21669'' '''' ''hn'' ''huaining'' [24576, 23425],
     City ''21670'' '''' ''NX'' ''nanxiong'' [21335, 38596],
     City ''21671'' '''' ''yc'' ''yanchi'' [30416, 27744],
     City ''21672'' '''' ''gzx'' ''ganzixian'' [29976, 23388, 21439],
     City ''21673'' '''' ''zy'' ''zuoyun'' [24038, 20113],
     City ''21674'' '''' ''fx'' ''fengxian'' [20964, 21439],
     City ''21675'' '''' ''gy'' ''guiyang'' [26690, 38451],
     City ''21676'' '''' ''ms'' ''mashan'' [39532, 23665],
     City ''21677'' '''' ''px'' ''peixian'' [27803, 21439],
     City ''21678'' '''' ''zzx'' ''zhuzhouxian'' [26666, 27954, 21439],
     City ''21679'' '''' ''cg'' ''cengong'' [23697, 24041],
     City ''21680'' '''' ''CW'' ''chengwu'' [25104, 27494],
     City ''21681'' '''' ''ss'' ''shangshui'' [21830, 27700],
     City ''21682'' '''' ''tl'' ''tuoli'' [25176, 37324],
     City ''21683'' '''' ''wn'' ''weining'' [23041, 23425],
     City ''21684'' '''' ''XF'' ''xianfeng'' [21688, 20016],
     City ''21685'' '''' ''sc'' ''suichuan'' [36930, 24029],
     City ''21686'' '''' ''te'' ''tiane'' [22825, 23784],
     City ''21687'' '''' ''pj'' ''pujiang'' [33970, 27743],
     City ''21688'' '''' ''th'' ''tanghe'' [21776, 27827],
     City ''21689'' '''' ''pc'' ''pingchang'' [24179, 26124],
     City ''21690'' '''' ''wl'' ''weili'' [23561, 29313],
     City ''21691'' '''' ''bl'' ''beiliu'' [21271, 27969],
     City ''21692'' '''' ''hq'' ''hequ'' [27827, 26354],
     City ''21693'' '''' ''tf'' ''tuanfeng'' [22242, 39118],
     City ''21694'' '''' ''cm'' ''cuomei'' [25514, 32654],
     City ''21695'' '''' ''lx'' ''lixian'' [31036, 21439],
     City ''21696'' '''' ''rp'' ''raoping'' [39286, 24179],
     City ''21697'' '''' ''yc'' ''yanchuan'' [24310, 24029],
     City ''21698'' '''' ''fn'' ''funing'' [23500, 23425],
     City ''21699'' '''' ''mz'' ''mengzhou'' [23391, 24030]]"

lemma checked_22: "checked 21549 cities_22 = Some 21699"
  unfolding cities_22_def by ((rule checked_rule, simp, simp, simp, simp, simp)+, simp)

lemma length_22: "length cities_22 = 150"
  by (simp only: cities_22_def count_rows)

definition cities_23 :: "city list" where
  "cities_23 =
    [City ''21700'' '''' ''dj'' ''dianjiang'' [22443, 27743],
     City ''21701'' '''' ''nz'' ''nanzhang'' [21335, 28467],
     City ''21702'' '''' ''jp'' ''jinping'' [38182, 23631],
     City ''21703'' '''' ''qx'' ''qianxian'' [20094, 21439],
     City ''21704'' '''' ''zj'' ''zhongjiang'' [20013, 27743],
     City ''21705'' '''' ''fz'' ''fengzhen'' [20016, 38215],
     City ''21706'' '''' ''hr'' ''huanren'' [26707, 20161],
     City ''21707'' '''' ''cx'' ''cixian'' [30913, 21439],
     City ''21708'' '''' ''es'' ''eshan'' [23784, 23665],
     City ''21709'' '''' ''thx'' ''tonghuaxian'' [36890, 21270, 21439],
     City ''21710'' '''' ''MX'' ''meixian'' [30473, 21439],
     City ''21711'' '''' ''qn'' ''quannan'' [20840, 21335],
     City ''21712'' '''' ''tks'' ''tekesi'' [29305, 20811, 26031],
     City ''21713'' '''' ''xk'' ''xunke'' [36874, 20811],
     City ''21714'' '''' ''gd'' ''gande'' [29976, 24503],
     City ''21715'' '''' ''tj'' ''taojiang'' [26691, 27743],
     City ''21716'' '''' ''zj'' ''zijin'' [32043, 37329],
     City ''21717'' '''' ''nlm'' ''nielamu'' [32834, 25289, 26408],
     City ''21718'' '''' ''qa'' ''qianan'' [20094, 23433],
     City ''21719'' '''' ''xy'' ''xuyong'' [21465, 27704],
     City ''21720'' '''' ''js'' ''jiashi'' [20285, 24072],
     City ''21721'' '''' ''gz'' ''guazhou'' [29916, 24030],
     City ''21722'' '''' ''hs'' ''hanshan'' [21547, 23665],
     City ''21723'' '''' ''jt'' ''jinta'' [37329, 22612],
     City ''21724'' '''' ''jl'' ''jingle'' [38745, 20048],
     City ''21725'' '''' ''lq'' ''liquan'' [31036, 27849],
     City ''21726'' '''' ''nh'' ''ninghua'' [23425, 21270],
     City ''21727'' '''' ''ra'' ''rongan'' [34701, 23433],
     City ''21728'' '''' ''bl'' ''boluo'' [21338, 32599],
     City ''21729'' '''' ''ns'' ''ningshan'' [23425, 38485],
     City ''21730'' '''' ''sy'' ''shanyang'' [23665, 38451],
     City ''21731'' '''' ''wj'' ''wangjiang'' [26395, 27743],
     City ''21732'' '''' ''xx'' ''xixian'' [24687, 21439],
     City ''21733'' '''' ''ck'' ''chengkou'' [22478, 21475],
     City ''21734'' '''' ''dk'' ''dongkou'' [27934, 21475],
     City ''21735'' '''' ''nh'' ''ninghe'' [23425, 27827],
     City ''21736'' '''' ''yt'' ''yutian'' [20110, 30000],
     City ''21737'' '''' ''rq'' ''ruoqiang'' [33509, 32652],
     City ''21738'' '''' ''wx'' ''weixian'' [23041, 21439],
     City ''21739'' '''' ''xz'' ''xingzi'' [26143, 23376],
     City ''21740'' '''' ''yj'' ''yongji'' [27704, 21513],
     City ''21741'' '''' ''cy'' ''cangyuan'' [27815, 28304],
     City ''21742'' '''' ''mn'' ''mianning'' [20885, 23425],
     City ''21743'' '''' ''sd'' ''shidian'' [26045, 30008],
     City ''21744'' '''' ''yph'' ''yuepuhu'' [23731, 26222, 28246],
     City ''21745'' '''' ''wa'' ''wanan'' [19975, 23433],
     City ''21746'' '''' ''zh'' ''zhenghe'' [25919, 21644],
     City ''21747'' '''' ''awt'' ''awati'' [38463, 29926, 25552],
     City ''21748'' '''' ''la'' ''laian'' [26469, 23433],
     City ''21749'' '''' ''qg'' ''qianguo'' [21069, 37101],
     City ''21750'' '''' ''zx'' ''zhaoxian'' [36213, 21439],
     City ''21751'' '''' ''yr'' ''yongren'' [27704, 20161],
     City ''21752'' '''' ''zy'' ''zhenyuan'' [38215, 21407],
     City ''21753'' '''' ''CBEHQ'' ''chenbaerhuqi'' [38472, 24052, 23572, 34382, 26071],
     City ''21754'' '''' ''qs'' ''qinshui'' [27777, 27700],
     City ''21755'' '''' ''yc'' ''yuechi'' [23731, 27744],
     City ''21756'' '''' ''lx'' ''langxian'' [26391, 21439],
     City ''21757'' '''' ''zl'' ''zhuolu'' [28095, 40575],
     City ''21758'' '''' ''cc'' ''chicheng'' [36196, 22478],
     City ''21759'' '''' ''df'' ''dafang'' [22823, 26041],
     City ''21760'' '''' ''ps'' ''pengshan'' [24429, 23665],
     City ''21761'' '''' ''xh'' ''xihe'' [35199, 21644],
     City ''21762'' '''' ''dxz'' ''dongxiangzu'' [19996, 20065, 26063],
     City ''21763'' '''' ''my'' ''moyu'' [22696, 29577],
     City ''21764'' '''' ''rc'' ''rongchang'' [33635, 26124],
     City ''21765'' '''' ''tpsq'' ''taipusiqi'' [22826, 20166, 23546, 26071],
     City ''21766'' '''' ''lg'' ''lingui'' [20020, 26690],
     City ''21767'' '''' ''qx'' ''qiuxian'' [37041, 21439],
     City ''21768'' '''' ''tc'' ''tongcheng'' [36890, 22478],
     City ''21769'' '''' ''jx'' ''jingxing'' [20117, 38473],
     City ''21770'' '''' ''nr'' ''nierong'' [32834, 33635],
     City ''21771'' '''' ''PLD'' ''pulandian'' [26222, 20848, 24215],
     City ''21772'' '''' ''fy'' ''fuyuan'' [23500, 28304],
     City ''21773'' '''' ''hx'' ''huixian'' [36745, 21439],
     City ''21774'' '''' ''pl'' ''pulan'' [26222, 20848],
     City ''21775'' '''' ''xhq'' ''xianghuangqi'' [38262, 40644, 26071],
     City ''21776'' '''' ''yd'' ''yangdong'' [38451, 19996],
     City ''21777'' '''' ''ym'' ''yunmeng'' [20113, 26790],
     City ''21778'' '''' ''qdn'' ''qiandongnan'' [40660, 19996, 21335],
     City ''21779'' '''' ''kfx'' ''kaifengxian'' [24320, 23553, 21439],
     City ''21780'' '''' ''bh'' ''bohu'' [21338, 28246],
     City ''21781'' '''' ''cy'' ''chayu'' [23519, 38533],
     City ''21782'' '''' ''gj'' ''geji'' [38761, 21513],
     City ''21783'' '''' ''jx'' ''jiaxiang'' [22025, 31077],
     City ''21784'' '''' ''ln'' ''luannan'' [28390, 21335],
     City ''21785'' '''' ''ds'' ''daishan'' [23729, 23665],
     City ''21786'' '''' ''qx'' ''qingxu'' [28165, 24464],
     City ''21787'' '''' ''ax'' ''anxiang'' [23433, 20065],
     City ''21788'' '''' ''bs'' ''baishui'' [30333, 27700],
     City ''21789'' '''' ''xl'' ''xilin'' [35199, 26519],
     City ''21790'' '''' ''zb'' ''zhangbei'' [24352, 21271],
     City ''21791'' '''' ''dldq'' ''duilongdeqing'' [22534, 40857, 24503, 24198],
     City ''21792'' '''' ''qg'' ''qinggang'' [38738, 20872],
     City ''21793'' '''' ''sc'' ''shuicheng'' [27700, 22478],
     City ''21794'' '''' ''blk'' ''balikun'' [24052, 37324, 22372],
     City ''21795'' '''' ''hx'' ''huaxian'' [28369, 21439],
     City ''21796'' '''' ''qa'' ''qingan'' [24198, 23433],
     City ''21797'' '''' ''rx'' ''rongxian'' [23481, 21439],
     City ''21798'' '''' ''ty'' ''tangyuan'' [27748, 21407],
     City ''21799'' '''' ''wj'' ''wuji'' [26080, 26497],
     City ''21800'' '''' ''arq'' ''arongqi'' [38463, 33635, 26071],
     City ''21801'' '''' ''jz'' ''jianzha'' [23574, 25166],
     City ''21802'' '''' ''LH'' ''lianghe'' [26753, 27827],
     City ''21803'' '''' ''zn'' ''zhouning'' [21608, 23425],
     City ''21804'' '''' ''ahq'' ''aheqi'' [38463, 21512, 22855],
     City ''21805'' '''' ''by'' ''baiyu'' [30333, 29577],
     City ''21806'' '''' ''jy'' ''jiangyong'' [27743, 27704],
     City ''21807'' '''' ''qb'' ''qiubei'' [19992, 21271],
     City ''21808'' '''' ''fq'' ''fengqing'' [20964, 24198],
     City ''21809'' '''' ''yc'' ''yecheng'' [21494, 22478],
     City ''21810'' '''' ''ya'' ''yuanan'' [36828, 23433],
     City ''21811'' '''' ''tlf'' ''tulufan'' [21520, 40065, 30058],
     City ''21812'' '''' ''nx'' ''neixiang'' [20869, 20065],
     City ''21813'' '''' ''sc'' ''shangcheng'' [21830, 22478],
     City ''21814'' '''' ''mq'' ''maqin'' [29595, 27777],
     City ''21815'' '''' ''yx'' ''yangxin'' [38451, 26032],
     City ''21816'' '''' ''hl'' ''huilai'' [24800, 26469],
     City ''21817'' '''' ''xt'' ''xintian'' [26032, 30000],
     City ''21818'' '''' ''gs'' ''guangshui'' [24191, 27700],
     City ''21819'' '''' ''nq'' ''neiqiu'' [20869, 19992],
     City ''21820'' '''' ''nml'' ''nanmulin'' [21335, 26408, 26519],
     City ''21821'' '''' ''tb'' ''taibai'' [22826, 30333],
     City ''21822'' '''' ''wx'' ''wuxi'' [24043, 28330],
     City ''21823'' '''' ''xy'' ''xingye'' [20852, 19994],
     City ''21824'' '''' ''elcq'' ''elunchunqi'' [37122, 20262, 26149, 26071],
     City ''21825'' '''' ''gz'' ''guzhang'' [21476, 19976],
     City ''21826'' '''' ''jg'' ''jiange'' [21073, 38401],
     City ''21827'' '''' ''sc'' ''shache'' [33678, 36710],
     City ''21828'' '''' ''yz'' ''yanzhang'' [24310, 38271],
     City ''21829'' '''' ''yl'' ''yunlong'' [20113, 40857],
     City ''21830'' '''' ''zf'' ''zhangfeng'' [38271, 20016],
     City ''21831'' '''' ''jd'' ''jidong'' [40481, 19996],
     City ''21832'' '''' ''ld'' ''luodian'' [32599, 30008],
     City ''21833'' '''' ''pg'' ''pianguan'' [20559, 20851],
     City ''21834'' '''' ''sl'' ''shule'' [30095, 21202],
     City ''21835'' '''' ''mk'' ''mangkang'' [33426, 24247],
     City ''21836'' '''' ''ly'' ''leye'' [20048, 19994],
     City ''21837'' '''' ''lq'' ''luquan'' [31108, 21149],
     City ''21838'' '''' ''pz'' ''pengze'' [24429, 27901],
     City ''21839'' '''' ''sg'' ''shanggao'' [19978, 39640],
     City ''21840'' '''' ''jg'' ''jinggu'' [26223, 35895],
     City ''21841'' '''' ''wq'' ''wuqia'' [20044, 24688],
     City ''21842'' '''' ''xtx'' ''xingtaixian'' [37026, 21488, 21439],
     City ''21843'' '''' ''jl'' ''jianli'' [30417, 21033],
     City ''21844'' '''' ''nc'' ''nancheng'' [21335, 22478],
     City ''21845'' '''' ''dj'' ''dingjie'' [23450, 32467],
     City ''21846'' '''' ''fh'' ''fuhai'' [31119, 28023],
     City ''21847'' '''' ''jc'' ''jingchuan'' [27902, 24029],
     City ''21848'' '''' ''LZ'' ''liaozhong'' [36797, 20013],
     City ''21849'' '''' ''tz'' ''tianzhu'' [22825, 26609]]"

lemma checked_23: "checked 21699 cities_23 = Some 21849"
  unfolding cities_23_def by ((rule checked_rule, simp, simp, simp, simp, simp)+, simp)

lemma length_23: "length cities_23 = 150"
  by (simp only: cities_23_def count_rows)

definition cities_24 :: "city list" where
  "cities_24 =
    [City ''21850'' '''' ''zd'' ''zhiduo'' [27835, 22810],
     City ''21851'' '''' ''sy'' ''songyang'' [26494, 38451],
     City ''21852'' '''' ''htb'' ''hutubi'' [21628, 22270, 22721],
     City ''21853'' '''' ''th'' ''tonghe'' [36890, 27827],
     City ''21854'' '''' ''sy'' ''shaya'' [27801, 38597],
     City ''21855'' '''' ''bq'' ''baiquan'' [25308, 27849],
     City ''21856'' '''' ''mc'' ''muchuan'' [27792, 24029],
     City ''21857'' '''' ''bc'' ''binchuan'' [23486, 24029],
     City ''21858'' '''' ''hl'' ''huailai'' [24576, 26469],
     City ''21859'' '''' ''qs'' ''qusong'' [26354, 26494],
     City ''21860'' '''' ''tg'' ''taigu'' [22826, 35895],
     City ''21861'' '''' ''lz'' ''luozha'' [27931, 25166],
     City ''21862'' '''' ''gl'' ''guoluo'' [26524, 27931],
     City ''21863'' '''' ''alsyq'' ''alashanyouqi'' [38463, 25289, 21892, 21491, 26071],
     City ''21864'' '''' ''ewkzq'' ''ewenkezuqi'' [37122, 28201, 20811, 26063, 26071],
     City ''21865'' '''' ''sm'' ''shimian'' [30707, 26825],
     City ''21866'' '''' ''gm'' ''gengma'' [32831, 39532],
     City ''21867'' '''' ''lz'' ''linzhang'' [20020, 28467],
     City ''21868'' '''' ''qj'' ''quanjiao'' [20840, 26898],
     City ''21869'' '''' ''sz'' ''sangzhi'' [26705, 26893],
     City ''21870'' '''' ''gc'' ''gucheng'' [25925, 22478],
     City ''21871'' '''' ''jx'' ''jingxian'' [27902, 21439],
     City ''21872'' '''' ''rc'' ''rongcheng'' [23481, 22478],
     City ''21873'' '''' ''dn'' ''dongning'' [19996, 23425],
     City ''21874'' '''' ''jk'' ''jiaokou'' [20132, 21475],
     City ''21875'' '''' ''mg'' ''meigu'' [32654, 22993],
     City ''21876'' '''' ''pb'' ''pingbian'' [23631, 36793],
     City ''21877'' '''' ''ayx'' ''anyangxian'' [23433, 38451, 21439],
     City ''21878'' '''' ''fc'' ''fuchuan'' [23500, 24029],
     City ''21879'' '''' ''yg'' ''yanggao'' [38451, 39640],
     City ''21880'' '''' ''bd'' ''badong'' [24052, 19996],
     City ''21881'' '''' ''FP'' ''fuping'' [38428, 24179],
     City ''21882'' '''' ''qml'' ''qumalai'' [26354, 40635, 33713],
     City ''21883'' '''' ''wc'' ''wenchuan'' [27766, 24029],
     City ''21884'' '''' ''xcx'' ''xuchangxian'' [35768, 26124, 21439],
     City ''21885'' '''' ''hp'' ''hepu'' [21512, 28006],
     City ''21886'' '''' ''KLQQ'' ''kalaqinqi'' [21888, 21895, 27777, 26071],
     City ''21887'' '''' ''sy'' ''shangyi'' [23578, 20041],
     City ''21888'' '''' ''tmsk'' ''tumushuke'' [22270, 26408, 33298, 20811],
     City ''21889'' '''' ''wx'' ''weixin'' [23041, 20449],
     City ''21890'' '''' ''tlx'' ''tielingxian'' [38081, 23725, 21439],
     City ''21891'' '''' ''pl'' ''pinglu'' [24179, 38470],
     City ''21892'' '''' ''lx'' ''linxia'' [20020, 22799],
     City ''21893'' '''' ''hx'' ''haixing'' [28023, 20852],
     City ''21894'' '''' ''hp'' ''huangping'' [40644, 24179],
     City ''21895'' '''' ''hd'' ''huidong'' [20250, 19996],
     City ''21896'' '''' ''HX'' ''huaxian'' [21326, 21439],
     City ''21897'' '''' ''sz'' ''shenzhou'' [28145, 24030],
     City ''21898'' '''' ''WNTQ'' ''wengniuteqi'' [32705, 29275, 29305, 26071],
     City ''21899'' '''' ''jc'' ''jianchuan'' [21073, 24029],
     City ''21900'' '''' ''ax'' ''anxin'' [23433, 26032],
     City ''21901'' '''' ''hn'' ''huaning'' [21326, 23425],
     City ''21902'' '''' ''mh'' ''minhou'' [38397, 20399],
     City ''21903'' '''' ''pj'' ''pingjiang'' [24179, 27743],
     City ''21904'' '''' ''ql'' ''qingliu'' [28165, 27969],
     City ''21905'' '''' ''xx'' ''xixian'' [38576, 21439],
     City ''21906'' '''' ''xh'' ''xinhe'' [26032, 27827],
     City ''21907'' '''' ''yx'' ''youxi'' [23588, 28330],
     City ''21908'' '''' ''ag'' ''anguo'' [23433, 22269],
     City ''21909'' '''' ''pw'' ''pingwu'' [24179, 27494],
     City ''21910'' '''' ''lj'' ''luojiang'' [32599, 27743],
     City ''21911'' '''' ''zl'' ''zhangling'' [38271, 23725],
     City ''21912'' '''' ''ql'' ''qinglong'' [38738, 40857],
     City ''21913'' '''' ''zf'' ''zhenfeng'' [36126, 20016],
     City ''21914'' '''' ''nl'' ''nanling'' [21335, 38517],
     City ''21915'' '''' ''yq'' ''yuqing'' [20313, 24198],
     City ''21916'' '''' ''bx'' ''binxian'' [23486, 21439],
     City ''21917'' '''' ''xt'' ''xingtang'' [34892, 21776],
     City ''21918'' '''' ''dq'' ''deqing'' [24503, 24198],
     City ''21919'' '''' ''cdx'' ''chengdexian'' [25215, 24503, 21439],
     City ''21920'' '''' ''gl'' ''guanling'' [20851, 23725],
     City ''21921'' '''' ''lx'' ''langxi'' [37070, 28330],
     City ''21922'' '''' ''xc'' ''xincheng'' [24571, 22478],
     City ''21923'' '''' ''xbehyq'' ''xinbaerhuyouqi'' [26032, 24052, 23572, 34382, 21491, 26071],
     City ''21924'' '''' ''gl'' ''guangling'' [24191, 28789],
     City ''21925'' '''' ''hbh'' ''habahe'' [21704, 24052, 27827],
     City ''21926'' '''' ''qs'' ''queshan'' [30830, 23665],
     City ''21927'' '''' ''ml'' ''minle'' [27665, 20048],
     City ''21928'' '''' ''hs'' ''heishui'' [40657, 27700],
     City ''21929'' '''' ''xh'' ''xinghe'' [20852, 21644],
     City ''21930'' '''' ''xxx'' ''xinxiangxian'' [26032, 20065, 21439],
     City ''21931'' '''' ''gl'' ''ganluo'' [29976, 27931],
     City ''21932'' '''' ''lz'' ''linzhou'' [26519, 21608],
     City ''21933'' '''' ''xc'' ''xichuan'' [28101, 24029],
     City ''21934'' '''' ''da'' ''douan'' [37117, 23433],
     City ''21935'' '''' ''fs'' ''fangshan'' [26041, 23665],
     City ''21936'' '''' ''dh'' ''dehua'' [24503, 21270],
     City ''21937'' '''' ''hn'' ''huinan'' [36745, 21335],
     City ''21938'' '''' ''lt'' ''lintao'' [20020, 27950],
     City ''21939'' '''' ''na'' ''nanao'' [21335, 28595],
     City ''21940'' '''' ''xe'' ''xuanen'' [23459, 24681],
     City ''21941'' '''' ''hz'' ''hezheng'' [21644, 25919],
     City ''21942'' '''' ''pa'' ''puan'' [26222, 23433],
     City ''21943'' '''' ''fy'' ''fuyuan'' [25242, 36828],
     City ''21944'' '''' ''wr'' ''wanrong'' [19975, 33635],
     City ''21945'' '''' ''ys'' ''yongshou'' [27704, 23551],
     City ''21946'' '''' ''jl'' ''jiali'' [22025, 40654],
     City ''21947'' '''' ''sj'' ''suijiang'' [32485, 27743],
     City ''21948'' '''' ''gj'' ''gongjue'' [36129, 35273],
     City ''21949'' '''' ''hd'' ''huade'' [21270, 24503],
     City ''21950'' '''' ''zp'' ''zhenping'' [38215, 22378],
     City ''21951'' '''' ''alts'' ''aletaishi'' [38463, 21202, 27888, 24066],
     City ''21952'' '''' ''dz'' ''dazhu'' [22823, 31481],
     City ''21953'' '''' ''xs'' ''xingshan'' [20852, 23665],
     City ''21954'' '''' ''zp'' ''zhangpu'' [28467, 28006],
     City ''21955'' '''' ''lzx'' ''linzhixian'' [26519, 33437, 21439],
     City ''21956'' '''' ''sr'' ''sangri'' [26705, 26085],
     City ''21957'' '''' ''xx'' ''xingxian'' [20852, 21439],
     City ''21958'' '''' ''abx'' ''abaxian'' [38463, 22365, 21439],
     City ''21959'' '''' ''ncx'' ''nanchangxian'' [21335, 26124, 21439],
     City ''21960'' '''' ''fc'' ''fangcheng'' [26041, 22478],
     City ''21961'' '''' ''ls'' ''lishu'' [26792, 26641],
     City ''21962'' '''' ''pt'' ''pingtang'' [24179, 22616],
     City ''21963'' '''' ''gb'' ''gangba'' [23703, 24052],
     City ''21964'' '''' ''qy'' ''quyang'' [26354, 38451],
     City ''21965'' '''' ''zk'' ''zeku'' [27901, 24211],
     City ''21966'' '''' ''ts'' ''tongshan'' [36890, 23665],
     City ''21967'' '''' ''wlmqx'' ''wulumuqixian'' [20044, 40065, 26408, 40784, 21439],
     City ''21968'' '''' ''ca'' ''chaoan'' [28526, 23433],
     City ''21969'' '''' ''ng'' ''nangong'' [21335, 23467],
     City ''21970'' '''' ''LZ'' ''leizhou'' [38647, 24030],
     City ''21971'' '''' ''nlk'' ''nileke'' [23612, 21202, 20811],
     City ''21972'' '''' ''XC'' ''xiangcheng'' [20065, 22478],
     City ''21973'' '''' ''zc'' ''zhecheng'' [26584, 22478],
     City ''21974'' '''' ''ay'' ''anyuan'' [23433, 36828],
     City ''21975'' '''' ''gy'' ''guyang'' [22266, 38451],
     City ''21976'' '''' ''hd'' ''huidong'' [24800, 19996],
     City ''21977'' '''' ''jc'' ''jiangchuan'' [27743, 24029],
     City ''21978'' '''' ''yj'' ''yijun'' [23452, 21531],
     City ''21979'' '''' ''bm'' ''bomi'' [27874, 23494],
     City ''21980'' '''' ''nj'' ''nanjiang'' [21335, 27743],
     City ''21981'' '''' ''qj'' ''qiongjie'' [29756, 32467],
     City ''21982'' '''' ''wx'' ''wuxuan'' [27494, 23459],
     City ''21983'' '''' ''xb'' ''xinbin'' [26032, 23486],
     City ''21984'' '''' ''ll'' ''longlin'' [38534, 26519],
     City ''21985'' '''' ''QH'' ''qinghe'' [28165, 27827],
     City ''21986'' '''' ''cyqq'' ''chayouqianqi'' [23519, 21491, 21069, 26071],
     City ''21987'' '''' ''tmtzq'' ''tumotezuoqi'' [22303, 40664, 29305, 24038, 26071],
     City ''21988'' '''' ''dt'' ''dingtao'' [23450, 38518],
     City ''21989'' '''' ''dy'' ''dongyuan'' [19996, 28304],
     City ''21990'' '''' ''sn'' ''suining'' [32485, 23425],
     City ''21991'' '''' ''ws'' ''weishi'' [23561, 27663],
     City ''21992'' '''' ''YS'' ''yingshan'' [33521, 23665],
     City ''21993'' '''' ''HM'' ''huimin'' [24800, 27665],
     City ''21994'' '''' ''hx'' ''hexian'' [21644, 21439],
     City ''21995'' '''' ''js'' ''jishan'' [31287, 23665],
     City ''21996'' '''' ''lj'' ''lijin'' [21033, 27941],
     City ''21997'' '''' ''ps'' ''pingshun'' [24179, 39034],
     City ''21998'' '''' ''sntyq'' ''suniteyouqi'' [33487, 23612, 29305, 21491, 26071],
     City ''21999'' '''' ''dg'' ''dege'' [24503, 26684]]"

lemma checked_24: "checked 21849 cities_24 = Some 21999"
  unfolding cities_24_def by ((rule checked_rule, simp, simp, simp, simp, simp)+, simp)

lemma length_24: "length cities_24 = 150"
  by (simp only: cities_24_def count_rows)

definition cities_25 :: "city list" where
  "cities_25 =
    [City ''22000'' '''' ''dx'' ''daoxian'' [36947, 21439],
     City ''22001'' '''' ''rs'' ''renshou'' [20161, 23551],
     City ''22002'' '''' ''xy'' ''xiangyun'' [31077, 20113],
     City ''22003'' '''' ''jx'' ''jiexi'' [25581, 35199],
     City ''22004'' '''' ''lq'' ''linqing'' [20020, 28165],
     City ''22005'' '''' ''dc'' ''dacheng'' [22823, 22478],
     City ''22006'' '''' ''ys'' ''yanshan'' [30746, 23665],
     City ''22007'' '''' ''ys'' ''yingshang'' [39053, 19978],
     City ''22008'' '''' ''gx'' ''ganxian'' [36195, 21439],
     City ''22009'' '''' ''pb'' ''pubei'' [28006, 21271],
     City ''22010'' '''' ''tkt'' ''tuoketuo'' [25176, 20811, 25176],
     City ''22011'' '''' ''hl'' ''hualong'' [21270, 38534],
     City ''22012'' '''' ''ly'' ''luoyuan'' [32599, 28304],
     City ''22013'' '''' ''tj'' ''tongjiang'' [21516, 27743],
     City ''22014'' '''' ''tr'' ''tongren'' [21516, 20161],
     City ''22015'' '''' ''zk'' ''zhenkang'' [38215, 24247],
     City ''22016'' '''' ''py'' ''poyang'' [37169, 38451],
     City ''22017'' '''' ''hz'' ''huazhou'' [21270, 24030],
     City ''22018'' '''' ''yj'' ''yongjing'' [27704, 38742],
     City ''22019'' '''' ''rkzs'' ''rikazeshi'' [26085, 21888, 21017, 24066],
     City ''22020'' '''' ''yt'' ''yitong'' [20234, 36890],
     City ''22021'' '''' ''zz'' ''zizhou'' [23376, 27954],
     City ''22022'' '''' ''xh'' ''xihua'' [35199, 21326],
     City ''22023'' '''' ''jl'' ''jilong'' [21513, 38534],
     City ''22024'' '''' ''sb'' ''suibin'' [32485, 28392],
     City ''22025'' '''' ''ynx'' ''yiningxian'' [20234, 23425, 21439],
     City ''22026'' '''' ''xwq'' ''xiwuqi'' [35199, 20044, 26071],
     City ''22027'' '''' ''fz'' ''fanzhi'' [32321, 23769],
     City ''22028'' '''' ''htx'' ''hetianxian'' [21644, 30000, 21439],
     City ''22029'' '''' ''tcs'' ''tachengshi'' [22612, 22478, 24066]]"

lemma checked_25: "checked 21999 cities_25 = Some 22029"
  unfolding cities_25_def by ((rule checked_rule, simp, simp, simp, simp, simp)+, simp)

lemma length_25: "length cities_25 = 30"
  by (simp only: cities_25_def count_rows)

end
