(* ===== verification/CityData.thy ===== *)
theory CityData
  imports CityRows1 CityRows2 CityRows3 CityRows4
begin

text \<open>
  \<open>docs/citycode/json.js\<close>: the object \<open>cityDate\<close>, with the list of all cities and the ids of
  the hot cities.  The rows are in the theories \<open>CityRows1\<close> to \<open>CityRows4\<close>.
\<close>

record city_date =
  citylist :: "city list"
  hotcity :: "string list"

definition cityDate :: city_date where
  "cityDate =
     \<lparr>citylist = concat [cities_0, cities_1, cities_2, cities_3, cities_4, cities_5, cities_6,
        cities_7, cities_8, cities_9, cities_10, cities_11, cities_12, cities_13,
        cities_14, cities_15, cities_16, cities_17, cities_18, cities_19, cities_20,
        cities_21, cities_22, cities_23, cities_24, cities_25],
      hotcity = [''0001'', ''0002'', ''0003'', ''0004'']\<rparr>"

lemmas checked_groups = checked_0 checked_1 checked_2 checked_3 checked_4 checked_5 checked_6
  checked_7 checked_8 checked_9 checked_10 checked_11 checked_12 checked_13
  checked_14 checked_15 checked_16 checked_17 checked_18 checked_19 checked_20
  checked_21 checked_22 checked_23 checked_24 checked_25

lemmas length_groups = length_0 length_1 length_2 length_3 length_4 length_5 length_6 length_7
  length_8 length_9 length_10 length_11 length_12 length_13 length_14 length_15
  length_16 length_17 length_18 length_19 length_20 length_21 length_22 length_23
  length_24 length_25

lemma citylist_checked: "checked 0 (citylist cityDate) = Some 22029"
  by (simp only: cityDate_def city_date.simps checked_append concat.simps checked_groups checked.simps)

text \<open>
  C39: The table has 3780 rows; the ids of the rows are canonical decimal numerals in strictly
  increasing order, so no two rows share an id and a lookup by id has at most one answer;
  every row has a word and no row has a code.
\<close>

theorem citylist_keyed:
  "length (citylist cityDate) = 3780 \<and>
   sorted_wrt (<) (map (\<lambda>c. the (id_value 0 (city_id c))) (citylist cityDate)) \<and>
   distinct (map city_id (citylist cityDate)) \<and>
   list_all (\<lambda>c. city_code c = [] \<and> city_word c \<noteq> []) (citylist cityDate)"
proof (intro conjI)
  show "length (citylist cityDate) = 3780"
    by (simp add: cityDate_def length_groups)
  show "sorted_wrt (<) (map (\<lambda>c. the (id_value 0 (city_id c))) (citylist cityDate))"
    using citylist_checked by (rule checked_sorted)
  show "distinct (map city_id (citylist cityDate))"
    using citylist_checked by (rule checked_distinct)
  show "list_all (\<lambda>c. city_code c = [] \<and> city_word c \<noteq> []) (citylist cityDate)"
    using checked_rows [OF citylist_checked] by (simp add: list_all_iff)
qed

text \<open>
  No hot city is a city of the table: the ids of the hot cities are padded with zeros,
  and no id of a row is.
\<close>

theorem hotcity_dangling:
  "set (hotcity cityDate) \<inter> city_id ` set (citylist cityDate) = {}"
proof -
  have "hd h = CHR ''0''" if "h \<in> set (hotcity cityDate)" for h
    using that by (auto simp: cityDate_def)
  moreover have "hd (city_id c) \<noteq> CHR ''0''" if "c \<in> set (citylist cityDate)" for c
    using checked_rows [OF citylist_checked that] by blast
  ultimately show ?thesis by blast
qed

end
