(* ===== verification/CityScript.thy ===== *)
theory CityScript
  imports City
begin

text \<open>
  \<open>docs/citycode/tmp.scala\<close>: the script that made the rows of the city table out of the lines of
  \<open>city.pinyin.js\<close> (an \<open>id\<close>, an abbreviation, a spelling and a word between tabs; the file is no
  script, whatever its name says) and of the list items of an XML file, which replace a line with
  the same id and word.  The list items are an argument; an item whose attribute has too few
  words makes the script throw (\<open>None\<close>).
\<close>

type_synonym line = "string \<times> string \<times> string \<times> jsstr"     \<comment> \<open>the four fields of a line\<close>
type_synonym entry = "string \<times> jsstr \<times> string \<times> string"    \<comment> \<open>id, word, abbreviation, spelling\<close>

fun addLine :: "entry list \<Rightarrow> line \<Rightarrow> entry list" where
  "addLine oldlist (r0, r1, r2, r3) = (r0, r3, r1, r2) # oldlist"

definition oldlist :: "line list \<Rightarrow> entry list" where
  "oldlist file = foldl addLine [] file"

text \<open>A list item: its id, the words of \<open>data-filtertext\<close> (the first one in Chinese) and its text.\<close>

record list_item =
  data_id :: string
  filtertext :: "jsstr \<times> string list"
  item_text :: jsstr

definition add_item :: "entry list option \<Rightarrow> list_item \<Rightarrow> entry list option" where
  "add_item l node =
     (case l of
        None \<Rightarrow> None
      | Some es \<Rightarrow>
          (case snd (filtertext node) of
             short # spell # _ \<Rightarrow> Some ((data_id node, item_text node, short, spell) # es)
           | _ \<Rightarrow> None))"

definition pinyinlist :: "list_item list \<Rightarrow> entry list option" where
  "pinyinlist items = foldl add_item (Some []) items"

definition same_city :: "entry \<Rightarrow> entry \<Rightarrow> bool" where
  "same_city c p \<longleftrightarrow> fst c = fst p \<and> fst (snd c) = fst (snd p)"

text \<open>The loop over the XML entries for one city, with the counter \<open>hit\<close>.\<close>

definition replace_city :: "entry list \<Rightarrow> entry \<Rightarrow> nat \<Rightarrow> entry \<times> nat" where
  "replace_city ps c hit0 =
     foldl (\<lambda>(city, hit) p. if same_city c p then (p, hit + 1) else (city, hit)) (c, hit0) ps"

definition finallist :: "entry list \<Rightarrow> entry list \<Rightarrow> entry list \<times> nat" where
  "finallist ps old =
     foldl (\<lambda>(l, hit) c. (case replace_city ps c hit of (city, hit') \<Rightarrow> (city # l, hit'))) ([], 0) old"

fun writeRec :: "entry \<Rightarrow> city" where
  "writeRec (i, name, short, spell) = City i [] short spell name"

definition citytable :: "list_item list \<Rightarrow> line list \<Rightarrow> city list option" where
  "citytable items file =
     map_option (\<lambda>ps. map writeRec (fst (finallist ps (oldlist file)))) (pinyinlist items)"

subsection \<open>What the script does\<close>

text \<open>The script builds both lists from the back, so the last hit is the first entry of the
  XML file, and the rows come in the order of the lines.\<close>

definition entry_of :: "line \<Rightarrow> entry" where
  "entry_of = (\<lambda>(r0, r1, r2, r3). (r0, r3, r1, r2))"

lemma addLine_rev: "foldl addLine es rs = rev (map entry_of rs) @ es"
proof (induction rs arbitrary: es)
  case (Cons r rs)
  then show ?case by (cases r) (simp add: entry_of_def)
qed simp

lemma oldlist_rev: "oldlist rs = rev (map entry_of rs)"
  by (simp add: oldlist_def addLine_rev)

lemma replace_city_find:
  "fst (replace_city ps c hit) = (case find (same_city c) (rev ps) of Some p \<Rightarrow> p | None \<Rightarrow> c)"
  "snd (replace_city ps c hit) = hit + length (filter (same_city c) ps)"
  by (induction ps rule: rev_induct)
     (auto simp: replace_city_def split: prod.splits)

lemma replace_city_hit: "replace_city ps c h = (fst (replace_city ps c 0), snd (replace_city ps c h))"
  by (simp add: prod_eq_iff replace_city_find(1))

lemma finallist_map: "fst (finallist ps old) = rev (map (\<lambda>c. fst (replace_city ps c 0)) old)"
proof -
  let ?step = "\<lambda>(l, hit) c. (case replace_city ps c hit of (city, hit') \<Rightarrow> (city # l, hit'))"
  have "fst (foldl ?step (l, h) cs) = rev (map (\<lambda>c. fst (replace_city ps c 0)) cs) @ l" for l h cs
  proof (induction cs arbitrary: l h)
    case (Cons c cs)
    have "?step (l, h) c = (fst (replace_city ps c 0) # l, snd (replace_city ps c h))"
      by (subst replace_city_hit) simp
    then show ?case using Cons.IH by simp
  qed simp
  then show ?thesis by (simp add: finallist_def)
qed

lemma citytable_map:
  "citytable items rs = map_option (\<lambda>ps. map (\<lambda>r. writeRec (fst (replace_city ps (entry_of r) 0))) rs)
     (pinyinlist items)"
  by (simp add: citytable_def finallist_map oldlist_rev rev_map comp_def)

lemma pinyinlist_None: "pinyinlist items = None \<longleftrightarrow> list_ex (\<lambda>n. length (snd (filtertext n)) < 2) items"
proof (induction items rule: rev_induct)
  case (snoc n items)
  have "pinyinlist (items @ [n]) = add_item (pinyinlist items) n" by (simp add: pinyinlist_def)
  moreover have "add_item (Some es) n = None \<longleftrightarrow> length (snd (filtertext n)) < 2" for es
    by (auto simp: add_item_def split: list.splits)
  ultimately show ?case
    using snoc by (cases "pinyinlist items") (simp_all add: add_item_def)
qed (simp add: pinyinlist_def)

lemma same_city_fields:
  "same_city c p \<Longrightarrow> city_id (writeRec p) = city_id (writeRec c) \<and> city_word (writeRec p) = city_word (writeRec c)"
  by (cases c; cases p) (simp add: same_city_def)

lemma replace_city_fields:
  "city_id (writeRec (fst (replace_city ps c h))) = city_id (writeRec c) \<and>
   city_word (writeRec (fst (replace_city ps c h))) = city_word (writeRec c)"
proof (cases "find (same_city c) (rev ps)")
  case (Some p)
  then have "same_city c p" by (auto simp: find_Some_iff)
  then show ?thesis using Some same_city_fields by (simp add: replace_city_find)
qed (simp add: replace_city_find)

subsection \<open>Comparing the lines with the rows of the table\<close>

text \<open>The pass compares a line with the row at the same place: the id and the word have to be
  the same, and it counts the rows with another abbreviation or spelling.\<close>

fun changed :: "nat \<Rightarrow> line list \<Rightarrow> city list \<Rightarrow> nat option" where
  "changed a [] [] = Some a"
| "changed a ((r0, r1, r2, r3) # ts) (City i code short spell word # cs) =
     (if i = r0 \<and> code = [] \<and> word = r3
      then changed (if short = r1 \<and> spell = r2 then a else Suc a) ts cs else None)"
| "changed a _ _ = None"

lemma changed_same: "changed a ts cs = r \<Longrightarrow> changed a ((i, s, p, w) # ts) (City i [] s p w # cs) = r"
  by simp

lemma changed_other:
  "\<not> (s' = s \<and> p' = p) \<Longrightarrow> changed (Suc a) ts cs = r \<Longrightarrow>
     changed a ((i, s, p, w) # ts) (City i [] s' p' w # cs) = r"
  by auto

lemma changed_append:
  "changed a ts cs = Some b \<Longrightarrow> changed a (ts @ ts') (cs @ cs') = changed b ts' cs'"
  by (induction a ts cs rule: changed.induct) (auto split: if_splits)

definition names :: "city list \<Rightarrow> (string \<times> jsstr) list" where
  "names cs = map (\<lambda>c. (city_id c, city_word c)) cs"

lemma changed_names: "changed a ts cs = Some b \<Longrightarrow> names cs = map (\<lambda>r. (fst r, snd (snd (snd r)))) ts"
  by (induction a ts cs rule: changed.induct) (auto simp: names_def split: if_splits)

lemma changed_count:
  "changed a ts cs = Some b \<Longrightarrow>
     b = a + length (filter (\<lambda>(r, c). writeRec (entry_of r) \<noteq> c) (zip ts cs)) \<and> length ts = length cs"
  by (induction a ts cs rule: changed.induct) (auto simp: entry_of_def split: if_splits)

end
