(* ===== verification/PinyinRows1.thy ===== *)
theory PinyinRows1
  imports CityRows1 CityScript
begin

text \<open>
  \<open>docs/citycode/city.pinyin.js\<close>, lines 1 to 1050, in groups, and the comparison of each group
  with the rows of the city table at the same place.
\<close>

definition pinyin_0 :: "line list" where
  "pinyin_0 =
    [(''1'', ''bj'', ''beijing'', [21271, 20140]),
     (''2'', ''sh'', ''shanghai'', [19978, 28023]),
     (''3'', ''tj'', ''tianjin'', [22825, 27941]),
     (''4'', ''zq'', ''zhongqing'', [37325, 24198]),
     (''5'', ''heb'', ''haerbin'', [21704, 23572, 28392]),
     (''6'', ''dl'', ''dalian'', [22823, 36830]),
     (''7'', ''qd'', ''qingdao'', [38738, 23707]),
     (''10'', ''xa'', ''xian'', [35199, 23433]),
     (''11'', ''dh'', ''dunhuang'', [25958, 29004]),
     (''12'', ''nj'', ''nanjing'', [21335, 20140]),
     (''13'', ''wx'', ''wuxi'', [26080, 38177]),
     (''14'', ''sz'', ''suzhou'', [33487, 24030]),
     (''15'', ''yz'', ''yangzhou'', [25196, 24030]),
     (''16'', ''zj'', ''zhenjiang'', [38215, 27743]),
     (''17'', ''hz'', ''hangzhou'', [26477, 24030]),
     (''18'', ''xt'', ''xitang'', [35199, 22616]),
     (''19'', ''zs'', ''zhoushan'', [33311, 23665]),
     (''20'', ''ca'', ''chunan'', [28147, 23433]),
     (''21'', ''qdhz'', ''qiandaohuzhen'', [21315, 23707, 28246, 38215]),
     (''22'', ''sx'', ''shaoxing'', [32461, 20852]),
     (''23'', ''hs'', ''huangshan'', [40644, 23665]),
     (''24'', ''jj'', ''jiujiang'', [20061, 27743]),
     (''25'', ''sm'', ''shamen'', [21414, 38376]),
     (''26'', ''wys'', ''wuyishan'', [27494, 22839, 23665]),
     (''27'', ''zjj'', ''zhangjiajie'', [24352, 23478, 30028]),
     (''28'', ''cd'', ''chengdou'', [25104, 37117]),
     (''30'', ''sz'', ''shenzhen'', [28145, 22323]),
     (''31'', ''zh'', ''zhuhai'', [29664, 28023]),
     (''32'', ''gz'', ''guangzhou'', [24191, 24030]),
     (''33'', ''gl'', ''guilin'', [26690, 26519]),
     (''34'', ''km'', ''kunming'', [26118, 26126]),
     (''35'', ''xsbn'', ''xishuangbanna'', [35199, 21452, 29256, 32435]),
     (''36'', ''dls'', ''dalishi'', [22823, 29702, 24066]),
     (''37'', ''lj'', ''lijiang'', [20029, 27743]),
     (''38'', ''gy'', ''guiyang'', [36149, 38451]),
     (''39'', ''wlmq'', ''wulumuqi'', [20044, 40065, 26408, 40784]),
     (''40'', ''tlfs'', ''tulufanshi'', [21520, 40065, 30058, 24066]),
     (''41'', ''ls'', ''lasa'', [25289, 33832]),
     (''42'', ''hk'', ''haikou'', [28023, 21475]),
     (''43'', ''sy'', ''sanya'', [19977, 20122]),
     (''44'', ''wc'', ''wenchang'', [25991, 26124]),
     (''45'', ''wn'', ''wanning'', [19975, 23425]),
     (''46'', ''wzs'', ''wuzhishan'', [20116, 25351, 23665]),
     (''47'', ''tc'', ''tunchang'', [23663, 26124]),
     (''48'', ''df'', ''dongfang'', [19996, 26041]),
     (''49'', ''ld'', ''ledong'', [20048, 19996]),
     (''50'', ''da'', ''dingan'', [23450, 23433]),
     (''51'', ''qs'', ''qiongshan'', [29756, 23665]),
     (''52'', ''qh'', ''qionghai'', [29756, 28023]),
     (''53'', ''qz'', ''qiongzhong'', [29756, 20013]),
     (''54'', ''bt'', ''baoting'', [20445, 20141]),
     (''55'', ''ls'', ''lingshui'', [38517, 27700]),
     (''56'', ''cj'', ''changjiang'', [26124, 27743]),
     (''57'', ''dz'', ''danzhou'', [20747, 24030]),
     (''58'', ''xg'', ''xianggang'', [39321, 28207]),
     (''59'', ''am'', ''aomen'', [28595, 38376]),
     (''82'', ''nt'', ''nantong'', [21335, 36890]),
     (''83'', ''ks'', ''kunshan'', [26118, 23665]),
     (''84'', ''hn'', ''haining'', [28023, 23425]),
     (''85'', ''yj'', ''yongjia'', [27704, 22025]),
     (''86'', ''hz'', ''huzhou'', [28246, 24030]),
     (''87'', ''fh'', ''fenghua'', [22857, 21270]),
     (''90'', ''la'', ''linan'', [20020, 23433]),
     (''91'', ''jzg'', ''jiuzhaigou'', [20061, 23528, 27807]),
     (''92'', ''rkz'', ''rikaze'', [26085, 21888, 21017]),
     (''93'', ''dq'', ''diqing'', [36842, 24198]),
     (''94'', ''djy'', ''doujiangyan'', [37117, 27743, 22576]),
     (''95'', ''ems'', ''emeishan'', [23784, 30473, 23665]),
     (''96'', ''cs'', ''changshu'', [24120, 29087]),
     (''97'', ''al'', ''ali'', [38463, 37324]),
     (''98'', ''yl'', ''yili'', [20234, 29313]),
     (''99'', ''yc'', ''yinchuan'', [38134, 24029]),
     (''100'', ''lz'', ''lanzhou'', [20848, 24030]),
     (''103'', ''hhht'', ''huhehaote'', [21628, 21644, 28009, 29305]),
     (''104'', ''py'', ''pingyao'', [24179, 36965]),
     (''105'', ''ty'', ''taiyuan'', [22826, 21407]),
     (''106'', ''wts'', ''wutaishan'', [20116, 21488, 23665]),
     (''108'', ''lz'', ''linzhi'', [26519, 33437]),
     (''109'', ''kss'', ''kashenshi'', [21888, 20160, 24066]),
     (''110'', ''ya'', ''yanan'', [24310, 23433]),
     (''111'', ''xy'', ''xianyang'', [21688, 38451]),
     (''112'', ''bj'', ''baoji'', [23453, 40481]),
     (''117'', ''tg'', ''tongguan'', [28540, 20851]),
     (''118'', ''tc'', ''tongchuan'', [38108, 24029]),
     (''119'', ''hy'', ''huayin'', [21326, 38452]),
     (''123'', ''df'', ''danfeng'', [20025, 20964]),
     (''124'', ''xn'', ''xining'', [35199, 23425]),
     (''125'', ''dl'', ''doulan'', [37117, 20848]),
     (''126'', ''jx'', ''jiaxian'', [20339, 21439]),
     (''127'', ''hl'', ''huangling'', [40644, 38517]),
     (''128'', ''hc'', ''hancheng'', [38889, 22478]),
     (''129'', ''hz'', ''hanzhong'', [27721, 20013]),
     (''130'', ''cx'', ''chuanxian'', [24029, 21439]),
     (''131'', ''qs'', ''qishan'', [23696, 23665]),
     (''132'', ''gem'', ''geermu'', [26684, 23572, 26408]),
     (''133'', ''yc'', ''yuci'', [27014, 27425]),
     (''134'', ''ls'', ''lingshi'', [28789, 30707]),
     (''135'', ''jx'', ''jiexiu'', [20171, 20241]),
     (''136'', ''dt'', ''datong'', [22823, 21516]),
     (''137'', ''zz'', ''zhangzhi'', [38271, 27835]),
     (''139'', ''lf'', ''linfen'', [20020, 27774]),
     (''140'', ''yc'', ''yuncheng'', [36816, 22478]),
     (''141'', ''bt'', ''baotou'', [21253, 22836]),
     (''142'', ''hle'', ''hailaer'', [28023, 25289, 23572]),
     (''143'', ''qf'', ''qufu'', [26354, 38428]),
     (''144'', ''jn'', ''jinan'', [27982, 21335]),
     (''145'', ''ts'', ''taishan'', [27888, 23665]),
     (''147'', ''qhd'', ''qinhuangdao'', [31206, 30343, 23707]),
     (''149'', ''qqhe'', ''qiqihaer'', [40784, 40784, 21704, 23572]),
     (''150'', ''mdj'', ''mudanjiang'', [29281, 20025, 27743]),
     (''153'', ''ba'', ''beian'', [21271, 23433]),
     (''155'', ''mh'', ''mohe'', [28448, 27827]),
     (''156'', ''hl'', ''hulin'', [34382, 26519]),
     (''157'', ''jx'', ''jixi'', [40481, 35199]),
     (''158'', ''zc'', ''zhangchun'', [38271, 26149]),
     (''159'', ''jl'', ''jilin'', [21513, 26519]),
     (''161'', ''ja'', ''jian'', [38598, 23433]),
     (''162'', ''na'', ''nongan'', [20892, 23433]),
     (''165'', ''dh'', ''dunhua'', [25958, 21270]),
     (''166'', ''klmy'', ''kelamayi'', [20811, 25289, 29595, 20381]),
     (''171'', ''ak'', ''ankang'', [23433, 24247]),
     (''173'', ''aks'', ''akesu'', [38463, 20811, 33487]),
     (''175'', ''alt'', ''aletai'', [38463, 21202, 27888]),
     (''177'', ''aq'', ''anqing'', [23433, 24198]),
     (''178'', ''as'', ''anshan'', [38797, 23665]),
     (''179'', ''as'', ''anshun'', [23433, 39034]),
     (''180'', ''ax'', ''anxi'', [23433, 28330]),
     (''181'', ''ay'', ''anyang'', [23433, 38451]),
     (''182'', ''bb'', ''bangbu'', [34444, 22496]),
     (''184'', ''cg'', ''cuogang'', [23919, 23703]),
     (''185'', ''bd'', ''baoding'', [20445, 23450]),
     (''186'', ''yx'', ''yuxi'', [29577, 28330]),
     (''187'', ''bdh'', ''beidaihe'', [21271, 25140, 27827]),
     (''188'', ''yc'', ''yancheng'', [26191, 22478]),
     (''189'', ''bh'', ''beihai'', [21271, 28023]),
     (''190'', ''bh'', ''baihe'', [30333, 27827]),
     (''195'', ''bl'', ''boli'', [20271, 21147]),
     (''197'', ''bs'', ''baoshan'', [20445, 23665]),
     (''198'', ''zb'', ''zhangbai'', [38271, 30333]),
     (''199'', ''zbs'', ''zhangbaishan'', [38271, 30333, 23665]),
     (''201'', ''cd'', ''changde'', [24120, 24503]),
     (''202'', ''cf'', ''chifeng'', [36196, 23792]),
     (''203'', ''zl'', ''zhangle'', [38271, 20048]),
     (''204'', ''clj'', ''chenglingji'', [22478, 38517, 30710]),
     (''206'', ''zs'', ''zhangsha'', [38271, 27801]),
     (''208'', ''ss'', ''shengsi'', [23882, 27863]),
     (''209'', ''gd'', ''guangde'', [24191, 24503]),
     (''210'', ''sd'', ''shunde'', [39034, 24503]),
     (''211'', ''cy'', ''chaoyang'', [26397, 38451]),
     (''212'', ''cy'', ''chaoyang'', [28526, 38451])]"

lemma changed_0: "changed 0 pinyin_0 cities_0 = Some 12"
  unfolding pinyin_0_def cities_0_def by ((rule changed_same | (rule changed_other, simp))+, simp)

definition pinyin_1 :: "line list" where
  "pinyin_1 =
    [(''213'', ''cz'', ''changzhou'', [24120, 24030]),
     (''214'', ''cz'', ''chuzhou'', [28353, 24030]),
     (''215'', ''cz'', ''chaozhou'', [28526, 24030]),
     (''216'', ''cz'', ''cangzhou'', [27815, 24030]),
     (''218'', ''cz'', ''chizhou'', [27744, 24030]),
     (''221'', ''dd'', ''dandong'', [20025, 19996]),
     (''222'', ''df'', ''dengfeng'', [30331, 23553]),
     (''223'', ''dg'', ''dongguan'', [19996, 33694]),
     (''224'', ''dg'', ''dagang'', [22823, 28207]),
     (''225'', ''dh'', ''dinghai'', [23450, 28023]),
     (''226'', ''dh'', ''daohu'', [23707, 28246]),
     (''229'', ''dl'', ''dailing'', [24102, 23725]),
     (''231'', ''dq'', ''daqing'', [22823, 24198]),
     (''232'', ''dsh'', ''dianshanhu'', [28096, 23665, 28246]),
     (''234'', ''dx'', ''daxian'', [36798, 21439]),
     (''236'', ''dy'', ''dongying'', [19996, 33829]),
     (''237'', ''dy'', ''deyang'', [24503, 38451]),
     (''238'', ''dy'', ''danyang'', [20025, 38451]),
     (''240'', ''dyd'', ''dayudu'', [22823, 31161, 28193]),
     (''241'', ''dz'', ''dazu'', [22823, 36275]),
     (''245'', ''es'', ''enshi'', [24681, 26045]),
     (''246'', ''fd'', ''fuding'', [31119, 40718]),
     (''247'', ''fd'', ''fengdou'', [20016, 37117]),
     (''249'', ''fl'', ''fuling'', [28074, 38517]),
     (''251'', ''fs'', ''foshan'', [20315, 23665]),
     (''252'', ''fs'', ''fushun'', [25242, 39034]),
     (''254'', ''fx'', ''fuxin'', [38428, 26032]),
     (''255'', ''fy'', ''fuyun'', [23500, 34164]),
     (''256'', ''fy'', ''fuyang'', [23500, 38451]),
     (''257'', ''fy'', ''fuyang'', [38428, 38451]),
     (''258'', ''fz'', ''fuzhou'', [31119, 24030]),
     (''259'', ''gb'', ''gongbei'', [25329, 21271]),
     (''267'', ''gy'', ''guangyuan'', [24191, 20803]),
     (''268'', ''gz'', ''ganzhou'', [36195, 24030]),
     (''270'', ''ha'', ''huian'', [24800, 23433]),
     (''272'', ''hb'', ''huaibei'', [28142, 21271]),
     (''275'', ''hd'', ''handan'', [37039, 37112]),
     (''278'', ''hf'', ''hefei'', [21512, 32933]),
     (''279'', ''hg'', ''hangu'', [27721, 27837]),
     (''280'', ''hg'', ''huanggang'', [40644, 23703]),
     (''281'', ''hh'', ''heihe'', [40657, 27827]),
     (''282'', ''hh'', ''huaihua'', [24576, 21270]),
     (''283'', ''hk'', ''hankou'', [27721, 21475]),
     (''284'', ''hls'', ''helanshan'', [36154, 20848, 23665]),
     (''285'', ''hms'', ''hamishi'', [21704, 23494, 24066]),
     (''287'', ''hn'', ''huainan'', [28142, 21335]),
     (''288'', ''hs'', ''huashan'', [21326, 23665]),
     (''289'', ''hs'', ''hengshan'', [24658, 23665]),
     (''290'', ''hs'', ''hengshui'', [34913, 27700]),
     (''291'', ''hs'', ''heshan'', [40548, 23665]),
     (''292'', ''hs'', ''huangshi'', [40644, 30707]),
     (''294'', ''hts'', ''hetianshi'', [21644, 30000, 24066]),
     (''295'', ''hx'', ''huaxian'', [33457, 21439]),
     (''296'', ''hy'', ''huangyan'', [40644, 23721]),
     (''297'', ''hy'', ''hengyang'', [34913, 38451]),
     (''298'', ''hy'', ''huiyang'', [24800, 38451]),
     (''299'', ''hz'', ''huizhou'', [24800, 24030]),
     (''305'', ''jdz'', ''jingdezhen'', [26223, 24503, 38215]),
     (''307'', ''jgs'', ''jinggangshan'', [20117, 20872, 23665]),
     (''308'', ''jh'', ''jinhua'', [37329, 21326]),
     (''309'', ''jh'', ''jinghong'', [26223, 27946]),
     (''310'', ''pl'', ''penglai'', [34028, 33713]),
     (''311'', ''jj'', ''jiaojiang'', [26898, 27743]),
     (''312'', ''sb'', ''shibing'', [26045, 31177]),
     (''314'', ''jl'', ''jiulong'', [20061, 40857]),
     (''316'', ''jm'', ''jiangmen'', [27743, 38376]),
     (''317'', ''jms'', ''jiamusi'', [20339, 26408, 26031]),
     (''318'', ''jn'', ''jining'', [27982, 23425]),
     (''321'', ''gy'', ''guyuan'', [22266, 21407]),
     (''324'', ''jy'', ''jianyang'', [24314, 38451]),
     (''325'', ''jy'', ''jiangyin'', [27743, 38452]),
     (''326'', ''jyg'', ''jiayuguan'', [22025, 23786, 20851]),
     (''327'', ''jz'', ''jinzhou'', [38182, 24030]),
     (''328'', ''jz'', ''jingzhou'', [33606, 24030]),
     (''329'', ''kc'', ''kuche'', [24211, 36710]),
     (''330'', ''kel'', ''kuerle'', [24211, 23572, 21202]),
     (''331'', ''kf'', ''kaifeng'', [24320, 23553]),
     (''333'', ''kl'', ''kaili'', [20975, 37324]),
     (''335'', ''kp'', ''kaiping'', [24320, 24179]),
     (''337'', ''lcg'', ''luchaogang'', [33446, 28526, 28207]),
     (''339'', ''ld'', ''luoding'', [32599, 23450]),
     (''340'', ''lf'', ''langfang'', [24266, 22346]),
     (''341'', ''lh'', ''longhai'', [40857, 28023]),
     (''342'', ''lhk'', ''laohekou'', [32769, 27827, 21475]),
     (''344'', ''ls'', ''lushan'', [24208, 23665]),
     (''345'', ''ls'', ''leshan'', [20048, 23665]),
     (''346'', ''ls'', ''lishui'', [20029, 27700]),
     (''348'', ''ly'', ''longyan'', [40857, 23721]),
     (''349'', ''ly'', ''liuyuan'', [26611, 22253]),
     (''350'', ''ly'', ''luoyang'', [27931, 38451]),
     (''351'', ''ly'', ''liaoyang'', [36797, 38451]),
     (''352'', ''ly'', ''liaoyuan'', [36797, 28304]),
     (''353'', ''lyg'', ''lianyungang'', [36830, 20113, 28207]),
     (''354'', ''lz'', ''liuzhou'', [26611, 24030]),
     (''355'', ''lz'', ''luzhou'', [27896, 24030]),
     (''356'', ''zsd'', ''zhangshudong'', [27167, 26641, 19996]),
     (''365'', ''dh'', ''dehong'', [24503, 23439]),
     (''367'', ''mw'', ''mawei'', [39532, 23614]),
     (''369'', ''my'', ''mengyuan'', [23391, 22636]),
     (''370'', ''my'', ''mianyang'', [32501, 38451]),
     (''371'', ''hy'', ''haiyan'', [28023, 26191]),
     (''372'', ''mz'', ''meizhou'', [28228, 24030]),
     (''373'', ''lh'', ''longhua'', [38534, 21270]),
     (''374'', ''na'', ''nanan'', [21335, 23433]),
     (''375'', ''nb'', ''ningbo'', [23425, 27874]),
     (''376'', ''nc'', ''nanchang'', [21335, 26124]),
     (''377'', ''nc'', ''nanchong'', [21335, 20805]),
     (''378'', ''nd'', ''ningde'', [23425, 24503]),
     (''380'', ''nn'', ''nanning'', [21335, 23425]),
     (''382'', ''nts'', ''niutoushan'', [29275, 22836, 23665]),
     (''385'', ''ny'', ''nanyang'', [21335, 38451]),
     (''387'', ''pj'', ''panjin'', [30424, 38182]),
     (''388'', ''pl'', ''pingliang'', [24179, 20937]),
     (''389'', ''pn'', ''puning'', [26222, 23425]),
     (''392'', ''pt'', ''pingtan'', [24179, 28525]),
     (''394'', ''pq'', ''puqi'', [33970, 22331]),
     (''395'', ''gl'', ''gulong'', [35895, 38471]),
     (''396'', ''px'', ''pingxiang'', [20973, 31077]),
     (''397'', ''fy'', ''fanyu'', [30058, 31162]),
     (''399'', ''qm'', ''qiemo'', [19988, 26411]),
     (''401'', ''qs'', ''qiushui'', [27845, 27700]),
     (''402'', ''qsy'', ''qishuyan'', [25114, 22661, 22576]),
     (''403'', ''yx'', ''yixian'', [40671, 21439]),
     (''404'', ''qy'', ''qingyang'', [24198, 38451]),
     (''405'', ''qys'', ''qiyunshan'', [40784, 20113, 23665]),
     (''406'', ''qz'', ''quanzhou'', [27849, 24030]),
     (''407'', ''qz'', ''quzhou'', [34914, 24030]),
     (''408'', ''ra'', ''ruian'', [29790, 23433]),
     (''411'', ''sr'', ''shangrao'', [19978, 39286]),
     (''412'', ''rl'', ''ruili'', [29790, 20029]),
     (''413'', ''sa'', ''shunan'', [39034, 23433]),
     (''414'', ''sbkw'', ''subikewan'', [33487, 27604, 20811, 28286]),
     (''416'', ''sc'', ''shuangcheng'', [21452, 22478]),
     (''417'', ''sd'', ''shandong'', [23665, 19996]),
     (''418'', ''sd'', ''shendu'', [28145, 28193]),
     (''421'', ''sfh'', ''suifenhe'', [32485, 33452, 27827]),
     (''422'', ''sg'', ''shaoguan'', [38902, 20851]),
     (''424'', ''shg'', ''shanhaiguan'', [23665, 28023, 20851]),
     (''426'', ''shz'', ''shihezi'', [30707, 27827, 23376]),
     (''427'', ''lp'', ''liangping'', [26753, 24179]),
     (''428'', ''sjz'', ''shijiazhuang'', [30707, 23478, 24196]),
     (''429'', ''sk'', ''shekou'', [34503, 21475]),
     (''430'', ''sks'', ''sankeshu'', [19977, 26869, 26641]),
     (''431'', ''sl'', ''shilin'', [30707, 26519]),
     (''432'', ''gssl'', ''gansusilu'', [29976, 32899, 19997, 36335]),
     (''433'', ''hs'', ''hanshou'', [27721, 23551]),
     (''435'', ''sm'', ''simao'', [24605, 33541]),
     (''436'', ''smx'', ''sanmenxia'', [19977, 38376, 23777]),
     (''437'', ''sm'', ''sanming'', [19977, 26126]),
     (''439'', ''sn'', ''shannan'', [23665, 21335])]"

lemma changed_1: "changed 12 pinyin_1 cities_1 = Some 14"
  unfolding pinyin_1_def cities_1_def by ((rule changed_same | (rule changed_other, simp))+, simp)

definition pinyin_2 :: "line list" where
  "pinyin_2 =
    [(''440'', ''sp'', ''siping'', [22235, 24179]),
     (''441'', ''sq'', ''shangqiu'', [21830, 19992]),
     (''442'', ''ss'', ''shashi'', [27801, 24066]),
     (''443'', ''ss'', ''sishui'', [27863, 27700]),
     (''444'', ''ss'', ''shishi'', [30707, 29422]),
     (''445'', ''ss'', ''sanshui'', [19977, 27700]),
     (''446'', ''ss'', ''shaoshan'', [38902, 23665]),
     (''447'', ''st'', ''shantou'', [27733, 22836]),
     (''448'', ''sw'', ''shaowu'', [37045, 27494]),
     (''449'', ''sx'', ''shaxian'', [27801, 21439]),
     (''450'', ''sxy'', ''suoxiyu'', [32034, 28330, 23786]),
     (''451'', ''sy'', ''shenyang'', [27784, 38451]),
     (''452'', ''sy'', ''shiyan'', [21313, 22576]),
     (''454'', ''ta'', ''taian'', [27888, 23433]),
     (''455'', ''tc'', ''tacheng'', [22612, 22478]),
     (''456'', ''th'', ''tonghua'', [36890, 21270]),
     (''458'', ''tl'', ''tongliao'', [36890, 36797]),
     (''459'', ''tl'', ''tongling'', [38108, 38517]),
     (''460'', ''tl'', ''tonglu'', [26704, 24208]),
     (''463'', ''tm'', ''tumen'', [22270, 20204]),
     (''464'', ''ts'', ''tianshui'', [22825, 27700]),
     (''465'', ''ts'', ''tuoshan'', [38464, 23665]),
     (''466'', ''ts'', ''tashen'', [22612, 20160]),
     (''467'', ''ts'', ''taoshan'', [26691, 23665]),
     (''468'', ''ts'', ''tangshan'', [21776, 23665]),
     (''470'', ''tt'', ''tiantai'', [22825, 21488]),
     (''471'', ''tx'', ''tunxi'', [23663, 28330]),
     (''473'', ''wdlc'', ''wudalianchi'', [20116, 22823, 36830, 27744]),
     (''474'', ''wds'', ''wudangshan'', [27494, 24403, 23665]),
     (''475'', ''wf'', ''weifang'', [28493, 22346]),
     (''477'', ''wh'', ''wuhan'', [27494, 27721]),
     (''478'', ''wh'', ''wuhu'', [33436, 28246]),
     (''479'', ''wh'', ''weihai'', [23041, 28023]),
     (''480'', ''wh'', ''wuhua'', [20116, 21326]),
     (''481'', ''wj'', ''wujiang'', [21556, 27743]),
     (''484'', ''wlht'', ''wulanhaote'', [20044, 20848, 28009, 29305]),
     (''485'', ''ya'', ''yongan'', [27704, 23433]),
     (''487'', ''wz'', ''wanzhou'', [19975, 24030]),
     (''489'', ''wy'', ''wuyuan'', [23162, 28304]),
     (''491'', ''wz'', ''wenzhou'', [28201, 24030]),
     (''492'', ''wz'', ''wuzhou'', [26791, 24030]),
     (''493'', ''xaj'', ''xinanjiang'', [26032, 23433, 27743]),
     (''494'', ''xc'', ''xichang'', [35199, 26124]),
     (''496'', ''xy'', ''xiangyang'', [35140, 38451]),
     (''497'', ''xh'', ''xiahe'', [22799, 27827]),
     (''498'', ''xk'', ''xikou'', [28330, 21475]),
     (''499'', ''xl'', ''xinglong'', [20852, 38534]),
     (''500'', ''xlht'', ''xilinhaote'', [38177, 26519, 28009, 29305]),
     (''502'', ''qx'', ''qingxian'', [38738, 21439]),
     (''503'', ''xs'', ''xiaoshan'', [33831, 23665]),
     (''504'', ''hsg'', ''hushuguan'', [27986, 22661, 20851]),
     (''505'', ''xt'', ''xiangtang'', [21521, 22616]),
     (''507'', ''xx'', ''xinxiang'', [26032, 20065]),
     (''508'', ''sx'', ''shexian'', [27481, 21439]),
     (''510'', ''xy'', ''xinyang'', [20449, 38451]),
     (''512'', ''xz'', ''xuzhou'', [24464, 24030]),
     (''513'', ''xz'', ''xinzhou'', [24571, 24030]),
     (''514'', ''yb'', ''yibin'', [23452, 23486]),
     (''515'', ''yc'', ''yichang'', [23452, 26124]),
     (''516'', ''yc'', ''yongchuan'', [27704, 24029]),
     (''517'', ''yc'', ''yichun'', [20234, 26149]),
     (''518'', ''yc'', ''yichun'', [23452, 26149]),
     (''519'', ''yd'', ''yongding'', [27704, 23450]),
     (''520'', ''yds'', ''yadesi'', [20122, 30340, 26031]),
     (''521'', ''sz'', ''suzhou'', [23487, 24030]),
     (''523'', ''yj'', ''yanji'', [24310, 21513]),
     (''525'', ''yl'', ''yaolin'', [29814, 29747]),
     (''527'', ''yl'', ''yulin'', [27014, 26519]),
     (''528'', ''yl'', ''yilan'', [20381, 20848]),
     (''529'', ''yns'', ''yiningshi'', [20234, 23425, 24066]),
     (''530'', ''yql'', ''yaqueling'', [40486, 38592, 23725]),
     (''533'', ''yt'', ''yantai'', [28895, 21488]),
     (''534'', ''yt'', ''yingtan'', [40560, 28525]),
     (''535'', ''ytp'', ''youtingpu'', [37038, 20141, 38138]),
     (''536'', ''yw'', ''yiwu'', [20041, 20044]),
     (''537'', ''yx'', ''yixing'', [23452, 20852]),
     (''538'', ''yx'', ''yingxian'', [24212, 21439]),
     (''539'', ''yy'', ''yueyang'', [23731, 38451]),
     (''540'', ''yy'', ''yuyao'', [20313, 23002]),
     (''541'', ''yz'', ''yanzhou'', [20822, 24030]),
     (''542'', ''zb'', ''zibo'', [28100, 21338]),
     (''543'', ''zd'', ''zedang'', [27901, 24403]),
     (''544'', ''zg'', ''zigong'', [33258, 36129]),
     (''545'', ''zh'', ''zunhua'', [36981, 21270]),
     (''546'', ''zh'', ''zhenhai'', [38215, 28023]),
     (''547'', ''zj'', ''zhanjiang'', [28251, 27743]),
     (''548'', ''zj'', ''zhuji'', [35832, 26280]),
     (''550'', ''zjk'', ''zhangjiakou'', [24352, 23478, 21475]),
     (''551'', ''zmd'', ''zhumadian'', [39547, 39532, 24215]),
     (''552'', ''zq'', ''zhaoqing'', [32903, 24198]),
     (''553'', ''zs'', ''zhongshan'', [20013, 23665]),
     (''555'', ''zt'', ''zhaotong'', [26157, 36890]),
     (''556'', ''zw'', ''zhongwei'', [20013, 21355]),
     (''557'', ''hy'', ''hunyuan'', [27985, 28304]),
     (''558'', ''zy'', ''zunyi'', [36981, 20041]),
     (''559'', ''zz'', ''zhengzhou'', [37073, 24030]),
     (''560'', ''zz'', ''zhangzhou'', [28467, 24030]),
     (''561'', ''zz'', ''zhouzhuang'', [21608, 24196]),
     (''562'', ''cd'', ''chengde'', [25215, 24503]),
     (''569'', ''ly'', ''linyi'', [20020, 27778]),
     (''571'', ''jx'', ''jiaxing'', [22025, 20852]),
     (''575'', ''cd'', ''changdou'', [26124, 37117]),
     (''576'', ''hd'', ''huadou'', [33457, 37117]),
     (''577'', ''ha'', ''huaian'', [28142, 23433]),
     (''578'', ''tz'', ''taizhou'', [21488, 24030]),
     (''579'', ''tz'', ''taizhou'', [27888, 24030]),
     (''580'', ''tx'', ''tongxiang'', [26704, 20065]),
     (''581'', ''xh'', ''xinhui'', [26032, 20250]),
     (''582'', ''hy'', ''haiyan'', [28023, 30416]),
     (''583'', ''jhs'', ''jiuhuashan'', [20061, 21326, 23665]),
     (''588'', ''zjj'', ''zhujiajiao'', [26417, 23478, 35282]),
     (''589'', ''ch'', ''chaohu'', [24034, 28246]),
     (''590'', ''gc'', ''guichi'', [36149, 27744]),
     (''594'', ''at'', ''anting'', [23433, 20141]),
     (''595'', ''sy'', ''shangyu'', [19978, 34398]),
     (''596'', ''js'', ''jiashan'', [22025, 21892]),
     (''597'', ''lx'', ''lanxi'', [20848, 28330]),
     (''598'', ''xt'', ''xiangtan'', [28248, 28525]),
     (''599'', ''nxj'', ''nanxijiang'', [26976, 28330, 27743]),
     (''600'', ''zp'', ''zhangping'', [28467, 24179]),
     (''601'', ''zz'', ''zhuzhou'', [26666, 27954]),
     (''603'', ''xy'', ''xinyu'', [26032, 20313]),
     (''605'', ''lps'', ''liupanshui'', [20845, 30424, 27700]),
     (''606'', ''np'', ''nanping'', [21335, 24179]),
     (''611'', ''tk'', ''taikang'', [27888, 24247]),
     (''612'', ''cz'', ''chenzhou'', [37108, 24030]),
     (''614'', ''zz'', ''zaozhuang'', [26531, 24196]),
     (''617'', ''tb'', ''taibei'', [21488, 21271]),
     (''618'', ''ss'', ''songshan'', [23913, 23665]),
     (''619'', ''wl'', ''wenling'', [28201, 23725]),
     (''620'', ''yds'', ''yandangshan'', [38593, 33633, 23665]),
     (''621'', ''zjg'', ''zhangjiagang'', [24352, 23478, 28207]),
     (''629'', ''ch'', ''chenghai'', [28548, 28023]),
     (''630'', ''dq'', ''dongqing'', [19996, 28165]),
     (''652'', ''jy'', ''jinyun'', [32537, 20113]),
     (''653'', ''hgs'', ''huangguoshu'', [40644, 26524, 26641]),
     (''654'', ''tc'', ''taicang'', [22826, 20179]),
     (''655'', ''zjj'', ''zhujiajian'', [26417, 23478, 23574]),
     (''656'', ''wx'', ''wuxian'', [21556, 21439]),
     (''657'', ''snj'', ''shennongjia'', [31070, 20892, 26550]),
     (''658'', ''jd'', ''jiande'', [24314, 24503]),
     (''659'', ''aj'', ''anji'', [23433, 21513]),
     (''660'', ''xgll'', ''xianggelila'', [39321, 26684, 37324, 25289]),
     (''661'', ''ln'', ''lunan'', [36335, 21335]),
     (''662'', ''jq'', ''jiuquan'', [37202, 27849]),
     (''663'', ''zy'', ''zhangye'', [24352, 25494]),
     (''664'', ''ww'', ''wuwei'', [27494, 23041]),
     (''667'', ''pt'', ''putian'', [33670, 30000]),
     (''677'', ''hs'', ''hengshan'', [34913, 23665]),
     (''686'', ''gz'', ''gaozhou'', [39640, 24030])]"

lemma changed_2: "changed 14 pinyin_2 cities_2 = Some 18"
  unfolding pinyin_2_def cities_2_def by ((rule changed_same | (rule changed_other, simp))+, simp)

definition pinyin_3 :: "line list" where
  "pinyin_3 =
    [(''689'', ''nhs'', ''nanhaishi'', [21335, 28023, 24066]),
     (''692'', ''yj'', ''yangjiang'', [38451, 27743]),
     (''693'', ''hy'', ''heyuan'', [27827, 28304]),
     (''696'', ''xy'', ''xuyi'', [30449, 30489]),
     (''697'', ''qd'', ''qidong'', [21551, 19996]),
     (''720'', ''gx'', ''gaoxiong'', [39640, 38596]),
     (''729'', ''ts'', ''taishan'', [21488, 23665]),
     (''732'', ''lq'', ''leqing'', [20048, 28165]),
     (''744'', ''lx'', ''linxi'', [26519, 35199]),
     (''746'', ''gh'', ''guanghua'', [20809, 21270]),
     (''747'', ''dy'', ''dayong'', [22823, 24248]),
     (''750'', ''gh'', ''guanghan'', [24191, 27721]),
     (''755'', ''dy'', ''dongyang'', [19996, 38451]),
     (''833'', ''rc'', ''rongcheng'', [33635, 25104]),
     (''865'', ''ck'', ''cangkou'', [27815, 21475]),
     (''866'', ''fh'', ''fenghuang'', [20964, 20976]),
     (''867'', ''yb'', ''yanbian'', [24310, 36793]),
     (''868'', ''xj'', ''xianju'', [20185, 23621]),
     (''869'', ''lp'', ''luoping'', [32599, 24179]),
     (''870'', ''sqs'', ''sanqingshan'', [19977, 28165, 23665]),
     (''871'', ''ys'', ''yangshuo'', [38451, 26388]),
     (''872'', ''xc'', ''xinchang'', [26032, 26124]),
     (''873'', ''ht'', ''hutun'', [28246, 23663]),
     (''874'', ''ps'', ''pingshi'', [22378, 30707]),
     (''875'', ''lc'', ''lu:cheng'', [21525, 22478]),
     (''876'', ''sf'', ''shuofang'', [30805, 25918]),
     (''877'', ''ls'', ''luoshe'', [27931, 31038]),
     (''878'', ''zaz'', ''zhanganzhen'', [38271, 23433, 38215]),
     (''879'', ''wt'', ''wangting'', [26395, 20141]),
     (''880'', ''cc'', ''cicheng'', [24904, 22478]),
     (''881'', ''kq'', ''keqiao'', [26607, 26725]),
     (''882'', ''lp'', ''linping'', [20020, 24179]),
     (''883'', ''wd'', ''wangdian'', [29579, 24215]),
     (''884'', ''yd'', ''yingde'', [33521, 24503]),
     (''885'', ''jh'', ''jinghai'', [38745, 28023]),
     (''886'', ''tgt'', ''tangguantun'', [21776, 23448, 23663]),
     (''887'', ''wq'', ''wuqiao'', [21556, 26725]),
     (''888'', ''yc'', ''yucheng'', [31161, 22478]),
     (''889'', ''zx'', ''zouxian'', [37049, 21439]),
     (''890'', ''flj'', ''fuliji'', [31526, 31163, 38598]),
     (''891'', ''gz'', ''guzhen'', [22266, 38215]),
     (''892'', ''mg'', ''mingguang'', [26126, 20809]),
     (''893'', ''lj'', ''lujiang'', [24208, 27743]),
     (''894'', ''dh'', ''donghai'', [19996, 28023]),
     (''895'', ''xy'', ''xinyi'', [26032, 27778]),
     (''896'', ''px'', ''pixian'', [37043, 21439]),
     (''897'', ''lk'', ''lankao'', [20848, 32771]),
     (''898'', ''mq'', ''minquan'', [27665, 26435]),
     (''899'', ''yc'', ''yucheng'', [34398, 22478]),
     (''900'', ''ds'', ''dangshan'', [30720, 23665]),
     (''901'', ''ss'', ''shanshan'', [37167, 21892]),
     (''902'', ''dwp'', ''diwopu'', [20302, 31389, 38138]),
     (''903'', ''wwn'', ''wuweinan'', [27494, 23041, 21335]),
     (''904'', ''gg'', ''gangu'', [29976, 35895]),
     (''905'', ''xj'', ''xinji'', [36763, 38598]),
     (''906'', ''pt'', ''paitou'', [29260, 22836]),
     (''907'', ''yq'', ''yangquan'', [38451, 27849]),
     (''908'', ''sy'', ''shouyang'', [23551, 38451]),
     (''909'', ''tz'', ''tengzhou'', [28373, 24030]),
     (''910'', ''xc'', ''xiancun'', [20185, 26449]),
     (''911'', ''st'', ''shitan'', [30707, 28393]),
     (''912'', ''sl'', ''shilong'', [30707, 40857]),
     (''913'', ''hl'', ''hengli'', [27178, 27813]),
     (''914'', ''zmt'', ''zhangmutou'', [27167, 26408, 22836]),
     (''915'', ''tts'', ''tangtousha'', [22616, 22836, 21414]),
     (''916'', ''bj'', ''buji'', [24067, 21513]),
     (''917'', ''xx'', ''xiangxiang'', [28248, 20065]),
     (''918'', ''ld'', ''loudi'', [23044, 24213]),
     (''920'', ''lsj'', ''lengshuijiang'', [20919, 27700, 27743]),
     (''921'', ''xh'', ''xinhua'', [26032, 21270]),
     (''922'', ''pk'', ''pingkou'', [22378, 21475]),
     (''923'', ''yx'', ''yanxi '', [28895, 28330, 32]),
     (''924'', ''dz'', ''dizhuang'', [20302, 24196]),
     (''925'', ''xp'', ''xupu'', [28294, 28006]),
     (''926'', ''cx'', ''chenxi '', [36784, 28330, 32]),
     (''927'', ''hp'', ''heping'', [21644, 24179]),
     (''928'', ''lc'', ''longchuan'', [40857, 24029]),
     (''929'', ''pj'', ''pujiang'', [28006, 27743]),
     (''930'', ''xs'', ''xiaoshun'', [23389, 39034]),
     (''931'', ''bt'', ''bantian'', [22338, 30000]),
     (''932'', ''xg'', ''xingan'', [26032, 24178]),
     (''933'', ''ja'', ''jian'', [21513, 23433]),
     (''934'', ''xg'', ''xingguo'', [20852, 22269]),
     (''935'', ''xf'', ''xinfeng'', [20449, 20016]),
     (''936'', ''dn'', ''dingnan'', [23450, 21335]),
     (''937'', ''xn'', ''xianning'', [21688, 23425]),
     (''938'', ''lc'', ''lechang'', [20048, 26124]),
     (''939'', ''mb'', ''maba'', [39532, 22365]),
     (''940'', ''ly'', ''leiyang'', [32786, 38451]),
     (''941'', ''hm'', ''huangmei'', [40644, 26757]),
     (''942'', ''da'', ''dean'', [24503, 23433]),
     (''943'', ''yx'', ''yongxiu'', [27704, 20462]),
     (''944'', ''tc'', ''tongcheng'', [26704, 22478]),
     (''945'', ''tzs'', ''tianzhushan'', [22825, 26609, 23665]),
     (''946'', ''th'', ''taihu'', [22826, 28246]),
     (''947'', ''xt'', ''xingtai'', [37026, 21488]),
     (''948'', ''ss'', ''susong'', [23487, 26494]),
     (''949'', ''shs'', ''shaheshi'', [27801, 27827, 24066]),
     (''950'', ''ty'', ''tangyin'', [27748, 38452]),
     (''951'', ''hb'', ''hebi'', [40548, 22721]),
     (''952'', ''xy'', ''xiayi'', [22799, 37009]),
     (''953'', ''hc'', ''huacheng'', [21326, 22478]),
     (''954'', ''xn'', ''xingning'', [20852, 23425]),
     (''955'', ''fs'', ''fengshun'', [20016, 39034]),
     (''956'', ''jy'', ''jieyang'', [25581, 38451]),
     (''957'', ''ys'', ''yanshi'', [20547, 24072]),
     (''958'', ''gy'', ''gongyi'', [24041, 20041]),
     (''959'', ''wy'', ''wuyi'', [27494, 20041]),
     (''960'', ''yk'', ''yongkang'', [27704, 24247]),
     (''961'', ''qt'', ''qingtian'', [38738, 30000]),
     (''962'', ''fy'', ''fuyu'', [25206, 20313]),
     (''963'', ''hc'', ''haicheng'', [28023, 22478]),
     (''964'', ''gbz'', ''goubangzi'', [27807, 24110, 23376]),
     (''965'', ''tg'', ''tanggu'', [22616, 27837]),
     (''966'', ''wfd'', ''wafangdian'', [29926, 25151, 24215]),
     (''967'', ''dsq'', ''dashiqiao'', [22823, 30707, 26725]),
     (''968'', ''lx'', ''longxi'', [38471, 35199]),
     (''969'', ''yy'', ''yingyang'', [33637, 38451]),
     (''970'', ''yz'', ''yongzhou'', [27704, 24030]),
     (''971'', ''qz'', ''quanzhou'', [20840, 24030]),
     (''972'', ''jcj'', ''jinchengjiang'', [37329, 22478, 27743]),
     (''973'', ''ly'', ''longyou'', [40857, 28216]),
     (''974'', ''mw'', ''mawei'', [40635, 23614]),
     (''975'', ''dy'', ''douyun'', [37117, 21248]),
     (''976'', ''gd'', ''guiding'', [36149, 23450]),
     (''977'', ''dx'', ''dongxiang'', [19996, 20065]),
     (''978'', ''lp'', ''linpu'', [20020, 28006]),
     (''979'', ''zs'', ''zhangshu'', [27167, 26641]),
     (''980'', ''lz'', ''liuzhi'', [20845, 26525]),
     (''981'', ''ll'', ''liling'', [37300, 38517]),
     (''982'', ''yp'', ''yuping'', [29577, 23631]),
     (''983'', ''tz'', ''tongzi'', [26704, 26771]),
     (''984'', ''xw'', ''xuanwei'', [23459, 23041]),
     (''985'', ''qj'', ''qujing'', [26354, 38742]),
     (''986'', ''zy'', ''zhenyuan'', [38215, 36828]),
     (''987'', ''gs'', ''ganshui'', [36214, 27700]),
     (''988'', ''qj'', ''qijiang'', [32166, 27743]),
     (''989'', ''qd'', ''qidong'', [31041, 19996]),
     (''990'', ''da'', ''dongan'', [19996, 23433]),
     (''991'', ''jx'', ''jinxian'', [36827, 36132]),
     (''992'', ''ez'', ''ezhou'', [37122, 24030]),
     (''993'', ''lz'', ''laizhou'', [26469, 33311]),
     (''994'', ''gk'', ''guokeng'', [37101, 22353]),
     (''995'', ''sc'', ''shunchang'', [39034, 26124]),
     (''996'', ''gt'', ''gutian'', [21476, 30000]),
     (''997'', ''xq'', ''xieqiao'', [26012, 26725]),
     (''998'', ''mc'', ''meichi'', [28228, 27744]),
     (''999'', ''yt'', ''yiting'', [20041, 20141]),
     (''1000'', ''js'', ''jiangshan'', [27743, 23665]),
     (''1001'', ''ys'', ''yushan'', [29577, 23665])]"

lemma changed_3: "changed 18 pinyin_3 cities_3 = Some 32"
  unfolding pinyin_3_def cities_3_def by ((rule changed_same | (rule changed_other, simp))+, simp)

definition pinyin_4 :: "line list" where
  "pinyin_4 =
    [(''1002'', ''yy'', ''yiyang'', [24331, 38451]),
     (''1003'', ''fc'', ''fengcheng'', [20016, 22478]),
     (''1004'', ''fy'', ''fenyi'', [20998, 23452]),
     (''1005'', ''ng'', ''ningguo'', [23425, 22269]),
     (''1006'', ''xc'', ''xuancheng'', [23459, 22478]),
     (''1007'', ''dt'', ''dangtu'', [24403, 28034]),
     (''1008'', ''jx'', ''jixi'', [32489, 28330]),
     (''1009'', ''sjh'', ''shuijiahu'', [27700, 23478, 28246]),
     (''1010'', ''fy'', ''fengyang'', [20964, 38451]),
     (''1011'', ''nx'', ''ningxiang'', [23425, 20065]),
     (''1012'', ''lt'', ''longtan'', [40857, 28525]),
     (''1013'', ''jkj'', ''jiangkouji'', [27743, 21475, 38598]),
     (''1014'', ''zj'', ''zhangji'', [24352, 38598]),
     (''1015'', ''sj'', ''sanjie'', [19977, 30028]),
     (''1016'', ''fc'', ''fanchang'', [32321, 26124]),
     (''1017'', ''qtz'', ''qiaotouzhen'', [26725, 22836, 38215]),
     (''1018'', ''bn'', ''benniu'', [22868, 29275]),
     (''1019'', ''lk'', ''lingkou'', [38517, 21475]),
     (''1020'', ''pa'', ''pingan'', [24179, 23433]),
     (''1021'', ''dx'', ''dingxi'', [23450, 35199]),
     (''1022'', ''xp'', ''xingping'', [20852, 24179]),
     (''1023'', ''lb'', ''lingbao'', [28789, 23453]),
     (''1024'', ''mas'', ''maanshan'', [39532, 38797, 23665]),
     (''1025'', ''mc'', ''mianchi'', [28177, 27744]),
     (''1026'', ''qm'', ''qimen'', [31041, 38376]),
     (''1027'', ''dps'', ''dongpingshi'', [19996, 24179, 24066]),
     (''1028'', ''wn'', ''wannian'', [19975, 24180]),
     (''1029'', ''ym'', ''yima'', [20041, 39532]),
     (''1030'', ''wn'', ''weinan'', [28205, 21335]),
     (''1031'', ''lt'', ''lintong'', [20020, 28540]),
     (''1032'', ''cjp'', ''caijiapo'', [34081, 23478, 22369]),
     (''1033'', ''tx'', ''tongxin'', [21516, 24515]),
     (''1034'', ''qtx'', ''qingtongxia'', [38738, 38108, 23777]),
     (''1035'', ''zn'', ''zhongning'', [20013, 23425]),
     (''1036'', ''tc'', ''taocun'', [26691, 26449]),
     (''1037'', ''hy'', ''haiyang'', [28023, 38451]),
     (''1038'', ''ly'', ''laiyang'', [33713, 38451]),
     (''1039'', ''lc'', ''lancun'', [34013, 26449]),
     (''1040'', ''gm'', ''gaomi'', [39640, 23494]),
     (''1041'', ''lz'', ''linzi'', [20020, 28100]),
     (''1042'', ''zc'', ''zhoucun'', [21608, 26449]),
     (''1043'', ''jz'', ''jiaozhou'', [33014, 24030]),
     (''1044'', ''qz'', ''qingzhou'', [38738, 24030]),
     (''1045'', ''ms'', ''mingshui'', [26126, 27700]),
     (''1046'', ''gzl'', ''gongzhuling'', [20844, 20027, 23725]),
     (''1047'', ''ct'', ''changtu'', [26124, 22270]),
     (''1048'', ''tl'', ''tieling'', [38081, 23725]),
     (''1049'', ''dhs'', ''dahushan'', [22823, 34382, 23665]),
     (''1050'', ''hld'', ''huludao'', [33899, 33446, 23707]),
     (''1051'', ''xc'', ''xingcheng'', [20852, 22478]),
     (''1052'', ''cl'', ''changli'', [26124, 40654]),
     (''1053'', ''lx'', ''luanxian'', [28390, 21439]),
     (''1054'', ''jy'', ''jiangyou'', [27743, 27833]),
     (''1055'', ''mx'', ''mianxian'', [21193, 21439]),
     (''1056'', ''xx'', ''xixiang'', [35199, 20065]),
     (''1057'', ''llp'', ''liuliping'', [20845, 37324, 22378]),
     (''1058'', ''dz'', ''dengzhou'', [37011, 24030]),
     (''1059'', ''bzd'', ''beizhaodian'', [21271, 21484, 24215]),
     (''1060'', ''rz'', ''ruzhou'', [27741, 24030]),
     (''1061'', ''gl'', ''guanlin'', [20851, 26519]),
     (''1062'', ''zh'', ''zhaohua'', [26157, 21270]),
     (''1063'', ''yp'', ''yangping'', [38451, 24179]),
     (''1064'', ''ly'', ''lu:eyang'', [30053, 38451]),
     (''1065'', ''fz'', ''fengzhou'', [20964, 24030]),
     (''1066'', ''ql'', ''qinling'', [31206, 23725]),
     (''1067'', ''wg'', ''wugong'', [27494, 21151]),
     (''1068'', ''bz'', ''bazhou'', [38712, 24030]),
     (''1069'', ''rq'', ''renqiu'', [20219, 19992]),
     (''1070'', ''sn'', ''suning'', [32899, 23425]),
     (''1071'', ''lc'', ''liaocheng'', [32842, 22478]),
     (''1072'', ''tq'', ''taiqian'', [21488, 21069]),
     (''1073'', ''ls'', ''liangshan'', [26753, 23665]),
     (''1074'', ''hz'', ''heze'', [33743, 27901]),
     (''1075'', ''hc'', ''huangchuan'', [28514, 24029]),
     (''1076'', ''xx'', ''xinxian'', [26032, 21439]),
     (''1077'', ''stj'', ''santangji'', [19977, 22530, 38598]),
     (''1078'', ''bz'', ''bozhou'', [20147, 24030]),
     (''1079'', ''mc'', ''macheng'', [40635, 22478]),
     (''1080'', ''hz'', ''huangzhou'', [40644, 24030]),
     (''1081'', ''qc'', ''qichun'', [34162, 26149]),
     (''1082'', ''sc'', ''shucheng'', [33298, 22478]),
     (''1083'', ''mzl'', ''manzhouli'', [28385, 27954, 37324]),
     (''1084'', ''xtj'', ''xiatangji'', [19979, 22616, 38598]),
     (''1085'', ''ys'', ''yingshang'', [39062, 19978]),
     (''1086'', ''qls'', ''qinglongshan'', [38738, 40857, 23665]),
     (''1087'', ''sx'', ''suixi'', [28617, 28330]),
     (''1088'', ''lh'', ''luohe'', [28463, 27827]),
     (''1089'', ''lp'', ''leping'', [20048, 24179]),
     (''1090'', ''dz'', ''dingzhou'', [23450, 24030]),
     (''1091'', ''ys'', ''yueshan'', [26376, 23665]),
     (''1092'', ''jc'', ''jincheng'', [26187, 22478]),
     (''1093'', ''jz'', ''jiaozuo'', [28966, 20316]),
     (''1094'', ''xc'', ''xuchang'', [35768, 26124]),
     (''1095'', ''hm'', ''houma'', [20399, 39532]),
     (''1096'', ''fr'', ''fengrun'', [20016, 28070]),
     (''1097'', ''pzh'', ''panzhihua'', [25856, 26525, 33457]),
     (''1098'', ''hr'', ''huairou'', [24576, 26580]),
     (''1099'', ''wy'', ''wanyuan'', [19975, 28304]),
     (''1100'', ''ga'', ''guangan'', [24191, 23433]),
     (''1102'', ''cw'', ''chunwan'', [26149, 28286]),
     (''1103'', ''yc'', ''yangchun'', [38451, 26149]),
     (''1104'', ''sl'', ''shalang'', [27801, 29701]),
     (''1105'', ''mm'', ''maoming'', [33538, 21517]),
     (''1106'', ''rz'', ''rizhao'', [26085, 29031]),
     (''1107'', ''zx'', ''zhangxing'', [38271, 20852]),
     (''1108'', ''ln'', ''longnan'', [40857, 21335]),
     (''1109'', ''tlh'', ''tulihe'', [22270, 37324, 27827]),
     (''1110'', ''js'', ''jishou'', [21513, 39318]),
     (''1111'', ''sy'', ''shaoyang'', [37045, 38451]),
     (''1112'', ''lt'', ''litang'', [40654, 22616]),
     (''1113'', ''yl'', ''yulin'', [29577, 26519]),
     (''1114'', ''ds'', ''dushan'', [29420, 23665]),
     (''1115'', ''mhk'', ''meihekou'', [26757, 27827, 21475]),
     (''1116'', ''bc'', ''baicheng'', [30333, 22478]),
     (''1117'', ''sz'', ''suizhou'', [38543, 24030]),
     (''1118'', ''pq'', ''pingquan'', [24179, 27849]),
     (''1119'', ''ly'', ''lingyuan'', [20940, 28304]),
     (''1120'', ''ybs'', ''yeboshou'', [21494, 26575, 23551]),
     (''1121'', ''jm'', ''jingmen'', [33606, 38376]),
     (''1122'', ''dy'', ''dangyang'', [24403, 38451]),
     (''1123'', ''sm'', ''shimen'', [30707, 38376]),
     (''1124'', ''ll'', ''linli'', [20020, 28583]),
     (''1125'', ''yy'', ''yiyang'', [30410, 38451]),
     (''1126'', ''zjb'', ''zhangjiangbu'', [38271, 27743, 22496]),
     (''1127'', ''tl'', ''tailai'', [27888, 26469]),
     (''1128'', ''sh'', ''suihua'', [32485, 21270]),
     (''1129'', ''nc'', ''nancha'', [21335, 23700]),
     (''1130'', ''ad'', ''anda'', [23433, 36798]),
     (''1131'', ''sc'', ''shacheng'', [27801, 22478]),
     (''1132'', ''jn'', ''jining'', [38598, 23425]),
     (''1133'', ''wh'', ''wuhai'', [20044, 28023]),
     (''1134'', ''szs'', ''shizuishan'', [30707, 22068, 23665]),
     (''1135'', ''zlt'', ''zhalantun'', [25166, 20848, 23663]),
     (''1136'', ''yks'', ''yakeshi'', [29273, 20811, 30707]),
     (''1137'', ''cw'', ''chawu'', [33590, 22366]),
     (''1138'', ''yq'', ''yanqing'', [24310, 24198]),
     (''1139'', ''xy'', ''xingyi'', [20852, 20041]),
     (''1140'', ''bs'', ''baise'', [30334, 33394]),
     (''1141'', ''pg'', ''pingguo'', [24179, 26524]),
     (''1142'', ''nj'', ''nenjiang'', [23273, 27743]),
     (''1143'', ''jgdq'', ''jiagedaqi'', [21152, 26684, 36798, 22855]),
     (''1144'', ''gh'', ''ganhe'', [29976, 27827]),
     (''1145'', ''xlt'', ''xiaolongtan'', [23567, 40857, 28525]),
     (''1146'', ''px'', ''puxiong'', [26222, 38596]),
     (''1147'', ''yg'', ''yangang'', [29141, 23703]),
     (''1148'', ''ms'', ''meishan'', [30473, 23665]),
     (''1149'', ''td'', ''taida'', [27888, 36798]),
     (''1150'', ''qy'', ''qingyuan'', [28165, 21407]),
     (''1151'', ''tpc'', ''taipingchuan'', [22826, 24179, 24029]),
     (''1152'', ''xl'', ''xiliu'', [35199, 26611])]"

lemma changed_4: "changed 32 pinyin_4 cities_4 = Some 38"
  unfolding pinyin_4_def cities_4_def by ((rule changed_same | (rule changed_other, simp))+, simp)

definition pinyin_5 :: "line list" where
  "pinyin_5 =
    [(''1153'', ''bkt'', ''boketu'', [21338, 20811, 22270]),
     (''1154'', ''rhl'', ''ranghulu'', [35753, 28246, 36335]),
     (''1155'', ''bx'', ''benxi'', [26412, 28330]),
     (''1156'', ''xlt'', ''xinlitun'', [26032, 31435, 23663]),
     (''1157'', ''yx'', ''yixian'', [20041, 21439]),
     (''1158'', ''jc'', ''jinchang'', [37329, 26124]),
     (''1159'', ''qj'', ''qingjian'', [28165, 28071]),
     (''1160'', ''bf'', ''beifu'', [21271, 28074]),
     (''1161'', ''nl'', ''ninglang'', [23425, 33943]),
     (''1200'', ''yc'', ''yancheng'', [30416, 22478]),
     (''1201'', ''nh'', ''ninghai'', [23425, 28023]),
     (''1202'', ''ws'', ''wushan'', [27494, 23665]),
     (''1203'', ''zc'', ''zengcheng'', [22686, 22478]),
     (''1204'', ''hc'', ''huangcun'', [40644, 26449]),
     (''1205'', ''tl'', ''tongli'', [21516, 37324]),
     (''1206'', ''ph'', ''pinghu'', [24179, 28246]),
     (''1208'', ''cx'', ''cixi'', [24904, 28330]),
     (''1209'', ''lh'', ''linhai'', [20020, 28023]),
     (''1212'', ''sz'', ''shengzhou'', [23882, 24030]),
     (''1219'', ''wx'', ''wuxue'', [27494, 31348]),
     (''1220'', ''ws'', ''wansheng'', [19975, 30427]),
     (''1221'', ''sx'', ''shexian'', [28041, 21439]),
     (''1222'', ''dc'', ''daocheng'', [31291, 22478]),
     (''1223'', ''jd'', ''jiangdou'', [27743, 37117]),
     (''1224'', ''yz'', ''yizheng'', [20202, 24449]),
     (''1226'', ''ndh'', ''nandaihe'', [21335, 25140, 27827]),
     (''1227'', ''trs'', ''tongrenshi'', [38108, 20161, 24066]),
     (''1230'', ''cm'', ''chongming'', [23815, 26126]),
     (''1232'', ''py'', ''puyang'', [28654, 38451]),
     (''1233'', ''dz'', ''dazhou'', [36798, 24030]),
     (''1236'', ''lc'', ''lincang'', [20020, 27815]),
     (''1299'', ''wx'', ''wuxi'', [20044, 35199]),
     (''1300'', ''yk'', ''yingkou'', [33829, 21475]),
     (''1301'', ''qy'', ''quanyang'', [27849, 38451]),
     (''1302'', ''lj'', ''linjiang'', [20020, 27743]),
     (''1303'', ''sy'', ''songyuan'', [26494, 21407]),
     (''1305'', ''bs'', ''bishui'', [30887, 27700]),
     (''1306'', ''lx'', ''linxi'', [20020, 35199]),
     (''1307'', ''ymp'', ''yimianpo'', [19968, 38754, 22369]),
     (''1308'', ''yq'', ''yuquan'', [29577, 27849]),
     (''1309'', ''ytlh'', ''yitulihe'', [20234, 22270, 37324, 27827]),
     (''1310'', ''xgc'', ''xigucheng'', [35199, 22266, 22478]),
     (''1311'', ''ls'', ''lu:shun'', [26053, 39034]),
     (''1312'', ''sl'', ''shiling'', [30707, 23725]),
     (''1313'', ''el'', ''erlian'', [20108, 36830]),
     (''1314'', ''byeb'', ''baiyunebo'', [30333, 20113, 37122, 21338]),
     (''1315'', ''yj'', ''yongji'', [27704, 27982]),
     (''1316'', ''kl'', ''kelan'', [23714, 23706]),
     (''1317'', ''sz'', ''shuozhou'', [26388, 24030]),
     (''1318'', ''wyl'', ''wuyiling'', [20044, 20234, 23725]),
     (''1319'', ''ff'', ''fengfeng'', [23792, 23792]),
     (''1320'', ''sq'', ''shenqiu'', [27784, 19992]),
     (''1321'', ''cl'', ''chaling'', [33590, 38517]),
     (''1322'', ''dm'', ''dongming'', [19996, 26126]),
     (''1323'', ''lx'', ''lixian'', [28583, 21439]),
     (''1324'', ''ws'', ''weishe'', [23041, 33293]),
     (''1325'', ''kt'', ''kuitun'', [22862, 23663]),
     (''1326'', ''ym'', ''yumen'', [29577, 38376]),
     (''1327'', ''alsk'', ''alashankou'', [38463, 25289, 23665, 21475]),
     (''1329'', ''pj'', ''puji'', [26222, 27982]),
     (''1330'', ''sp'', ''shiping'', [30707, 23631]),
     (''1331'', ''yp'', ''yongping'', [27704, 24179]),
     (''1332'', ''qdh'', ''qiandaohu'', [21315, 23707, 28246]),
     (''1333'', ''ky'', ''kaiyuan'', [24320, 36828]),
     (''1334'', ''gt'', ''guangtong'', [24191, 36890]),
     (''1335'', ''xc'', ''xunchang'', [24033, 22330]),
     (''1336'', ''ys'', ''yingshan'', [33829, 23665]),
     (''1337'', ''bx'', ''baoxiu'', [23453, 31168]),
     (''1338'', ''bs'', ''boshan'', [21338, 23665]),
     (''1339'', ''jd'', ''jiaodong'', [33014, 19996]),
     (''1340'', ''nbs'', ''nanboshan'', [21335, 21338, 23665]),
     (''1341'', ''hh'', ''honghe'', [32418, 27827]),
     (''1342'', ''wsx'', ''wenshanxian'', [25991, 23665, 21439]),
     (''1358'', ''ly'', ''liyang'', [28327, 38451]),
     (''1367'', ''dq'', ''deqing'', [24503, 28165]),
     (''1370'', ''dz'', ''dezhou'', [24503, 24030]),
     (''1371'', ''sn'', ''suining'', [36930, 23425]),
     (''1372'', ''sp'', ''songpan'', [26494, 28504]),
     (''1373'', ''lc'', ''liancheng'', [36830, 22478]),
     (''1407'', ''lh'', ''linhe'', [20020, 27827]),
     (''1421'', ''ch'', ''conghua'', [20174, 21270]),
     (''1422'', ''qy'', ''qingyuan'', [28165, 36828]),
     (''1428'', ''ep'', ''enping'', [24681, 24179]),
     (''1436'', ''sw'', ''shanwei'', [27733, 23614]),
     (''1443'', ''ts'', ''taishun'', [27888, 39034]),
     (''1452'', ''lw'', ''laiwu'', [33713, 33436]),
     (''1453'', ''jz'', ''jinzhong'', [26187, 20013]),
     (''1454'', ''jy'', ''jiyuan'', [27982, 28304]),
     (''1466'', ''at'', ''antu'', [23433, 22270]),
     (''1472'', ''sq'', ''suqian'', [23487, 36801]),
     (''1474'', ''fn'', ''fengning'', [20016, 23425]),
     (''1485'', ''lp'', ''luanping'', [28390, 24179]),
     (''1490'', ''xg'', ''xiaogan'', [23389, 24863]),
     (''1491'', ''zz'', ''zizhong'', [36164, 20013]),
     (''1492'', ''dkl'', ''dakunlun '', [22823, 26118, 20177, 32]),
     (''1493'', ''wjy'', ''wangjiaying'', [29579, 23478, 33829]),
     (''1494'', ''lc'', ''luchuan'', [38470, 24029]),
     (''1495'', ''hk'', ''hekou'', [27827, 21475]),
     (''1496'', ''hsw'', ''haishiwan'', [28023, 30707, 28286]),
     (''1497'', ''xh'', ''xuanhua'', [23459, 21270]),
     (''1498'', ''zz'', ''zhangzheng'', [38271, 24449]),
     (''1499'', ''nk'', ''nankou'', [21335, 21475]),
     (''1500'', ''kz'', ''kangzhuang'', [24247, 24196]),
     (''1501'', ''gbd'', ''gaobeidian'', [39640, 30865, 24215]),
     (''1502'', ''jbc'', ''jiangbiancun'', [27743, 36793, 26449]),
     (''1503'', ''shy'', ''siheyong'', [22235, 21512, 27704]),
     (''1504'', ''jjg'', ''jijiagou'', [32426, 23478, 27807]),
     (''1505'', ''nm'', ''naiman'', [22856, 26364]),
     (''1506'', ''mdh'', ''mianduhe'', [20813, 28193, 27827]),
     (''1507'', ''tn'', ''taonan'', [27950, 21335]),
     (''1508'', ''gbk'', ''gubeikou'', [21476, 21271, 21475]),
     (''1509'', ''hr'', ''huairen'', [24576, 20161]),
     (''1510'', ''nw'', ''ningwu'', [23425, 27494]),
     (''1511'', ''yp'', ''yuanping'', [21407, 24179]),
     (''1512'', ''xx'', ''xiaoxian'', [23389, 21688]),
     (''1513'', ''bxt'', ''baxiantong'', [20843, 20185, 31570]),
     (''1514'', ''dl'', ''donglai'', [19996, 26469]),
     (''1515'', ''my'', ''miyi'', [31859, 26131]),
     (''1516'', ''dc'', ''dechang'', [24503, 26124]),
     (''1517'', ''hy'', ''hanyuan'', [27721, 28304]),
     (''1518'', ''gg'', ''guigang'', [36149, 28207]),
     (''1519'', ''hc'', ''hechun'', [27827, 21767]),
     (''1520'', ''nd'', ''nanding'', [21335, 23450]),
     (''1521'', ''cb'', ''chibi'', [36196, 22721]),
     (''1522'', ''ly'', ''laiyuan'', [28062, 28304]),
     (''1523'', ''lq'', ''lingqiu'', [28789, 19992]),
     (''1524'', ''dx'', ''daixian'', [20195, 21439]),
     (''1525'', ''qc'', ''qiaocun'', [20052, 26449]),
     (''1526'', ''zcd'', ''zhenchengdi'', [38215, 22478, 24213]),
     (''1527'', ''xg'', ''xuangang'', [36713, 23703]),
     (''1528'', ''hb'', ''hebian'', [27827, 36793]),
     (''1529'', ''slc'', ''shanglancun'', [19978, 20848, 26449]),
     (''1530'', ''xs'', ''xianshi'', [20185, 24072]),
     (''1531'', ''jf'', ''jiafeng'', [22025, 23792]),
     (''1532'', ''db'', ''daban'', [22823, 26495]),
     (''1533'', ''hw'', ''hanwang'', [27721, 26106]),
     (''1534'', ''ld'', ''lindong'', [26519, 19996]),
     (''1535'', ''yqq'', ''yangquanqu'', [38451, 27849, 26354]),
     (''1538'', ''rjg'', ''rujigou'', [27741, 31637, 27807]),
     (''1539'', ''gt'', ''gantang'', [24178, 22616]),
     (''1540'', ''cx'', ''chongxin'', [23815, 20449]),
     (''1541'', ''by'', ''baiyin'', [30333, 38134]),
     (''1542'', ''srn'', ''sharinai'', [27801, 26085, 20035]),
     (''1543'', ''ac'', ''acheng'', [38463, 22478]),
     (''1544'', ''zw'', ''zhangwu'', [24432, 27494]),
     (''1545'', ''zl'', ''zhenlai'', [38215, 36169]),
     (''1546'', ''fy'', ''fuyu'', [23500, 35029]),
     (''1547'', ''zjt'', ''zhengjiatun'', [37073, 23478, 23663]),
     (''1548'', ''xy'', ''xunyang'', [26092, 38451]),
     (''1549'', ''sq'', ''shiquan'', [30707, 27849])]"

lemma changed_5: "changed 38 pinyin_5 cities_5 = Some 41"
  unfolding pinyin_5_def cities_5_def by ((rule changed_same | (rule changed_other, simp))+, simp)

definition pinyin_6 :: "line list" where
  "pinyin_6 =
    [(''1550'', ''gj'', ''gujiao'', [21476, 20132]),
     (''1551'', ''yts'', ''yantongshan'', [28895, 31570, 23665]),
     (''1552'', ''ytb'', ''yatunbao'', [29273, 23663, 22561]),
     (''1553'', ''zs'', ''zhashui'', [27048, 27700]),
     (''1554'', ''slh'', ''shulehe'', [30095, 21202, 27827]),
     (''1555'', ''zy'', ''zaoyang'', [26531, 38451]),
     (''1556'', ''al'', ''anlu'', [23433, 38470]),
     (''1557'', ''zj'', ''zhijiang'', [26525, 27743]),
     (''1558'', ''sz'', ''songzi'', [26494, 28363]),
     (''1559'', ''cl'', ''cili'', [24904, 21033]),
     (''1560'', ''zy'', ''ziyang'', [36164, 38451]),
     (''1561'', ''jx'', ''jinxian'', [38182, 21439]),
     (''1562'', ''kq'', ''kouquan'', [21475, 27849]),
     (''1563'', ''pw'', ''pingwang'', [24179, 26106]),
     (''1564'', ''sz'', ''suizhong'', [32485, 20013]),
     (''1565'', ''ky'', ''kaiyuan'', [24320, 21407]),
     (''1566'', ''mgp'', ''muguaping'', [26408, 29916, 22378]),
     (''1567'', ''tyb'', ''tongyuanbao'', [36890, 36828, 22561]),
     (''1568'', ''fhc'', ''fenghuangcheng'', [20964, 20976, 22478]),
     (''1569'', ''wlb'', ''wulongbei'', [20116, 40857, 32972]),
     (''1570'', ''lz'', ''longzhen'', [40857, 38215]),
     (''1572'', ''da'', ''daan'', [22823, 23433]),
     (''1575'', ''ap'', ''anping'', [23433, 24179]),
     (''1576'', ''nf'', ''nanfen'', [21335, 33452]),
     (''1577'', ''zsh'', ''zhusihua'', [29664, 26031, 33457]),
     (''1578'', ''byhs'', ''baiyinhushuo'', [30333, 38899, 32993, 30805]),
     (''1579'', ''hj'', ''hunjiang'', [27985, 27743]),
     (''1580'', ''ssz'', ''songshuzhen'', [26494, 26641, 38215]),
     (''1581'', ''jt'', ''jiutai'', [20061, 21488]),
     (''1582'', ''wc'', ''wuchang'', [20116, 24120]),
     (''1583'', ''js'', ''jishu'', [21513, 33298]),
     (''1584'', ''sl'', ''shulan'', [33298, 20848]),
     (''1585'', ''jh'', ''jiaohe'', [34527, 27827]),
     (''1586'', ''sht'', ''shanhetun'', [23665, 27827, 23663]),
     (''1587'', ''ld'', ''ludao'', [40575, 36947]),
     (''1588'', ''wq'', ''wangqing'', [27754, 28165]),
     (''1589'', ''nh'', ''nehe'', [35767, 27827]),
     (''1590'', ''cjg'', ''caijiagou'', [34081, 23478, 27807]),
     (''1591'', ''tlz'', ''taolaizhao'', [38518, 36182, 26157]),
     (''1592'', ''jj'', ''jiangjin'', [27743, 27941]),
     (''1593'', ''lc'', ''longchang'', [38534, 26124]),
     (''1595'', ''hl'', ''hulan'', [21628, 20848]),
     (''1596'', ''sl'', ''suileng'', [32485, 26865]),
     (''1597'', ''nj'', ''neijiang'', [20869, 27743]),
     (''1598'', ''tb'', ''tongbei'', [36890, 21271]),
     (''1599'', ''qth'', ''qitaihe'', [19971, 21488, 27827]),
     (''1600'', ''bl'', ''boli'', [21187, 21033]),
     (''1601'', ''ml'', ''muleng'', [31302, 26865]),
     (''1602'', ''xcz'', ''xiachengzi'', [19979, 22478, 23376]),
     (''1603'', ''sy'', ''suiyang'', [32485, 38451]),
     (''1604'', ''sx'', ''suixi'', [32485, 35199]),
     (''1605'', ''bg'', ''boguo'', [26575, 26524]),
     (''1606'', ''hjy'', ''hanjiayuan'', [38889, 23478, 22253]),
     (''1607'', ''teq'', ''taerqi'', [22612, 23572, 27668]),
     (''1609'', ''ms'', ''mishan'', [23494, 23665]),
     (''1610'', ''ys'', ''yushu'', [27014, 26641]),
     (''1611'', ''hg'', ''hegang'', [40548, 23703]),
     (''1612'', ''dfh'', ''dongfanghong'', [19996, 26041, 32418]),
     (''1613'', ''bj'', ''binjiang'', [28392, 27743]),
     (''1614'', ''ss'', ''shenshu'', [31070, 26641]),
     (''1615'', ''gl'', ''gulian'', [21476, 33714]),
     (''1616'', ''hb'', ''hebei'', [40548, 21271]),
     (''1617'', ''sys'', ''shuangyashan'', [21452, 40493, 23665]),
     (''1618'', ''tl'', ''tieli'', [38081, 21147]),
     (''1619'', ''jts'', ''jingtieshan'', [38236, 38081, 23665]),
     (''1620'', ''wy'', ''wuying'', [20116, 33829]),
     (''1621'', ''flt'', ''fulitun'', [31119, 21033, 23663]),
     (''1622'', ''fj'', ''fujin'', [23500, 38182]),
     (''1623'', ''jsj'', ''jiansanjiang'', [24314, 19977, 27743]),
     (''1624'', ''zd'', ''zhaodong'', [32903, 19996]),
     (''1625'', ''ya'', ''yian'', [20381, 23433]),
     (''1626'', ''medg'', ''moerdaoga'', [33707, 23572, 36947, 22030]),
     (''1627'', ''aax'', ''angangxi'', [26114, 26114, 28330]),
     (''1628'', ''th'', ''tahe'', [22612, 27827]),
     (''1629'', ''nzs'', ''nianzishan'', [30910, 23376, 23665]),
     (''1630'', ''tx'', ''tongxian'', [36890, 21439]),
     (''1631'', ''yj'', ''yanjiao'', [29141, 37066]),
     (''1632'', ''sh'', ''sanhe'', [19977, 27827]),
     (''1633'', ''yt'', ''yutian'', [29577, 30000]),
     (''1634'', ''sy'', ''shunyi'', [39034, 20041]),
     (''1635'', ''jx'', ''jixian'', [34015, 21439]),
     (''1636'', ''bc'', ''baocheng'', [23453, 22478]),
     (''1637'', ''ft'', ''fengtai'', [20016, 21488]),
     (''1638'', ''xm'', ''xinmin'', [26032, 27665]),
     (''1639'', ''np'', ''nanpiao'', [21335, 31080]),
     (''1640'', ''qhm'', ''qinghemen'', [28165, 27827, 38376]),
     (''1641'', ''dt'', ''dengta'', [28783, 22612]),
     (''1642'', ''hst'', ''hushitai'', [34382, 30707, 21488]),
     (''1643'', ''xtz'', ''xintaizi'', [26032, 21488, 23376]),
     (''1644'', ''dq'', ''daqing'', [22823, 28165]),
     (''1645'', ''czt'', ''chengzitan'', [22478, 23376, 22374]),
     (''1646'', ''zh'', ''zhuanghe'', [24196, 27827]),
     (''1647'', ''msj'', ''masanjia'', [39532, 19977, 23478]),
     (''1648'', ''bt'', ''beitai'', [21271, 21488]),
     (''1649'', ''ts'', ''tashan'', [22612, 23665]),
     (''1650'', ''tsf'', ''tianshifu'', [30000, 24072, 24220]),
     (''1651'', ''sqz'', ''shiqiaozi'', [30707, 26725, 23376]),
     (''1652'', ''wts'', ''waitoushan'', [27498, 22836, 23665]),
     (''1653'', ''cs'', ''cangshi'', [33485, 30707]),
     (''1654'', ''ps'', ''panshi'', [30928, 30707]),
     (''1655'', ''ssg'', ''shansonggang'', [26441, 26494, 23703]),
     (''1656'', ''gs'', ''guosong'', [26524, 26494]),
     (''1657'', ''xls'', ''xinglongshan'', [20852, 38534, 23665]),
     (''1658'', ''aes'', ''aershan'', [38463, 23572, 23665]),
     (''1659'', ''djc'', ''dongjingcheng'', [19996, 20140, 22478]),
     (''1660'', ''cy'', ''chunyang'', [26149, 38451]),
     (''1661'', ''dh'', ''dehui'', [24503, 24800]),
     (''1662'', ''ll'', ''lanleng'', [20848, 26865]),
     (''1663'', ''xf'', ''xiangfang'', [39321, 22346]),
     (''1664'', ''ybl'', ''yabuli'', [20122, 24067, 21147]),
     (''1665'', ''hdhz'', ''hengdaohezi'', [27178, 36947, 27827, 23376]),
     (''1666'', ''hl'', ''hailin'', [28023, 26519]),
     (''1667'', ''ss'', ''shanshi'', [23665, 24066]),
     (''1668'', ''sw'', ''sunwu'', [23385, 21556]),
     (''1669'', ''qjz'', ''qianjinzhen'', [21069, 36827, 38215]),
     (''1670'', ''yj'', ''yaojia'', [23002, 23478]),
     (''1671'', ''wj'', ''wujia'', [20116, 23478]),
     (''1672'', ''mg'', ''mangui'', [28385, 24402]),
     (''1673'', ''swz'', ''suanwangzhuang'', [31639, 29579, 24196]),
     (''1674'', ''tb'', ''tangbao'', [22616, 35961]),
     (''1675'', ''jy'', ''jingyuan'', [38742, 36828]),
     (''1676'', ''ycz'', ''yingchengzi'', [33829, 22478, 23376]),
     (''1677'', ''fcg'', ''fangchenggang'', [38450, 22478, 28207]),
     (''1679'', ''bc'', ''baochi'', [23453, 22395]),
     (''1680'', ''sm'', ''shenmu'', [31070, 26408]),
     (''1681'', ''dq'', ''daqing'', [22823, 38738]),
     (''1682'', ''hl'', ''hailun'', [28023, 20262]),
     (''1683'', ''sl'', ''suolun'', [32034, 20262]),
     (''1685'', ''hb'', ''huaibin'', [28142, 28392]),
     (''1686'', ''xf'', ''xiafan'', [22799, 30024]),
     (''1687'', ''zc'', ''zichuan'', [28100, 24029]),
     (''1688'', ''ts'', ''tieshan'', [38081, 23665]),
     (''1689'', ''cq'', ''changqian'', [21378, 21069]),
     (''1690'', ''shj'', ''shaheji'', [27801, 27827, 38598]),
     (''1691'', ''pt'', ''peitun'', [27803, 23663]),
     (''1692'', ''xql'', ''xiquele'', [21916, 40522, 20048]),
     (''1693'', ''hg'', ''hongguo'', [32418, 26524]),
     (''1694'', ''zyc'', ''zhongyicun'', [20013, 35850, 26449]),
     (''1695'', ''glp'', ''geliping'', [26684, 37324, 22378]),
     (''1696'', ''cx'', ''caoxian'', [26361, 21439]),
     (''1697'', ''xs'', ''xishui'', [28000, 27700]),
     (''1699'', ''ml'', ''meilong'', [26757, 38471]),
     (''1700'', ''rc'', ''ruichang'', [29790, 26124]),
     (''1701'', ''heg'', ''haergai'', [21704, 23572, 30422]),
     (''1702'', ''kk'', ''keke'', [26607, 26607]),
     (''1703'', ''xts'', ''xitieshan'', [38177, 38081, 23665]),
     (''1704'', ''ceh'', ''chaerhan'', [23519, 23572, 27735]),
     (''1705'', ''la'', ''liuan'', [20845, 23433]),
     (''1706'', ''hlg'', ''hailuogou'', [28023, 34746, 27807]),
     (''1707'', ''tjc'', ''tuanjiecun'', [22242, 32467, 26449])]"

lemma changed_6: "changed 41 pinyin_6 cities_6 = Some 48"
  unfolding pinyin_6_def cities_6_def by ((rule changed_same | (rule changed_other, simp))+, simp)

end
