(* ===== verification/PinyinRows2.thy ===== *)
theory PinyinRows2
  imports CityRows2 CityScript
begin

text \<open>
  \<open>docs/citycode/city.pinyin.js\<close>, lines 1051 to 2100, in groups, and the comparison of each group
  with the rows of the city table at the same place.
\<close>

definition pinyin_7 :: "line list" where
  "pinyin_7 =
    [(''1708'', ''lb'', ''libo'', [33620, 27874]),
     (''1711'', ''yp'', ''yangping'', [32650, 22378]),
     (''1803'', ''jj'', ''jinjiang'', [26187, 27743]),
     (''1804'', ''lx'', ''laixi'', [33713, 35199]),
     (''1806'', ''nj'', ''nujiang'', [24594, 27743]),
     (''1819'', ''tc'', ''tengchong'', [33150, 20914]),
     (''1820'', ''bz'', ''binzhou'', [28392, 24030]),
     (''1821'', ''sgns'', ''siguniangshan'', [22235, 22993, 23064, 23665]),
     (''1822'', ''xax'', ''xinganxian'', [20852, 23433, 21439]),
     (''1823'', ''xs'', ''xiangshan'', [35937, 23665]),
     (''1837'', ''db'', ''daba'', [22823, 22365]),
     (''1838'', ''ab'', ''aba'', [38463, 22365]),
     (''1839'', ''jt'', ''jintan'', [37329, 22363]),
     (''1840'', ''px'', ''pingxiang'', [33805, 20065]),
     (''1882'', ''xt'', ''xiantao'', [20185, 26691]),
     (''1884'', ''fc'', ''feicheng'', [32933, 22478]),
     (''1888'', ''ll'', ''longli'', [40857, 37324]),
     (''1889'', ''sf'', ''sifang'', [22235, 26041]),
     (''1890'', ''yf'', ''yongfu'', [27704, 31119]),
     (''1891'', ''lz'', ''luzhai '', [40575, 23528, 32]),
     (''1892'', ''lb'', ''laibin'', [26469, 23486]),
     (''1893'', ''nd'', ''nandan'', [21335, 20025]),
     (''1894'', ''lj'', ''liujia'', [20845, 30002]),
     (''1895'', ''fs'', ''fusui'', [25206, 32485]),
     (''1896'', ''cz'', ''chongzuo'', [23815, 24038]),
     (''1897'', ''nm'', ''ningming'', [23425, 26126]),
     (''1898'', ''xs'', ''xiashi'', [22799, 30707]),
     (''1899'', ''qz'', ''qinzhou'', [38054, 24030]),
     (''1900'', ''la'', ''longan'', [38534, 23433]),
     (''1901'', ''td'', ''tiandong'', [30000, 19996]),
     (''1902'', ''ty'', ''tianyang'', [30000, 38451]),
     (''1903'', ''tl'', ''tianlin'', [30000, 26519]),
     (''1904'', ''sz'', ''shizong'', [24072, 23447]),
     (''1905'', ''zs'', ''zuoshui'', [26590, 27700]),
     (''1906'', ''za'', ''zhenan'', [38215, 23433]),
     (''1907'', ''zs'', ''zhangshao'', [38271, 21736]),
     (''1908'', ''mzp'', ''meizipu'', [26757, 23376, 38138]),
     (''1909'', ''jcp'', ''jianchipu'', [28071, 27744, 38138]),
     (''1910'', ''hy'', ''hanyin'', [27721, 38452]),
     (''1911'', ''ch'', ''chihe'', [27744, 27827]),
     (''1912'', ''glp'', ''gaoliangpu'', [39640, 31921, 38138]),
     (''1913'', ''zxh'', ''zengxihe'', [32559, 28330, 27827]),
     (''1914'', ''cz'', ''chazhen'', [33590, 38215]),
     (''1915'', ''shs'', ''sanhuashi'', [19977, 33457, 30707]),
     (''1916'', ''mzt'', ''mazongtan'', [39532, 36394, 28393]),
     (''1917'', ''shk'', ''shahekan'', [27801, 27827, 22350]),
     (''1918'', ''wdm'', ''wudumen'', [20116, 22581, 38376]),
     (''1919'', ''yjb'', ''yanjiaba'', [26191, 23478, 22365]),
     (''1920'', ''yx'', ''yangxian'', [27915, 21439]),
     (''1921'', ''cg'', ''chenggu'', [22478, 22266]),
     (''1922'', ''qh'', ''qianhe'', [21315, 27827]),
     (''1923'', ''qy'', ''qianyang'', [21315, 38451]),
     (''1924'', ''lx'', ''longxian'', [38471, 21439]),
     (''1925'', ''aky'', ''ankouyao'', [23433, 21475, 31377]),
     (''1926'', ''yh'', ''yihe'', [23452, 21644]),
     (''1927'', ''hyt'', ''huangyangtan'', [40644, 32650, 28393]),
     (''1928'', ''jt'', ''jingtai'', [26223, 27888]),
     (''1929'', ''gl'', ''gaolan'', [30347, 20848]),
     (''1930'', ''lsw'', ''lishuwan'', [26792, 26641, 28286]),
     (''1931'', ''jj'', ''jinjie'', [38182, 30028]),
     (''1932'', ''dbd'', ''dabaodang'', [22823, 20445, 24403]),
     (''1933'', ''cjhc'', ''caojiahuochang'', [26361, 23478, 20249, 22330]),
     (''1934'', ''njl'', ''niujialiang'', [29275, 23478, 26753]),
     (''1935'', ''yh'', ''yuhe'', [40060, 27827]),
     (''1936'', ''zc'', ''zhenchuan'', [38215, 24029]),
     (''1937'', ''mz'', ''mizhi'', [31859, 33026]),
     (''1938'', ''sd'', ''suide'', [32485, 24503]),
     (''1939'', ''qj'', ''qingjian'', [28165, 28071]),
     (''1940'', ''zz'', ''zizhang'', [23376, 38271]),
     (''1941'', ''gq'', ''ganquan'', [29976, 27849]),
     (''1942'', ''fx'', ''fuxian'', [23500, 21439]),
     (''1943'', ''hl'', ''huangling'', [40644, 38517]),
     (''1944'', ''pdc'', ''podicun'', [22369, 24213, 26449]),
     (''1945'', ''sz'', ''sunzhen'', [23385, 38215]),
     (''1946'', ''pc'', ''pucheng'', [33970, 22478]),
     (''1947'', ''zq'', ''zhangqiao'', [24352, 26725]),
     (''1948'', ''xfz'', ''xinfengzhen'', [26032, 20016, 38215]),
     (''1949'', ''yl'', ''yanliang'', [38414, 33391]),
     (''1950'', ''sy'', ''sanyuan'', [19977, 21407]),
     (''1951'', ''by'', ''beiying'', [21271, 33829]),
     (''1952'', ''ml'', ''mingli'', [40483, 26446]),
     (''1953'', ''xw'', ''xiuwen'', [20462, 25991]),
     (''1954'', ''bts'', ''beitianshou'', [21271, 30000, 21463]),
     (''1955'', ''hy'', ''hongya'', [32418, 23830]),
     (''1956'', ''fy'', ''foyu'', [20315, 23786]),
     (''1957'', ''njp'', ''niujingping'', [29275, 26230, 22378]),
     (''1958'', ''yz'', ''yanzhai'', [27839, 23528]),
     (''1959'', ''ljz'', ''lujiazhuang'', [36335, 23478, 24196]),
     (''1960'', ''sh'', ''shihui'', [30707, 20250]),
     (''1961'', ''yl'', ''yangle'', [38451, 20048]),
     (''1962'', ''sc'', ''shecheng'', [31038, 22478]),
     (''1963'', ''dm'', ''dongma'', [19996, 39532]),
     (''1964'', ''ys'', ''yushe'', [27014, 31038]),
     (''1965'', ''tq'', ''taiqu'', [21488, 26354]),
     (''1966'', ''hc'', ''hancun'', [38889, 26449]),
     (''1967'', ''dh'', ''donghe'', [19996, 27827]),
     (''1968'', ''wx'', ''wuxiang'', [27494, 20065]),
     (''1969'', ''nc'', ''niecun'', [32834, 26449]),
     (''1970'', ''nw'', ''nanwang'', [21335, 29579]),
     (''1971'', ''qx'', ''qinxian'', [27777, 21439]),
     (''1972'', ''dl'', ''duanliu'', [27573, 26611]),
     (''1973'', ''wjp'', ''weijiapo'', [39759, 23478, 22369]),
     (''1974'', ''dp'', ''daping'', [22823, 24179]),
     (''1975'', ''xd'', ''xiadian'', [22799, 24215]),
     (''1976'', ''xy'', ''xiangyuan'', [35140, 22435]),
     (''1977'', ''wy'', ''wuyang'', [20116, 38451]),
     (''1978'', ''hc'', ''haocun'', [37085, 26449]),
     (''1979'', ''ds'', ''dianshang'', [24215, 19978]),
     (''1980'', ''dx'', ''dingxing'', [23450, 20852]),
     (''1981'', ''bhd'', ''beihedian'', [21271, 27827, 24215]),
     (''1982'', ''gc'', ''gucheng'', [22266, 22478]),
     (''1983'', ''xs'', ''xushui'', [24464, 27700]),
     (''1984'', ''ch'', ''caohe'', [28437, 27827]),
     (''1985'', ''yjz'', ''yujiazhuang'', [20110, 23478, 24196]),
     (''1986'', ''wx'', ''wanxian'', [23436, 21439]),
     (''1987'', ''wd'', ''wangdou'', [26395, 37117]),
     (''1988'', ''qfd'', ''qingfengdian'', [28165, 39118, 24215]),
     (''1989'', ''zxd'', ''zhaixidian'', [23528, 35199, 24215]),
     (''1990'', ''cap'', ''chenganpu'', [25215, 23433, 38138]),
     (''1991'', ''xl'', ''xinle'', [26032, 20048]),
     (''1992'', ''xac'', ''xinancun'', [26032, 23433, 26449]),
     (''1993'', ''zd'', ''zhengding'', [27491, 23450]),
     (''1994'', ''lxz'', ''liuxinzhuang'', [26611, 36763, 24196]),
     (''1995'', ''dy'', ''douyu'', [31398, 22954]),
     (''1996'', ''ys'', ''yuanshi'', [20803, 27663]),
     (''1997'', ''gy'', ''gaoyi'', [39640, 37009]),
     (''1998'', ''ygy'', ''yageying'', [40493, 40509, 33829]),
     (''1999'', ''lc'', ''lincheng'', [20020, 22478]),
     (''2000'', ''ly'', ''longyao'', [38534, 23591]),
     (''2001'', ''nq'', ''neiqiu'', [20869, 37041]),
     (''2002'', ''gz'', ''guanzhuang'', [23448, 24196]),
     (''2003'', ''mt'', ''matou'', [39532, 22836]),
     (''2004'', ''xp'', ''xinpo'', [26032, 22369]),
     (''2005'', ''hl'', ''huolu'', [33719, 40575]),
     (''2006'', ''tq'', ''touquan'', [22836, 27849]),
     (''2007'', ''xa'', ''xiaan'', [19979, 23433]),
     (''2008'', ''sa'', ''shangan'', [19978, 23433]),
     (''2009'', ''yf'', ''yanfeng'', [23721, 23792]),
     (''2010'', ''nzc'', ''nanzhangcun'', [21335, 24352, 26449]),
     (''2011'', ''jn'', ''jingnan'', [20117, 21335]),
     (''2012'', ''ny'', ''nanyu'', [21335, 23786]),
     (''2013'', ''nzg'', ''niangziguan'', [23064, 23376, 20851]),
     (''2014'', ''cj'', ''chengjia'', [31243, 23478]),
     (''2015'', ''xps'', ''xiapanshi'', [19979, 30424, 30707]),
     (''2016'', ''yh'', ''yanhui'', [23721, 20250]),
     (''2017'', ''ll'', ''luanliu'', [20081, 27969]),
     (''2018'', ''bys'', ''baiyangshu'', [30333, 32650, 22661]),
     (''2019'', ''ls'', ''linshui'', [20020, 27700]),
     (''2020'', ''pc'', ''pengcheng'', [24429, 22478]),
     (''2021'', ''yj'', ''yijing'', [20041, 20117])]"

lemma changed_7: "changed 48 pinyin_7 cities_7 = Some 51"
  unfolding pinyin_7_def cities_7_def by ((rule changed_same | (rule changed_other, simp))+, simp)

definition pinyin_8 :: "line list" where
  "pinyin_8 =
    [(''2022'', ''hc'', ''hecun'', [21644, 26449]),
     (''2023'', ''cs'', ''cishan'', [30913, 23665]),
     (''2024'', ''cx'', ''cixi'', [30913, 35199]),
     (''2025'', ''phb'', ''paihuaibei'', [24472, 24458, 21271]),
     (''2026'', ''xgz'', ''xinguzhen'', [26032, 22266, 38215]),
     (''2027'', ''sld'', ''shenlidian'', [20160, 37324, 24215]),
     (''2028'', ''yy'', ''yangyi'', [38451, 37009]),
     (''2029'', ''dz'', ''douzhuang'', [35910, 24196]),
     (''2030'', ''pd'', ''piandian'', [20559, 24215]),
     (''2031'', ''jd'', ''jingdian'', [20117, 24215]),
     (''2032'', ''kc'', ''kangcheng'', [24247, 22478]),
     (''2033'', ''wa'', ''wuan'', [27494, 23433]),
     (''2034'', ''xz'', ''xuanzhong'', [24748, 38047]),
     (''2035'', ''dyg'', ''dongyangguan'', [19996, 38451, 20851]),
     (''2036'', ''lc'', ''licheng'', [40654, 22478]),
     (''2037'', ''sy'', ''shuiyang'', [27700, 27915]),
     (''2038'', ''wzz'', ''weizizhen'', [24494, 23376, 38215]),
     (''2039'', ''lc'', ''lucheng'', [28510, 22478]),
     (''2040'', ''wzc'', ''wenzhuangcun'', [25991, 24196, 26449]),
     (''2041'', ''mc'', ''mancun'', [28385, 26449]),
     (''2042'', ''zy'', ''zhangyuan'', [38271, 22435]),
     (''2043'', ''hn'', ''huanan'', [28369, 21335]),
     (''2044'', ''fq'', ''fengqiu'', [23553, 19992]),
     (''2045'', ''yj'', ''yanjin'', [24310, 27941]),
     (''2046'', ''ggz'', ''guguzhai'', [21476, 22266, 23528]),
     (''2047'', ''hj'', ''huojia'', [33719, 22025]),
     (''2048'', ''szy'', ''shiziying'', [29422, 23376, 33829]),
     (''2049'', ''xw'', ''xiuwu'', [20462, 27494]),
     (''2050'', ''dw'', ''daiwang'', [24453, 29579]),
     (''2051'', ''hz'', ''houzhai'', [21518, 23528]),
     (''2052'', ''kz'', ''kongzhuang'', [23380, 24196]),
     (''2053'', ''dp'', ''dongpo'', [19996, 22369]),
     (''2054'', ''dyq'', ''dongyuanqing'', [19996, 20803, 24198]),
     (''2055'', ''bbq'', ''beibanqiao'', [21271, 26495, 26725]),
     (''2056'', ''ncp'', ''nanchenpu'', [21335, 38472, 38138]),
     (''2057'', ''gp'', ''gaoping'', [39640, 24179]),
     (''2058'', ''xyc'', ''xiyangcun'', [35199, 38451, 26449]),
     (''2059'', ''dtl'', ''dongtianliang'', [19996, 30000, 33391]),
     (''2060'', ''xnc'', ''xinancheng'', [35199, 21335, 21576]),
     (''2061'', ''xs'', ''xiaosong'', [23567, 23435]),
     (''2062'', ''dxz'', ''daxinzhuang'', [22823, 36763, 24196]),
     (''2063'', ''qy'', ''qinyang'', [27777, 38451]),
     (''2064'', ''nz'', ''niezhang'', [25423, 25484]),
     (''2065'', ''qhb'', ''qinhebei'', [27777, 27827, 21271]),
     (''2066'', ''ld'', ''liandong'', [33714, 19996]),
     (''2067'', ''zc'', ''zhicheng'', [36725, 22478]),
     (''2068'', ''lz'', ''liuzhuang'', [30041, 24196]),
     (''2069'', ''wz'', ''wangzhuang'', [29579, 24196]),
     (''2070'', ''bh'', ''baihe'', [30333, 21512]),
     (''2071'', ''mj'', ''mengjin'', [23391, 27941]),
     (''2072'', ''lc'', ''lincun'', [26519, 26449]),
     (''2073'', ''njh'', ''niujiaohe'', [29275, 21483, 27827]),
     (''2074'', ''rz'', ''rongzhuang'', [25102, 24196]),
     (''2075'', ''gt'', ''gaotou'', [39640, 22836]),
     (''2076'', ''zgz'', ''zhangguizhuang'', [24352, 36149, 24196]),
     (''2077'', ''jlc'', ''junliangcheng'', [20891, 31918, 22478]),
     (''2078'', ''bt'', ''beitang'', [21271, 22616]),
     (''2079'', ''cd'', ''chadian'', [33590, 28096]),
     (''2080'', ''tz'', ''tianzhuang'', [30000, 24196]),
     (''2081'', ''tf'', ''tangfang'', [21776, 22346]),
     (''2082'', ''fn'', ''fengnan'', [20016, 21335]),
     (''2083'', ''lwp'', ''langwopu'', [29436, 31389, 38138]),
     (''2084'', ''slz'', ''shilangzhuang'', [30707, 37070, 24196]),
     (''2085'', ''fss'', ''fushansi'', [31119, 23665, 23546]),
     (''2086'', ''ml'', ''maliu'', [39532, 26611]),
     (''2087'', ''ygz'', ''yanggezhuang'', [26472, 21508, 24196]),
     (''2088'', ''bb'', ''beibei'', [21271, 30874]),
     (''2089'', ''zgz'', ''zhugezhuang'', [26417, 21508, 24196]),
     (''2090'', ''xlm'', ''xiaolongmen'', [23567, 40857, 38376]),
     (''2091'', ''jls'', ''jiulongshan'', [20061, 40857, 23665]),
     (''2092'', ''hft'', ''houfengtai'', [21518, 23553, 21488]),
     (''2093'', ''lsy'', ''liushouying'', [30041, 23432, 33829]),
     (''2094'', ''lt'', ''lutai'', [33446, 21488]),
     (''2095'', ''sq'', ''shuangqiao'', [21452, 26725]),
     (''2096'', ''dc'', ''dachang'', [22823, 21378]),
     (''2097'', ''sp'', ''sanping'', [19977, 24179]),
     (''2098'', ''djl'', ''duanjialing'', [27573, 30002, 23725]),
     (''2099'', ''ys'', ''yangshi'', [26472, 24066]),
     (''2100'', ''bs'', ''bieshan'', [21035, 23665]),
     (''2101'', ''xg'', ''xigou'', [35199, 27807]),
     (''2102'', ''ls'', ''luoshan'', [34746, 23665]),
     (''2103'', ''fzz'', ''fuzhuangzi'', [23500, 24196, 23376]),
     (''2104'', ''cy'', ''chayuan'', [33590, 22253]),
     (''2105'', ''qst'', ''qingshuitang'', [28165, 27700, 22616]),
     (''2106'', ''tfb'', ''tianfubei'', [22825, 24220, 21271]),
     (''2107'', ''qp'', ''qingping'', [28165, 24179]),
     (''2108'', ''lmn'', ''longmennan'', [40857, 38376, 21335]),
     (''2109'', ''yc'', ''yichuan'', [20234, 24029]),
     (''2110'', ''ry'', ''ruyang'', [27741, 38451]),
     (''2111'', ''lrz'', ''linruzhen'', [20020, 27741, 38215]),
     (''2112'', ''zx'', ''zhangxin'', [24352, 36763]),
     (''2113'', ''mx'', ''miaoxia'', [24217, 19979]),
     (''2114'', ''wt'', ''wangtang'', [29579, 22530]),
     (''2115'', ''djk'', ''dajiangkou'', [22823, 27743, 21475]),
     (''2116'', ''xtj'', ''xiaotunjie'', [23567, 23663, 34903]),
     (''2117'', ''sjw'', ''shangjiuwu'', [21830, 37202, 21153]),
     (''2118'', ''bf'', ''baofeng'', [23453, 20016]),
     (''2119'', ''nls'', ''niulanshan'', [29275, 26639, 23665]),
     (''2120'', ''ggz'', ''gaogezhuang'', [39640, 21508, 24196]),
     (''2122'', ''ls'', ''lushan'', [40065, 23665]),
     (''2123'', ''mc'', ''miaocheng'', [24217, 22478]),
     (''2124'', ''cd'', ''caodian'', [33609, 24215]),
     (''2125'', ''jj'', ''jiaojie'', [20132, 30028]),
     (''2126'', ''tjz'', ''tongjunzhuang'', [32479, 20891, 24196]),
     (''2127'', ''xtz'', ''xiaotangzhuang'', [23567, 21776, 24196]),
     (''2128'', ''nz'', ''nanzhao'', [21335, 21484]),
     (''2129'', ''jls'', ''jiulishan'', [20061, 37324, 23665]),
     (''2130'', ''dz'', ''dongzhuang'', [33891, 24196]),
     (''2131'', ''hld'', ''huangludian'', [30343, 36335, 24215]),
     (''2132'', ''jgz'', ''jugezhuang'', [24040, 21508, 24196]),
     (''2133'', ''wz'', ''wenzhuang'', [38395, 24196]),
     (''2134'', ''psd'', ''pushandian'', [33970, 23665, 24215]),
     (''2135'', ''sbq'', ''shuangbanqiao'', [21452, 26495, 26725]),
     (''2136'', ''ht'', ''hantang'', [38889, 22530]),
     (''2137'', ''dcz'', ''dachengzi'', [22823, 22478, 23376]),
     (''2138'', ''rd'', ''rangdong'', [31344, 19996]),
     (''2139'', ''qzl'', ''qiangzilu'', [22681, 23376, 36335]),
     (''2140'', ''xj'', ''xiaji'', [22799, 38598]),
     (''2141'', ''ldhz'', ''liudaohezi'', [20845, 36947, 27827, 23376]),
     (''2142'', ''gy'', ''gaoying'', [37084, 33829]),
     (''2143'', ''gp'', ''gengpo'', [32831, 22369]),
     (''2144'', ''qwt'', ''qianweitang'', [21069, 33479, 22616]),
     (''2145'', ''gl'', ''goulin'', [26500, 26519]),
     (''2146'', ''dhd'', ''diaohedian'', [20993, 27827, 24215]),
     (''2147'', ''bmqz'', ''beimaquanzi'', [21271, 39532, 22280, 23376]),
     (''2148'', ''ysyz'', ''yingshouyingzi'', [40560, 25163, 33829, 23376]),
     (''2149'', ''mp'', ''mapeng'', [39532, 26842]),
     (''2150'', ''hly'', ''heilongyan'', [40657, 40857, 22576]),
     (''2151'', ''zp'', ''zhupo'', [26417, 22369]),
     (''2152'', ''dmh'', ''dongmiaohe'', [27934, 24217, 27827]),
     (''2153'', ''cjh'', ''chenjiahu'', [38472, 23478, 28246]),
     (''2154'', ''tpd'', ''taipingdian'', [22826, 24179, 24215]),
     (''2155'', ''lhkd'', ''laohekoudong'', [32769, 27827, 21475, 19996]),
     (''2156'', ''xtz'', ''xiataizi'', [19979, 21488, 23376]),
     (''2157'', ''gc'', ''gucheng'', [35895, 22478]),
     (''2158'', ''sh'', ''shihua'', [30707, 33457]),
     (''2159'', ''hjy'', ''huangjiaying'', [40644, 23478, 33829]),
     (''2160'', ''pjd'', ''panjiadian'', [28504, 23478, 24215]),
     (''2161'', ''wf'', ''wenfan'', [25991, 30024]),
     (''2162'', ''xzz'', ''xinzhangzi'', [26032, 26454, 23376]),
     (''2163'', ''lh'', ''langhe'', [28010, 27827]),
     (''2164'', ''djy'', ''dingjiaying'', [19969, 23478, 33829]),
     (''2165'', ''bl'', ''bailang'', [30333, 28010]),
     (''2166'', ''sbcn'', ''shangbanchengnan'', [19978, 26495, 22478, 21335]),
     (''2167'', ''sbc'', ''shangbancheng'', [19978, 26495, 22478]),
     (''2168'', ''bx'', ''baoxia'', [40077, 23777]),
     (''2169'', ''hg'', ''huaguo'', [33457, 26524]),
     (''2170'', ''hl'', ''huanglong'', [40644, 40857]),
     (''2171'', ''xhg'', ''xiaohuaguo'', [23567, 33457, 26524]),
     (''2172'', ''xs'', ''xiangshao'', [21521, 38902])]"

lemma changed_8: "changed 51 pinyin_8 cities_8 = Some 52"
  unfolding pinyin_8_def cities_8_def by ((rule changed_same | (rule changed_other, simp))+, simp)

definition pinyin_9 :: "line list" where
  "pinyin_9 =
    [(''2173'', ''jjh'', ''jiangjunhe'', [23558, 20891, 27827]),
     (''2174'', ''hjy'', ''hujiaying'', [32993, 23478, 33829]),
     (''2175'', ''bh'', ''baihe'', [30333, 27827]),
     (''2176'', ''mh'', ''mahu'', [40635, 34382]),
     (''2177'', ''ls'', ''lengshui'', [20919, 27700]),
     (''2178'', ''lt'', ''lantan'', [20848, 28393]),
     (''2179'', ''sh'', ''shuhe'', [34560, 27827]),
     (''2180'', ''zx'', ''zongxi'', [26837, 28330]),
     (''2181'', ''zsb'', ''zhangshaba'', [38271, 27801, 22365]),
     (''2182'', ''lh'', ''lu:he'', [21525, 27827]),
     (''2183'', ''zy'', ''zaoyang'', [26089, 38451]),
     (''2184'', ''smg'', ''shimiaogou'', [30707, 24217, 27807]),
     (''2185'', ''nxg'', ''nanxigou'', [21335, 28330, 27807]),
     (''2186'', ''dzy'', ''dazhuyuan'', [22823, 31481, 22253]),
     (''2187'', ''yhq'', ''yunhuqiao'', [20113, 28246, 26725]),
     (''2188'', ''dmx'', ''damixi'', [22823, 31859, 28330]),
     (''2189'', ''zy'', ''ziyang'', [32043, 38451]),
     (''2190'', ''xyz'', ''xiangyangzhen'', [21521, 38451, 38215]),
     (''2191'', ''qh'', ''quanhe'', [26435, 27827]),
     (''2192'', ''gt'', ''gaotan'', [39640, 28393]),
     (''2193'', ''mbg'', ''maobaguan'', [27611, 22365, 20851]),
     (''2194'', ''ml'', ''maliu'', [40635, 26611]),
     (''2195'', ''ssp'', ''songshupo'', [26494, 26641, 22369]),
     (''2196'', ''bs'', ''bashan'', [24052, 23665]),
     (''2197'', ''gd'', ''guandu'', [23448, 28193]),
     (''2198'', ''ly'', ''luyang'', [27896, 38451]),
     (''2199'', ''qh'', ''qinghua'', [38738, 33457]),
     (''2200'', ''cjb'', ''caojiaba'', [26361, 23478, 22365]),
     (''2201'', ''hlb'', ''hualouba'', [33457, 27004, 22365]),
     (''2202'', ''lw'', ''luowen'', [32599, 25991]),
     (''2203'', ''mb'', ''maoba'', [27611, 22365]),
     (''2204'', ''xh'', ''xuanhan'', [23459, 27721]),
     (''2205'', ''szc'', ''shizhucao'', [30707, 26609, 27133]),
     (''2206'', ''yeg'', ''yuergou'', [40060, 20799, 27807]),
     (''2207'', ''pj'', ''pujia'', [33970, 23478]),
     (''2208'', ''sl'', ''shuanglong'', [21452, 40857]),
     (''2209'', ''ljb'', ''liangjiaba'', [26753, 23478, 22365]),
     (''2210'', ''blt'', ''baluntai'', [24052, 20262, 21488]),
     (''2211'', ''hj'', ''hejing'', [21644, 38745]),
     (''2212'', ''yq'', ''yanqi'', [28937, 32774]),
     (''2213'', ''hsb'', ''heshiba'', [27827, 24066, 22365]),
     (''2214'', ''tjb'', ''tanjiaba'', [35203, 23478, 22365]),
     (''2215'', ''ds'', ''dushi'', [28193, 24066]),
     (''2216'', ''shb'', ''sanhuiba'', [19977, 27719, 22365]),
     (''2217'', ''lxc'', ''liuxichang'', [27969, 28330, 22330]),
     (''2218'', ''lbx'', ''linbaxi'', [20020, 24052, 28330]),
     (''2219'', ''qx'', ''quxian'', [28192, 21439]),
     (''2220'', ''ly'', ''langya'', [29701, 29706]),
     (''2221'', ''wx'', ''wangxi'', [26395, 28330]),
     (''2222'', ''gg'', ''guange'', [35266, 38401]),
     (''2223'', ''ls'', ''lushi'', [31108, 24066]),
     (''2224'', ''ycp'', ''yinchengpu'', [38134, 22478, 38138]),
     (''2225'', ''szh'', ''shazihe'', [27801, 23376, 27827]),
     (''2226'', ''xh'', ''xinhe'', [26032, 21644]),
     (''2227'', ''bc'', ''bachu'', [24052, 26970]),
     (''2228'', ''mpy'', ''mapuying'', [39532, 38138, 33829]),
     (''2229'', ''ats'', ''atushen'', [38463, 22270, 20160]),
     (''2230'', ''qa'', ''qianan'', [36801, 23433]),
     (''2231'', ''bgy'', ''baoguanying'', [21253, 23448, 33829]),
     (''2232'', ''ll'', ''lulong'', [21346, 40857]),
     (''2233'', ''sw'', ''shuangwang'', [21452, 26395]),
     (''2234'', ''fn'', ''funing'', [25242, 23425]),
     (''2235'', ''sc'', ''shangcang'', [19978, 20179]),
     (''2236'', ''xc'', ''xiacang'', [19979, 20179]),
     (''2237'', ''dkt'', ''dakoutun'', [22823, 21475, 23663]),
     (''2238'', ''chk'', ''cuihuangkou'', [23828, 40644, 21475]),
     (''2239'', ''czl'', ''caozili'', [26361, 23376, 37324]),
     (''2240'', ''hgz'', ''hangouzhen'', [27721, 27807, 38215]),
     (''2241'', ''bc'', ''beicang'', [21271, 20179]),
     (''2242'', ''ah'', ''anhua'', [23433, 21270]),
     (''2243'', ''hly'', ''heluoying'', [27827, 27931, 33829]),
     (''2244'', ''ttg'', ''tangtougou'', [27748, 22836, 27807]),
     (''2245'', ''xy'', ''xiyong'', [35199, 27704]),
     (''2246'', ''zsy'', ''zhangsanying'', [24352, 19977, 33829]),
     (''2247'', ''ddb'', ''dongdaba'', [19996, 22823, 22365]),
     (''2248'', ''ly'', ''lianyuan'', [28063, 28304]),
     (''2249'', ''kj'', ''kaijiang'', [24320, 27743]),
     (''2250'', ''mg'', ''miaogong'', [24217, 23467]),
     (''2251'', ''shz'', ''sanhuizhen'', [19977, 27719, 38215]),
     (''2252'', ''tx'', ''tuxi'', [22303, 28330]),
     (''2253'', ''bm'', ''bamiao'', [20843, 24217]),
     (''2254'', ''mxp'', ''moxinpo'', [30952, 24515, 22369]),
     (''2255'', ''xq'', ''xiaoqiao'', [23567, 26725]),
     (''2256'', ''yz'', ''yaozhan'', [33136, 26632]),
     (''2257'', ''gdh'', ''guangdehao'', [24191, 24503, 21495]),
     (''2258'', ''yz'', ''yinzhen'', [38134, 38215]),
     (''2259'', ''hjd'', ''huangjiadian'', [40644, 23478, 24215]),
     (''2260'', ''csz'', ''cangshanzhen'', [20179, 23665, 38215]),
     (''2261'', ''jt'', ''jintang'', [37329, 22530]),
     (''2262'', ''cyd'', ''chaoyangdi'', [26397, 38451, 22320]),
     (''2263'', ''wsjz'', ''wushijiazi'', [20116, 21313, 23478, 23376]),
     (''2264'', ''yjy'', ''yangjiaying'', [26472, 23478, 33829]),
     (''2265'', ''lf'', ''laofu'', [32769, 24220]),
     (''2266'', ''dt'', ''datong'', [22823, 36890]),
     (''2267'', ''sx'', ''suixi'', [36930, 28330]),
     (''2268'', ''dy'', ''daying'', [22823, 33521]),
     (''2269'', ''csz'', ''cangshanzhen'', [27815, 23665, 38215]),
     (''2270'', ''ztz'', ''zhongtaizi'', [20013, 21488, 23376]),
     (''2271'', ''jj'', ''jijin'', [31215, 37329]),
     (''2272'', ''njyz'', ''niujiayingzi'', [29275, 23478, 33829, 23376]),
     (''2273'', ''sfd'', ''sifendi'', [22235, 20998, 22320]),
     (''2274'', ''hhg'', ''honghuagou'', [32418, 33457, 27807]),
     (''2275'', ''sbh'', ''sanbahuo'', [19977, 25226, 28779]),
     (''2276'', ''cjyz'', ''caojiayingzi'', [26361, 23478, 33829, 23376]),
     (''2277'', ''btz'', ''beitaizi'', [21271, 21488, 23376]),
     (''2278'', ''hlb'', ''huilongba'', [22238, 40857, 22365]),
     (''2279'', ''hs'', ''hongshi'', [32418, 30707]),
     (''2280'', ''htg'', ''hetanggou'', [27827, 27748, 27807]),
     (''2281'', ''sq'', ''shuiquan'', [27700, 27849]),
     (''2282'', ''ssj'', ''sanshijia'', [19977, 21313, 23478]),
     (''2283'', ''wzz'', ''weizhangzi'', [39759, 26454, 23376]),
     (''2284'', ''dgm'', ''donggoumen'', [19996, 27807, 38376]),
     (''2285'', ''ded'', ''daoerdeng'', [20992, 23572, 30331]),
     (''2286'', ''yzz'', ''yangzhangzi'', [26472, 26454, 23376]),
     (''2287'', ''jzz'', ''jinzhangzi'', [37329, 26454, 23376]),
     (''2288'', ''jc'', ''jianchang'', [24314, 26124]),
     (''2289'', ''nq'', ''nanqiao'', [21335, 26725]),
     (''2290'', ''gx'', ''gaoxing'', [39640, 20852]),
     (''2291'', ''qh'', ''qinghua'', [24198, 21326]),
     (''2292'', ''ysw'', ''yangshuwan'', [26472, 26641, 28286]),
     (''2293'', ''zsg'', ''zhangshenggou'', [38271, 32988, 27807]),
     (''2294'', ''czg'', ''chuanzigou'', [20018, 23376, 27807]),
     (''2295'', ''gjt'', ''guojiatun'', [37101, 23478, 23663]),
     (''2296'', ''lst'', ''liushutun'', [26611, 26641, 23663]),
     (''2297'', ''gqz'', ''gaoqiaozhen'', [39640, 26725, 38215]),
     (''2298'', ''neh'', ''nu:erhe'', [22899, 20799, 27827]),
     (''2299'', ''ty'', ''taoyuan'', [26691, 22253]),
     (''2300'', ''xj'', ''xuejia'', [34203, 23478]),
     (''2301'', ''bjt'', ''bajiaotai'', [20843, 35282, 21488]),
     (''2302'', ''qlh'', ''qilihe'', [19971, 37324, 27827]),
     (''2303'', ''nhz'', ''nihezi'', [27877, 27827, 23376]),
     (''2304'', ''qzq'', ''qiziqiao'', [26827, 26771, 26725]),
     (''2305'', ''dnyz'', ''dongnanyingzi'', [19996, 21335, 33829, 23376]),
     (''2306'', ''hsd'', ''hongshandian'', [27946, 23665, 27583]),
     (''2307'', ''sd'', ''shuidi'', [27700, 22320]),
     (''2308'', ''yl'', ''yiliang'', [24413, 33391]),
     (''2309'', ''dg'', ''daguan'', [22823, 20851]),
     (''2310'', ''aqg'', ''anqinggou'', [23433, 24198, 27807]),
     (''2311'', ''yj'', ''yanjin'', [30416, 27941]),
     (''2312'', ''swz'', ''shanwanzi'', [23665, 28286, 23376]),
     (''2313'', ''sf'', ''shuifu'', [27700, 23500]),
     (''2314'', ''xhy'', ''xiaoheyan'', [23567, 27827, 27839]),
     (''2315'', ''sdw'', ''sidaowan'', [22235, 36947, 28286]),
     (''2316'', ''lhs'', ''lianhuashan'', [33714, 33457, 23665]),
     (''2317'', ''gsz'', ''gushanzi'', [23396, 23665, 23376]),
     (''2318'', ''yc'', ''yangchang'', [32650, 22330]),
     (''2319'', ''ah'', ''aohan'', [25942, 27721]),
     (''2320'', ''syj'', ''sanyijing'', [19977, 20041, 20117]),
     (''2321'', ''sh'', ''sihe'', [22235, 21512]),
     (''2322'', ''slh'', ''shelihu'', [33293, 21147, 34382])]"

lemma changed_9: "changed 52 pinyin_9 cities_9 = Some 53"
  unfolding pinyin_9_def cities_9_def by ((rule changed_same | (rule changed_other, simp))+, simp)

definition pinyin_10 :: "line list" where
  "pinyin_10 =
    [(''2323'', ''gst'', ''gashentu'', [22030, 20160, 21520]),
     (''2324'', ''an'', ''angnai'', [26114, 20035]),
     (''2325'', ''bytl'', ''baiyintala'', [30333, 38899, 20182, 25289]),
     (''2326'', ''hht'', ''huanghuatong'', [40644, 33457, 31570]),
     (''2328'', ''al'', ''aolai'', [25942, 26469]),
     (''2329'', ''dmc'', ''dongmingcun'', [19996, 26126, 26449]),
     (''2330'', ''gsdz'', ''gashendianzi'', [22030, 20160, 30008, 23376]),
     (''2331'', ''za'', ''zhian'', [27835, 23433]),
     (''2332'', ''wf'', ''wafang'', [29926, 25151]),
     (''2333'', ''sl'', ''shuanglian'', [21452, 28063]),
     (''2334'', ''tpz'', ''taipingzhuang'', [22826, 24179, 24196]),
     (''2335'', ''stp'', ''santangpu'', [19977, 22616, 38138]),
     (''2336'', ''jxp'', ''jinxingpu'', [37329, 26143, 38138]),
     (''2337'', ''lq'', ''lianqiao'', [24265, 26725]),
     (''2338'', ''ylb'', ''yuliangbao'', [20313, 31918, 22561]),
     (''2339'', ''sd'', ''shaodong'', [37045, 19996]),
     (''2340'', ''nms'', ''niumasi'', [29275, 39532, 21496]),
     (''2341'', ''slf'', ''siliufang'', [22235, 20845, 26041]),
     (''2342'', ''xaz'', ''xinanzhen'', [26032, 23433, 38215]),
     (''2343'', ''tlx'', ''tongliaoxi'', [36890, 36797, 35199]),
     (''2344'', ''mdh'', ''mengdonghe'', [29467, 27934, 27827]),
     (''2345'', ''gz'', ''guzhang'', [21476, 20183]),
     (''2346'', ''my'', ''mayang'', [40635, 38451]),
     (''2347'', ''js'', ''jiashan'', [30002, 23665]),
     (''2348'', ''zf'', ''zhongfang'', [20013, 26041]),
     (''2349'', ''qc'', ''qiancheng'', [40660, 22478]),
     (''2350'', ''js'', ''jiangshi'', [27743, 24066]),
     (''2351'', ''yh'', ''yonghe'', [27704, 21644]),
     (''2352'', ''ht'', ''huitong'', [20250, 21516]),
     (''2353'', ''typ'', ''taiyangping'', [22826, 38451, 22378]),
     (''2354'', ''ysg'', ''yushugou'', [27014, 26641, 27807]),
     (''2355'', ''jz'', ''jingzhou'', [38742, 24030]),
     (''2356'', ''lp'', ''liuping'', [27969, 22378]),
     (''2357'', ''td'', ''tongdao'', [36890, 36947]),
     (''2358'', ''sg'', ''shanggu'', [19978, 35895]),
     (''2359'', ''ttw'', ''tantouwan'', [28393, 22836, 28286]),
     (''2360'', ''ljc'', ''lanjiacun'', [34013, 23478, 26449]),
     (''2361'', ''xsg'', ''xiaosigou'', [23567, 23546, 27807]),
     (''2362'', ''jtx'', ''jingtouxu'', [20117, 22836, 22687]),
     (''2363'', ''zx'', ''zixi'', [32043, 28330]),
     (''2364'', ''mt'', ''miaotou'', [24217, 22836]),
     (''2365'', ''hsh'', ''huangshahe'', [40644, 27801, 27827]),
     (''2366'', ''ys'', ''yongsui'', [27704, 23681]),
     (''2367'', ''xtp'', ''xintangping'', [26032, 22616, 22378]),
     (''2368'', ''cw'', ''caiwan'', [25165, 28286]),
     (''2369'', ''ss'', ''shaoshui'', [32461, 27700]),
     (''2370'', ''xs'', ''xianshui'', [21688, 27700]),
     (''2371'', ''blc'', ''bailicun'', [30334, 37324, 26449]),
     (''2372'', ''nt'', ''nantang'', [21335, 22616]),
     (''2373'', ''ygx'', ''yanguanxiang'', [20005, 20851, 20065]),
     (''2374'', ''drj'', ''darongjiang'', [22823, 28342, 27743]),
     (''2375'', ''sj'', ''sanjie'', [19977, 34903]),
     (''2376'', ''lc'', ''lingchuan'', [28789, 24029]),
     (''2377'', ''ljg'', ''lijiagou'', [26446, 23478, 27807]),
     (''2378'', ''jjc'', ''jinjicun'', [37329, 40481, 26449]),
     (''2379'', ''jxc'', ''jiangxicun'', [27743, 35199, 26449]),
     (''2380'', ''qj'', ''qujiu'', [28192, 26087]),
     (''2381'', ''ql'', ''quli'', [28192, 40654]),
     (''2382'', ''lt'', ''laituan'', [28625, 28237]),
     (''2383'', ''tx'', ''tianxi'', [22825, 35199]),
     (''2384'', ''ll'', ''liangliang'', [20142, 20142]),
     (''2385'', ''lbt'', ''longbotun'', [40857, 20271, 23663]),
     (''2386'', ''xx'', ''xinxu'', [26032, 22687]),
     (''2387'', ''lm'', ''luoman'', [27931, 28385]),
     (''2388'', ''ls'', ''liushan'', [27969, 23665]),
     (''2389'', ''ds'', ''dashi'', [22823, 30707]),
     (''2390'', ''sc'', ''sancha'', [19977, 23700]),
     (''2391'', ''ld'', ''luodong'', [27931, 19996]),
     (''2392'', ''ys'', ''yishan'', [23452, 23665]),
     (''2393'', ''ym'', ''yemao'', [21494, 33538]),
     (''2394'', ''hy'', ''huaiyuan'', [24576, 36828]),
     (''2395'', ''qc'', ''quancun'', [20840, 26449]),
     (''2396'', ''ds'', ''desheng'', [24503, 32988]),
     (''2397'', ''dj'', ''doujie'', [37117, 34903]),
     (''2398'', ''dj'', ''dongjiang'', [19996, 27743]),
     (''2399'', ''gy'', ''gaoyao'', [39640, 35201]),
     (''2400'', ''xqz'', ''xinqiaozhen'', [26032, 26725, 38215]),
     (''2401'', ''yg'', ''yaogu'', [33136, 21476]),
     (''2402'', ''cg'', ''chegang'', [36710, 23703]),
     (''2403'', ''xx'', ''xinxing'', [26032, 20852]),
     (''2404'', ''wb'', ''wanbian'', [28286, 36793]),
     (''2405'', ''tt'', ''tiantang'', [22825, 22530]),
     (''2406'', ''nh'', ''neihuo'', [37027, 38669]),
     (''2408'', ''xd'', ''xiadong'', [38686, 27934]),
     (''2409'', ''nl'', ''neiluo'', [37027, 32599]),
     (''2410'', ''wx'', ''wuxu'', [21556, 22687]),
     (''2411'', ''nc'', ''ningcun'', [23425, 26449]),
     (''2413'', ''zjt'', ''zhoujiatun'', [21608, 23478, 23663]),
     (''2414'', ''sy'', ''shangyuan'', [19978, 22253]),
     (''2415'', ''bp'', ''beipiao'', [21271, 31080]),
     (''2416'', ''jg'', ''jingou'', [37329, 27807]),
     (''2417'', ''dyz'', ''dayingzi'', [22823, 33829, 23376]),
     (''2418'', ''dpf'', ''dapingfang'', [22823, 24179, 25151]),
     (''2419'', ''ddd'', ''dongdadao'', [19996, 22823, 36947]),
     (''2420'', ''gyz'', ''gongyingzi'', [20844, 33829, 23376]),
     (''2421'', ''dtz'', ''datuzhai'', [25171, 20820, 23528]),
     (''2422'', ''slc'', ''shilicun'', [21313, 37324, 26449]),
     (''2424'', ''xpf'', ''xiaopingfang'', [23567, 24179, 25151]),
     (''2425'', ''yls'', ''yulinshan'', [29577, 26519, 23665]),
     (''2426'', ''dt'', ''data'', [22823, 22612]),
     (''2427'', ''sn'', ''shinao'', [30707, 33041]),
     (''2428'', ''zms'', ''zhumashao'', [39547, 39532, 21736]),
     (''2429'', ''sh'', ''shahai'', [27801, 28023]),
     (''2430'', ''cb'', ''caoba'', [33609, 22365]),
     (''2431'', ''mz'', ''mengzi'', [33945, 33258]),
     (''2432'', ''el'', ''erlong'', [20108, 40857]),
     (''2433'', ''jsd'', ''jiangshuidi'', [27743, 27700, 22320]),
     (''2434'', ''nl'', ''nailin'', [20035, 26519]),
     (''2435'', ''dts'', ''datianshan'', [22823, 30000, 23665]),
     (''2436'', ''np'', ''neipu'', [37027, 38138]),
     (''2437'', ''bl'', ''bailang'', [30334, 28010]),
     (''2438'', ''nyz'', ''nanyingzhai'', [21335, 33829, 23528]),
     (''2439'', ''dn'', ''dani'', [22823, 25311]),
     (''2440'', ''pzn'', ''pingzhuangnan'', [24179, 24196, 21335]),
     (''2441'', ''xd'', ''xiaodong'', [23567, 33891]),
     (''2442'', ''js'', ''jianshui'', [24314, 27700]),
     (''2443'', ''dt'', ''datong'', [22823, 22412]),
     (''2444'', ''xhq'', ''xianghuiqiao'', [20065, 20250, 26725]),
     (''2445'', ''mh'', ''mahuang'', [39532, 30343]),
     (''2447'', ''pz'', ''pingzhuang'', [24179, 24196]),
     (''2448'', ''ml'', ''maoling'', [33541, 23725]),
     (''2449'', ''sc'', ''songcun'', [26494, 26449]),
     (''2450'', ''fc'', ''fangcheng'', [38450, 22478]),
     (''2451'', ''rs'', ''reshui'', [28909, 27700]),
     (''2452'', ''ml'', ''malin'', [39532, 26519]),
     (''2453'', ''plc'', ''pinglincun'', [24179, 26519, 26449]),
     (''2454'', ''yl'', ''yongle'', [27704, 20048]),
     (''2455'', ''xt'', ''xiatang'', [19979, 22616]),
     (''2456'', ''td'', ''tianding'', [30000, 19969]),
     (''2457'', ''lcx'', ''luchengxiang'', [28510, 22478, 20065]),
     (''2458'', ''bt'', ''bantao'', [26495, 26691]),
     (''2459'', ''gl'', ''genlong'', [26681, 40857]),
     (''2460'', ''bd'', ''badu'', [20843, 28193]),
     (''2461'', ''bq'', ''banqi'', [26495, 20854]),
     (''2462'', ''ch'', ''ceheng'', [20876, 20136]),
     (''2463'', ''scp'', ''shachangping'', [27801, 21378, 22378]),
     (''2464'', ''bsh'', ''baishuihe'', [30333, 27700, 27827]),
     (''2465'', ''al'', ''anlong'', [23433, 40857]),
     (''2466'', ''zt'', ''zhengtun'', [37073, 23663]),
     (''2467'', ''lg'', ''longguang'', [40857, 24191]),
     (''2468'', ''qsh'', ''qingshuihe'', [28165, 27700, 27827]),
     (''2469'', ''pd'', ''pindian'', [21697, 30008]),
     (''2471'', ''qx'', ''qingxi'', [38738, 28330]),
     (''2472'', ''jx'', ''jiaoxi'', [34121, 28330]),
     (''2473'', ''lwd'', ''laowangdong'', [32769, 29579, 27934]),
     (''2474'', ''dsb'', ''dashiban'', [22823, 30707, 26495]),
     (''2475'', ''syd'', ''shuangyangdian'', [21452, 32650, 24215]),
     (''2476'', ''sh'', ''shuihua'', [27700, 33457]),
     (''2477'', ''bls'', ''baolaoshan'', [23453, 32769, 23665]),
     (''2479'', ''ss'', ''shishan'', [30707, 23665])]"

lemma changed_10: "changed 53 pinyin_10 cities_10 = Some 54"
  unfolding pinyin_10_def cities_10_def by ((rule changed_same | (rule changed_other, simp))+, simp)

definition pinyin_11 :: "line list" where
  "pinyin_11 =
    [(''2480'', ''jl'', ''jialao'', [21152, 21171]),
     (''2481'', ''tmz'', ''tongmuzhai'', [26704, 26408, 23528]),
     (''2482'', ''psz'', ''pushezhai'', [26222, 33293, 23528]),
     (''2483'', ''gsz'', ''gaoshanzi'', [39640, 23665, 23376]),
     (''2484'', ''lgj'', ''liugeji'', [20845, 20010, 40481]),
     (''2485'', ''mj'', ''majiang'', [40635, 27743]),
     (''2486'', ''tj'', ''tangjia'', [21776, 23478]),
     (''2487'', ''fq'', ''fuquan'', [31119, 27849]),
     (''2488'', ''hs'', ''huangsi'', [40644, 19997]),
     (''2489'', ''hta'', ''heituao'', [40657, 22303, 20985]),
     (''2490'', ''bbj'', ''banbianjie'', [21322, 36793, 34903]),
     (''2491'', ''dhq'', ''dahongqi'', [22823, 32418, 26071]),
     (''2492'', ''njz'', ''niujiezhuang'', [29275, 34903, 24196]),
     (''2493'', ''xxc'', ''xiaoxicun'', [23567, 21916, 26449]),
     (''2494'', ''xld'', ''xinglongdian'', [20852, 38534, 24215]),
     (''2495'', ''gpp'', ''gaopingpu'', [39640, 22378, 38138]),
     (''2496'', ''mzp'', ''mazhipu'', [40635, 33437, 38138]),
     (''2497'', ''scz'', ''shanchengzhen'', [23665, 22478, 38215]),
     (''2498'', ''dt'', ''datu'', [22823, 22303]),
     (''2500'', ''gm'', ''gaimao'', [25913, 35980]),
     (''2501'', ''dc'', ''dacheng'', [22823, 25104]),
     (''2502'', ''hgt'', ''huanggutun'', [30343, 22993, 23663]),
     (''2503'', ''zsz'', ''zhushizhai'', [26417, 30707, 23528]),
     (''2504'', ''xl'', ''xinglang'', [26143, 26391]),
     (''2505'', ''fd'', ''fengdong'', [23792, 27934]),
     (''2506'', ''cd'', ''choudong'', [31609, 27934]),
     (''2507'', ''dy'', ''dayang'', [25171, 32650]),
     (''2508'', ''xz'', ''xuezhuang'', [23398, 24196]),
     (''2509'', ''jb'', ''jiabao'', [30002, 22561]),
     (''2511'', ''dp'', ''daping'', [22823, 22378]),
     (''2512'', ''mc'', ''mochong'', [22696, 20914]),
     (''2513'', ''dhq'', ''daheqiao'', [22823, 27827, 26725]),
     (''2514'', ''qtp'', ''qingtaipo'', [28165, 27888, 22369]),
     (''2515'', ''wt'', ''wengtong'', [32705, 36890]),
     (''2516'', ''ylj'', ''yangliujie'', [26472, 26611, 34903]),
     (''2517'', ''gd'', ''gudong'', [35895, 30800]),
     (''2518'', ''dc'', ''dachang'', [22823, 26124]),
     (''2519'', ''lp'', ''leping'', [20048, 22378]),
     (''2520'', ''lt'', ''longtian'', [40857, 30000]),
     (''2521'', ''pay'', ''pinganyi'', [24179, 23433, 39551]),
     (''2522'', ''mh'', ''minhe'', [27665, 21644]),
     (''2523'', ''ld'', ''ledou'', [20048, 37117]),
     (''2524'', ''hkn'', ''hekounan'', [27827, 21475, 21335]),
     (''2525'', ''yd'', ''yongdeng'', [27704, 30331]),
     (''2526'', ''tjt'', ''taijitun'', [21488, 38598, 23663]),
     (''2527'', ''tgw'', ''tungouwan'', [23663, 27807, 28286]),
     (''2528'', ''tz'', ''tianzhu'', [22825, 31069]),
     (''2529'', ''hsj'', ''hesanjia'', [20309, 19977, 23478]),
     (''2530'', ''dcg'', ''dachaigou'', [25171, 26612, 27807]),
     (''2531'', ''gl'', ''gulang'', [21476, 28010]),
     (''2532'', ''sd'', ''shandan'', [23665, 20025]),
     (''2533'', ''lz'', ''linze'', [20020, 27901]),
     (''2534'', ''gt'', ''gaotai'', [39640, 21488]),
     (''2535'', ''qs'', ''qingshui'', [28165, 27700]),
     (''2536'', ''hy'', ''huangyuan'', [28255, 28304]),
     (''2538'', ''gc'', ''gangcha'', [21018, 23519]),
     (''2539'', ''tj'', ''tianjun'', [22825, 23803]),
     (''2540'', ''chn'', ''chahannuo'', [23519, 27735, 35834]),
     (''2541'', ''wl'', ''wulan'', [20044, 20848]),
     (''2542'', ''dlh'', ''delingha'', [24503, 20196, 21704]),
     (''2543'', ''ymx'', ''yinmaxia'', [39278, 39532, 23777]),
     (''2544'', ''mns'', ''manasi'', [29595, 32435, 26031]),
     (''2545'', ''sw'', ''shawan'', [27801, 28286]),
     (''2546'', ''ws'', ''wusu'', [20044, 33487]),
     (''2547'', ''jh'', ''jinghe'', [31934, 27827]),
     (''2548'', ''bl'', ''bole'', [21338, 20048]),
     (''2549'', ''lt'', ''luntai'', [36718, 21488]),
     (''2550'', ''pa'', ''pengan'', [34028, 23433]),
     (''2551'', ''px'', ''pengxi'', [34028, 28330]),
     (''2552'', ''dy'', ''daying'', [22823, 33521]),
     (''2553'', ''jt'', ''jintang'', [37329, 22530]),
     (''2554'', ''csz'', ''cangshanzhen'', [33485, 23665, 38215]),
     (''2555'', ''zt'', ''zitong'', [26771, 28540]),
     (''2556'', ''ls'', ''longsheng'', [38534, 30427]),
     (''2557'', ''hk'', ''huaikou'', [28142, 21475]),
     (''2558'', ''ms'', ''meishan'', [29028, 23665]),
     (''2560'', ''syx'', ''shenyangxi'', [27784, 38451, 35199]),
     (''2561'', ''shk'', ''shahekou'', [27801, 27827, 21475]),
     (''2562'', ''zsz'', ''zhoushuizi'', [21608, 27700, 23376]),
     (''2563'', ''zlz'', ''zhanglingzi'', [38271, 23725, 23376]),
     (''2564'', ''fj'', ''fujin'', [31119, 37329]),
     (''2565'', ''qt'', ''qiaotou'', [26725, 22836]),
     (''2566'', ''jk'', ''jinkeng'', [37329, 22353]),
     (''2567'', ''wls'', ''wolongsi'', [21351, 40857, 23546]),
     (''2568'', ''qh'', ''qianhe'', [21315, 27827]),
     (''2569'', ''fx'', ''fengxiang'', [20964, 32724]),
     (''2570'', ''xt'', ''xiaotun'', [23567, 23663]),
     (''2573'', ''hst'', ''heishantou'', [40657, 23665, 22836]),
     (''2574'', ''hl'', ''hanling'', [23506, 23725]),
     (''2575'', ''syh'', ''shenyuhe'', [31070, 23786, 27827]),
     (''2576'', ''nxt'', ''niuxintai'', [29275, 24515, 21488]),
     (''2577'', ''mz'', ''miaozhuang'', [24217, 24196]),
     (''2578'', ''xs'', ''xiaoshi'', [23567, 24066]),
     (''2579'', ''gj'', ''ganjing'', [29976, 20117]),
     (''2580'', ''lc'', ''luochuan'', [27931, 24029]),
     (''2581'', ''hjh'', ''hejiahe '', [36154, 23478, 27827, 32]),
     (''2582'', ''bh'', ''bohai'', [28196, 28023]),
     (''2583'', ''xl'', ''xinli'', [26032, 31435]),
     (''2584'', ''nt'', ''nantai'', [21335, 21488]),
     (''2585'', ''nhc'', ''nanhechuan'', [21335, 27827, 24029]),
     (''2586'', ''tzh'', ''taizihe'', [22826, 23376, 27827]),
     (''2587'', ''lh'', ''lu:hua'', [32511, 21270]),
     (''2588'', ''cgy'', ''chenguanying'', [38472, 23448, 33829]),
     (''2589'', ''gcd'', ''gancaodian'', [29976, 33609, 24215]),
     (''2591'', ''ltx'', ''luotuoxiang'', [39558, 39548, 24055]),
     (''2592'', ''pd'', ''pingdong'', [24179, 19996]),
     (''2593'', ''hf'', ''hafu'', [21704, 31119]),
     (''2594'', ''ds'', ''dongshan'', [19996, 23665]),
     (''2595'', ''td'', ''tiande'', [22825, 24503]),
     (''2596'', ''wj'', ''weijin'', [28205, 27941]),
     (''2597'', ''lh'', ''lianhe'', [33714, 27827]),
     (''2598'', ''sz'', ''shuangzhai'', [21452, 23528]),
     (''2599'', ''hs'', ''heishan'', [40657, 23665]),
     (''2600'', ''sz'', ''shenzhong'', [30003, 20013]),
     (''2601'', ''bdh'', ''badaohao'', [20843, 36947, 22741]),
     (''2603'', ''fsz'', ''fangshanzhen'', [33459, 23665, 38215]),
     (''2604'', ''mh'', ''mehuang'', [20040, 33618]),
     (''2605'', ''tb'', ''tabei'', [22612, 21271]),
     (''2606'', ''pz'', ''paozi'', [27873, 23376]),
     (''2607'', ''wf'', ''wufeng'', [20116, 23792]),
     (''2610'', ''zsc'', ''zhangshancun'', [38271, 23665, 26449]),
     (''2611'', ''dth'', ''dongtonghua'', [19996, 36890, 21270]),
     (''2612'', ''sd'', ''shuidong'', [27700, 27934]),
     (''2613'', ''yy'', ''yayuan'', [40493, 22253]),
     (''2614'', ''hjx'', ''hunjiangxi'', [27985, 27743, 35199]),
     (''2615'', ''sr'', ''shiren'', [30707, 20154]),
     (''2616'', ''zzm'', ''zhenzhumen'', [29645, 29664, 38376]),
     (''2617'', ''ld'', ''liangdang'', [20004, 24403]),
     (''2618'', ''yg'', ''yuguan'', [34398, 20851]),
     (''2619'', ''ct'', ''chaotian'', [26397, 22825]),
     (''2621'', ''ce'', ''caer'', [25830, 32819]),
     (''2622'', ''lj'', ''lingjie'', [28789, 26480]),
     (''2623'', ''cxd'', ''chuanxindian'', [31359, 24515, 24215]),
     (''2624'', ''xq'', ''xiaoquan'', [23389, 27849]),
     (''2625'', ''mz'', ''mianzhu'', [32501, 31481]),
     (''2626'', ''shk'', ''shuanghekou'', [21452, 27827, 21475]),
     (''2627'', ''mjb'', ''majiaoba'', [39532, 35282, 22365]),
     (''2628'', ''tc'', ''tiechang'', [38081, 21378]),
     (''2629'', ''db'', ''dongba'', [19996, 22365]),
     (''2630'', ''yb'', ''yuanba'', [20803, 22365]),
     (''2631'', ''jc'', ''jiachuan'', [22025, 24029]),
     (''2632'', ''hb'', ''huangbo'', [40644, 26575]),
     (''2633'', ''yc'', ''yangcha'', [38451, 23700]),
     (''2634'', ''hsx'', ''huangshaxi'', [40644, 27801, 28330]),
     (''2635'', ''wzt'', ''wangzhaotun'', [29579, 20806, 23663]),
     (''2636'', ''sb'', ''songbei'', [26494, 21271]),
     (''2637'', ''wl'', ''wanle'', [19975, 20048]),
     (''2638'', ''lsw'', ''lishuwan'', [26792, 26641, 28286]),
     (''2639'', ''dqs'', ''duiqingshan'', [23545, 38738, 23665]),
     (''2640'', ''lmd'', ''limudian'', [37324, 26408, 24215])]"

lemma changed_11: "changed 54 pinyin_11 cities_11 = Some 56"
  unfolding pinyin_11_def cities_11_def by ((rule changed_same | (rule changed_other, simp))+, simp)

definition pinyin_12 :: "line list" where
  "pinyin_12 =
    [(''2641'', ''sj'', ''shangjia'', [23578, 23478]),
     (''2642'', ''cjw'', ''caojiawan'', [26361, 23478, 28286]),
     (''2643'', ''hd'', ''hada'', [21704, 36798]),
     (''2644'', ''xnh'', ''xiaonanhai'', [23567, 21335, 28023]),
     (''2645'', ''mfs'', ''minfusi'', [27665, 31119, 23546]),
     (''2646'', ''sj'', ''sanjiang'', [19977, 27743]),
     (''2647'', ''zzj'', ''zhenzijie'', [38215, 32043, 34903]),
     (''2648'', ''syb'', ''sanyuanba'', [19977, 20803, 22365]),
     (''2649'', ''xc'', ''xinchang'', [26032, 22330]),
     (''2650'', ''lsg'', ''loushanguan'', [23044, 23665, 20851]),
     (''2651'', ''gh'', ''genhe'', [26681, 27827]),
     (''2652'', ''cz'', ''chaozhong'', [26397, 20013]),
     (''2653'', ''cy'', ''chaoyuan'', [26397, 21407]),
     (''2654'', ''jl'', ''jinlin'', [37329, 26519]),
     (''2655'', ''neh'', ''niuerhe'', [29275, 32819, 27827]),
     (''2656'', ''awn'', ''awuni'', [38463, 20044, 23612]),
     (''2657'', ''xxl'', ''xinxinglong'', [26032, 20852, 38534]),
     (''2658'', ''fj'', ''fengjia'', [20911, 23478]),
     (''2659'', ''zgt'', ''zhanggutai'', [31456, 21476, 21488]),
     (''2660'', ''aex'', ''aerxiang'', [38463, 23572, 20065]),
     (''2661'', ''gqk'', ''ganqika'', [29976, 26071, 21345]),
     (''2662'', ''bgq'', ''beiganqi'', [21271, 29976, 26071]),
     (''2663'', ''yht'', ''yihuta'', [20234, 32993, 22612]),
     (''2664'', ''bht'', ''bahuta'', [24052, 32993, 22612]),
     (''2665'', ''ymy'', ''yamenying'', [34905, 38376, 33829]),
     (''2666'', ''mlt'', ''mulitu'', [26408, 37324, 22270]),
     (''2667'', ''ssl'', ''songshulin'', [26494, 26641, 26519]),
     (''2668'', ''wdm'', ''wudaomu'', [20116, 36947, 26408]),
     (''2669'', ''qjd'', ''qianjiadian'', [38065, 23478, 24215]),
     (''2670'', ''wst'', ''wusitu'', [20044, 26031, 22303]),
     (''2671'', ''cf'', ''cuifeng'', [32736, 23792]),
     (''2672'', ''nbz'', ''nanbaizhen'', [21335, 30333, 38215]),
     (''2673'', ''ty'', ''tayuan'', [22612, 28304]),
     (''2674'', ''wj'', ''wujiang'', [20044, 27743]),
     (''2675'', ''pjy'', ''panjiaoying'', [30424, 33050, 33829]),
     (''2676'', ''hy'', ''huyuan'', [21628, 28304]),
     (''2677'', ''jz'', ''jiuzhang'', [20037, 38271]),
     (''2680'', ''dl'', ''dalin'', [22823, 26519]),
     (''2681'', ''qhq'', ''qingheqiao'', [28165, 27827, 26725]),
     (''2682'', ''ym'', ''yumin'', [35029, 27665]),
     (''2683'', ''hz'', ''huzhong'', [21628, 20013]),
     (''2684'', ''dh'', ''dahan'', [22823, 32597]),
     (''2685'', ''md'', ''menda'', [38376, 36798]),
     (''2686'', ''etq'', ''ertangqu'', [20108, 22616, 21306]),
     (''2687'', ''ol'', ''ouli'', [27431, 37324]),
     (''2688'', ''bs'', ''baishi'', [30333, 24066]),
     (''2689'', ''jbt'', ''jinbaotun'', [37329, 23453, 23663]),
     (''2690'', ''sjk'', ''sanjiangkou'', [19977, 27743, 21475]),
     (''2691'', ''fjt'', ''fujiatun'', [20613, 23478, 23663]),
     (''2692'', ''qjd'', ''qujiadian'', [26354, 23478, 24215]),
     (''2693'', ''xs'', ''xianshui'', [20185, 27700]),
     (''2694'', ''ch'', ''caohai'', [33609, 28023]),
     (''2695'', ''bmc'', ''bamiancheng'', [20843, 38754, 22478]),
     (''2696'', ''qg'', ''quangou'', [27849, 27807]),
     (''2697'', ''tzh'', ''tiaozihe'', [26465, 23376, 27827]),
     (''2698'', ''mhs'', ''meihuashan'', [26757, 33457, 23665]),
     (''2699'', ''hml'', ''hemaling'', [33655, 39532, 23725]),
     (''2700'', ''djc'', ''dengjiacun'', [37011, 23478, 26449]),
     (''2701'', ''mc'', ''machang'', [39532, 22330]),
     (''2702'', ''tl'', ''tianlong'', [22825, 40857]),
     (''2703'', ''edy'', ''erdaoyan'', [20108, 36947, 23721]),
     (''2704'', ''smz'', ''shimenzi'', [30707, 38376, 23376]),
     (''2705'', ''bg'', ''boguo '', [26575, 26524, 32]),
     (''2706'', ''hg'', ''hongguo'', [32418, 26524]),
     (''2707'', ''hg'', ''hongguo'', [32418, 26524]),
     (''2708'', ''xa'', ''xinan'', [26032, 23433]),
     (''2709'', ''mgh'', ''maguohe'', [39532, 36807, 27827]),
     (''2710'', ''xs'', ''xiaoshao'', [23567, 21736]),
     (''2711'', ''jz'', ''jizhang'', [22522, 38271]),
     (''2712'', ''tld'', ''tongliaodong'', [36890, 36797, 19996]),
     (''2713'', ''htg'', ''hongtugou'', [32418, 22303, 27807]),
     (''2714'', ''sl'', ''songlin'', [26494, 26519]),
     (''2715'', ''qlc'', ''qinglongchang'', [38738, 40857, 22330]),
     (''2716'', ''jl'', ''jiuli'', [20061, 37324]),
     (''2717'', ''gh'', ''gonghe'', [20849, 21644]),
     (''2718'', ''jkh'', ''jinkouhe'', [37329, 21475, 27827]),
     (''2719'', ''sw'', ''suwei'', [33487, 32500]),
     (''2720'', ''neg'', ''nanergang'', [21335, 20799, 23703]),
     (''2721'', ''bg'', ''baiguo'', [30333, 26524]),
     (''2723'', ''ms'', ''mianshan'', [20885, 23665]),
     (''2724'', ''yl'', ''yonglang'', [27704, 37070]),
     (''2725'', ''dsp'', ''dushupu'', [35835, 20070, 38138]),
     (''2726'', ''xj'', ''xinjiang'', [26032, 27743]),
     (''2727'', ''hgy'', ''huangguayuan'', [40644, 29916, 22253]),
     (''2728'', ''hj'', ''heijing'', [40657, 20117]),
     (''2729'', ''mml'', ''mimalong'', [23494, 39532, 40857]),
     (''2730'', ''dd'', ''dade'', [22823, 24503]),
     (''2731'', ''ayy'', ''aiyouying'', [33406, 21451, 33829]),
     (''2732'', ''aj'', ''ajin'', [38463, 37329]),
     (''2733'', ''db'', ''daba'', [22823, 24052]),
     (''2734'', ''yb'', ''yaobao'', [23002, 22561]),
     (''2735'', ''st'', ''santai'', [19977, 21488]),
     (''2736'', ''tlb'', ''tongliaobei'', [36890, 36797, 21271]),
     (''2737'', ''spz'', ''shuangpaozi'', [21452, 27873, 23376]),
     (''2738'', ''sbt'', ''shebotu'', [33293, 20271, 21520]),
     (''2739'', ''qsj'', ''qianshijia'', [21069, 21313, 23478]),
     (''2740'', ''dld'', ''daolaodu'', [36947, 32769, 26460]),
     (''2741'', ''zlt'', ''zhalute'', [25166, 40065, 29305]),
     (''2742'', ''wlz'', ''wulanzhong'', [20044, 20848, 20013]),
     (''2743'', ''hltg'', ''haolitaogao'', [22909, 21147, 22871, 39640]),
     (''2744'', ''yd'', ''yunduan'', [20113, 31471]),
     (''2745'', ''yjb'', ''yijianbao'', [19968, 38388, 22561]),
     (''2746'', ''wp'', ''wopi'', [27779, 30382]),
     (''2747'', ''bh'', ''buhai'', [24067, 28023]),
     (''2748'', ''ysl'', ''yangshilin'', [26472, 21313, 26519]),
     (''2749'', ''sjb'', ''shijiabao'', [21313, 23478, 22561]),
     (''2750'', ''gjd'', ''guojiadian'', [37101, 23478, 24215]),
     (''2751'', ''cj'', ''caijia'', [34081, 23478]),
     (''2752'', ''dys'', ''dayushu'', [22823, 27014, 26641]),
     (''2753'', ''fjt'', ''fanjiatun'', [33539, 23478, 23663]),
     (''2754'', ''zcn'', ''zhangchunnan'', [38271, 26149, 21335]),
     (''2755'', ''dm'', ''dongmen'', [19996, 38376]),
     (''2756'', ''xsp'', ''xinsongpu'', [26032, 26494, 28006]),
     (''2757'', ''xj'', ''xujia'', [24464, 23478]),
     (''2758'', ''src'', ''shirencheng'', [30707, 20154, 22478]),
     (''2759'', ''wft'', ''wanfatun'', [19975, 21457, 23663]),
     (''2760'', ''xf'', ''xingfu'', [20852, 31119]),
     (''2761'', ''qs'', ''quansheng'', [20840, 32988]),
     (''2762'', ''gl'', ''gaolao'', [39640, 32769]),
     (''2763'', ''sz'', ''shizhang'', [30707, 38271]),
     (''2764'', ''sl'', ''shenglang'', [22307, 28010]),
     (''2765'', ''xb'', ''xiaobai'', [23567, 30333]),
     (''2767'', ''ss'', ''shashan'', [27801, 23665]),
     (''2768'', ''jst'', ''jinshantun'', [37329, 23665, 23663]),
     (''2769'', ''tq'', ''taiqing'', [33492, 38738]),
     (''2770'', ''hl'', ''huanling'', [32531, 23725]),
     (''2771'', ''szh'', ''shuangzihe'', [21452, 23376, 27827]),
     (''2772'', ''yh'', ''youhao'', [21451, 22909]),
     (''2773'', ''wx'', ''wuxing'', [20116, 26143]),
     (''2774'', ''xq'', ''xinqing'', [26032, 38738]),
     (''2775'', ''sy'', ''shayuan'', [27801, 22253]),
     (''2776'', ''sft'', ''sifangtai'', [22235, 26041, 21488]),
     (''2777'', ''xq'', ''xinquan'', [26032, 27849]),
     (''2778'', ''dbj'', ''dongbianjing'', [19996, 36793, 20117]),
     (''2779'', ''zj'', ''zhaojia'', [36213, 23478]),
     (''2780'', ''yj'', ''yangjia'', [26472, 23478]),
     (''2781'', ''zg'', ''zhaoguang'', [36213, 20809]),
     (''2782'', ''ss'', ''shuisheng'', [27700, 32988]),
     (''2783'', ''smj'', ''simajia'', [22235, 39532, 26550]),
     (''2784'', ''flz'', ''fenglezhen'', [20016, 20048, 38215]),
     (''2785'', ''xyc'', ''xiangyangchuan'', [21521, 38451, 24029]),
     (''2786'', ''sls'', ''shuanglongshan'', [21452, 40857, 23665]),
     (''2787'', ''hxt'', ''huanxintian'', [25442, 26032, 22825]),
     (''2788'', ''ys'', ''yongsheng'', [27704, 32988]),
     (''2790'', ''nd'', ''nandian'', [21335, 24215]),
     (''2791'', ''bt'', ''baita'', [30333, 22612]),
     (''2792'', ''zzs'', ''zhuozishan'', [21331, 36164, 23665]),
     (''2793'', ''qxy'', ''qixiaying'', [26071, 19979, 33829]),
     (''2794'', ''hl'', ''hala'', [21704, 25289]),
     (''2795'', ''sck'', ''sanchakou'', [19977, 23700, 21475])]"

lemma changed_12: "changed 56 pinyin_12 cities_12 = Some 56"
  unfolding pinyin_12_def cities_12_def by ((rule changed_same | (rule changed_other, simp))+, simp)

definition pinyin_13 :: "line list" where
  "pinyin_13 =
    [(''2796'', ''hl'', ''hulu'', [33899, 33446]),
     (''2797'', ''tjc'', ''tuanjiecun'', [22242, 32467, 26449]),
     (''2798'', ''jn'', ''jining'', [38598, 23425]),
     (''2799'', ''bycg'', ''baiyinchagan'', [30333, 38899, 23519, 24178]),
     (''2800'', ''wlhd'', ''wulanhada'', [20044, 20848, 21704, 36798]),
     (''2801'', ''tmet'', ''tumuertai'', [22303, 29287, 23572, 21488]),
     (''2802'', ''shtl'', ''saihantala'', [36187, 27735, 22612, 25289]),
     (''2803'', ''xl'', ''xili'', [35199, 37324]),
     (''2804'', ''csq'', ''chasuqi'', [23519, 32032, 40784]),
     (''2805'', ''slq'', ''salaqi'', [33832, 25289, 40784]),
     (''2806'', ''btd'', ''baotoudong'', [21253, 22836, 19996]),
     (''2807'', ''btx'', ''baotouxi'', [21253, 22836, 35199]),
     (''2808'', ''wls'', ''wulashan'', [20044, 25289, 23665]),
     (''2809'', ''wy'', ''wuyuan'', [20116, 21407]),
     (''2810'', ''dhc'', ''dahuichang'', [22823, 28784, 21378]),
     (''2811'', ''ngc'', ''nanguancun'', [21335, 35266, 26449]),
     (''2812'', ''lgz'', ''lianggezhuang'', [33391, 21508, 24196]),
     (''2813'', ''bj'', ''baijian'', [30333, 28071]),
     (''2814'', ''qft'', ''qifengta'', [22855, 23792, 22612]),
     (''2815'', ''zjg'', ''zijingguan'', [32043, 33606, 20851]),
     (''2816'', ''xxz'', ''xiaoxizhuang'', [23567, 35199, 24196]),
     (''2817'', ''dj'', ''dajian'', [22823, 28071]),
     (''2818'', ''tzw'', ''tangzhiwa'', [21776, 20043, 27964]),
     (''2819'', ''pxg'', ''pingxingguan'', [24179, 22411, 20851]),
     (''2820'', ''dz'', ''dongzhuang'', [19996, 24196]),
     (''2821'', ''dy'', ''daying'', [22823, 33829]),
     (''2823'', ''hy'', ''huayan'', [21326, 23721]),
     (''2824'', ''zl'', ''zaolin'', [26531, 26519]),
     (''2825'', ''ymb'', ''yangmingbao'', [38451, 26126, 22561]),
     (''2826'', ''wdb'', ''wangdongbao'', [29579, 33891, 22561]),
     (''2827'', ''xg'', ''xuegu'', [34203, 23396]),
     (''2828'', ''hh'', ''hunhe'', [27985, 27827]),
     (''2829'', ''qhy'', ''qinghuayuan'', [28165, 21326, 22253]),
     (''2830'', ''yst'', ''yushutai'', [27014, 26641, 21488]),
     (''2831'', ''gjz'', ''gujiazi'', [23396, 23478, 23376]),
     (''2832'', ''sh'', ''shahe'', [27801, 27827]),
     (''2833'', ''sjz'', ''shenjingzi'', [28145, 20117, 23376]),
     (''2834'', ''pet'', ''piaoertun'', [29922, 20799, 23663]),
     (''2835'', ''dgt'', ''daguantun'', [22823, 23448, 23663]),
     (''2836'', ''qd'', ''qiandian'', [21069, 30008]),
     (''2837'', ''zd'', ''zhangdang'', [31456, 20826]),
     (''2838'', ''sml'', ''shimenling'', [30707, 38376, 23725]),
     (''2839'', ''yp'', ''yingpan'', [33829, 30424]),
     (''2840'', ''tbs'', ''tiebeishan'', [38081, 32972, 23665]),
     (''2841'', ''nzm'', ''nanzamu'', [21335, 26434, 26408]),
     (''2842'', ''nkq'', ''nankouqian'', [21335, 21475, 21069]),
     (''2843'', ''bsj'', ''beisanjia'', [21271, 19977, 23478]),
     (''2844'', ''dht'', ''douhutun'', [26007, 34382, 23663]),
     (''2845'', ''zsb'', ''zhangshanbao'', [38271, 23665, 22561]),
     (''2846'', ''yem'', ''yingemen'', [33521, 39069, 38376]),
     (''2847'', ''sld'', ''shuiliandong'', [27700, 24088, 27934]),
     (''2848'', ''xlh'', ''xinglonghe'', [20852, 38534, 27827]),
     (''2849'', ''cs'', ''caoshi'', [33609, 24066]),
     (''2850'', ''ls'', ''longshan'', [40857, 23665]),
     (''2851'', ''zs'', ''zhangsheng'', [38271, 32988]),
     (''2852'', ''xj'', ''xiejia'', [35874, 23478]),
     (''2853'', ''lh'', ''liuhe'', [26611, 27827]),
     (''2854'', ''zjb'', ''zhengjiabao'', [37073, 23478, 22561]),
     (''2855'', ''tyl'', ''tuoyaoling'', [39548, 33136, 23725]),
     (''2856'', ''wdg'', ''wudaogou'', [20116, 36947, 27807]),
     (''2857'', ''syp'', ''sanyuanpu'', [19977, 28304, 28006]),
     (''2858'', ''tg'', ''tonggou'', [36890, 27807]),
     (''2859'', ''gg'', ''gangou'', [24178, 27807]),
     (''2860'', ''emh'', ''ermihe'', [20108, 23494, 27827]),
     (''2862'', ''hl'', ''hailong'', [28023, 40857]),
     (''2863'', ''cyz'', ''chaoyangzhen'', [26397, 38451, 38215]),
     (''2864'', ''tl'', ''tuanlin'', [22242, 26519]),
     (''2865'', ''kst'', ''kaoshantun'', [38752, 23665, 23663]),
     (''2866'', ''sj'', ''shijia'', [30707, 23478]),
     (''2867'', ''yn'', ''yongning'', [27704, 23425]),
     (''2868'', ''qjf'', ''qijianfang'', [19971, 38388, 25151]),
     (''2869'', ''zl'', ''zhangli'', [24352, 31036]),
     (''2870'', ''mc'', ''mingcheng'', [26126, 22478]),
     (''2872'', ''cz'', ''chaizhuang'', [26612, 24196]),
     (''2873'', ''dls'', ''dalishu'', [22823, 26792, 26641]),
     (''2874'', ''qch'', ''quchaihe'', [21462, 26612, 27827]),
     (''2875'', ''shz'', ''shuanghezhen'', [21452, 27827, 38215]),
     (''2876'', ''zg'', ''zhanggang'', [38271, 23703]),
     (''2877'', ''dhs'', ''daheishan'', [22823, 40657, 23665]),
     (''2878'', ''xy'', ''xiyang'', [35199, 38451]),
     (''2879'', ''wb'', ''wuben'', [21153, 26412]),
     (''2880'', ''kq'', ''kouqian'', [21475, 21069]),
     (''2881'', ''mxt'', ''maxiangtun'', [39532, 30456, 23663]),
     (''2882'', ''xf'', ''xiangfen'', [35140, 27774]),
     (''2883'', ''sj'', ''shangjiao'', [19978, 20132]),
     (''2884'', ''ly'', ''liyuan'', [31036, 20803]),
     (''2885'', ''dz'', ''dongzhen'', [19996, 38215]),
     (''2886'', ''wx'', ''wenxi'', [38395, 21916]),
     (''2887'', ''xn'', ''xingnan'', [20852, 21335]),
     (''2888'', ''qsm'', ''qisumu'', [19971, 33487, 26408]),
     (''2889'', ''dlh'', ''daluhao'', [22823, 38470, 21495]),
     (''2890'', ''syt'', ''sanyingtu'', [19977, 33829, 22270]),
     (''2891'', ''edg'', ''erdaogou'', [20108, 36947, 27807]),
     (''2892'', ''bj'', ''baojian'', [20445, 20581]),
     (''2893'', ''xy'', ''xingyao'', [26143, 32768]),
     (''2894'', ''gzg'', ''gongzhugeng'', [20844, 20027, 26775]),
     (''2895'', ''mjz'', ''majiazi'', [39532, 26550, 23376]),
     (''2896'', ''xkz'', ''xiakengzi'', [19979, 22353, 23376]),
     (''2897'', ''ldg'', ''liudigou'', [20845, 22320, 27807]),
     (''2898'', ''yzd'', ''yuzhoudi'', [23431, 23449, 22320]),
     (''2900'', ''bmt'', ''baomutu'', [23453, 26408, 21520]),
     (''2901'', ''drqg'', ''dariqiga'', [36798, 26085, 20854, 22030]),
     (''2902'', ''ft'', ''fengtun'', [20911, 23663]),
     (''2903'', ''th'', ''taha'', [22612, 21704]),
     (''2904'', ''ql'', ''qunli'', [32676, 21147]),
     (''2905'', ''zh'', ''zhonghe'', [20013, 21644]),
     (''2906'', ''hc'', ''hachuan'', [21704, 24029]),
     (''2907'', ''xys'', ''xiaoyushu'', [23567, 27014, 26641]),
     (''2908'', ''tj'', ''tuanjie'', [22242, 32467]),
     (''2909'', ''lh'', ''laha'', [25289, 21704]),
     (''2910'', ''gm'', ''guangming'', [20809, 26126]),
     (''2911'', ''hdy'', ''hengdiying'', [24658, 22320, 33829]),
     (''2912'', ''ss'', ''shuangshan'', [21452, 23665]),
     (''2913'', ''xy'', ''xinyan'', [26032, 24422]),
     (''2914'', ''hlt'', ''halitu'', [21704, 21147, 22270]),
     (''2915'', ''xhs'', ''xiaoheishan'', [23567, 40657, 23665]),
     (''2916'', ''dlb'', ''dalabin'', [36798, 25289, 28392]),
     (''2917'', ''dys'', ''dayangshu'', [22823, 26472, 26641]),
     (''2918'', ''cyc'', ''chaoyangcun'', [26397, 38451, 26449]),
     (''2919'', ''jn'', ''jianan'', [21152, 21335]),
     (''2921'', ''xyq'', ''xiaoyangqi'', [23567, 26472, 27668]),
     (''2922'', ''gy'', ''guyuan'', [21476, 28304]),
     (''2923'', ''lh'', ''linhai'', [26519, 28023]),
     (''2924'', ''cg'', ''cuigang'', [32736, 23703]),
     (''2925'', ''teg'', ''taergen'', [22612, 23572, 26681]),
     (''2926'', ''xf'', ''xiufeng'', [32483, 23792]),
     (''2927'', ''pg'', ''pangu'', [30424, 21476]),
     (''2928'', ''jt'', ''jingtao'', [21170, 28059]),
     (''2929'', ''syn'', ''shayuenai'', [27801, 26352, 20035]),
     (''2930'', ''wsq'', ''wanshuiquan'', [19975, 27700, 27849]),
     (''2931'', ''btb'', ''baotoubei'', [21253, 22836, 21271]),
     (''2933'', ''yps'', ''yingpanshui'', [33829, 30424, 27700]),
     (''2934'', ''zc'', ''zhangcheng'', [38271, 22478]),
     (''2935'', ''xqb'', ''xingquanbao'', [20852, 27849, 22561]),
     (''2936'', ''lzd'', ''lanzhoudong'', [20848, 24030, 19996]),
     (''2937'', ''nq'', ''nuanquan'', [26262, 27849]),
     (''2938'', ''dws'', ''dawushi'', [22823, 27494, 30707]),
     (''2939'', ''hlst'', ''hulusitai'', [21628, 40065, 26031, 22826]),
     (''2941'', ''ljk'', ''lianjiangkou'', [33714, 27743, 21475]),
     (''2942'', ''bjh'', ''banjiehe'', [21322, 25130, 27827]),
     (''2943'', ''xh'', ''xinhua'', [26032, 21326]),
     (''2944'', ''bql'', ''baoquanling'', [23453, 27849, 23725]),
     (''2946'', ''hl'', ''hualin'', [26726, 26519]),
     (''2947'', ''ch'', ''chaihe'', [26612, 27827]),
     (''2948'', ''zjg'', ''zhujiagou'', [26417, 23478, 27807]),
     (''2949'', ''cs'', ''chushan'', [26970, 23665]),
     (''2950'', ''lk'', ''linkou'', [26519, 21475]),
     (''2951'', ''yh'', ''yahe'', [20122, 27827]),
     (''2952'', ''ttt'', ''tongtiantun'', [36890, 22825, 23663]),
     (''2953'', ''hz'', ''huzhu'', [20114, 21161])]"

lemma changed_13: "changed 56 pinyin_13 cities_13 = Some 56"
  unfolding pinyin_13_def cities_13_def by ((rule changed_same | (rule changed_other, simp))+, simp)

end
