(* ===== verification/CitySource.thy ===== *)
theory CitySource
  imports CityData PinyinRows1 PinyinRows2 PinyinRows3 PinyinRows4
begin

text \<open>
  The lines of \<open>docs/citycode/city.pinyin.js\<close> together, and how the city table of \<open>json.js\<close>
  relates to them and to the script that made it.
\<close>

definition pinyin_lines :: "line list" where
  "pinyin_lines =
     concat [pinyin_0, pinyin_1, pinyin_2, pinyin_3, pinyin_4, pinyin_5, pinyin_6,
       pinyin_7, pinyin_8, pinyin_9, pinyin_10, pinyin_11, pinyin_12, pinyin_13,
       pinyin_14, pinyin_15, pinyin_16, pinyin_17, pinyin_18, pinyin_19, pinyin_20,
       pinyin_21, pinyin_22, pinyin_23, pinyin_24, pinyin_25]"

lemmas changed_groups = changed_0 changed_1 changed_2 changed_3 changed_4 changed_5 changed_6
  changed_7 changed_8 changed_9 changed_10 changed_11 changed_12 changed_13
  changed_14 changed_15 changed_16 changed_17 changed_18 changed_19 changed_20
  changed_21 changed_22 changed_23 changed_24 changed_25

lemma pinyin_changed: "changed 0 pinyin_lines (citylist cityDate) = Some 189"
  by (simp only: pinyin_lines_def cityDate_def city_date.simps changed_append concat.simps
      changed_groups changed.simps)

text \<open>
  C40: The city table has, in order, the ids and words that the script makes of the lines of
  the source, whatever the XML file holds: the script reverses its list twice and never changes
  an id or a word, and it throws exactly when an item of the file has fewer than three words.
  The abbreviation or the spelling differs from the line in 189 of the 3780 rows, those that
  the XML file replaced.
\<close>

theorem citytable_from_source:
  "(case citytable items pinyin_lines of
      None \<Rightarrow> list_ex (\<lambda>n. length (snd (filtertext n)) < 2) items
    | Some table \<Rightarrow>
        names table = names (citylist cityDate) \<and> list_all (\<lambda>c. city_code c = []) table \<and>
        list_all (\<lambda>n. 2 \<le> length (snd (filtertext n))) items) \<and>
   length (filter (\<lambda>(r, c). writeRec (entry_of r) \<noteq> c) (zip pinyin_lines (citylist cityDate))) = 189"
proof (intro conjI)
  have "names (map (\<lambda>r. writeRec (fst (replace_city ps (entry_of r) 0))) pinyin_lines) =
      map (\<lambda>r. (fst r, snd (snd (snd r)))) pinyin_lines" for ps
    by (auto simp: names_def replace_city_fields entry_of_def)
  moreover have "city_code (writeRec e) = []" for e by (cases e) simp
  moreover have "pinyinlist items = Some ps \<Longrightarrow> list_all (\<lambda>n. 2 \<le> length (snd (filtertext n))) items" for ps
    using pinyinlist_None [of items] by (simp add: list_ex_iff list_all_iff linorder_not_less)
  ultimately show "case citytable items pinyin_lines of
      None \<Rightarrow> list_ex (\<lambda>n. length (snd (filtertext n)) < 2) items
    | Some table \<Rightarrow>
        names table = names (citylist cityDate) \<and> list_all (\<lambda>c. city_code c = []) table \<and>
        list_all (\<lambda>n. 2 \<le> length (snd (filtertext n))) items"
    using changed_names [OF pinyin_changed] pinyinlist_None [of items]
    by (cases "pinyinlist items") (simp_all add: citytable_map list_all_iff)
  show "length (filter (\<lambda>(r, c). writeRec (entry_of r) \<noteq> c) (zip pinyin_lines (citylist cityDate))) = 189"
    using changed_count [OF pinyin_changed] by simp
qed

end
