(* ===== verification/Spec2Isabelle.thy ===== *)
theory Spec2Isabelle
  imports Trim Page Formatter Cookie TreeNode Valid UploadChain UploadLive AvatarPage CitySource
begin

text \<open>
  A verification library for the JavaScript part of Jade-Java-Utils: the scripts of the CDN
  module (\<open>javautils-cdn/src/main/webapp/scripts\<close>) and the city table of \<open>docs/citycode\<close>.

  \<^bold>\<open>The program.\<close>  \<open>comm/base.js\<close> installs three methods on \<open>String.prototype\<close> and collects
  unrelated utilities under \<open>jadeUtils\<close>: navigation, a cookie function, a message table, number
  formatting and a tree count.  \<open>comm/valid.js\<close> holds validators and the handler of a file
  input.  \<open>comm/ajaxupload.js\<close> uploads a form field with the plugin of
  \<open>3rd/AjaxFileUploader/ajaxfileupload.js\<close>, which submits a hidden form into a hidden frame and
  takes part in the global events of jQuery through the counter \<open>jQuery.active\<close>.
  The page \<open>file-upload/upload-avatar.jsp\<close> has the script that uses it.  \<open>docs/citycode/json.js\<close>
  is a table of cities, made by the script \<open>tmp.scala\<close> from the lines of \<open>city.pinyin.js\<close>.

  \<^bold>\<open>The language.\<close>  \<open>JsBase\<close> has strings as lists of 16-bit code units, errors as values and
  the list operations of the standard library; \<open>JsNumber\<close> doubles (special values and finite
  rationals, with rounding to nearest, ties to even); \<open>JsFormat\<close> the printing and reading of
  numbers, \<open>toFixed\<close> and \<open>parseFloat\<close>; \<open>JsValue\<close> values, conversions and property access;
  \<open>JsRegex\<close> a backtracking matcher with a declarative relation it is proved sound and complete
  for; \<open>UriCodec\<close> \<open>encodeURIComponent\<close> and \<open>decodeURIComponent\<close> with their round trip;
  \<open>JsDate\<close> the UTC text of a time value.

  \<^bold>\<open>The components.\<close>
  \<^item> \<open>Trim\<close>: the methods of \<open>String.prototype\<close>; the patterns are proved to strip exactly the
    white space at the ends.
  \<^item> \<open>Page\<close>: \<open>goUrl\<close>, \<open>openWindow\<close> and \<open>i18n.load\<close>; the state is the list of anchors in the body
    and of those that were followed.
  \<^item> \<open>Formatter\<close>: \<open>formatNumber\<close> and \<open>unformatNumber\<close>; the grouping loop is proved equal to a
    grouping from the right (\<open>commas\<close>), and the two functions to be inverse to each other up to
    the rounding of the printed decimals.
  \<^item> \<open>Cookie\<close>: \<open>cookieOperator\<close> as three operations on the getter and setter of
    \<open>document.cookie\<close>, the clock and the options object of the caller; reading rests on the
    interface \<open>cookie_codec\<close>, which \<open>UriCodec\<close> implements.
  \<^item> \<open>TreeNode\<close>: \<open>countLeafNode\<close> with the number of free stack frames as an argument; the
    specification is \<open>leaves\<close>, and a tree is counted exactly when the stack is deeper than it.
  \<^item> \<open>Valid\<close>: \<open>checkName\<close>, \<open>testMobile\<close>, \<open>checkFileNamePostfix\<close>, each with the exact set of
    strings it accepts, and \<open>onUploadImgChange\<close> with every branch and message.
  \<^item> \<open>FileUpload\<close>: the state of a page with uploads (counter, elements, forms, frames, one
    closure per call, timers, indicator, trace) and one definition per function of the plugin,
    \<open>try\<close> blocks included; a page moves by five kinds of steps (the clock, a call, a load, a
    timeout, a removal), in any order; a callback answers with a list of commands, among them the
    start of another upload, which runs inside the callback, in the same millisecond.
  \<^item> \<open>UploadProtocol\<close>: an abstract machine of the counter and the global events, the proof
    that the page implements it whatever the callbacks start, the typing of the references
    between closures, forms and frames, and, when no \<open>complete\<close> callback throws (\<open>calm\<close>), the
    invariants of the counter, through the interface \<open>invariant_system\<close>.
  \<^item> \<open>UploadRun\<close>: the functional behaviour of the operations and of a whole upload.
  \<^item> \<open>UploadChain\<close>: a callback that starts the next upload, in terms of the abstract machine.
  \<^item> \<open>UploadLive\<close>: uploads whose ids are unused when they start and whose handlers start no
    upload (\<open>modest\<close>); the invariant \<open>attached\<close> pairs each request with its frame and its form
    and no upload disturbs another.  When besides no \<open>complete\<close> callback throws (\<open>quiet\<close>) and
    every upload can get a response that its caller accepts (\<open>served\<close>), every reachable page
    can finish all its uploads and remove what the plugin created.
  \<^item> \<open>UploadFile\<close>: \<open>uploadFile\<close> and \<open>defaultUploadAnimation\<close> on top of the plugin.
  \<^item> \<open>AvatarPage\<close>: the script of the avatar page, from the click to the reply.
  \<^item> \<open>City\<close>, \<open>CityRows1\<close> to \<open>CityRows4\<close>, \<open>CityData\<close>: the rows of the table, checked in one
    pass per group.
  \<^item> \<open>CityScript\<close>, \<open>PinyinRows1\<close> to \<open>PinyinRows4\<close>, \<open>CitySource\<close>: the script that made the table,
    the lines it read, and the comparison of the two.

  \<^bold>\<open>Bounds and fuel.\<close>  The matcher's loops get as much fuel as there are units left, which is
  enough because an iteration must consume a unit (\<open>ends_complete\<close>).  The recursion of
  \<open>countLeafNode\<close> is bounded by the stack of the engine, which is part of its behaviour; a loop
  over an array-like object of infinite length is \<open>None\<close>.  All other functions are total.

  \<^bold>\<open>Parameters.\<close>  The browser and the libraries are arguments: the cookie store, the clock, the
  document's capabilities, \<open>eval\<close>, the case table of \<open>toLowerCase\<close>, the cloning of a file
  input, \<open>jQuery.handleError\<close> (absent from the jQuery that is shipped) and \<open>checkFileExt\<close>
  (declared nowhere), the callbacks of the caller, the base path of the avatar page, and the
  list items of the XML file that the city script reads.

  \<^bold>\<open>Not modelled.\<close>  Inherited properties, the markup of the pages and the style sheets, the
  vendored libraries as such (so also requests of \<open>jQuery.ajax\<close> itself, which would share the
  counter; the scripts make none), the Java modules, and in the city script the reading of the
  files, the printing of its counter and the text of the rows it writes.
\<close>

subsection \<open>Properties across components\<close>

text \<open>
  The trimming that the cookie reader takes from jQuery and the one that the page's
  override of \<open>String.prototype.trim\<close> provides are the same function, so the reader finds the
  same cookie whether jQuery picked up the built-in method or the override.
\<close>

lemma cookie_reader_trim: "jQuery_trim s = String_trim s"
  by (simp add: jQuery_trim_def trim_strips)

end
